(* ===== verification/Prelude.thy ===== *)
theory Prelude
  imports Main "HOL-Library.Word" "HOL-Library.AList"
begin

text \<open>
  What every component of the development shares.

  \<^item> The computation type of the reconciler's methods. A Go method that takes a context, may
    change the world, and returns a value and an error is a function from a world state to an
    optional outcome. \<open>None\<close> is a call that never returns; \<open>Ok\<close>, \<open>Err\<close> and \<open>Panic\<close> are the
    three ways in which a call can return.
  \<^item> 32-bit integers, read with two's complement sign, as \<open>32 word\<close>.
  \<^item> The parts of Go's standard library that the sources call: \<open>fmt.Sprintf\<close> with \<open>%d\<close>, \<open>%v\<close>,
    \<open>%x\<close> and \<open>%q\<close>, \<open>strconv.ParseInt\<close>, \<open>strings.ToUpper\<close> and \<open>strings.Join\<close>.
    A string is its list of bytes. The case mappings are those of Go on ASCII text, the alphabet
    of Kubernetes names and Picodata identifiers.
\<close>

named_theorems go_run \<comment> \<open>unfolding equations of the computation type\<close>
named_theorems build_defs \<comment> \<open>definitions of the object builders\<close>

section \<open>Errors and computations\<close>

text \<open>An \<open>error\<close> value. \<open>Wrapped m e\<close> is \<open>fmt.Errorf("m: %w", e)\<close>.\<close>

datatype error =
    NotFound string
  | Failure string
  | Wrapped string error

text \<open>\<open>errors.IsNotFound\<close> of apimachinery, which looks through wrapped errors.\<close>

fun IsNotFound :: "error \<Rightarrow> bool" where
  "IsNotFound (NotFound _) = True"
| "IsNotFound (Failure _) = False"
| "IsNotFound (Wrapped _ e) = IsNotFound e"

datatype 'a result = Ok 'a | Err error | Panic string

type_synonym ('s, 'a) go = "'s \<Rightarrow> ('a result \<times> 's) option"

definition returnG :: "'a \<Rightarrow> ('s, 'a) go" where
  "returnG x = (\<lambda>s. Some (Ok x, s))"

definition failG :: "error \<Rightarrow> ('s, 'a) go" where
  "failG e = (\<lambda>s. Some (Err e, s))"

definition panicG :: "string \<Rightarrow> ('s, 'a) go" where
  "panicG p = (\<lambda>s. Some (Panic p, s))"

text \<open>\<open>x, err := m; if err != nil { return err }\<close>, then \<open>f x\<close>.\<close>

definition bindG :: "('s, 'a) go \<Rightarrow> ('a \<Rightarrow> ('s, 'b) go) \<Rightarrow> ('s, 'b) go" where
  "bindG m f = (\<lambda>s. case m s of
       None \<Rightarrow> None
     | Some (r, s') \<Rightarrow> (case r of
           Ok x \<Rightarrow> f x s'
         | Err e \<Rightarrow> Some (Err e, s')
         | Panic p \<Rightarrow> Some (Panic p, s')))"

text \<open>\<open>x, err := m\<close> where the code goes on to inspect \<open>err\<close>.\<close>

definition tryG :: "('s, 'a) go \<Rightarrow> ('s, error + 'a) go" where
  "tryG m = (\<lambda>s. case m s of
       None \<Rightarrow> None
     | Some (r, s') \<Rightarrow> (case r of
           Ok x \<Rightarrow> Some (Ok (Inr x), s')
         | Err e \<Rightarrow> Some (Ok (Inl e), s')
         | Panic p \<Rightarrow> Some (Panic p, s')))"

text \<open>\<open>if err != nil { return fmt.Errorf("msg: %w", err) }\<close>.\<close>

definition wrapG :: "string \<Rightarrow> ('s, 'a) go \<Rightarrow> ('s, 'a) go" where
  "wrapG msg m = (\<lambda>s. case m s of
       None \<Rightarrow> None
     | Some (r, s') \<Rightarrow> (case r of
           Ok x \<Rightarrow> Some (Ok x, s')
         | Err e \<Rightarrow> Some (Err (Wrapped msg e), s')
         | Panic p \<Rightarrow> Some (Panic p, s')))"

text \<open>A pure call that can fail or panic.\<close>

definition liftG :: "'a result \<Rightarrow> ('s, 'a) go" where
  "liftG r = (\<lambda>s. Some (r, s))"

text \<open>\<open>for _, x := range xs { if err := body(x); err != nil { return err } }\<close>.\<close>

fun forG :: "('x \<Rightarrow> ('s, unit) go) \<Rightarrow> 'x list \<Rightarrow> ('s, unit) go" where
  "forG body [] = returnG ()"
| "forG body (x # xs) = bindG (body x) (\<lambda>_. forG body xs)"

text \<open>The same loop, appending what the body returns to a slice.\<close>

fun mapG :: "('x \<Rightarrow> ('s, 'a) go) \<Rightarrow> 'x list \<Rightarrow> ('s, 'a list) go" where
  "mapG body [] = returnG []"
| "mapG body (x # xs) = bindG (body x) (\<lambda>y. bindG (mapG body xs) (\<lambda>ys. returnG (y # ys)))"

text \<open>A loop that threads a variable through its iterations and stops at the first error.\<close>

fun foldG :: "('x \<Rightarrow> 'a \<Rightarrow> ('s, 'a) go) \<Rightarrow> 'x list \<Rightarrow> 'a \<Rightarrow> ('s, 'a) go" where
  "foldG body [] a = returnG a"
| "foldG body (x # xs) a = bindG (body x a) (foldG body xs)"

text \<open>\<open>defer cleanup()\<close>: runs when the body returns or panics; its error is dropped.\<close>

definition deferG :: "('s, unit) go \<Rightarrow> ('s, 'a) go \<Rightarrow> ('s, 'a) go" where
  "deferG cleanup m = (\<lambda>s. case m s of
       None \<Rightarrow> None
     | Some (r, s') \<Rightarrow> (case cleanup s' of
           None \<Rightarrow> None
         | Some (Panic p, s'') \<Rightarrow> Some (Panic p, s'')
         | Some (Ok _, s'') \<Rightarrow> Some (r, s'')
         | Some (Err _, s'') \<Rightarrow> Some (r, s'')))"

text \<open>\<open>client.IgnoreNotFound(err)\<close> applied to the error of a call.\<close>

definition ignoreNotFoundG :: "('s, unit) go \<Rightarrow> ('s, unit) go" where
  "ignoreNotFoundG m = bindG (tryG m) (\<lambda>r. case r of
       Inl e \<Rightarrow> if IsNotFound e then returnG () else failG e
     | Inr _ \<Rightarrow> returnG ())"

lemma run_return [simp, go_run]: "returnG x s = Some (Ok x, s)"
  by (simp add: returnG_def)

lemma run_fail [simp, go_run]: "failG e s = Some (Err e, s)"
  by (simp add: failG_def)

lemma run_panic [simp, go_run]: "panicG p s = Some (Panic p, s)"
  by (simp add: panicG_def)

lemma run_lift [simp, go_run]: "liftG r s = Some (r, s)"
  by (simp add: liftG_def)

lemma bind_Ok [simp]: "m s = Some (Ok x, s') \<Longrightarrow> bindG m f s = f x s'"
  by (simp add: bindG_def)

lemma bind_Err [simp]: "m s = Some (Err e, s') \<Longrightarrow> bindG m f s = Some (Err e, s')"
  by (simp add: bindG_def)

lemma bind_Panic [simp]: "m s = Some (Panic p, s') \<Longrightarrow> bindG m f s = Some (Panic p, s')"
  by (simp add: bindG_def)

lemma bind_None [simp]: "m s = None \<Longrightarrow> bindG m f s = None"
  by (simp add: bindG_def)

lemma bind_return_left [simp]: "bindG (returnG x) f = f x"
  by (rule ext) (simp add: bindG_def)

lemma bind_return_right [simp]: "bindG m returnG = m"
  by (rule ext) (simp add: bindG_def split: option.split prod.split result.split)

lemma bind_assoc: "bindG (bindG m f) g = bindG m (\<lambda>x. bindG (f x) g)"
  by (rule ext) (simp add: bindG_def split: option.split prod.split result.split)

lemma bind_Ok_iff:
  "bindG m f s = Some (Ok y, s'') \<longleftrightarrow> (\<exists>x s'. m s = Some (Ok x, s') \<and> f x s' = Some (Ok y, s''))"
  by (auto simp: bindG_def split: option.splits prod.splits result.splits)

lemma wrap_Ok_iff [simp]: "wrapG msg m s = Some (Ok y, s') \<longleftrightarrow> m s = Some (Ok y, s')"
  by (auto simp: wrapG_def split: option.splits prod.splits result.splits)

lemma wrap_Err [simp]: "m s = Some (Err e, s') \<Longrightarrow> wrapG msg m s = Some (Err (Wrapped msg e), s')"
  by (simp add: wrapG_def)

lemma try_Ok [simp]: "m s = Some (Ok x, s') \<Longrightarrow> tryG m s = Some (Ok (Inr x), s')"
  by (simp add: tryG_def)

lemma try_Err [simp]: "m s = Some (Err e, s') \<Longrightarrow> tryG m s = Some (Ok (Inl e), s')"
  by (simp add: tryG_def)

lemmas go_splits = option.splits prod.splits result.splits sum.splits

lemma forG_append: "forG f (xs @ ys) = bindG (forG f xs) (\<lambda>_. forG f ys)"
  by (induction xs) (simp_all add: bind_assoc)

text \<open>Loops whose body is a computation can be defined with \<open>partial_function (option)\<close>.\<close>

lemma bindG_mono [partial_function_mono]:
  fixes B :: "('p \<Rightarrow> 'q option) \<Rightarrow> ('s, 'a) go"
  assumes mf: "\<And>s. mono_option (\<lambda>f. B f s)"
    and mg: "\<And>y s. mono_option (\<lambda>f. C y f s)"
  shows "mono_option (\<lambda>f. bindG (B f) (\<lambda>y. C y f) s)"
proof (rule monotoneI)
  fix f g :: "'p \<Rightarrow> 'q option"
  assume fg: "option.le_fun f g"
  from mf have B: "\<And>s. option_ord (B f s) (B g s)"
    by (rule monotoneD) (rule fg)
  from mg have C: "\<And>y s. option_ord (C y f s) (C y g s)"
    by (rule monotoneD) (rule fg)
  show "option_ord (bindG (B f) (\<lambda>y. C y f) s) (bindG (B g) (\<lambda>y. C y g) s)"
  proof (cases "B f s")
    case None
    then show ?thesis by (simp add: flat_ord_def)
  next
    case (Some p)
    with B [of s] have "B g s = Some p" by (simp add: flat_ord_def)
    with Some C show ?thesis
      by (cases p; cases "fst p") (auto simp: flat_ord_def)
  qed
qed

section \<open>Integers\<close>

type_synonym int32 = "32 word"
type_synonym int64 = "64 word"

definition MaxInt32 :: int32 where
  "MaxInt32 = 2147483647"

lemma sint_MaxInt32 [simp]: "sint MaxInt32 = 2147483647"
  by (simp add: MaxInt32_def)

lemma sint32_lower: "- 2147483648 \<le> sint (w :: int32)"
  using sint_ge [of w] by simp

lemma sint32_upper: "sint (w :: int32) \<le> 2147483647"
  using sint_lt [of w] by simp

lemma sint32_not_max: "w \<noteq> MaxInt32 \<Longrightarrow> sint (w :: int32) < 2147483647"
  by (metis linorder_not_less order_antisym sint32_upper sint_MaxInt32 signed_word_eqI)

lemma sint_word_of_int32:
  "- 2147483648 \<le> i \<Longrightarrow> i \<le> 2147483647 \<Longrightarrow> sint (word_of_int i :: int32) = i"
  by (simp add: sint_sbintrunc' signed_take_bit_int_eq_self)

lemma sint_inc32:
  assumes "sint (w :: int32) < 2147483647"
  shows "sint (w + 1) = sint w + 1"
proof -
  have "w + 1 = word_of_int (sint w + 1)" by simp
  then show ?thesis
    using assms sint32_lower [of w] by (simp only: sint_word_of_int32)
qed

section \<open>Decimal text\<close>

definition digit :: "nat \<Rightarrow> char" where
  "digit n = char_of (48 + n)"

definition is_digit :: "char \<Rightarrow> bool" where
  "is_digit c \<longleftrightarrow> 48 \<le> (of_char c :: nat) \<and> (of_char c :: nat) \<le> 57"

definition digit_val :: "char \<Rightarrow> nat" where
  "digit_val c = of_char c - 48"

fun nat_text :: "nat \<Rightarrow> string" where
  "nat_text n = (if n < 10 then [digit n] else nat_text (n div 10) @ [digit (n mod 10)])"

declare nat_text.simps [simp del]

text \<open>\<open>fmt.Sprintf("%d", i)\<close>.\<close>

definition int_text :: "int \<Rightarrow> string" where
  "int_text i = (if i < 0 then ''-'' @ nat_text (nat (- i)) else nat_text (nat i))"

definition fmt_d :: "int32 \<Rightarrow> string" where
  "fmt_d w = int_text (sint w)"

text \<open>\<open>fmt.Sprintf("%v", b)\<close> of a bool.\<close>

definition fmt_v :: "bool \<Rightarrow> string" where
  "fmt_v b = (if b then ''true'' else ''false'')"

text \<open>The unsigned part of \<open>strconv.ParseInt(s, 10, 32)\<close>: decimal digits only, at least one.\<close>

definition parse_digits :: "string \<Rightarrow> nat option" where
  "parse_digits s =
     (if s \<noteq> [] \<and> list_all is_digit s
      then Some (foldl (\<lambda>n c. 10 * n + digit_val c) 0 s) else None)"

text \<open>
  \<open>strconv.ParseInt(s, 10, 32)\<close>: an optional sign, digits, and the range of an int32. \<open>None\<close>
  is an error, of syntax or of range.
\<close>

definition ParseInt32 :: "string \<Rightarrow> int option" where
  "ParseInt32 s =
     (case s of
        [] \<Rightarrow> None
      | c # cs \<Rightarrow>
          (let neg = (c = CHR ''-'');
               body = (if c = CHR ''-'' \<or> c = CHR ''+'' then cs else s)
           in case parse_digits body of
                None \<Rightarrow> None
              | Some n \<Rightarrow>
                  if neg then (if int n \<le> 2147483648 then Some (- int n) else None)
                  else (if int n < 2147483648 then Some (int n) else None)))"

lemma ParseInt32_range: "ParseInt32 s = Some i \<Longrightarrow> - 2147483648 \<le> i \<and> i \<le> 2147483647"
  by (auto simp: ParseInt32_def Let_def split: list.splits option.splits if_splits)

lemma of_char_digit [simp]: "n < 10 \<Longrightarrow> (of_char (digit n) :: nat) = 48 + n"
  by (simp add: digit_def)

lemma is_digit_digit [simp]: "n < 10 \<Longrightarrow> is_digit (digit n)"
  by (simp add: is_digit_def)

lemma digit_val_digit [simp]: "n < 10 \<Longrightarrow> digit_val (digit n) = n"
  by (simp add: digit_val_def)

lemma nat_text_nonempty [simp]: "nat_text n \<noteq> []"
  by (subst nat_text.simps) simp

lemma nat_text_digits: "list_all is_digit (nat_text n)"
proof (induction n rule: nat_text.induct)
  case (1 n)
  then show ?case by (cases "n < 10") (simp_all add: nat_text.simps [of n])
qed

lemma nat_text_value: "foldl (\<lambda>n c. 10 * n + digit_val c) 0 (nat_text n) = n"
proof (induction n rule: nat_text.induct)
  case (1 n)
  then show ?case by (cases "n < 10") (simp_all add: nat_text.simps [of n])
qed

lemma parse_nat_text [simp]: "parse_digits (nat_text n) = Some n"
  by (simp add: parse_digits_def nat_text_digits nat_text_value)

lemma nat_text_inject [simp]: "nat_text m = nat_text n \<longleftrightarrow> m = n"
  by (metis option.inject parse_nat_text)

lemma is_digit_not_dash: "is_digit c \<Longrightarrow> c \<noteq> CHR ''-'' \<and> c \<noteq> CHR ''+''"
  by (auto simp: is_digit_def)

lemma dash_notin_nat_text [simp]: "CHR ''-'' \<notin> set (nat_text n)"
  using nat_text_digits [of n] by (auto simp: list_all_iff dest: is_digit_not_dash)

lemma parse_int_text:
  assumes "- 2147483648 \<le> i" "i \<le> 2147483647"
  shows "ParseInt32 (int_text i) = Some i"
proof (cases "i < 0")
  case True
  with assms show ?thesis by (simp add: int_text_def ParseInt32_def)
next
  case False
  obtain c cs where eq: "nat_text (nat i) = c # cs"
    by (cases "nat_text (nat i)") simp_all
  have "is_digit c" using nat_text_digits [of "nat i"] eq by simp
  then have "c \<noteq> CHR ''-''" "c \<noteq> CHR ''+''" by (simp_all add: is_digit_not_dash)
  moreover have "parse_digits (c # cs) = Some (nat i)" by (metis eq parse_nat_text)
  ultimately show ?thesis using False assms eq by (simp add: int_text_def ParseInt32_def)
qed

lemma parse_fmt_d [simp]: "ParseInt32 (fmt_d w) = Some (sint w)"
  by (simp add: fmt_d_def parse_int_text sint32_lower sint32_upper)

lemma fmt_d_inject [simp]: "fmt_d v = fmt_d w \<longleftrightarrow> v = w"
  by (metis option.inject parse_fmt_d signed_word_eqI)

section \<open>Text\<close>

definition upper_char :: "char \<Rightarrow> char" where
  "upper_char c = (if 97 \<le> (of_char c :: nat) \<and> (of_char c :: nat) \<le> 122
                   then char_of ((of_char c :: nat) - 32) else c)"

text \<open>\<open>strings.ToUpper\<close> on ASCII text.\<close>

definition ToUpper :: "string \<Rightarrow> string" where
  "ToUpper s = map upper_char s"

text \<open>\<open>strings.Join\<close>.\<close>

fun Join :: "string list \<Rightarrow> string \<Rightarrow> string" where
  "Join [] sep = []"
| "Join [x] sep = x"
| "Join (x # y # xs) sep = x @ sep @ Join (y # xs) sep"

text \<open>\<open>%q\<close> of a text in ASCII.\<close>

definition hex_digit :: "nat \<Rightarrow> char" where
  "hex_digit n = (if n < 10 then char_of (48 + n) else char_of (87 + n))"

definition quote_byte :: "char \<Rightarrow> string" where
  "quote_byte c =
     (let n = (of_char c :: nat)
      in if c = CHR 0x22 \<or> c = CHR 0x5C then [CHR 0x5C, c]
         else if n = 7 then [CHR 0x5C, CHR ''a''] else if n = 8 then [CHR 0x5C, CHR ''b'']
         else if n = 9 then [CHR 0x5C, CHR ''t''] else if n = 10 then [CHR 0x5C, CHR ''n'']
         else if n = 11 then [CHR 0x5C, CHR ''v''] else if n = 12 then [CHR 0x5C, CHR ''f'']
         else if n = 13 then [CHR 0x5C, CHR ''r'']
         else if n < 32 \<or> n = 127 then [CHR 0x5C, CHR ''x'', hex_digit (n div 16), hex_digit (n mod 16)]
         else [c])"

definition fmt_q :: "string \<Rightarrow> string" where
  "fmt_q s = [CHR 0x22] @ concat (map quote_byte s) @ [CHR 0x22]"

lemma Join_eq_Nil: "\<forall>x \<in> set xs. x \<noteq> [] \<Longrightarrow> Join xs sep = [] \<longleftrightarrow> xs = []"
  by (induction xs sep rule: Join.induct) auto

section \<open>Association lists\<close>

text \<open>
  A Go \<open>map[string]string\<close> is an association list with distinct keys. Where the code ranges over
  a map, the list is the order in which the runtime visits it, so a theorem about every list is a
  theorem about every order. The absent value \<open>nil\<close> is the empty list.
\<close>

type_synonym labels = "(string \<times> string) list"

text \<open>A selector picks the label sets that hold all its pairs.\<close>

definition matches_labels :: "labels \<Rightarrow> labels \<Rightarrow> bool" where
  "matches_labels sel ls \<longleftrightarrow> list_all (\<lambda>(k, v). map_of ls k = Some v) sel"

lemma matches_labels_iff: "matches_labels sel ls \<longleftrightarrow> (\<forall>(k, v) \<in> set sel. map_of ls k = Some v)"
  by (simp add: matches_labels_def list_all_iff)

lemma matches_labels_refl: "distinct (map fst ls) \<Longrightarrow> matches_labels ls ls"
  by (auto simp: matches_labels_iff)

end
