(* ===== verification/Kube_Types.thy ===== *)
theory Kube_Types
  imports Prelude
begin

text \<open>
  The Kubernetes API objects that the operator reads and writes, with the fields its code sets or
  inspects. Field names follow the Go structs of k8s.io/api, prefixed by the struct. A pointer
  field is an \<open>option\<close>, a slice a list, a string-keyed map an association list. What the operator
  only passes through from the user's spec (resource requirements, tolerations, node affinity and
  the like) is an opaque value that carries its serialised form.
\<close>

section \<open>Metadata\<close>

record TypeMeta =
  tm_Kind :: string
  tm_APIVersion :: string

datatype ListMeta = ListMeta string

record ObjectMeta =
  om_Name :: string
  om_Namespace :: string
  om_Labels :: labels
  om_Annotations :: labels
  om_OwnerReferences :: "string list"

type_synonym key = "string \<times> string"

definition meta_key :: "ObjectMeta \<Rightarrow> key" where
  "meta_key m = (om_Namespace m, om_Name m)"

section \<open>Values passed through\<close>

datatype Quantity = Quantity string
datatype ResourceRequirements = ResourceRequirements string
datatype Toleration = Toleration string
datatype TopologySpreadConstraint = TopologySpreadConstraint string
datatype NodeAffinity = NodeAffinity string
datatype PodAffinity = PodAffinity string
datatype WeightedPodAffinityTerm = WeightedPodAffinityTerm string

section \<open>Pods\<close>

datatype IntOrString = FromInt32 int32 | FromString string

datatype ProbeHandler = HTTPGet string IntOrString | OtherHandler string

record Probe =
  pr_Handler :: ProbeHandler
  pr_PeriodSeconds :: int32
  pr_FailureThreshold :: int32
  pr_TimeoutSeconds :: int32

datatype EnvVarSource =
    FieldRef string
  | SecretKeySelector string string
  | OtherSource string

record EnvVar =
  ev_Name :: string
  ev_Value :: string
  ev_ValueFrom :: "EnvVarSource option"

record ContainerPort =
  cp_Name :: string
  cp_ContainerPort :: int32
  cp_Protocol :: string

record VolumeMount =
  vm_Name :: string
  vm_MountPath :: string
  vm_SubPath :: string

record Container =
  co_Name :: string
  co_Image :: string
  co_ImagePullPolicy :: string
  co_Command :: "string list"
  co_Args :: "string list"
  co_Ports :: "ContainerPort list"
  co_Env :: "EnvVar list"
  co_VolumeMounts :: "VolumeMount list"
  co_Resources :: "ResourceRequirements option"
  co_StartupProbe :: "Probe option"
  co_LivenessProbe :: "Probe option"
  co_ReadinessProbe :: "Probe option"

record LabelSelector =
  ls_MatchLabels :: labels
  ls_MatchExpressions :: "string list"

record PodAffinityTerm =
  pt_LabelSelector :: "LabelSelector option"
  pt_TopologyKey :: string
  pt_Namespaces :: "string list"

record PodAntiAffinity =
  pa_Required :: "PodAffinityTerm list"
  pa_Preferred :: "WeightedPodAffinityTerm list"

record Affinity =
  af_NodeAffinity :: "NodeAffinity option"
  af_PodAffinity :: "PodAffinity option"
  af_PodAntiAffinity :: "PodAntiAffinity option"

record PodSecurityContext =
  sc_FSGroup :: "int64 option"
  sc_Rest :: string

datatype VolumeSource =
    ConfigMapVolume string "(string \<times> string) list"
  | EmptyDirVolume

record Volume =
  vo_Name :: string
  vo_Source :: VolumeSource

record PodSpec =
  ps_SecurityContext :: "PodSecurityContext option"
  ps_InitContainers :: "Container list"
  ps_Containers :: "Container list"
  ps_ImagePullSecrets :: "string list"
  ps_Affinity :: "Affinity option"
  ps_Tolerations :: "Toleration list"
  ps_NodeSelector :: labels
  ps_TopologySpreadConstraints :: "TopologySpreadConstraint list"
  ps_TerminationGracePeriodSeconds :: "int64 option"
  ps_Volumes :: "Volume list"

record PodTemplateSpec =
  pt_Meta :: ObjectMeta
  pt_Spec :: PodSpec

section \<open>Workloads, services, configuration\<close>

record PersistentVolumeClaimSpec =
  pv_AccessModes :: "string list"
  pv_StorageRequest :: Quantity
  pv_StorageClassName :: "string option"

record PersistentVolumeClaim =
  pv_Meta :: ObjectMeta
  pv_Spec :: PersistentVolumeClaimSpec

record StatefulSetSpec =
  ss_Replicas :: "int32 option"
  ss_ServiceName :: string
  ss_Selector :: labels
  ss_Template :: PodTemplateSpec
  ss_VolumeClaimTemplates :: "PersistentVolumeClaim list"
  ss_PodManagementPolicy :: string
  ss_UpdateStrategy :: string

record StatefulSet =
  st_Meta :: ObjectMeta
  st_Spec :: StatefulSetSpec
  st_ReadyReplicas :: int32

record ServicePort =
  sp_Name :: string
  sp_Protocol :: string
  sp_Port :: int32
  sp_TargetPort :: IntOrString

record ServiceObjSpec =
  sv_ClusterIP :: string
  sv_Type :: string
  sv_PublishNotReadyAddresses :: bool
  sv_Selector :: labels
  sv_Ports :: "ServicePort list"

record Service =
  sv_Meta :: ObjectMeta
  sv_Spec :: ServiceObjSpec

record ConfigMap =
  cm_Meta :: ObjectMeta
  cm_Data :: labels

record Secret =
  se_Meta :: ObjectMeta
  se_Data :: labels

record HTTPIngressPath =
  ip_Path :: string
  ip_PathType :: "string option"
  ip_ServiceName :: string
  ip_ServicePort :: int32

record IngressRule =
  ir_Host :: string
  ir_Paths :: "HTTPIngressPath list"

record IngressTLS =
  it_Hosts :: "string list"
  it_SecretName :: string

record IngressObjSpec =
  ig_IngressClassName :: "string option"
  ig_Rules :: "IngressRule list"
  ig_TLS :: "IngressTLS list"

record Ingress =
  ig_Meta :: ObjectMeta
  ig_Spec :: IngressObjSpec

section \<open>Status conditions\<close>

datatype ConditionStatus = ConditionTrue | ConditionFalse | ConditionUnknown

type_synonym time = int

record Condition =
  cd_Type :: string
  cd_Status :: ConditionStatus
  cd_Reason :: string
  cd_Message :: string
  cd_LastTransitionTime :: time

text \<open>An object's metadata as the code first writes it: a name and a namespace.\<close>

definition new_meta :: "string \<Rightarrow> string \<Rightarrow> ObjectMeta" where
  "new_meta name ns = \<lparr>om_Name = name, om_Namespace = ns, om_Labels = [], om_Annotations = [],
                       om_OwnerReferences = []\<rparr>"

lemma meta_key_new_meta [simp]: "meta_key (new_meta n ns) = (ns, n)"
  by (simp add: meta_key_def new_meta_def)

lemma new_meta_simps [simp]:
  "om_Name (new_meta n ns) = n" "om_Namespace (new_meta n ns) = ns"
  "om_Labels (new_meta n ns) = []" "om_Annotations (new_meta n ns) = []"
  "om_OwnerReferences (new_meta n ns) = []"
  by (simp_all add: new_meta_def)

lemma meta_key_labels [simp]:
  "meta_key (m\<lparr>om_Labels := l\<rparr>) = meta_key m"
  "meta_key (m\<lparr>om_Annotations := a\<rparr>) = meta_key m"
  "meta_key (m\<lparr>om_OwnerReferences := r\<rparr>) = meta_key m"
  by (simp_all add: meta_key_def)

end
