(* ===== verification/Api_Types.thy ===== *)
theory Api_Types
  imports Kube_Types
begin

text \<open>
  The custom resource of api/v1/picoclusterdb_types.go: one record per Go struct, one field per
  struct field, in the order of the source. Optional pointers are \<open>option\<close>; a value that the
  user leaves out is the Go zero value (the empty string, 0, \<open>False\<close>, the empty list), and the
  defaults that the builders put in its place are in the theories of the builders.
\<close>

section \<open>Spec\<close>

record ImageSpec =
  im_Repository :: string
  im_Tag :: string
  im_PullPolicy :: string

record SecretKeyRef =
  sk_SecretName :: string
  sk_Key :: string

record ClusterSpec =
  cs_DefaultReplicationFactor :: int32
  cs_DefaultBucketCount :: int32
  cs_Shredding :: bool

record StorageSpec =
  sg_Size :: Quantity
  sg_StorageClassName :: "string option"

record MemtxSpec =
  mx_Memory :: string

record VinylSpec =
  vy_Memory :: string
  vy_Cache :: string

record PgSpec =
  pg_Enabled :: bool
  pg_SSL :: bool

record LogSpec =
  lg_Level :: string
  lg_Format :: string
  lg_Destination :: "string option"

record ServiceSpec =
  sr_Type :: string
  sr_BinaryPort :: int32
  sr_HttpPort :: int32
  sr_PgPort :: int32

record PluginServiceSpec =
  pl_SvcName :: string
  pl_ListenerPort :: int32

record PluginSpec =
  pl_Name :: string
  pl_Version :: string
  pl_MigrationContext :: labels
  pl_Services :: "PluginServiceSpec list"

record IngressTLSSpec =
  ts_Hosts :: "string list"
  ts_SecretName :: string

record IngressSpec =
  in_Enabled :: bool
  in_Host :: string
  in_IngressClassName :: "string option"
  in_Annotations :: labels
  in_TLS :: "IngressTLSSpec list"

record TierSpec =
  tier_Name :: string
  tier_Replicas :: int32
  tier_ReplicationFactor :: int32
  tier_CanVote :: bool
  tier_Storage :: StorageSpec
  tier_Memtx :: MemtxSpec
  tier_Vinyl :: VinylSpec
  tier_Pg :: PgSpec
  tier_Log :: LogSpec
  tier_Resources :: ResourceRequirements
  tier_ShareDir :: string
  tier_Plugins :: "PluginSpec list"
  tier_Env :: "EnvVar list"
  tier_Affinity :: "Affinity option"
  tier_Tolerations :: "Toleration list"
  tier_NodeSelector :: labels
  tier_TopologySpreadConstraints :: "TopologySpreadConstraint list"
  tier_SecurityContext :: "PodSecurityContext option"
  tier_Ingress :: "IngressSpec option"
  tier_DisableAutoAntiAffinity :: bool

record PicoclusterDBSpec =
  spec_Image :: ImageSpec
  spec_ImagePullSecrets :: "string list"
  spec_ClusterName :: string
  spec_AdminPassword :: SecretKeyRef
  spec_Cluster :: ClusterSpec
  spec_Tiers :: "TierSpec list"
  spec_Service :: ServiceSpec
  spec_StartupProbe :: "Probe option"
  spec_LivenessProbe :: "Probe option"
  spec_ReadinessProbe :: "Probe option"

section \<open>Status\<close>

text \<open>\<open>ClusterPhase\<close>, with the constants of the source; \<open>PhaseUnset\<close> is the empty string.\<close>

datatype ClusterPhase =
    PhaseUnset
  | ClusterPhasePending
  | ClusterPhaseInitializing
  | ClusterPhaseReady
  | ClusterPhaseDegraded
  | ClusterPhaseUnknown

record PluginStatus =
  pu_Name :: string
  pu_Version :: string
  pu_Enabled :: bool

record TierStatus =
  tt_Name :: string
  tt_ReadyReplicas :: int32
  tt_DesiredReplicas :: int32
  tt_Plugins :: "PluginStatus list"

record PicoclusterDBStatus =
  cs_Phase :: ClusterPhase
  cs_Tiers :: "TierStatus list"
  cs_Conditions :: "Condition list"

definition ConditionReady :: string where
  "ConditionReady = ''Ready''"

section \<open>The resource\<close>

record PicoclusterDB =
  cl_TypeMeta :: TypeMeta
  cl_Meta :: ObjectMeta
  cl_Spec :: PicoclusterDBSpec
  cl_Status :: PicoclusterDBStatus

record PicoclusterDBList =
  li_TypeMeta :: TypeMeta
  li_ListMeta :: ListMeta
  li_Items :: "PicoclusterDB list"

abbreviation cl_Name :: "PicoclusterDB \<Rightarrow> string" where
  "cl_Name cl \<equiv> om_Name (cl_Meta cl)"

abbreviation cl_Namespace :: "PicoclusterDB \<Rightarrow> string" where
  "cl_Namespace cl \<equiv> om_Namespace (cl_Meta cl)"

abbreviation cl_Tiers :: "PicoclusterDB \<Rightarrow> TierSpec list" where
  "cl_Tiers cl \<equiv> spec_Tiers (cl_Spec cl)"

end
