(* ===== verification/Naming.thy ===== *)
theory Naming
  imports Api_Types
begin

text \<open>
  The names and labels of the objects that one tier owns, from internal/controller/service.go,
  configmap.go and statefulset.go. Three of the names are the tier's name followed by a suffix
  that depends on the cluster only: the locale \<open>tier_named\<close> states that contract and what a
  client may conclude from it. A StatefulSet's name ends in its replicaset index.
\<close>

section \<open>Definitions\<close>

text \<open>configmap.go, \<open>servicePort\<close>.\<close>

definition servicePort :: "int32 \<Rightarrow> int32 \<Rightarrow> int32" where
  "servicePort v defaultV = (if v = 0 then defaultV else v)"

definition configMapName :: "PicoclusterDB \<Rightarrow> TierSpec \<Rightarrow> string" where
  "configMapName cl tier = tier_Name tier @ ''-'' @ cl_Name cl"

definition interconnectServiceName :: "PicoclusterDB \<Rightarrow> TierSpec \<Rightarrow> string" where
  "interconnectServiceName cl tier = tier_Name tier @ ''-'' @ cl_Name cl @ ''-interconnect''"

definition clientServiceName :: "PicoclusterDB \<Rightarrow> TierSpec \<Rightarrow> string" where
  "clientServiceName cl tier = tier_Name tier @ ''-'' @ cl_Name cl"

definition statefulSetName :: "PicoclusterDB \<Rightarrow> TierSpec \<Rightarrow> int32 \<Rightarrow> string" where
  "statefulSetName cl tier rsIndex = tier_Name tier @ ''-'' @ cl_Name cl @ ''-'' @ fmt_d rsIndex"

definition tierLabels :: "PicoclusterDB \<Rightarrow> TierSpec \<Rightarrow> labels" where
  "tierLabels cl tier =
     [(''app.kubernetes.io/name'', tier_Name tier @ ''-'' @ cl_Name cl),
      (''app.kubernetes.io/cluster'', spec_ClusterName (cl_Spec cl)),
      (''app.kubernetes.io/instance'', cl_Name cl)]"

definition replicasetLabel :: string where
  "replicasetLabel = ''picodata.io/replicaset''"

definition replicasetLabels :: "PicoclusterDB \<Rightarrow> TierSpec \<Rightarrow> int32 \<Rightarrow> labels" where
  "replicasetLabels cl tier rsIndex =
     AList.update replicasetLabel (fmt_d rsIndex) (tierLabels cl tier)"

section \<open>Names derived from a tier\<close>

locale tier_named =
  fixes name_of :: "PicoclusterDB \<Rightarrow> TierSpec \<Rightarrow> string"
    and suffix :: "PicoclusterDB \<Rightarrow> string"
  assumes name_shape: "name_of cl tier = tier_Name tier @ suffix cl"
    and suffix_local: "om_Name (cl_Meta cl) = om_Name (cl_Meta cl') \<Longrightarrow> suffix cl = suffix cl'"
begin

lemma inject: "name_of cl t = name_of cl t' \<longleftrightarrow> tier_Name t = tier_Name t'"
  by (simp add: name_shape)

lemma distinct_tiers:
  "distinct (map tier_Name ts) \<Longrightarrow> distinct (map (name_of cl) ts)"
  by (induction ts) (auto simp: inject)

lemma depends_on_names:
  "om_Name (cl_Meta cl) = om_Name (cl_Meta cl') \<Longrightarrow> tier_Name t = tier_Name t' \<Longrightarrow>
   name_of cl t = name_of cl' t'"
  using suffix_local [of cl cl'] by (simp add: name_shape)

end

interpretation cm_name: tier_named configMapName "\<lambda>cl. ''-'' @ cl_Name cl"
  by unfold_locales (simp_all add: configMapName_def)

interpretation client_name: tier_named clientServiceName "\<lambda>cl. ''-'' @ cl_Name cl"
  by unfold_locales (simp_all add: clientServiceName_def)

interpretation peer_name: tier_named interconnectServiceName
  "\<lambda>cl. ''-'' @ cl_Name cl @ ''-interconnect''"
  by unfold_locales (simp_all add: interconnectServiceName_def)

text \<open>The text after the last dash of a StatefulSet's name is the index.\<close>

lemma append_dash_inject:
  assumes "xs @ CHR ''-'' # n = ys @ CHR ''-'' # m"
    and "CHR ''-'' \<notin> set n" and "CHR ''-'' \<notin> set m"
  shows "xs = ys \<and> n = m"
proof -
  have tw: "takeWhile (\<lambda>c. c \<noteq> CHR ''-'') (rev (zs @ CHR ''-'' # k)) = rev k"
    if "CHR ''-'' \<notin> set k" for zs k :: string
    using that by (subst rev_append) (auto simp: takeWhile_append2 takeWhile_tail)
  have "rev n = rev m" using tw [OF assms(2), of xs] tw [OF assms(3), of ys] assms(1) by metis
  then show ?thesis using assms(1) by simp
qed

lemma fmt_d_no_dash: "0 \<le> sint i \<Longrightarrow> CHR ''-'' \<notin> set (fmt_d i)"
  by (simp add: fmt_d_def int_text_def)

lemma statefulSetName_inject:
  assumes "0 \<le> sint i" "0 \<le> sint j"
  shows "statefulSetName cl t i = statefulSetName cl t' j \<longleftrightarrow> tier_Name t = tier_Name t' \<and> i = j"
proof
  assume "statefulSetName cl t i = statefulSetName cl t' j"
  then have "(tier_Name t @ ''-'' @ cl_Name cl) @ CHR ''-'' # fmt_d i =
             (tier_Name t' @ ''-'' @ cl_Name cl) @ CHR ''-'' # fmt_d j"
    by (simp add: statefulSetName_def)
  then have "tier_Name t @ ''-'' @ cl_Name cl = tier_Name t' @ ''-'' @ cl_Name cl \<and> fmt_d i = fmt_d j"
    by (rule append_dash_inject) (simp_all add: assms fmt_d_no_dash)
  then show "tier_Name t = tier_Name t' \<and> i = j" by simp
qed (simp add: statefulSetName_def)

section \<open>Labels\<close>

lemma replicasetLabels_eq:
  "replicasetLabels cl tier i = tierLabels cl tier @ [(replicasetLabel, fmt_d i)]"
  by (simp add: replicasetLabels_def tierLabels_def replicasetLabel_def)

lemma distinct_tierLabels [simp]: "distinct (map fst (tierLabels cl tier))"
  by (simp add: tierLabels_def)

lemma distinct_replicasetLabels [simp]: "distinct (map fst (replicasetLabels cl tier i))"
  by (simp add: replicasetLabels_eq tierLabels_def replicasetLabel_def)

lemma replicaset_label_lookup [simp]:
  "map_of (replicasetLabels cl tier i) replicasetLabel = Some (fmt_d i)"
  by (simp add: replicasetLabels_eq tierLabels_def replicasetLabel_def)

lemma tier_selects_replicaset [simp]:
  "matches_labels (tierLabels cl tier) (replicasetLabels cl tier i)"
  by (simp add: matches_labels_def replicasetLabels_eq tierLabels_def)

lemma matches_tier_iff:
  "matches_labels (tierLabels cl t) (replicasetLabels cl t' j) \<longleftrightarrow> tier_Name t = tier_Name t'"
  by (auto simp: matches_labels_def replicasetLabels_eq tierLabels_def)

lemma matches_replicaset_iff:
  "matches_labels (replicasetLabels cl t i) (replicasetLabels cl t' j) \<longleftrightarrow>
   tier_Name t = tier_Name t' \<and> i = j"
  by (auto simp: matches_labels_def replicasetLabels_eq tierLabels_def replicasetLabel_def)

end
