(* ===== verification/Config_Map.thy ===== *)
theory Config_Map
  imports Naming "HOL-Library.Sublist"
begin

text \<open>
  internal/controller/configmap.go: the ConfigMap that carries a tier's \<open>config.yaml\<close>. The text is
  rendered here byte for byte, with the defaults that the code puts in place of zero values and
  with the plugin section whose advertise addresses are placeholders for the init container of
  statefulset.go.
\<close>

section \<open>The plugin section\<close>

definition instanceDir :: string where
  "instanceDir = ''/pico''"

abbreviation quote_char :: string where
  "quote_char \<equiv> [CHR 0x22]"

text \<open>The services of a plugin that have a listener port, as \<open>svcEntry\<close> values.\<close>

definition svcEntries :: "PluginSpec \<Rightarrow> (string \<times> int32) list" where
  "svcEntries p =
     map (\<lambda>s. (pl_SvcName s, pl_ListenerPort s))
       (filter (\<lambda>s. 0 < sint (pl_ListenerPort s)) (pl_Services p))"

text \<open>The plugins with at least one such service, as \<open>pluginEntry\<close> values.\<close>

definition pluginEntries :: "TierSpec \<Rightarrow> (string \<times> (string \<times> int32) list) list" where
  "pluginEntries tier =
     filter (\<lambda>(_, svcs). svcs \<noteq> []) (map (\<lambda>p. (pl_Name p, svcEntries p)) (tier_Plugins tier))"

definition advertisePlaceholder :: "string \<Rightarrow> string \<Rightarrow> string" where
  "advertisePlaceholder plugin svc =
     ''__PLUGIN_ADVERTISE_'' @ ToUpper plugin @ ''_'' @ ToUpper svc @ ''__''"

definition listenerYAML :: "string \<Rightarrow> string \<times> int32 \<Rightarrow> string" where
  "listenerYAML plugin = (\<lambda>(svc, port).
     ''        '' @ svc @ '':\<newline>          listener:\<newline>            enabled: true\<newline>'' @
     ''            listen: '' @ quote_char @ ''0.0.0.0:'' @ fmt_d port @ quote_char @ ''\<newline>'' @
     ''            advertise: '' @ quote_char @ advertisePlaceholder plugin svc @ quote_char @ ''\<newline>'')"

definition pluginYAML :: "string \<times> (string \<times> int32) list \<Rightarrow> string" where
  "pluginYAML = (\<lambda>(name, svcs).
     ''    '' @ name @ '':\<newline>      service:\<newline>'' @ concat (map (listenerYAML name) svcs))"

definition buildPluginListenerConfig :: "TierSpec \<Rightarrow> string" where
  "buildPluginListenerConfig tier =
     (let plugins = pluginEntries tier
      in if plugins = [] then ''''
         else ''  plugin:\<newline>'' @ concat (map pluginYAML plugins))"

section \<open>Defaults\<close>

text \<open>\<open>if v == "" { v = d }\<close> and \<open>if v == 0 { v = d }\<close>.\<close>

definition orString :: "string \<Rightarrow> string \<Rightarrow> string" where
  "orString v d = (if v = '''' then d else v)"

definition orInt :: "int32 \<Rightarrow> int32 \<Rightarrow> int32" where
  "orInt v d = (if v = 0 then d else v)"

section \<open>The configuration file\<close>

definition tierYAML :: "TierSpec \<Rightarrow> string" where
  "tierYAML t =
     ''          '' @ tier_Name t @ '':\<newline>            replication_factor: '' @
     fmt_d (orInt (tier_ReplicationFactor t) 1) @
     ''\<newline>            can_vote: '' @ fmt_v (tier_CanVote t) @ ''\<newline>''"

definition peerFQDN :: "PicoclusterDB \<Rightarrow> TierSpec \<Rightarrow> string" where
  "peerFQDN cl firstTier =
     tier_Name firstTier @ ''-'' @ cl_Name cl @ ''-1-0.'' @
     tier_Name firstTier @ ''-'' @ cl_Name cl @ ''-interconnect.'' @
     cl_Namespace cl @ ''.svc.cluster.local:'' @
     fmt_d (servicePort (sr_BinaryPort (spec_Service (cl_Spec cl))) 3301)"

definition pgListen :: "PicoclusterDB \<Rightarrow> TierSpec \<Rightarrow> string" where
  "pgListen cl tier =
     (if pg_Enabled (tier_Pg tier) then ''0.0.0.0:'' else ''127.0.0.1:'') @
     fmt_d (servicePort (sr_PgPort (spec_Service (cl_Spec cl))) 5432)"

definition configYAML :: "PicoclusterDB \<Rightarrow> TierSpec \<Rightarrow> TierSpec \<Rightarrow> string" where
  "configYAML cl tier firstTier =
     (let svc = spec_Service (cl_Spec cl);
          clspec = spec_Cluster (cl_Spec cl)
      in concat
       [''cluster:\<newline>  name: '', spec_ClusterName (cl_Spec cl),
        ''\<newline>  default_replication_factor: '', fmt_d (orInt (cs_DefaultReplicationFactor clspec) 1),
        ''\<newline>  default_bucket_count: '', fmt_d (orInt (cs_DefaultBucketCount clspec) 3000),
        ''\<newline>  shredding: '', fmt_v (cs_Shredding clspec),
        ''\<newline>  tier:\<newline>'', concat (map tierYAML (cl_Tiers cl)),
        ''instance:\<newline>  instance_dir: '', instanceDir,
        ''\<newline>  tier: '', tier_Name tier,
        ''\<newline>  share_dir: '', orString (tier_ShareDir tier) ''/usr/share/picodata'',
        ''\<newline>  peer:\<newline>  - '', peerFQDN cl firstTier,
        ''\<newline>  admin_socket: '', instanceDir, ''/admin.sock\<newline>  log:\<newline>    level: '',
        orString (lg_Level (tier_Log tier)) ''info'',
        ''\<newline>    destination: '',
        (case lg_Destination (tier_Log tier) of None \<Rightarrow> ''null'' | Some d \<Rightarrow> d),
        ''\<newline>    format: '', orString (lg_Format (tier_Log tier)) ''plain'',
        ''\<newline>  memtx:\<newline>    memory: '', orString (mx_Memory (tier_Memtx tier)) ''128M'',
        ''\<newline>  vinyl:\<newline>    memory: '', orString (vy_Memory (tier_Vinyl tier)) ''64M'',
        ''\<newline>    cache: '', orString (vy_Cache (tier_Vinyl tier)) ''32M'',
        ''\<newline>  http:\<newline>    listen: 0.0.0.0:'', fmt_d (servicePort (sr_HttpPort svc) 8081),
        ''\<newline>  iproto:\<newline>    listen: 0.0.0.0:'', fmt_d (servicePort (sr_BinaryPort svc) 3301),
        ''\<newline>  pgproto:\<newline>    enabled: '', fmt_v (pg_Enabled (tier_Pg tier)),
        ''\<newline>    listen: '', pgListen cl tier,
        ''\<newline>    tls:\<newline>      enabled: '', fmt_v (pg_SSL (tier_Pg tier)),
        ''\<newline>'', buildPluginListenerConfig tier])"

text \<open>
  \<open>buildConfigMap\<close>. Reading \<open>cluster.Spec.Tiers[0]\<close> of an empty slice panics.
\<close>

definition buildConfigMap :: "PicoclusterDB \<Rightarrow> TierSpec \<Rightarrow> ConfigMap result" where
  "buildConfigMap cl tier =
     (case cl_Tiers cl of
        [] \<Rightarrow> Panic ''index out of range [0] with length 0''
      | firstTier # _ \<Rightarrow>
          Ok \<lparr>cm_Meta = new_meta (configMapName cl tier) (cl_Namespace cl),
              cm_Data = [(''config.yaml'', configYAML cl tier firstTier)]\<rparr>)"

section \<open>Properties\<close>

lemma buildConfigMap_Ok_iff:
  "(\<exists>cm. buildConfigMap cl tier = Ok cm) \<longleftrightarrow> cl_Tiers cl \<noteq> []"
  by (cases "cl_Tiers cl") (simp_all add: buildConfigMap_def)

lemma buildConfigMap_key:
  "buildConfigMap cl tier = Ok cm \<Longrightarrow> meta_key (cm_Meta cm) = (cl_Namespace cl, configMapName cl tier)"
  by (auto simp: buildConfigMap_def split: list.splits)

text \<open>Dropping the plugins without listeners does not change what the loops over services visit.\<close>

lemma concat_pluginEntries:
  "concat (map (\<lambda>(name, svcs). map (f name) svcs) (pluginEntries tier)) =
   concat (map (\<lambda>p. map (f (pl_Name p)) (svcEntries p)) (tier_Plugins tier))"
proof -
  have "concat (map (\<lambda>(name, svcs). map (f name) svcs)
          (filter (\<lambda>(_, svcs). svcs \<noteq> []) (map (\<lambda>p. (pl_Name p, svcEntries p)) ps))) =
        concat (map (\<lambda>p. map (f (pl_Name p)) (svcEntries p)) ps)" for ps
    by (induction ps) auto
  then show ?thesis by (simp add: pluginEntries_def)
qed

lemma pluginEntries_mem:
  "p \<in> set (tier_Plugins tier) \<Longrightarrow> svcEntries p \<noteq> [] \<Longrightarrow>
   (pl_Name p, svcEntries p) \<in> set (pluginEntries tier)"
  by (auto simp: pluginEntries_def)

lemma buildPluginListenerConfig_empty_iff:
  "buildPluginListenerConfig tier = '''' \<longleftrightarrow>
   (\<forall>p \<in> set (tier_Plugins tier). \<forall>s \<in> set (pl_Services p). sint (pl_ListenerPort s) \<le> 0)"
  by (auto simp: buildPluginListenerConfig_def Let_def pluginEntries_def svcEntries_def
      filter_empty_conv not_less)

lemma sublist_concat_map: "x \<in> set xs \<Longrightarrow> sublist (f x) (concat (map f xs))"
  by (metis concat.simps(2) concat_append list.simps(9) map_append split_list sublist_appendI)

lemma placeholder_in_listenerYAML: "sublist (advertisePlaceholder n svc) (listenerYAML n (svc, port))"
proof -
  have "listenerYAML n (svc, port) =
     (''        '' @ svc @ '':\<newline>          listener:\<newline>            enabled: true\<newline>'' @
      ''            listen: '' @ quote_char @ ''0.0.0.0:'' @ fmt_d port @ quote_char @ ''\<newline>'' @
      ''            advertise: '' @ quote_char) @
      advertisePlaceholder n svc @ (quote_char @ ''\<newline>'')"
    by (simp add: listenerYAML_def)
  then show ?thesis by (metis sublist_appendI)
qed

lemma placeholder_in_section:
  assumes p: "p \<in> set (tier_Plugins tier)" and s: "s \<in> set (pl_Services p)"
    and port: "0 < sint (pl_ListenerPort s)"
  shows "sublist (advertisePlaceholder (pl_Name p) (pl_SvcName s)) (buildPluginListenerConfig tier)"
proof -
  let ?e = "(pl_SvcName s, pl_ListenerPort s)"
  have e: "?e \<in> set (svcEntries p)" using s port by (force simp: svcEntries_def)
  then have entry: "(pl_Name p, svcEntries p) \<in> set (pluginEntries tier)"
    using p by (intro pluginEntries_mem) auto
  have "sublist (listenerYAML (pl_Name p) ?e) (concat (map (listenerYAML (pl_Name p)) (svcEntries p)))"
    using e by (rule sublist_concat_map)
  moreover have "sublist (concat (map (listenerYAML (pl_Name p)) (svcEntries p)))
                         (pluginYAML (pl_Name p, svcEntries p))"
    unfolding pluginYAML_def prod.case append_assoc [symmetric] by (rule sublist_append_leftI)
  moreover have "sublist (pluginYAML (pl_Name p, svcEntries p)) (concat (map pluginYAML (pluginEntries tier)))"
    using entry by (rule sublist_concat_map)
  moreover have "sublist (concat (map pluginYAML (pluginEntries tier))) (buildPluginListenerConfig tier)"
    using entry by (auto simp: buildPluginListenerConfig_def Let_def simp del: append.simps
        intro: sublist_append_leftI)
  ultimately show ?thesis
    using placeholder_in_listenerYAML by (meson sublist_order.order.trans)
qed

lemma sublist_last_concat: "xs \<noteq> [] \<Longrightarrow> last xs = y \<Longrightarrow> sublist y (concat xs)"
  by (metis append_butlast_last_id concat.simps(1) concat.simps(2) concat_append
      append_Nil2 sublist_append_leftI)

lemma section_in_configYAML: "sublist (buildPluginListenerConfig tier) (configYAML cl tier t0)"
  unfolding configYAML_def Let_def by (rule sublist_last_concat) simp_all

text \<open>A run of consecutive pieces of the template.\<close>

lemma sublist_concat_slice: "sublist (concat (take k (drop n xs))) (concat xs)"
proof -
  have "concat xs = concat (take n xs) @ concat (drop n xs)" by (metis append_take_drop_id concat_append)
  moreover have "concat (drop n xs) = concat (take k (drop n xs)) @ concat (drop k (drop n xs))"
    by (metis append_take_drop_id concat_append)
  ultimately show ?thesis by (metis sublist_appendI)
qed

lemma pgproto_in_configYAML:
  "sublist (''\<newline>  pgproto:\<newline>    enabled: '' @ fmt_v (pg_Enabled (tier_Pg tier)) @
     ''\<newline>    listen: '' @ pgListen cl tier @ ''\<newline>'') (configYAML cl tier t0)"
proof -
  let ?tls = "''    tls:\<newline>      enabled: ''"
  have "sublist (concat [''\<newline>  pgproto:\<newline>    enabled: '', fmt_v (pg_Enabled (tier_Pg tier)), ''\<newline>    listen: '',
      pgListen cl tier, ''\<newline>'' @ ?tls]) (configYAML cl tier t0)"
    unfolding configYAML_def Let_def
    by (rule sublist_order.order.trans [OF _ sublist_concat_slice [of 5 36]]) simp
  moreover have "concat [''\<newline>  pgproto:\<newline>    enabled: '', fmt_v (pg_Enabled (tier_Pg tier)), ''\<newline>    listen: '',
      pgListen cl tier, ''\<newline>'' @ ?tls] =
    (''\<newline>  pgproto:\<newline>    enabled: '' @ fmt_v (pg_Enabled (tier_Pg tier)) @
     ''\<newline>    listen: '' @ pgListen cl tier @ ''\<newline>'') @ ?tls" by simp
  ultimately have "sublist ((''\<newline>  pgproto:\<newline>    enabled: '' @ fmt_v (pg_Enabled (tier_Pg tier)) @
     ''\<newline>    listen: '' @ pgListen cl tier @ ''\<newline>'') @ ?tls) (configYAML cl tier t0)" by (simp only:)
  then show ?thesis by (rule sublist_order.order.trans [OF sublist_append_rightI])
qed

end
