(* ===== verification/Affinity_Merge.thy ===== *)
theory Affinity_Merge
  imports Naming "HOL-Library.Monad_Syntax"
begin

text \<open>
  \<open>mergeReplicasetAntiAffinity\<close> of internal/controller/statefulset.go. The function copies the
  user's \<open>Affinity\<close> struct one level deep (\<open>copy := *base\<close>) and then appends to the slice of the
  \<open>PodAntiAffinity\<close> struct that the copy points to. Whether the user's object changes depends on
  that pointer, so the function is modelled twice: on an explicit heap of structs, pointer by
  pointer as the source is written, and on values, where the call also returns what the caller's
  own object has become. The lemmas \<open>merge_ptr_nil\<close> and \<open>merge_ptr_base\<close> tie the two together.
\<close>

section \<open>On values\<close>

definition replicasetTerm :: "labels \<Rightarrow> PodAffinityTerm" where
  "replicasetTerm rsLabels =
     \<lparr>pt_LabelSelector = Some \<lparr>ls_MatchLabels = rsLabels, ls_MatchExpressions = []\<rparr>,
      pt_TopologyKey = ''kubernetes.io/hostname'', pt_Namespaces = []\<rparr>"

definition emptyAffinity :: Affinity where
  "emptyAffinity = \<lparr>af_NodeAffinity = None, af_PodAffinity = None, af_PodAntiAffinity = None\<rparr>"

definition emptyAntiAffinity :: PodAntiAffinity where
  "emptyAntiAffinity = \<lparr>pa_Required = [], pa_Preferred = []\<rparr>"

definition append_term :: "PodAntiAffinity \<Rightarrow> labels \<Rightarrow> PodAntiAffinity" where
  "append_term p rsLabels = p\<lparr>pa_Required := pa_Required p @ [replicasetTerm rsLabels]\<rparr>"

text \<open>The merged affinity, and the caller's object after the call.\<close>

definition mergeReplicasetAntiAffinity ::
  "Affinity option \<Rightarrow> labels \<Rightarrow> Affinity \<times> Affinity option" where
  "mergeReplicasetAntiAffinity base rsLabels =
     (let affinity = (case base of None \<Rightarrow> emptyAffinity | Some b \<Rightarrow> b)
      in case af_PodAntiAffinity affinity of
           None \<Rightarrow>
             (affinity\<lparr>af_PodAntiAffinity := Some (append_term emptyAntiAffinity rsLabels)\<rparr>, base)
         | Some p \<Rightarrow>
             (let merged = affinity\<lparr>af_PodAntiAffinity := Some (append_term p rsLabels)\<rparr>
              in (merged, Some merged)))"

section \<open>On a heap of structs\<close>

text \<open>
  An \<open>Affinity\<close> struct in memory holds the address of its \<open>PodAntiAffinity\<close>. The slice inside a
  \<open>PodAntiAffinity\<close> has one header, the one in the struct, so a list stands for it.
\<close>

type_synonym addr = nat

record AffinityCell =
  ac_NodeAffinity :: "NodeAffinity option"
  ac_PodAffinity :: "PodAffinity option"
  ac_PodAntiAffinity :: "addr option"

record heap =
  h_affinity :: "addr \<rightharpoonup> AffinityCell"
  h_anti :: "addr \<rightharpoonup> PodAntiAffinity"
  h_next :: addr

definition new_affinity :: "AffinityCell \<Rightarrow> heap \<Rightarrow> addr \<times> heap" where
  "new_affinity c h =
     (h_next h, h\<lparr>h_affinity := (h_affinity h)(h_next h \<mapsto> c), h_next := Suc (h_next h)\<rparr>)"

definition new_anti :: "PodAntiAffinity \<Rightarrow> heap \<Rightarrow> addr \<times> heap" where
  "new_anti c h =
     (h_next h, h\<lparr>h_anti := (h_anti h)(h_next h \<mapsto> c), h_next := Suc (h_next h)\<rparr>)"

definition emptyAffinityCell :: AffinityCell where
  "emptyAffinityCell =
     \<lparr>ac_NodeAffinity = None, ac_PodAffinity = None, ac_PodAntiAffinity = None\<rparr>"

text \<open>
  The function, pointer by pointer. \<open>None\<close> is a dereference of an address that holds no struct,
  which does not happen from a well-formed heap.
\<close>

definition mergeReplicasetAntiAffinity_ptr ::
  "addr option \<Rightarrow> labels \<Rightarrow> heap \<Rightarrow> (addr \<times> heap) option" where
  "mergeReplicasetAntiAffinity_ptr base rsLabels h = do {
     (a, h1) \<leftarrow> (case base of
         None \<Rightarrow> Some (new_affinity emptyAffinityCell h)
       | Some b \<Rightarrow> do { v \<leftarrow> h_affinity h b; Some (new_affinity v h) });
     v \<leftarrow> h_affinity h1 a;
     (p, h2) \<leftarrow> Some (case ac_PodAntiAffinity v of
         None \<Rightarrow>
           (let (p, h') = new_anti emptyAntiAffinity h1
            in (p, h'\<lparr>h_affinity := (h_affinity h')(a \<mapsto> v\<lparr>ac_PodAntiAffinity := Some p\<rparr>)\<rparr>))
       | Some p \<Rightarrow> (p, h1));
     c \<leftarrow> h_anti h2 p;
     Some (a, h2\<lparr>h_anti := (h_anti h2)(p \<mapsto> append_term c rsLabels)\<rparr>)
   }"

text \<open>What an address denotes: the struct with its pointer followed.\<close>

definition read_affinity :: "heap \<Rightarrow> addr \<Rightarrow> Affinity option" where
  "read_affinity h a = do {
     v \<leftarrow> h_affinity h a;
     anti \<leftarrow> (case ac_PodAntiAffinity v of
         None \<Rightarrow> Some None
       | Some p \<Rightarrow> map_option Some (h_anti h p));
     Some \<lparr>af_NodeAffinity = ac_NodeAffinity v, af_PodAffinity = ac_PodAffinity v,
           af_PodAntiAffinity = anti\<rparr>
   }"

definition heap_ok :: "heap \<Rightarrow> bool" where
  "heap_ok h \<longleftrightarrow>
     (\<forall>a \<in> dom (h_affinity h). a < h_next h) \<and> (\<forall>p \<in> dom (h_anti h). p < h_next h)"

lemma heap_okD:
  assumes "heap_ok h" "h_affinity h a = Some v"
  shows "a < h_next h"
  using assms by (auto simp: heap_ok_def)

lemma heap_okD_anti:
  assumes "heap_ok h" "h_anti h p = Some c"
  shows "p < h_next h"
  using assms by (auto simp: heap_ok_def)

lemmas merge_defs = mergeReplicasetAntiAffinity_ptr_def mergeReplicasetAntiAffinity_def
  new_affinity_def new_anti_def read_affinity_def emptyAffinity_def emptyAffinityCell_def

text \<open>The nil base: the caller has no object, the result is fresh.\<close>

lemma merge_ptr_nil:
  "\<exists>a h'. mergeReplicasetAntiAffinity_ptr None ls h = Some (a, h') \<and>
     read_affinity h' a = Some (fst (mergeReplicasetAntiAffinity None ls))"
  by (simp add: merge_defs Let_def)

lemma merge_ptr_base:
  assumes ok: "heap_ok h" and b: "read_affinity h b = Some v"
  shows "\<exists>a h'. mergeReplicasetAntiAffinity_ptr (Some b) ls h = Some (a, h') \<and> a \<noteq> b \<and>
     read_affinity h' a = Some (fst (mergeReplicasetAntiAffinity (Some v) ls)) \<and>
     read_affinity h' b = snd (mergeReplicasetAntiAffinity (Some v) ls)"
proof -
  from b obtain c where c: "h_affinity h b = Some c"
    by (auto simp: read_affinity_def Option.bind_eq_Some_conv)
  with ok have lt: "b < h_next h" by (rule heap_okD)
  show ?thesis
  proof (cases "ac_PodAntiAffinity c")
    case None
    with b c lt show ?thesis by (auto simp: merge_defs Let_def)
  next
    case (Some p)
    with b c obtain q where q: "h_anti h p = Some q"
      by (auto simp: read_affinity_def Option.bind_eq_Some_conv)
    with ok have "p < h_next h" by (rule heap_okD_anti)
    with b c lt Some q show ?thesis by (auto simp: merge_defs Let_def)
  qed
qed

section \<open>What the merge keeps and adds\<close>

lemma merge_preserves_user:
  "af_NodeAffinity (fst (mergeReplicasetAntiAffinity (Some b) ls)) = af_NodeAffinity b"
  "af_PodAffinity (fst (mergeReplicasetAntiAffinity (Some b) ls)) = af_PodAffinity b"
  by (simp_all add: mergeReplicasetAntiAffinity_def Let_def split: option.split)

text \<open>The required terms of an affinity, empty where a pointer is nil.\<close>

definition required_terms :: "Affinity option \<Rightarrow> PodAffinityTerm list" where
  "required_terms a =
     (case a of None \<Rightarrow> []
      | Some b \<Rightarrow> (case af_PodAntiAffinity b of None \<Rightarrow> [] | Some p \<Rightarrow> pa_Required p))"

lemma merge_required:
  "required_terms (Some (fst (mergeReplicasetAntiAffinity b ls))) =
   required_terms b @ [replicasetTerm ls]"
  by (auto simp: mergeReplicasetAntiAffinity_def required_terms_def Let_def append_term_def
      emptyAntiAffinity_def emptyAffinity_def split: option.splits)

text \<open>Whether the user has set \<open>podAntiAffinity\<close>, the pointer that decides the aliasing.\<close>

definition has_anti :: "Affinity option \<Rightarrow> bool" where
  "has_anti a = (case a of None \<Rightarrow> False | Some b \<Rightarrow> af_PodAntiAffinity b \<noteq> None)"

lemma merge_base_kept: "\<not> has_anti b \<Longrightarrow> snd (mergeReplicasetAntiAffinity b ls) = b"
  by (auto simp: mergeReplicasetAntiAffinity_def has_anti_def emptyAffinity_def Let_def split: option.splits)

lemma merge_base_aliased:
  "has_anti b \<Longrightarrow> snd (mergeReplicasetAntiAffinity b ls) = Some (fst (mergeReplicasetAntiAffinity b ls))"
  by (auto simp: mergeReplicasetAntiAffinity_def has_anti_def Let_def split: option.splits)

lemma has_anti_merge [simp]: "has_anti (Some (fst (mergeReplicasetAntiAffinity b ls)))"
  by (auto simp: mergeReplicasetAntiAffinity_def has_anti_def Let_def split: option.splits)

end
