(* ===== verification/Stateful_Set.thy ===== *)
theory Stateful_Set
  imports Config_Map Affinity_Merge Sha256
begin

text \<open>
  internal/controller/statefulset.go: the StatefulSet of one replicaset. The builder writes through
  two pointers of the tier it is given (the pod security context and the pod anti-affinity), so the
  model returns the tier as it is after the call beside the StatefulSet. \<open>resource.Quantity\<close> is a
  type of apimachinery: its \<open>MustParse\<close> and \<open>IsZero\<close> are an argument.
\<close>

record QuantityLib =
  ql_MustParse :: "string \<Rightarrow> Quantity"
  ql_IsZero :: "Quantity \<Rightarrow> bool"

section \<open>Constants\<close>

definition dataVolumeName :: string where "dataVolumeName = ''picodata''"
definition configVolumeName :: string where "configVolumeName = ''pico-conf''"
definition configOutVolumeName :: string where "configOutVolumeName = ''pico-conf-out''"
definition configOutDir :: string where "configOutDir = ''/pico-conf-out''"
definition configMountPath :: string where "configMountPath = instanceDir @ ''/config.yaml''"
definition configTemplatePath :: string where
  "configTemplatePath = ''/etc/picodata-tpl/config.yaml''"

section \<open>Helpers\<close>

definition configHash :: "string \<Rightarrow> string" where
  "configHash configData = fmt_x (take 8 (Sum256 configData))"

definition httpProbe :: "string \<Rightarrow> int32 \<Rightarrow> int32 \<Rightarrow> int32 \<Rightarrow> int32 \<Rightarrow> Probe" where
  "httpProbe path httpPort period threshold tmo =
     \<lparr>pr_Handler = HTTPGet path (FromInt32 httpPort), pr_PeriodSeconds = period,
      pr_FailureThreshold = threshold, pr_TimeoutSeconds = tmo\<rparr>"

definition defaultStartupProbe :: "int32 \<Rightarrow> Probe" where
  "defaultStartupProbe httpPort = httpProbe ''/api/v1/health/startup'' httpPort 30 20 3"

definition defaultLivenessProbe :: "int32 \<Rightarrow> Probe" where
  "defaultLivenessProbe httpPort = httpProbe ''/api/v1/health/live'' httpPort 20 3 3"

definition defaultReadinessProbe :: "int32 \<Rightarrow> Probe" where
  "defaultReadinessProbe httpPort = httpProbe ''/api/v1/health/ready'' httpPort 20 3 3"

definition orProbe :: "Probe option \<Rightarrow> Probe \<Rightarrow> Probe option" where
  "orProbe p d = (case p of None \<Rightarrow> Some d | Some q \<Rightarrow> Some q)"

definition valueEnv :: "string \<Rightarrow> string \<Rightarrow> EnvVar" where
  "valueEnv n v = \<lparr>ev_Name = n, ev_Value = v, ev_ValueFrom = None\<rparr>"

definition fieldEnv :: "string \<Rightarrow> string \<Rightarrow> EnvVar" where
  "fieldEnv n path = \<lparr>ev_Name = n, ev_Value = '''', ev_ValueFrom = Some (FieldRef path)\<rparr>"

section \<open>The init container\<close>

text \<open>One \<open>sed\<close> expression per plugin service with a positive port, in the order of the loops.\<close>

definition sedExpr :: "PicoclusterDB \<Rightarrow> TierSpec \<Rightarrow> string \<Rightarrow> PluginServiceSpec \<Rightarrow> string" where
  "sedExpr cl tier plugin svc =
     ''-e '' @ quote_char @ ''s|'' @ advertisePlaceholder plugin (pl_SvcName svc) @
     ''|$INSTANCE_NAME.'' @ tier_Name tier @ ''-'' @ cl_Name cl @
     ''-interconnect.$INSTANCE_NAMESPACE.svc.cluster.local:'' @ fmt_d (pl_ListenerPort svc) @
     ''|g'' @ quote_char"

definition sedExprs :: "PicoclusterDB \<Rightarrow> TierSpec \<Rightarrow> string list" where
  "sedExprs cl tier =
     concat (map (\<lambda>plugin. map (sedExpr cl tier (pl_Name plugin))
       (filter (\<lambda>svc. \<not> sint (pl_ListenerPort svc) \<le> 0) (pl_Services plugin))) (tier_Plugins tier))"

definition initScript :: "PicoclusterDB \<Rightarrow> TierSpec \<Rightarrow> string" where
  "initScript cl tier =
     (let exprs = sedExprs cl tier
      in if 0 < length exprs
         then ''sed '' @ Join exprs '' '' @ '' '' @ configTemplatePath @ '' > '' @ configOutDir @ ''/config.yaml''
         else ''cp '' @ configTemplatePath @ '' '' @ configOutDir @ ''/config.yaml'')"

definition buildConfigInitContainer ::
  "PicoclusterDB \<Rightarrow> TierSpec \<Rightarrow> string \<Rightarrow> string \<Rightarrow> Container" where
  "buildConfigInitContainer cl tier imageRef pullPolicy =
     \<lparr>co_Name = ''config-init'', co_Image = imageRef, co_ImagePullPolicy = pullPolicy,
      co_Command = [''/bin/sh'', ''-c''], co_Args = [initScript cl tier], co_Ports = [],
      co_Env = [fieldEnv ''INSTANCE_NAME'' ''metadata.name'',
                fieldEnv ''INSTANCE_NAMESPACE'' ''metadata.namespace''],
      co_VolumeMounts =
        [\<lparr>vm_Name = configVolumeName, vm_MountPath = configTemplatePath, vm_SubPath = ''config.yaml''\<rparr>,
         \<lparr>vm_Name = configOutVolumeName, vm_MountPath = configOutDir, vm_SubPath = ''''\<rparr>],
      co_Resources = None, co_StartupProbe = None, co_LivenessProbe = None, co_ReadinessProbe = None\<rparr>"

section \<open>The main container\<close>

definition advertiseAddr :: "PicoclusterDB \<Rightarrow> TierSpec \<Rightarrow> int32 \<Rightarrow> string" where
  "advertiseAddr cl tier port =
     ''$(INSTANCE_NAME).'' @ tier_Name tier @ ''-'' @ cl_Name cl @
     ''-interconnect.$(INSTANCE_NAMESPACE).svc.cluster.local:'' @ fmt_d port"

definition baseEnv :: "PicoclusterDB \<Rightarrow> TierSpec \<Rightarrow> int32 \<Rightarrow> EnvVar list" where
  "baseEnv cl tier rsIndex =
     (let svc = spec_Service (cl_Spec cl);
          binaryPort = servicePort (sr_BinaryPort svc) 3301;
          httpPort = servicePort (sr_HttpPort svc) 8081;
          pgPort = servicePort (sr_PgPort svc) 5432
      in [fieldEnv ''POD_IP'' ''status.podIP'',
          fieldEnv ''INSTANCE_NAME'' ''metadata.name'',
          fieldEnv ''INSTANCE_NAMESPACE'' ''metadata.namespace'',
          valueEnv ''PICODATA_IPROTO_LISTEN'' (''$(INSTANCE_NAME):'' @ fmt_d binaryPort),
          valueEnv ''PICODATA_IPROTO_ADVERTISE'' (advertiseAddr cl tier binaryPort),
          valueEnv ''PICODATA_HTTP_LISTEN'' (''0.0.0.0:'' @ fmt_d httpPort),
          valueEnv ''PICODATA_HTTP_ADVERTISE'' (advertiseAddr cl tier httpPort),
          valueEnv ''PICODATA_PG_LISTEN'' (''0.0.0.0:'' @ fmt_d pgPort),
          valueEnv ''PICODATA_PG_ADVERTISE'' (advertiseAddr cl tier pgPort),
          valueEnv ''PICODATA_REPLICASET_NAME'' (tier_Name tier @ ''_'' @ fmt_d rsIndex),
          valueEnv ''PICODATA_FAILURE_DOMAIN'' ''HOST=$(INSTANCE_NAME)'',
          valueEnv ''PICODATA_CONFIG_FILE'' configMountPath,
          valueEnv ''PICODATA_ADMIN_SOCK'' (instanceDir @ ''/admin.sock''),
          \<lparr>ev_Name = ''PICODATA_ADMIN_PASSWORD'', ev_Value = '''',
           ev_ValueFrom = Some (SecretKeySelector (sk_SecretName (spec_AdminPassword (cl_Spec cl)))
                                                  (sk_Key (spec_AdminPassword (cl_Spec cl))))\<rparr>])"

definition containerPort :: "string \<Rightarrow> int32 \<Rightarrow> ContainerPort" where
  "containerPort n p = \<lparr>cp_Name = n, cp_ContainerPort = p, cp_Protocol = ''TCP''\<rparr>"

definition containerPorts :: "PicoclusterDB \<Rightarrow> TierSpec \<Rightarrow> ContainerPort list" where
  "containerPorts cl tier =
     (let svc = spec_Service (cl_Spec cl)
      in [containerPort ''binary'' (servicePort (sr_BinaryPort svc) 3301),
          containerPort ''http'' (servicePort (sr_HttpPort svc) 8081),
          containerPort ''pg'' (servicePort (sr_PgPort svc) 5432)] @
         concat (map (\<lambda>plugin.
           map (\<lambda>s. containerPort (pl_Name plugin @ ''-'' @ pl_SvcName s) (pl_ListenerPort s))
             (pl_Services plugin)) (tier_Plugins tier)))"

definition mainContainer ::
  "PicoclusterDB \<Rightarrow> TierSpec \<Rightarrow> int32 \<Rightarrow> string \<Rightarrow> string \<Rightarrow> Container" where
  "mainContainer cl tier rsIndex imageRef pullPolicy =
     (let httpPort = servicePort (sr_HttpPort (spec_Service (cl_Spec cl))) 8081
      in \<lparr>co_Name = ''picodata'', co_Image = imageRef, co_ImagePullPolicy = pullPolicy,
          co_Command = [], co_Args = [],
          co_Ports = containerPorts cl tier,
          co_Env = baseEnv cl tier rsIndex @ tier_Env tier,
          co_VolumeMounts =
            [\<lparr>vm_Name = configOutVolumeName, vm_MountPath = configMountPath, vm_SubPath = ''config.yaml''\<rparr>,
             \<lparr>vm_Name = dataVolumeName, vm_MountPath = instanceDir, vm_SubPath = ''''\<rparr>],
          co_Resources = Some (tier_Resources tier),
          co_StartupProbe = orProbe (spec_StartupProbe (cl_Spec cl)) (defaultStartupProbe httpPort),
          co_LivenessProbe = orProbe (spec_LivenessProbe (cl_Spec cl)) (defaultLivenessProbe httpPort),
          co_ReadinessProbe = orProbe (spec_ReadinessProbe (cl_Spec cl)) (defaultReadinessProbe httpPort)\<rparr>)"

section \<open>The pod\<close>

text \<open>The security context of the pod, and what \<open>tier.SecurityContext\<close> points to afterwards.\<close>

definition podSecurityContext ::
  "PodSecurityContext option \<Rightarrow> PodSecurityContext \<times> PodSecurityContext option" where
  "podSecurityContext ctx =
     (case ctx of
        None \<Rightarrow> (\<lparr>sc_FSGroup = Some 1000, sc_Rest = ''''\<rparr>, None)
      | Some c \<Rightarrow>
          (let c' = (if sc_FSGroup c = None then c\<lparr>sc_FSGroup := Some 1000\<rparr> else c)
           in (c', Some c')))"

text \<open>The pod's affinity, and what \<open>tier.Affinity\<close> points to afterwards.\<close>

definition podAffinity ::
  "PicoclusterDB \<Rightarrow> TierSpec \<Rightarrow> int32 \<Rightarrow> Affinity option \<times> Affinity option" where
  "podAffinity cl tier rsIndex =
     (if tier_DisableAutoAntiAffinity tier then (tier_Affinity tier, tier_Affinity tier)
      else (let (merged, base') =
                  mergeReplicasetAntiAffinity (tier_Affinity tier) (replicasetLabels cl tier rsIndex)
            in (Some merged, base')))"

definition podVolumes :: "PicoclusterDB \<Rightarrow> TierSpec \<Rightarrow> Volume list" where
  "podVolumes cl tier =
     [\<lparr>vo_Name = configVolumeName,
       vo_Source = ConfigMapVolume (configMapName cl tier) [(''config.yaml'', ''config.yaml'')]\<rparr>,
      \<lparr>vo_Name = configOutVolumeName, vo_Source = EmptyDirVolume\<rparr>]"

definition pvcSpecOf :: "QuantityLib \<Rightarrow> TierSpec \<Rightarrow> PersistentVolumeClaimSpec" where
  "pvcSpecOf q tier =
     \<lparr>pv_AccessModes = [''ReadWriteOnce''],
      pv_StorageRequest =
        (if ql_IsZero q (sg_Size (tier_Storage tier)) then ql_MustParse q ''1Gi''
         else sg_Size (tier_Storage tier)),
      pv_StorageClassName = sg_StorageClassName (tier_Storage tier)\<rparr>"

section \<open>The StatefulSet\<close>

definition podSpecOf ::
  "PicoclusterDB \<Rightarrow> TierSpec \<Rightarrow> int32 \<Rightarrow> string \<Rightarrow> string \<Rightarrow> PodSecurityContext \<Rightarrow> Affinity option \<Rightarrow> PodSpec" where
  "podSpecOf cl tier rsIndex imageRef pullPolicy podSecCtx affinity =
     \<lparr>ps_SecurityContext = Some podSecCtx,
      ps_InitContainers = [buildConfigInitContainer cl tier imageRef pullPolicy],
      ps_Containers = [mainContainer cl tier rsIndex imageRef pullPolicy],
      ps_ImagePullSecrets = spec_ImagePullSecrets (cl_Spec cl),
      ps_Affinity = affinity,
      ps_Tolerations = tier_Tolerations tier,
      ps_NodeSelector = tier_NodeSelector tier,
      ps_TopologySpreadConstraints = tier_TopologySpreadConstraints tier,
      ps_TerminationGracePeriodSeconds = Some 30,
      ps_Volumes = podVolumes cl tier\<rparr>"

definition statefulSetOf ::
  "QuantityLib \<Rightarrow> PicoclusterDB \<Rightarrow> TierSpec \<Rightarrow> int32 \<Rightarrow> labels \<Rightarrow> labels \<Rightarrow> PodSpec \<Rightarrow> StatefulSet" where
  "statefulSetOf q cl tier rsIndex ls podAnnotations podSpec =
     \<lparr>st_Meta = (new_meta (statefulSetName cl tier rsIndex) (cl_Namespace cl))\<lparr>om_Labels := ls\<rparr>,
      st_Spec =
        \<lparr>ss_Replicas = Some (tier_ReplicationFactor tier),
         ss_ServiceName = interconnectServiceName cl tier,
         ss_Selector = ls,
         ss_Template =
           \<lparr>pt_Meta = (new_meta '''' '''')\<lparr>om_Labels := ls, om_Annotations := podAnnotations\<rparr>,
            pt_Spec = podSpec\<rparr>,
         ss_VolumeClaimTemplates =
           [\<lparr>pv_Meta = new_meta dataVolumeName (cl_Namespace cl), pv_Spec = pvcSpecOf q tier\<rparr>],
         ss_PodManagementPolicy = ''Parallel'',
         ss_UpdateStrategy = ''RollingUpdate''\<rparr>,
      st_ReadyReplicas = 0\<rparr>"

definition buildStatefulSet ::
  "QuantityLib \<Rightarrow> PicoclusterDB \<Rightarrow> TierSpec \<Rightarrow> int32 \<Rightarrow> string \<Rightarrow> StatefulSet \<times> TierSpec" where
  "buildStatefulSet q cl tier rsIndex configData =
     (let ls = replicasetLabels cl tier rsIndex;
          httpPort = servicePort (sr_HttpPort (spec_Service (cl_Spec cl))) 8081;
          img = spec_Image (cl_Spec cl);
          imageRef = im_Repository img @ ''/'' @ im_Tag img;
          pullPolicy = (if im_PullPolicy img = '''' then ''IfNotPresent'' else im_PullPolicy img);
          podAnnotations =
            [(''prometheus.io/scrape'', ''true''),
             (''prometheus.io/port'', fmt_d httpPort),
             (''checksum/config'', configHash configData)];
          (podSecCtx, secCtx') = podSecurityContext (tier_SecurityContext tier);
          (affinity, affinity') = podAffinity cl tier rsIndex;
          podSpec = podSpecOf cl tier rsIndex imageRef pullPolicy podSecCtx affinity
      in (statefulSetOf q cl tier rsIndex ls podAnnotations podSpec,
          tier\<lparr>tier_SecurityContext := secCtx', tier_Affinity := affinity'\<rparr>))"

lemmas buildStatefulSet_unfold = buildStatefulSet_def podSpecOf_def statefulSetOf_def

section \<open>Fields of the built object\<close>

abbreviation built :: "QuantityLib \<Rightarrow> PicoclusterDB \<Rightarrow> TierSpec \<Rightarrow> int32 \<Rightarrow> string \<Rightarrow> StatefulSet" where
  "built q cl tier i cfg \<equiv> fst (buildStatefulSet q cl tier i cfg)"

abbreviation after_build :: "QuantityLib \<Rightarrow> PicoclusterDB \<Rightarrow> TierSpec \<Rightarrow> int32 \<Rightarrow> string \<Rightarrow> TierSpec" where
  "after_build q cl tier i cfg \<equiv> snd (buildStatefulSet q cl tier i cfg)"

abbreviation pod_of :: "StatefulSet \<Rightarrow> PodSpec" where
  "pod_of sts \<equiv> pt_Spec (ss_Template (st_Spec sts))"

lemma built_simps [simp]:
  "meta_key (st_Meta (built q cl tier i cfg)) = (cl_Namespace cl, statefulSetName cl tier i)"
  "om_Name (st_Meta (built q cl tier i cfg)) = statefulSetName cl tier i"
  "om_Namespace (st_Meta (built q cl tier i cfg)) = cl_Namespace cl"
  "om_Labels (st_Meta (built q cl tier i cfg)) = replicasetLabels cl tier i"
  "ss_Replicas (st_Spec (built q cl tier i cfg)) = Some (tier_ReplicationFactor tier)"
  "ss_Selector (st_Spec (built q cl tier i cfg)) = replicasetLabels cl tier i"
  "om_Labels (pt_Meta (ss_Template (st_Spec (built q cl tier i cfg)))) = replicasetLabels cl tier i"
  "ps_Affinity (pod_of (built q cl tier i cfg)) = fst (podAffinity cl tier i)"
  "map_of (om_Annotations (pt_Meta (ss_Template (st_Spec (built q cl tier i cfg))))) ''checksum/config'' =
     Some (configHash cfg)"
  "ps_Containers (pod_of (built q cl tier i cfg)) =
     [mainContainer cl tier i (im_Repository (spec_Image (cl_Spec cl)) @ ''/'' @ im_Tag (spec_Image (cl_Spec cl)))
       (if im_PullPolicy (spec_Image (cl_Spec cl)) = '''' then ''IfNotPresent''
        else im_PullPolicy (spec_Image (cl_Spec cl)))]"
  "map co_Args (ps_InitContainers (pod_of (built q cl tier i cfg))) = [[initScript cl tier]]"
  by (simp_all add: buildStatefulSet_unfold buildConfigInitContainer_def Let_def split_beta)

lemma after_build_eq:
  "after_build q cl tier i cfg =
     tier\<lparr>tier_SecurityContext := snd (podSecurityContext (tier_SecurityContext tier)),
          tier_Affinity := snd (podAffinity cl tier i)\<rparr>"
  by (simp add: buildStatefulSet_unfold Let_def split_beta)

text \<open>A build changes nothing of the tier that names, labels or the configuration depend on.\<close>

lemma after_build_simps [simp]:
  "tier_Name (after_build q cl tier i cfg) = tier_Name tier"
  "tier_Replicas (after_build q cl tier i cfg) = tier_Replicas tier"
  "tier_ReplicationFactor (after_build q cl tier i cfg) = tier_ReplicationFactor tier"
  "tier_Plugins (after_build q cl tier i cfg) = tier_Plugins tier"
  "tier_Ingress (after_build q cl tier i cfg) = tier_Ingress tier"
  "tier_DisableAutoAntiAffinity (after_build q cl tier i cfg) = tier_DisableAutoAntiAffinity tier"
  "tier_CanVote (after_build q cl tier i cfg) = tier_CanVote tier"
  by (simp_all add: after_build_eq)

lemma names_after_build [simp]:
  "tierLabels cl (after_build q cl' tier i cfg) = tierLabels cl tier"
  "replicasetLabels cl (after_build q cl' tier i cfg) j = replicasetLabels cl tier j"
  "statefulSetName cl (after_build q cl' tier i cfg) j = statefulSetName cl tier j"
  by (simp_all add: tierLabels_def replicasetLabels_eq statefulSetName_def)

lemma length_configHash: "length (configHash cfg) = 16"
  by (simp add: configHash_def length_fmt_x length_Sum256)

text \<open>The security context: once set, a second build leaves it alone.\<close>

lemma podSecurityContext_idem:
  "podSecurityContext (snd (podSecurityContext c)) = podSecurityContext c"
  by (cases c) (simp_all add: podSecurityContext_def Let_def)

lemma podSecurityContext_fsGroup: "sc_FSGroup (fst (podSecurityContext c)) \<noteq> None"
  by (auto simp: podSecurityContext_def Let_def split: option.split)

section \<open>The sequence of builds of one tier\<close>

text \<open>What the loop over the replicasets of a tier builds, the tier threaded through.\<close>

fun build_seq ::
  "QuantityLib \<Rightarrow> PicoclusterDB \<Rightarrow> string \<Rightarrow> int32 list \<Rightarrow> TierSpec \<Rightarrow> StatefulSet list \<times> TierSpec" where
  "build_seq q cl cfg [] tier = ([], tier)"
| "build_seq q cl cfg (i # is) tier =
     (let (sts, tier') = buildStatefulSet q cl tier i cfg;
          (rest, tier'') = build_seq q cl cfg is tier'
      in (sts # rest, tier''))"

definition pod_terms :: "StatefulSet \<Rightarrow> PodAffinityTerm list" where
  "pod_terms sts = required_terms (ps_Affinity (pod_of sts))"

lemma length_build_seq [simp]: "length (fst (build_seq q cl cfg is tier)) = length is"
  by (induction "is" arbitrary: tier) (simp_all add: split_beta Let_def)

lemma build_seq_keys:
  "map (\<lambda>s. meta_key (st_Meta s)) (fst (build_seq q cl cfg is tier)) =
   map (\<lambda>i. (cl_Namespace cl, statefulSetName cl tier i)) is"
  by (induction "is" arbitrary: tier) (simp_all add: split_beta Let_def)

text \<open>Without a pod anti-affinity of the user's, each pod template holds its own term only.\<close>

lemma build_seq_terms_fresh:
  assumes "\<not> tier_DisableAutoAntiAffinity tier" "\<not> has_anti (tier_Affinity tier)"
  shows "map pod_terms (fst (build_seq q cl cfg is tier)) =
         map (\<lambda>i. [replicasetTerm (replicasetLabels cl tier i)]) is"
  using assms
proof (induction "is" arbitrary: tier)
  case Nil
  then show ?case by simp
next
  case (Cons i "is")
  let ?t = "after_build q cl tier i cfg"
  have aff: "tier_Affinity ?t = tier_Affinity tier"
    using Cons.prems by (simp add: after_build_eq podAffinity_def merge_base_kept split_beta)
  have "required_terms (tier_Affinity tier) = []"
    using Cons.prems by (auto simp: has_anti_def required_terms_def split: option.splits)
  then have "pod_terms (built q cl tier i cfg) = [replicasetTerm (replicasetLabels cl tier i)]"
    using Cons.prems by (simp add: pod_terms_def podAffinity_def merge_required split_beta)
  moreover have "map pod_terms (fst (build_seq q cl cfg is ?t)) =
      map (\<lambda>i. [replicasetTerm (replicasetLabels cl ?t i)]) is"
    using Cons.prems aff by (intro Cons.IH) simp_all
  ultimately show ?case by (simp add: split_beta Let_def)
qed

text \<open>With one, each template also holds the terms of the replicasets built before it.\<close>

fun accumulated :: "'a list \<Rightarrow> 'a list \<Rightarrow> 'a list list" where
  "accumulated acc [] = []"
| "accumulated acc (x # xs) = (acc @ [x]) # accumulated (acc @ [x]) xs"

lemma build_seq_terms_aliased:
  assumes "\<not> tier_DisableAutoAntiAffinity tier" "has_anti (tier_Affinity tier)"
  shows "map pod_terms (fst (build_seq q cl cfg is tier)) =
         accumulated (required_terms (tier_Affinity tier))
           (map (\<lambda>i. replicasetTerm (replicasetLabels cl tier i)) is)"
  using assms
proof (induction "is" arbitrary: tier)
  case Nil
  then show ?case by simp
next
  case (Cons i "is")
  let ?t = "after_build q cl tier i cfg"
  have aff: "tier_Affinity ?t =
      Some (fst (mergeReplicasetAntiAffinity (tier_Affinity tier) (replicasetLabels cl tier i)))"
    using Cons.prems by (simp add: after_build_eq podAffinity_def merge_base_aliased split_beta)
  have "map pod_terms (fst (build_seq q cl cfg is ?t)) =
      accumulated (required_terms (tier_Affinity ?t))
        (map (\<lambda>i. replicasetTerm (replicasetLabels cl ?t i)) is)"
    using Cons.prems aff by (intro Cons.IH) simp_all
  moreover have "pod_terms (built q cl tier i cfg) = required_terms (tier_Affinity ?t)"
    using Cons.prems by (simp add: aff pod_terms_def podAffinity_def split_beta)
  ultimately show ?case
    by (simp add: aff merge_required split_beta Let_def)
qed

section \<open>The init container and the configuration agree\<close>

lemma sedExprs_mem:
  "e \<in> set (sedExprs cl tier) \<longleftrightarrow>
   (\<exists>p \<in> set (tier_Plugins tier). \<exists>s \<in> set (pl_Services p).
      0 < sint (pl_ListenerPort s) \<and> e = sedExpr cl tier (pl_Name p) s)"
  by (auto simp: sedExprs_def not_le)

lemma sublist_Join: "x \<in> set xs \<Longrightarrow> sublist x (Join xs sep)"
proof (induction xs sep rule: Join.induct)
  case (3 y z xs sep)
  show ?case
  proof (cases "x = y")
    case True
    then show ?thesis by simp
  next
    case False
    then have "sublist x (Join (z # xs) sep)" using 3 by simp
    then show ?thesis
      by (metis Join.simps(3) append.assoc sublist_append_leftI sublist_order.order.trans)
  qed
qed simp_all

lemma sedExpr_in_script:
  assumes "e \<in> set (sedExprs cl tier)"
  shows "sublist e (initScript cl tier)"
proof -
  have "sublist e (Join (sedExprs cl tier) '' '')" using assms by (rule sublist_Join)
  moreover have "sublist (Join (sedExprs cl tier) '' '') (initScript cl tier)"
    using assms by (auto simp: initScript_def Let_def simp del: append.simps intro: sublist_appendI)
  ultimately show ?thesis by (rule sublist_order.order.trans)
qed

lemma sedExprs_empty_iff: "sedExprs cl tier = [] \<longleftrightarrow> buildPluginListenerConfig tier = ''''"
  by (auto simp: buildPluginListenerConfig_empty_iff sedExprs_def filter_empty_conv)

end
