(* ===== verification/Services.thy ===== *)
theory Services
  imports Naming
begin

text \<open>
  internal/controller/service.go and ingress.go: the headless and the client Service of a tier and
  its optional Ingress.
\<close>

section \<open>Definitions\<close>

definition servicePortOf :: "string \<Rightarrow> int32 \<Rightarrow> ServicePort" where
  "servicePortOf name port =
     \<lparr>sp_Name = name, sp_Protocol = ''TCP'', sp_Port = port, sp_TargetPort = FromInt32 port\<rparr>"

definition buildInterconnectService :: "PicoclusterDB \<Rightarrow> TierSpec \<Rightarrow> Service" where
  "buildInterconnectService cl tier =
     (let svc = spec_Service (cl_Spec cl);
          binaryPort = servicePort (sr_BinaryPort svc) 3301;
          pgPort = servicePort (sr_PgPort svc) 5432
      in \<lparr>sv_Meta = (new_meta (interconnectServiceName cl tier) (cl_Namespace cl))
                      \<lparr>om_Labels := tierLabels cl tier\<rparr>,
          sv_Spec = \<lparr>sv_ClusterIP = ''None'',
                     sv_Type = '''',
                     sv_PublishNotReadyAddresses = True,
                     sv_Selector = tierLabels cl tier,
                     sv_Ports = [servicePortOf ''binary'' binaryPort, servicePortOf ''pg'' pgPort]\<rparr>\<rparr>)"

text \<open>The ports that the plugin services of a tier add, in the order of the two nested loops.\<close>

definition pluginServicePorts :: "TierSpec \<Rightarrow> ServicePort list" where
  "pluginServicePorts tier =
     concat (map (\<lambda>plugin.
       map (\<lambda>svc. servicePortOf (pl_Name plugin @ ''-'' @ pl_SvcName svc) (pl_ListenerPort svc))
         (pl_Services plugin)) (tier_Plugins tier))"

definition buildClientService :: "PicoclusterDB \<Rightarrow> TierSpec \<Rightarrow> Service" where
  "buildClientService cl tier =
     (let svc = spec_Service (cl_Spec cl);
          binaryPort = servicePort (sr_BinaryPort svc) 3301;
          httpPort = servicePort (sr_HttpPort svc) 8081;
          pgPort = servicePort (sr_PgPort svc) 5432;
          svcType = (if sr_Type svc = '''' then ''ClusterIP'' else sr_Type svc);
          ports = [servicePortOf ''binary'' binaryPort, servicePortOf ''http'' httpPort,
                   servicePortOf ''pg'' pgPort] @ pluginServicePorts tier
      in \<lparr>sv_Meta = (new_meta (clientServiceName cl tier) (cl_Namespace cl))
                      \<lparr>om_Labels := tierLabels cl tier\<rparr>,
          sv_Spec = \<lparr>sv_ClusterIP = '''',
                     sv_Type = svcType,
                     sv_PublishNotReadyAddresses = False,
                     sv_Selector = tierLabels cl tier,
                     sv_Ports = ports\<rparr>\<rparr>)"

text \<open>\<open>buildIngress\<close>. The code dereferences \<open>tier.Ingress\<close>; a nil pointer panics.\<close>

definition buildIngress :: "PicoclusterDB \<Rightarrow> TierSpec \<Rightarrow> Ingress result" where
  "buildIngress cl tier =
     (case tier_Ingress tier of
        None \<Rightarrow> Panic ''invalid memory address or nil pointer dereference''
      | Some spec \<Rightarrow>
          (let svcName = clientServiceName cl tier;
               httpPort = servicePort (sr_HttpPort (spec_Service (cl_Spec cl))) 8081
           in Ok \<lparr>ig_Meta = (new_meta svcName (cl_Namespace cl))
                     \<lparr>om_Labels := tierLabels cl tier, om_Annotations := in_Annotations spec\<rparr>,
                  ig_Spec = \<lparr>ig_IngressClassName = in_IngressClassName spec,
                    ig_Rules = [\<lparr>ir_Host = in_Host spec,
                                 ir_Paths = [\<lparr>ip_Path = ''/'', ip_PathType = Some ''Prefix'',
                                              ip_ServiceName = svcName,
                                              ip_ServicePort = httpPort\<rparr>]\<rparr>],
                    ig_TLS = map (\<lambda>t. \<lparr>it_Hosts = ts_Hosts t, it_SecretName = ts_SecretName t\<rparr>)
                               (in_TLS spec)\<rparr>\<rparr>))"

section \<open>Properties\<close>

lemma meta_key_services [simp]:
  "meta_key (sv_Meta (buildInterconnectService cl tier)) =
     (cl_Namespace cl, interconnectServiceName cl tier)"
  "meta_key (sv_Meta (buildClientService cl tier)) = (cl_Namespace cl, clientServiceName cl tier)"
  by (simp_all add: buildInterconnectService_def buildClientService_def Let_def)

lemma service_selectors [simp]:
  "sv_Selector (sv_Spec (buildInterconnectService cl tier)) = tierLabels cl tier"
  "sv_Selector (sv_Spec (buildClientService cl tier)) = tierLabels cl tier"
  by (simp_all add: buildInterconnectService_def buildClientService_def Let_def)

lemma service_port_name_shape:
  "sp \<in> set (pluginServicePorts tier) \<longleftrightarrow>
   (\<exists>p \<in> set (tier_Plugins tier). \<exists>s \<in> set (pl_Services p).
      sp = servicePortOf (pl_Name p @ ''-'' @ pl_SvcName s) (pl_ListenerPort s))"
  by (auto simp: pluginServicePorts_def)

lemma service_ports_target:
  "sp \<in> set (sv_Ports (sv_Spec (buildClientService cl tier))) \<Longrightarrow> sp_TargetPort sp = FromInt32 (sp_Port sp)"
  by (auto simp: buildClientService_def Let_def servicePortOf_def pluginServicePorts_def)

text \<open>The Ingress routes to a port that the client Service of the same tier exposes.\<close>

lemma ingress_backend_exposed:
  assumes "buildIngress cl tier = Ok ing"
    and "rule \<in> set (ig_Rules (ig_Spec ing))" and "path \<in> set (ir_Paths rule)"
  shows "ip_ServiceName path = om_Name (sv_Meta (buildClientService cl tier)) \<and>
         (\<exists>sp \<in> set (sv_Ports (sv_Spec (buildClientService cl tier))). sp_Port sp = ip_ServicePort path)"
  using assms
  by (auto simp: buildIngress_def buildClientService_def Let_def servicePortOf_def split: option.splits)

lemma buildIngress_key:
  "buildIngress cl tier = Ok ing \<Longrightarrow> meta_key (ig_Meta ing) = (cl_Namespace cl, clientServiceName cl tier)"
  by (auto simp: buildIngress_def Let_def split: option.splits)

end
