(* ===== verification/Samples.thy ===== *)
theory Samples
  imports Api_Types
begin

text \<open>
  A small cluster on which the properties are instantiated: one storage tier of two replicasets with
  a plugin and an Ingress, and one router tier without plugins.
\<close>

definition sampleService :: PluginServiceSpec where
  "sampleService = \<lparr>pl_SvcName = ''kv'', pl_ListenerPort = 6379\<rparr>"

definition samplePlugin :: PluginSpec where
  "samplePlugin =
     \<lparr>pl_Name = ''radix'', pl_Version = ''0.9.0'',
      pl_MigrationContext = [(''tier_for_db_0'', ''storage'')],
      pl_Services = [sampleService]\<rparr>"

definition sampleIngress :: IngressSpec where
  "sampleIngress =
     \<lparr>in_Enabled = True, in_Host = ''pico.example.org'', in_IngressClassName = Some ''nginx'',
      in_Annotations = [(''team'', ''db'')],
      in_TLS = [\<lparr>ts_Hosts = [''pico.example.org''], ts_SecretName = ''pico-tls''\<rparr>]\<rparr>"

definition routerTier :: TierSpec where
  "routerTier =
     \<lparr>tier_Name = ''router'', tier_Replicas = 1, tier_ReplicationFactor = 1, tier_CanVote = False,
      tier_Storage = \<lparr>sg_Size = Quantity ''0'', sg_StorageClassName = None\<rparr>,
      tier_Memtx = \<lparr>mx_Memory = ''''\<rparr>, tier_Vinyl = \<lparr>vy_Memory = '''', vy_Cache = ''''\<rparr>,
      tier_Pg = \<lparr>pg_Enabled = True, pg_SSL = False\<rparr>,
      tier_Log = \<lparr>lg_Level = '''', lg_Format = '''', lg_Destination = None\<rparr>,
      tier_Resources = ResourceRequirements '''', tier_ShareDir = '''', tier_Plugins = [],
      tier_Env = [], tier_Affinity = None, tier_Tolerations = [], tier_NodeSelector = [],
      tier_TopologySpreadConstraints = [], tier_SecurityContext = None, tier_Ingress = None,
      tier_DisableAutoAntiAffinity = False\<rparr>"

definition storageTier :: TierSpec where
  "storageTier =
     routerTier\<lparr>tier_Name := ''storage'', tier_Replicas := 2, tier_ReplicationFactor := 2,
                tier_CanVote := True, tier_Plugins := [samplePlugin],
                tier_Ingress := Some sampleIngress\<rparr>"

text \<open>A tier whose user has set a pod anti-affinity of his own.\<close>

definition pinnedTier :: TierSpec where
  "pinnedTier =
     storageTier\<lparr>tier_Affinity := Some \<lparr>af_NodeAffinity = None, af_PodAffinity = None,
        af_PodAntiAffinity = Some \<lparr>pa_Required = [], pa_Preferred = []\<rparr>\<rparr>\<rparr>"

definition sampleSpec :: PicoclusterDBSpec where
  "sampleSpec =
     \<lparr>spec_Image = \<lparr>im_Repository = ''docker.io'', im_Tag = ''picodata:25.3'', im_PullPolicy = ''''\<rparr>,
      spec_ImagePullSecrets = [], spec_ClusterName = ''demo'',
      spec_AdminPassword = \<lparr>sk_SecretName = ''admin'', sk_Key = ''password''\<rparr>,
      spec_Cluster = \<lparr>cs_DefaultReplicationFactor = 0, cs_DefaultBucketCount = 0, cs_Shredding = False\<rparr>,
      spec_Tiers = [storageTier, routerTier],
      spec_Service = \<lparr>sr_Type = '''', sr_BinaryPort = 0, sr_HttpPort = 0, sr_PgPort = 0\<rparr>,
      spec_StartupProbe = None, spec_LivenessProbe = None, spec_ReadinessProbe = None\<rparr>"

definition sampleCluster :: PicoclusterDB where
  "sampleCluster =
     \<lparr>cl_TypeMeta = \<lparr>tm_Kind = ''PicoclusterDB'', tm_APIVersion = ''picodata.picodata.io/v1''\<rparr>,
      cl_Meta = new_meta ''pico'' ''prod'', cl_Spec = sampleSpec,
      cl_Status = \<lparr>cs_Phase = PhaseUnset, cs_Tiers = [], cs_Conditions = []\<rparr>\<rparr>"

text \<open>A cluster whose only tier is scaled to zero, with some plugins.\<close>

definition idleTier :: "PluginSpec list \<Rightarrow> TierSpec" where
  "idleTier ps = routerTier\<lparr>tier_Replicas := 0, tier_Plugins := ps\<rparr>"

definition idleCluster :: "PluginSpec list \<Rightarrow> PicoclusterDB" where
  "idleCluster ps = sampleCluster\<lparr>cl_Spec := sampleSpec\<lparr>spec_Tiers := [idleTier ps]\<rparr>\<rparr>"

lemmas sample_defs = sampleService_def samplePlugin_def sampleIngress_def routerTier_def
  storageTier_def pinnedTier_def sampleSpec_def sampleCluster_def

lemma sample_tiers [simp]: "cl_Tiers sampleCluster = [storageTier, routerTier]"
  by (simp add: sampleCluster_def sampleSpec_def)

lemma sample_names [simp]:
  "cl_Name sampleCluster = ''pico''" "cl_Namespace sampleCluster = ''prod''"
  "tier_Name storageTier = ''storage''" "tier_Name routerTier = ''router''"
  "tier_Replicas storageTier = 2" "tier_Replicas routerTier = 1"
  "tier_ReplicationFactor storageTier = 2" "tier_ReplicationFactor routerTier = 1"
  "tier_Plugins storageTier = [samplePlugin]" "tier_Plugins routerTier = []"
  by (simp_all add: sample_defs)

end
