(* ===== verification/Object_Properties.thy ===== *)
theory Object_Properties
  imports Stateful_Set Services Samples
begin

text \<open>
  Properties of the objects that the builders produce: names and selectors, ports, the rendered
  configuration and the script that completes it, volumes, security context and anti-affinity.
\<close>

text \<open>A heap with one affinity struct that points to an empty anti-affinity.\<close>

definition sampleHeap :: heap where
  "sampleHeap =
     \<lparr>h_affinity = [0 \<mapsto> emptyAffinityCell\<lparr>ac_PodAntiAffinity := Some 1\<rparr>],
      h_anti = [1 \<mapsto> emptyAntiAffinity], h_next = 2\<rparr>"

section \<open>Names and selectors\<close>

text \<open>Within one cluster, StatefulSet names with non-negative replicaset indices are equal only for
  the same tier name and the same index, so no two replicasets of a cluster share a StatefulSet.\<close>

lemma statefulSet_names_distinct:
  assumes "0 \<le> sint i" and "0 \<le> sint j"
  shows "statefulSetName cl t i = statefulSetName cl u j \<longleftrightarrow> tier_Name t = tier_Name u \<and> i = j"
  using assms by (rule statefulSetName_inject)

lemma statefulSet_names_distinct_witness:
  "0 \<le> sint (1 :: int32) \<and> 0 \<le> sint (2 :: int32) \<and>
   statefulSetName sampleCluster storageTier 1 \<noteq> statefulSetName sampleCluster storageTier 2"
  using statefulSet_names_distinct [of 1 2 sampleCluster storageTier storageTier] by simp

text \<open>Two clusters of one namespace can derive the same name: the ConfigMap and the client Service of
  tier a-b in cluster c have the names of those of tier a in cluster b-c.\<close>

lemma names_collide_across_clusters:
  "configMapName (sampleCluster\<lparr>cl_Meta := new_meta ''c'' ns\<rparr>) (storageTier\<lparr>tier_Name := ''a-b''\<rparr>) =
   configMapName (sampleCluster\<lparr>cl_Meta := new_meta ''b-c'' ns\<rparr>) (storageTier\<lparr>tier_Name := ''a''\<rparr>) \<and>
   clientServiceName (sampleCluster\<lparr>cl_Meta := new_meta ''c'' ns\<rparr>) (storageTier\<lparr>tier_Name := ''a-b''\<rparr>) =
   clientServiceName (sampleCluster\<lparr>cl_Meta := new_meta ''b-c'' ns\<rparr>) (storageTier\<lparr>tier_Name := ''a''\<rparr>)"
  by (simp add: configMapName_def clientServiceName_def)

text \<open>C34: The selector of a StatefulSet matches the labels of the pod template of another StatefulSet of
  the cluster exactly when both are the same replicaset of the same tier; the selectors of the
  headless and of the client Service match exactly the pods of their tier.\<close>

theorem selectors_match_own_pods:
  "(matches_labels (ss_Selector (st_Spec (built q cl t i cfg)))
      (om_Labels (pt_Meta (ss_Template (st_Spec (built q' cl u j cfg'))))) \<longleftrightarrow>
    tier_Name t = tier_Name u \<and> i = j) \<and>
   (matches_labels (sv_Selector (sv_Spec (buildInterconnectService cl t)))
      (om_Labels (pt_Meta (ss_Template (st_Spec (built q' cl u j cfg'))))) \<longleftrightarrow> tier_Name t = tier_Name u) \<and>
   (matches_labels (sv_Selector (sv_Spec (buildClientService cl t)))
      (om_Labels (pt_Meta (ss_Template (st_Spec (built q' cl u j cfg'))))) \<longleftrightarrow> tier_Name t = tier_Name u)"
  by (simp add: matches_replicaset_iff matches_tier_iff)

section \<open>Addresses and ports\<close>

text \<open>The peer address in every configuration file is the DNS name of pod 0 of the StatefulSet of
  replicaset 1 of the first tier, under the headless Service that this StatefulSet names, and its
  port is one that this Service exposes.\<close>

lemma peer_is_first_pod:
  "peerFQDN cl t0 =
     om_Name (st_Meta (built q cl t0 1 cfg)) @ ''-0.'' @ ss_ServiceName (st_Spec (built q cl t0 1 cfg)) @ ''.'' @
     cl_Namespace cl @ ''.svc.cluster.local:'' @
     fmt_d (sp_Port (hd (sv_Ports (sv_Spec (buildInterconnectService cl t0))))) \<and>
   ss_ServiceName (st_Spec (built q cl t0 1 cfg)) = om_Name (sv_Meta (buildInterconnectService cl t0))"
proof -
  have "fmt_d (1 :: int32) = ''1''"
    by code_simp
  then show ?thesis
    by (simp add: peerFQDN_def buildStatefulSet_unfold buildInterconnectService_def interconnectServiceName_def
        statefulSetName_def servicePortOf_def Let_def split_beta)
qed

text \<open>The ports of the container and of the client Service agree, name by name and number by number,
  in the same order, and every Service port targets the container port of the same number.\<close>

lemma container_and_service_ports_agree:
  "map (\<lambda>p. (cp_Name p, cp_ContainerPort p)) (containerPorts cl tier) =
   map (\<lambda>p. (sp_Name p, sp_Port p)) (sv_Ports (sv_Spec (buildClientService cl tier))) \<and>
   list_all (\<lambda>p. sp_TargetPort p = FromInt32 (sp_Port p)) (sv_Ports (sv_Spec (buildClientService cl tier)))"
  by (auto simp: containerPorts_def containerPort_def buildClientService_def pluginServicePorts_def
      servicePortOf_def Let_def map_concat list_all_iff comp_def)

text \<open>Every path of the Ingress of a tier routes to the client Service of that tier, on a port that the
  Service exposes.\<close>

lemma ingress_routes_to_service:
  assumes "buildIngress cl tier = Ok ing"
  shows "\<forall>rule \<in> set (ig_Rules (ig_Spec ing)). \<forall>path \<in> set (ir_Paths rule).
    ip_ServiceName path = om_Name (sv_Meta (buildClientService cl tier)) \<and>
    ip_ServicePort path \<in> sp_Port ` set (sv_Ports (sv_Spec (buildClientService cl tier)))"
  using ingress_backend_exposed [OF assms] by (intro ballI conjI) (blast, force)

lemma ingress_routes_to_service_witness:
  "\<exists>ing. buildIngress sampleCluster storageTier = Ok ing \<and> ig_Rules (ig_Spec ing) \<noteq> [] \<and>
     (\<forall>rule \<in> set (ig_Rules (ig_Spec ing)). \<forall>path \<in> set (ir_Paths rule).
        ip_ServiceName path = om_Name (sv_Meta (buildClientService sampleCluster storageTier)))"
proof -
  obtain ing where ing: "buildIngress sampleCluster storageTier = Ok ing" "ig_Rules (ig_Spec ing) \<noteq> []"
    by (simp add: buildIngress_def storageTier_def Let_def)
  with ingress_routes_to_service [OF ing(1)] show ?thesis by blast
qed

section \<open>Configuration\<close>

text \<open>C33: For every plugin service with a positive listener port the rendered configuration holds an
  advertise placeholder, and the init container's script holds a sed expression that replaces exactly
  that placeholder.\<close>

theorem placeholders_are_replaced:
  assumes "p \<in> set (tier_Plugins tier)" and "s \<in> set (pl_Services p)" and "0 < sint (pl_ListenerPort s)"
  shows "sublist (advertisePlaceholder (pl_Name p) (pl_SvcName s)) (configYAML cl tier t0) \<and>
    (\<exists>pre post. sedExpr cl tier (pl_Name p) s = pre @ advertisePlaceholder (pl_Name p) (pl_SvcName s) @ post) \<and>
    sublist (sedExpr cl tier (pl_Name p) s) (initScript cl tier)"
proof (intro conjI)
  show "sublist (advertisePlaceholder (pl_Name p) (pl_SvcName s)) (configYAML cl tier t0)"
    using placeholder_in_section [OF assms] section_in_configYAML by (rule sublist_order.order.trans)
  show "\<exists>pre post. sedExpr cl tier (pl_Name p) s = pre @ advertisePlaceholder (pl_Name p) (pl_SvcName s) @ post"
    unfolding sedExpr_def by (metis append.assoc)
  show "sublist (sedExpr cl tier (pl_Name p) s) (initScript cl tier)"
    using assms by (intro sedExpr_in_script) (auto simp: sedExprs_mem)
qed

theorem placeholders_are_replaced_witness:
  "sublist (advertisePlaceholder ''radix'' ''kv'') (configYAML sampleCluster storageTier storageTier) \<and>
   sublist (sedExpr sampleCluster storageTier ''radix'' sampleService) (initScript sampleCluster storageTier)"
  using placeholders_are_replaced [of samplePlugin storageTier sampleService sampleCluster storageTier]
  by (simp add: samplePlugin_def sampleService_def)

text \<open>The init container copies the configuration unchanged exactly when the configuration has no
  plugin section, so no placeholder is left over and none is looked for in vain.\<close>

lemma script_matches_section:
  "initScript cl tier = ''cp /etc/picodata-tpl/config.yaml /pico-conf-out/config.yaml'' \<longleftrightarrow>
   buildPluginListenerConfig tier = ''''"
  unfolding sedExprs_empty_iff [of cl tier, symmetric]
  by (auto simp: initScript_def Let_def configTemplatePath_def configOutDir_def)

text \<open>C36: With the PostgreSQL protocol disabled for a tier, the config.yaml that its ConfigMap carries says so
  and gives the loopback address, while the one container of its pods gets the variable
  PICODATA_PG_LISTEN exactly once, with all interfaces and the same port, unless the user sets it.\<close>

theorem pg_disabled_listens_anyway:
  assumes "\<not> pg_Enabled (tier_Pg tier)" and "buildConfigMap cl tier = Ok cm"
    and "''PICODATA_PG_LISTEN'' \<notin> ev_Name ` set (tier_Env tier)"
    and "port = fmt_d (servicePort (sr_PgPort (spec_Service (cl_Spec cl))) 5432)"
  shows "(\<exists>yaml. map_of (cm_Data cm) ''config.yaml'' = Some yaml \<and>
      sublist (''\<newline>  pgproto:\<newline>    enabled: false\<newline>    listen: 127.0.0.1:'' @ port @ ''\<newline>'') yaml) \<and>
    (\<exists>main. ps_Containers (pod_of (built q cl tier i cfg)) = [main] \<and>
      filter (\<lambda>e. ev_Name e = ''PICODATA_PG_LISTEN'') (co_Env main) =
        [valueEnv ''PICODATA_PG_LISTEN'' (''0.0.0.0:'' @ port)])"
proof
  obtain t0 where yaml: "map_of (cm_Data cm) ''config.yaml'' = Some (configYAML cl tier t0)"
    using assms(2) by (auto simp: buildConfigMap_def split: list.splits)
  have "''\<newline>  pgproto:\<newline>    enabled: false\<newline>    listen: 127.0.0.1:'' @ port @ ''\<newline>'' =
      ''\<newline>  pgproto:\<newline>    enabled: '' @ fmt_v False @ ''\<newline>    listen: '' @ pgListen cl tier @ ''\<newline>''"
    using assms(1,4) by (simp add: pgListen_def fmt_v_def)
  with pgproto_in_configYAML [of tier cl t0] assms(1)
  have "sublist (''\<newline>  pgproto:\<newline>    enabled: false\<newline>    listen: 127.0.0.1:'' @ port @ ''\<newline>'')
      (configYAML cl tier t0)" by (simp only: refl)
  with yaml show "\<exists>yaml. map_of (cm_Data cm) ''config.yaml'' = Some yaml \<and>
      sublist (''\<newline>  pgproto:\<newline>    enabled: false\<newline>    listen: 127.0.0.1:'' @ port @ ''\<newline>'') yaml" by blast
next
  have "filter (\<lambda>e. ev_Name e = ''PICODATA_PG_LISTEN'') (tier_Env tier) = []"
    using assms(3) by (force simp: filter_empty_conv)
  moreover have "filter (\<lambda>e. ev_Name e = ''PICODATA_PG_LISTEN'') (baseEnv cl tier i) =
      [valueEnv ''PICODATA_PG_LISTEN'' (''0.0.0.0:'' @ port)]"
    by (simp add: baseEnv_def Let_def assms(4) fieldEnv_def valueEnv_def)
  ultimately show "\<exists>main. ps_Containers (pod_of (built q cl tier i cfg)) = [main] \<and>
      filter (\<lambda>e. ev_Name e = ''PICODATA_PG_LISTEN'') (co_Env main) =
        [valueEnv ''PICODATA_PG_LISTEN'' (''0.0.0.0:'' @ port)]"
    by (simp add: buildStatefulSet_unfold mainContainer_def Let_def split_beta)
qed

theorem pg_disabled_listens_anyway_witness:
  "\<exists>cm yaml. buildConfigMap sampleCluster (routerTier\<lparr>tier_Pg := \<lparr>pg_Enabled = False, pg_SSL = False\<rparr>\<rparr>) = Ok cm \<and>
     map_of (cm_Data cm) ''config.yaml'' = Some yaml \<and>
     sublist (''\<newline>  pgproto:\<newline>    enabled: false\<newline>    listen: 127.0.0.1:'' @ fmt_d 5432 @ ''\<newline>'') yaml"
proof -
  let ?t = "routerTier\<lparr>tier_Pg := \<lparr>pg_Enabled = False, pg_SSL = False\<rparr>\<rparr>"
  have off: "\<not> pg_Enabled (tier_Pg ?t)" "''PICODATA_PG_LISTEN'' \<notin> ev_Name ` set (tier_Env ?t)"
    by (simp_all add: routerTier_def)
  have port: "fmt_d 5432 = fmt_d (servicePort (sr_PgPort (spec_Service (cl_Spec sampleCluster))) 5432)"
    by (simp add: sampleCluster_def sampleSpec_def servicePort_def)
  obtain cm where cm: "buildConfigMap sampleCluster ?t = Ok cm" by (simp add: buildConfigMap_def)
  from pg_disabled_listens_anyway [OF off(1) cm off(2) port] cm show ?thesis by blast
qed

section \<open>Pods\<close>

text \<open>C35: Every volume mount of both containers of a pod names a volume of the pod or a volume claim of the
  StatefulSet, the config volume is backed by the ConfigMap of the tier, and the checksum annotation
  is the hash of the configuration the builder was given.\<close>

theorem pod_mounts_resolve:
  "vm_Name ` set (concat (map co_VolumeMounts
      (ps_InitContainers (pod_of (built q cl tier i cfg)) @ ps_Containers (pod_of (built q cl tier i cfg))))) \<subseteq>
     vo_Name ` set (ps_Volumes (pod_of (built q cl tier i cfg))) \<union>
     (om_Name \<circ> pv_Meta) ` set (ss_VolumeClaimTemplates (st_Spec (built q cl tier i cfg))) \<and>
   vo_Source (hd (ps_Volumes (pod_of (built q cl tier i cfg)))) =
     ConfigMapVolume (configMapName cl tier) [(''config.yaml'', ''config.yaml'')] \<and>
   map_of (om_Annotations (pt_Meta (ss_Template (st_Spec (built q cl tier i cfg))))) ''checksum/config'' =
     Some (configHash cfg) \<and> length (configHash cfg) = 16"
  by (simp add: buildStatefulSet_unfold Let_def split_beta mainContainer_def buildConfigInitContainer_def
      podVolumes_def length_configHash)

text \<open>The pod always runs with an fsGroup: the user's when he has set one, else 1000. The builder writes
  the default through the tier's pointer, and a second build from the mutated tier gives the same
  security context.\<close>

lemma pod_security_context:
  "ps_SecurityContext (pod_of (built q cl tier i cfg)) = Some (fst (podSecurityContext (tier_SecurityContext tier))) \<and>
   sc_FSGroup (fst (podSecurityContext (tier_SecurityContext tier))) =
     (case tier_SecurityContext tier of None \<Rightarrow> Some 1000
      | Some c \<Rightarrow> (case sc_FSGroup c of None \<Rightarrow> Some 1000 | Some g \<Rightarrow> Some g)) \<and>
   ps_SecurityContext (pod_of (built q cl (after_build q cl tier i cfg) j cfg)) =
     ps_SecurityContext (pod_of (built q cl tier i cfg))"
proof -
  have field: "ps_SecurityContext (pod_of (built q cl t k cfg)) =
      Some (fst (podSecurityContext (tier_SecurityContext t)))" for t k
    by (simp add: buildStatefulSet_unfold Let_def split_beta)
  show ?thesis
    unfolding field after_build_eq
    by (auto simp: podSecurityContext_idem, simp add: podSecurityContext_def Let_def split: option.split)
qed

section \<open>Anti-affinity\<close>

text \<open>C22: When the user has set no pod anti-affinity and has not disabled the automatic one, the pods of each
  replicaset carry exactly one required term, the one that keeps pods of the same replicaset on different
  hosts, whatever the replication factor: also where a replicaset has one pod only.\<close>

theorem antiaffinity_own_replicaset_only:
  assumes "\<not> tier_DisableAutoAntiAffinity tier" and "\<not> has_anti (tier_Affinity tier)"
  shows "map pod_terms (fst (build_seq q cl cfg idxs tier)) =
         map (\<lambda>i. [replicasetTerm (replicasetLabels cl tier i)]) idxs"
  using assms by (rule build_seq_terms_fresh)

theorem antiaffinity_own_replicaset_only_witness:
  "\<not> tier_DisableAutoAntiAffinity storageTier \<and> \<not> has_anti (tier_Affinity storageTier) \<and>
   (\<forall>q cfg. map pod_terms (fst (build_seq q sampleCluster cfg [1, 2] storageTier)) =
      [[replicasetTerm (replicasetLabels sampleCluster storageTier 1)],
       [replicasetTerm (replicasetLabels sampleCluster storageTier 2)]])"
proof -
  have hyps: "\<not> tier_DisableAutoAntiAffinity storageTier" "\<not> has_anti (tier_Affinity storageTier)"
    by (simp_all add: storageTier_def routerTier_def has_anti_def)
  from hyps antiaffinity_own_replicaset_only [OF hyps, where cl = sampleCluster and idxs = "[1, 2]"]
  show ?thesis by simp
qed

text \<open>C23: When the user has set a pod anti-affinity, each replicaset's pods also carry the terms of all the
  replicasets built before it, because the merge appends to the struct that the tier's own pointer
  shares.\<close>

theorem antiaffinity_accumulates:
  assumes "\<not> tier_DisableAutoAntiAffinity tier" and "has_anti (tier_Affinity tier)"
  shows "map pod_terms (fst (build_seq q cl cfg idxs tier)) =
         accumulated (required_terms (tier_Affinity tier))
           (map (\<lambda>i. replicasetTerm (replicasetLabels cl tier i)) idxs)"
  using assms by (rule build_seq_terms_aliased)

theorem antiaffinity_accumulates_witness:
  "\<not> tier_DisableAutoAntiAffinity pinnedTier \<and> has_anti (tier_Affinity pinnedTier) \<and>
   (\<forall>q cfg. map pod_terms (fst (build_seq q sampleCluster cfg [1, 2] pinnedTier)) =
      [[replicasetTerm (replicasetLabels sampleCluster pinnedTier 1)],
       [replicasetTerm (replicasetLabels sampleCluster pinnedTier 1),
        replicasetTerm (replicasetLabels sampleCluster pinnedTier 2)]])"
proof -
  have hyps: "\<not> tier_DisableAutoAntiAffinity pinnedTier" "has_anti (tier_Affinity pinnedTier)"
    by (simp_all add: pinnedTier_def storageTier_def routerTier_def has_anti_def)
  moreover have "required_terms (tier_Affinity pinnedTier) = []"
    by (simp add: pinnedTier_def required_terms_def)
  ultimately show ?thesis
    using antiaffinity_accumulates [OF hyps, where cl = sampleCluster and idxs = "[1, 2]"] by simp
qed

text \<open>C24: The pointer-level merge refines the value-level one: from a well-formed heap it returns a fresh
  struct that reads as the merged affinity, and the user's own struct reads afterwards as the
  value-level function says, changed exactly when it held an anti-affinity pointer.\<close>

theorem merge_ptr_refines:
  assumes "heap_ok h" and "read_affinity h b = Some v"
  shows "\<exists>a h'. mergeReplicasetAntiAffinity_ptr (Some b) ls h = Some (a, h') \<and> a \<noteq> b \<and>
    read_affinity h' a = Some (fst (mergeReplicasetAntiAffinity (Some v) ls)) \<and>
    read_affinity h' b = snd (mergeReplicasetAntiAffinity (Some v) ls) \<and>
    (read_affinity h' b = Some v \<longleftrightarrow> \<not> has_anti (Some v))"
proof -
  have "snd (mergeReplicasetAntiAffinity (Some v) ls) = Some v \<longleftrightarrow> \<not> has_anti (Some v)"
  proof
    assume same: "snd (mergeReplicasetAntiAffinity (Some v) ls) = Some v"
    show "\<not> has_anti (Some v)"
    proof
      assume "has_anti (Some v)"
      with same have "fst (mergeReplicasetAntiAffinity (Some v) ls) = v" by (simp add: merge_base_aliased)
      with merge_required [of "Some v" ls] show False by simp
    qed
  qed (rule merge_base_kept)
  with merge_ptr_base [OF assms, of ls] show ?thesis by metis
qed

theorem merge_ptr_refines_witness:
  "heap_ok sampleHeap \<and>
   (\<exists>a h'. mergeReplicasetAntiAffinity_ptr (Some 0) [] sampleHeap = Some (a, h') \<and> a \<noteq> 0 \<and>
      read_affinity h' 0 \<noteq> read_affinity sampleHeap 0)"
proof -
  have ok: "heap_ok sampleHeap" by (simp add: heap_ok_def sampleHeap_def)
  have read: "read_affinity sampleHeap 0 = Some (emptyAffinity\<lparr>af_PodAntiAffinity := Some emptyAntiAffinity\<rparr>)"
    by (simp add: read_affinity_def sampleHeap_def emptyAffinityCell_def emptyAffinity_def)
  show ?thesis
    using merge_ptr_refines [OF ok read, of "[]"] ok read by (auto simp: has_anti_def)
qed

end
