(* ===== verification/Reconciler.thy ===== *)
theory Reconciler
  imports Stateful_Set Services
begin

text \<open>
  The reconciler's collaborators and the resource reconcilers of
  internal/controller/picoclusterdb_controller.go.

  \<open>PicoclusterDBReconciler\<close> embeds controller-runtime's client and opens connections with pgx:
  code that is not in the repository. The record \<open>Reconciler\<close> is the interface, one field per
  call that the sources make, over an arbitrary state \<open>'s\<close> of the world (the API server, the
  database, the clock). \<open>rc_Quantity\<close> is apimachinery's quantity type, \<open>rc_FoldClass\<close> the folding table of
  the \<open>unicode\<close> package (see \<open>EqualFold\<close>). Nothing is assumed of a field where a theorem does not say so: a call may
  fail, may change the world in any way, and may never return.
\<close>

section \<open>The interface to the world\<close>

type_synonym conn = nat

text \<open>The rows of a query, each with the outcome of \<open>rows.Scan\<close>, and \<open>rows.Err()\<close> at the end.\<close>

record 'r Rows =
  rw_Rows :: "(error + 'r) list"
  rw_Err :: "error option"

record 's Reconciler =
  rc_GetPicocluster :: "key \<Rightarrow> ('s, PicoclusterDB) go"
  rc_GetConfigMap :: "key \<Rightarrow> ('s, ConfigMap) go"
  rc_CreateConfigMap :: "ConfigMap \<Rightarrow> ('s, unit) go"
  rc_PatchConfigMap :: "ConfigMap \<Rightarrow> ConfigMap \<Rightarrow> ('s, unit) go"
  rc_GetService :: "key \<Rightarrow> ('s, Service) go"
  rc_CreateService :: "Service \<Rightarrow> ('s, unit) go"
  rc_PatchService :: "Service \<Rightarrow> Service \<Rightarrow> ('s, unit) go"
  rc_GetIngress :: "key \<Rightarrow> ('s, Ingress) go"
  rc_CreateIngress :: "Ingress \<Rightarrow> ('s, unit) go"
  rc_PatchIngress :: "Ingress \<Rightarrow> Ingress \<Rightarrow> ('s, unit) go"
  rc_GetStatefulSet :: "key \<Rightarrow> ('s, StatefulSet) go"
  rc_CreateStatefulSet :: "StatefulSet \<Rightarrow> ('s, unit) go"
  rc_PatchStatefulSet :: "StatefulSet \<Rightarrow> StatefulSet \<Rightarrow> ('s, unit) go"
  rc_ListStatefulSets :: "string \<Rightarrow> labels \<Rightarrow> ('s, StatefulSet list) go"
  rc_DeleteStatefulSet :: "StatefulSet \<Rightarrow> ('s, unit) go"
  rc_GetSecret :: "key \<Rightarrow> ('s, Secret) go"
  rc_PatchStatus :: "PicoclusterDB \<Rightarrow> PicoclusterDB \<Rightarrow> ('s, unit) go"
  rc_SetControllerReference :: "PicoclusterDB \<Rightarrow> ObjectMeta \<Rightarrow> ObjectMeta result"
  rc_Now :: "('s, time) go"
  rc_Quantity :: QuantityLib
  rc_FoldClass :: "nat \<Rightarrow> nat"
  rc_Connect :: "string \<Rightarrow> ('s, conn) go"
  rc_Close :: "conn \<Rightarrow> ('s, unit) go"
  rc_Exec :: "conn \<Rightarrow> string \<Rightarrow> ('s, unit) go"
  rc_QueryEnabled :: "conn \<Rightarrow> string \<Rightarrow> ('s, bool Rows) go"
  rc_QueryServices :: "conn \<Rightarrow> string \<Rightarrow> ('s, (string \<times> string) Rows) go"
  rc_QueryPlugins :: "conn \<Rightarrow> string \<Rightarrow> ('s, (string \<times> string \<times> bool) Rows) go"

section \<open>Resource reconcilers\<close>

text \<open>
  What each reconciler overwrites in an object that exists. \<open>client.MergeFrom(existing.DeepCopy())\<close>
  keeps the object as read; the patch call gets that object and the changed one.
\<close>

definition mergeConfigMap :: "ConfigMap \<Rightarrow> ConfigMap \<Rightarrow> ConfigMap" where
  "mergeConfigMap existing desired =
     existing\<lparr>cm_Data := cm_Data desired,
              cm_Meta := (cm_Meta existing)\<lparr>om_Labels := om_Labels (cm_Meta desired)\<rparr>\<rparr>"

definition mergeService :: "Service \<Rightarrow> Service \<Rightarrow> Service" where
  "mergeService existing desired =
     existing\<lparr>sv_Spec := (sv_Spec existing)\<lparr>sv_Ports := sv_Ports (sv_Spec desired),
                                            sv_Selector := sv_Selector (sv_Spec desired)\<rparr>,
              sv_Meta := (sv_Meta existing)\<lparr>om_Labels := om_Labels (sv_Meta desired)\<rparr>\<rparr>"

definition mergeIngress :: "Ingress \<Rightarrow> Ingress \<Rightarrow> Ingress" where
  "mergeIngress existing desired =
     existing\<lparr>ig_Spec := ig_Spec desired,
              ig_Meta := (ig_Meta existing)\<lparr>om_Annotations := om_Annotations (ig_Meta desired),
                                            om_Labels := om_Labels (ig_Meta desired)\<rparr>\<rparr>"

definition mergeStatefulSet :: "StatefulSet \<Rightarrow> StatefulSet \<Rightarrow> StatefulSet" where
  "mergeStatefulSet existing desired =
     existing\<lparr>st_Spec := (st_Spec existing)\<lparr>ss_Replicas := ss_Replicas (st_Spec desired),
                                            ss_Template := ss_Template (st_Spec desired)\<rparr>,
              st_Meta := (st_Meta existing)\<lparr>om_Labels := om_Labels (st_Meta desired)\<rparr>\<rparr>"

definition reconcileConfigMap :: "'s Reconciler \<Rightarrow> ConfigMap \<Rightarrow> ('s, unit) go" where
  "reconcileConfigMap r desired =
     bindG (tryG (rc_GetConfigMap r (meta_key (cm_Meta desired)))) (\<lambda>got. case got of
         Inl err \<Rightarrow> if IsNotFound err then rc_CreateConfigMap r desired else failG err
       | Inr existing \<Rightarrow> rc_PatchConfigMap r existing (mergeConfigMap existing desired))"

definition reconcileService :: "'s Reconciler \<Rightarrow> Service \<Rightarrow> ('s, unit) go" where
  "reconcileService r desired =
     bindG (tryG (rc_GetService r (meta_key (sv_Meta desired)))) (\<lambda>got. case got of
         Inl err \<Rightarrow> if IsNotFound err then rc_CreateService r desired else failG err
       | Inr existing \<Rightarrow> rc_PatchService r existing (mergeService existing desired))"

definition reconcileIngress :: "'s Reconciler \<Rightarrow> Ingress \<Rightarrow> ('s, unit) go" where
  "reconcileIngress r desired =
     bindG (tryG (rc_GetIngress r (meta_key (ig_Meta desired)))) (\<lambda>got. case got of
         Inl err \<Rightarrow> if IsNotFound err then rc_CreateIngress r desired else failG err
       | Inr existing \<Rightarrow> rc_PatchIngress r existing (mergeIngress existing desired))"

definition reconcileStatefulSet :: "'s Reconciler \<Rightarrow> StatefulSet \<Rightarrow> ('s, unit) go" where
  "reconcileStatefulSet r desired =
     bindG (tryG (rc_GetStatefulSet r (meta_key (st_Meta desired)))) (\<lambda>got. case got of
         Inl err \<Rightarrow> if IsNotFound err then rc_CreateStatefulSet r desired else failG err
       | Inr existing \<Rightarrow> rc_PatchStatefulSet r existing (mergeStatefulSet existing desired))"

section \<open>Scale down\<close>

text \<open>Whether the loop of \<open>deleteExtraStatefulSets\<close> deletes an item of the list.\<close>

definition isExtra :: "TierSpec \<Rightarrow> StatefulSet \<Rightarrow> bool" where
  "isExtra tier sts =
     (case map_of (om_Labels (st_Meta sts)) replicasetLabel of
        None \<Rightarrow> False
      | Some rsStr \<Rightarrow>
          (case ParseInt32 rsStr of
             None \<Rightarrow> False
           | Some rsIndex \<Rightarrow> sint (word_of_int rsIndex :: int32) > sint (tier_Replicas tier)))"

definition deleteExtraStatefulSets ::
  "'s Reconciler \<Rightarrow> PicoclusterDB \<Rightarrow> TierSpec \<Rightarrow> ('s, unit) go" where
  "deleteExtraStatefulSets r cl tier =
     bindG (rc_ListStatefulSets r (cl_Namespace cl) (tierLabels cl tier)) (\<lambda>items.
       forG (\<lambda>sts. if isExtra tier sts then ignoreNotFoundG (rc_DeleteStatefulSet r sts)
                   else returnG ()) items)"

section \<open>Status\<close>

definition desiredPods :: "TierSpec \<Rightarrow> int32" where
  "desiredPods tier = tier_Replicas tier * tier_ReplicationFactor tier"

definition readyPods :: "StatefulSet list \<Rightarrow> int32" where
  "readyPods items = foldl (\<lambda>acc sts. acc + st_ReadyReplicas sts) 0 items"

definition tierStatus ::
  "'s Reconciler \<Rightarrow> PicoclusterDB \<Rightarrow> TierSpec \<Rightarrow> ('s, TierStatus \<times> bool) go" where
  "tierStatus r cl tier =
     bindG (rc_ListStatefulSets r (cl_Namespace cl) (tierLabels cl tier)) (\<lambda>items.
       returnG (\<lparr>tt_Name = tier_Name tier, tt_ReadyReplicas = readyPods items,
                 tt_DesiredReplicas = desiredPods tier, tt_Plugins = []\<rparr>,
                sint (desiredPods tier) \<le> sint (readyPods items)))"

definition readyCondition :: "Condition list \<Rightarrow> nat \<Rightarrow> bool \<Rightarrow> time \<Rightarrow> Condition" where
  "readyCondition old n allReady now =
     (let condStatus = (if allReady then ConditionTrue else ConditionFalse);
          cond = \<lparr>cd_Type = ConditionReady, cd_Status = condStatus,
                  cd_Reason = (if allReady then ''AllTiersReady'' else ''TiersNotReady''),
                  cd_Message = (if allReady then ''All '' @ nat_text n @ '' tier(s) are ready''
                                else ''One or more tiers are not yet ready''),
                  cd_LastTransitionTime = now\<rparr>
      in case find (\<lambda>c. cd_Type c = ConditionReady \<and> cd_Status c = condStatus) old of
           None \<Rightarrow> cond
         | Some c \<Rightarrow> cond\<lparr>cd_LastTransitionTime := cd_LastTransitionTime c\<rparr>)"

definition newStatus :: "PicoclusterDB \<Rightarrow> TierStatus list \<Rightarrow> bool \<Rightarrow> time \<Rightarrow> PicoclusterDBStatus" where
  "newStatus cl tiers allReady now =
     \<lparr>cs_Phase = (if allReady then ClusterPhaseReady else ClusterPhaseInitializing),
      cs_Tiers = tiers,
      cs_Conditions = [readyCondition (cs_Conditions (cl_Status cl)) (length tiers) allReady now]\<rparr>"

definition updateStatus ::
  "'s Reconciler \<Rightarrow> PicoclusterDB \<Rightarrow> TierStatus list \<Rightarrow> bool \<Rightarrow> ('s, unit) go" where
  "updateStatus r cl tiers allReady =
     bindG (rc_Now r) (\<lambda>now.
       rc_PatchStatus r cl (cl\<lparr>cl_Status := newStatus cl tiers allReady now\<rparr>))"

section \<open>Counting pods\<close>

lemma sint_add32:
  assumes "- 2147483648 \<le> sint (v :: int32) + sint w" "sint v + sint w \<le> 2147483647"
  shows "sint (v + w) = sint v + sint w"
proof -
  have "v + w = word_of_int (sint v + sint w)" by simp
  then show ?thesis using assms by (simp only: sint_word_of_int32)
qed

lemma readyPods_from:
  assumes "\<forall>st \<in> set items. 0 \<le> sint (st_ReadyReplicas st)"
    and "0 \<le> sint acc" "sint acc + (\<Sum>st\<leftarrow>items. sint (st_ReadyReplicas st)) \<le> 2147483647"
  shows "sint (foldl (\<lambda>acc sts. acc + st_ReadyReplicas sts) acc items) =
    sint acc + (\<Sum>st\<leftarrow>items. sint (st_ReadyReplicas st))"
  using assms
proof (induction items arbitrary: acc)
  case (Cons st items)
  have nonneg: "0 \<le> (\<Sum>st\<leftarrow>items. sint (st_ReadyReplicas st))"
    using Cons.prems(1) by (intro sum_list_nonneg) auto
  have "sint (acc + st_ReadyReplicas st) = sint acc + sint (st_ReadyReplicas st)"
    using Cons.prems nonneg by (intro sint_add32) simp_all
  with Cons.IH [of "acc + st_ReadyReplicas st"] Cons.prems nonneg show ?case by simp
qed simp

lemma readyPods_exact:
  assumes "\<forall>st \<in> set items. 0 \<le> sint (st_ReadyReplicas st)"
    and "(\<Sum>st\<leftarrow>items. sint (st_ReadyReplicas st)) \<le> 2147483647"
  shows "sint (readyPods items) = (\<Sum>st\<leftarrow>items. sint (st_ReadyReplicas st))"
  using readyPods_from [OF assms(1), of 0] assms(2) by (simp add: readyPods_def)

lemma desiredPods_exact:
  assumes "0 \<le> sint (tier_Replicas tier)" "0 \<le> sint (tier_ReplicationFactor tier)"
    and "sint (tier_Replicas tier) * sint (tier_ReplicationFactor tier) \<le> 2147483647"
  shows "sint (desiredPods tier) = sint (tier_Replicas tier) * sint (tier_ReplicationFactor tier)"
proof -
  have "desiredPods tier = word_of_int (sint (tier_Replicas tier) * sint (tier_ReplicationFactor tier))"
    by (simp add: desiredPods_def)
  moreover have "- 2147483648 \<le> sint (tier_Replicas tier) * sint (tier_ReplicationFactor tier)"
    using assms(1,2) mult_nonneg_nonneg [OF assms(1,2)] by linarith
  ultimately show ?thesis using assms(3) by (simp only: sint_word_of_int32)
qed

end
