(* ===== verification/Unicode.thy ===== *)
theory Unicode
  imports Prelude
begin

text \<open>
  Text as Go sees it: a string is a sequence of bytes, and ranging over it decodes UTF-8, with U+FFFD for
  every byte that is not part of a well-formed encoding. \<open>utf8.DecodeRune\<close>, \<open>utf8.AppendRune\<close> and
  \<open>strings.EqualFold\<close>; that decoding undoes encoding is \<open>runes_text\<close>.
\<close>

section \<open>Encoding\<close>

definition utf8 :: "nat \<Rightarrow> string" where
  "utf8 n =
     map char_of
       (if n < 128 then [n]
        else if n < 2048 then [192 + n div 64, 128 + n mod 64]
        else if n < 65536 then [224 + n div 4096, 128 + n div 64 mod 64, 128 + n mod 64]
        else [240 + n div 262144, 128 + n div 4096 mod 64, 128 + n div 64 mod 64, 128 + n mod 64])"

abbreviation RuneError :: nat where
  "RuneError \<equiv> 65533"

text \<open>The code points that have an encoding.\<close>

definition scalar :: "nat \<Rightarrow> bool" where
  "scalar n \<longleftrightarrow> n < 55296 \<or> 57344 \<le> n \<and> n < 1114112"

definition text_of :: "nat list \<Rightarrow> string" where
  "text_of rs = concat (map utf8 rs)"

section \<open>Decoding\<close>

text \<open>
  The first code point of a sequence of bytes and the number of its bytes. Overlong forms, surrogates and
  values beyond U+10FFFF are not well formed: the second byte has a smaller range after some first bytes.
\<close>

definition is_cont :: "nat \<Rightarrow> bool" where
  "is_cont b \<longleftrightarrow> 128 \<le> b \<and> b \<le> 191"

definition decode_bytes :: "nat list \<Rightarrow> nat \<times> nat" where
  "decode_bytes bs =
     (case bs of
        [] \<Rightarrow> (RuneError, 0)
      | a # r \<Rightarrow>
          if a < 128 then (a, 1)
          else if 194 \<le> a \<and> a \<le> 223 then
            (case r of
               b # _ \<Rightarrow> if is_cont b then ((a - 192) * 64 + (b - 128), 2) else (RuneError, 1)
             | _ \<Rightarrow> (RuneError, 1))
          else if 224 \<le> a \<and> a \<le> 239 then
            (case r of
               b # c # _ \<Rightarrow>
                 if is_cont b \<and> is_cont c \<and> (a = 224 \<longrightarrow> 160 \<le> b) \<and> (a = 237 \<longrightarrow> b \<le> 159)
                 then ((a - 224) * 4096 + (b - 128) * 64 + (c - 128), 3) else (RuneError, 1)
             | _ \<Rightarrow> (RuneError, 1))
          else if 240 \<le> a \<and> a \<le> 244 then
            (case r of
               b # c # d # _ \<Rightarrow>
                 if is_cont b \<and> is_cont c \<and> is_cont d \<and> (a = 240 \<longrightarrow> 144 \<le> b) \<and> (a = 244 \<longrightarrow> b \<le> 143)
                 then ((a - 240) * 262144 + (b - 128) * 4096 + (c - 128) * 64 + (d - 128), 4) else (RuneError, 1)
             | _ \<Rightarrow> (RuneError, 1))
          else (RuneError, 1))"

definition DecodeRune :: "string \<Rightarrow> nat \<times> nat" where
  "DecodeRune s = decode_bytes (map of_char s)"

text \<open>\<open>for _, r := range s\<close>: the code points of a text.\<close>

function runes :: "string \<Rightarrow> nat list" where
  "runes [] = []"
| "runes (c # cs) = (let (r, n) = DecodeRune (c # cs) in r # runes (drop (n - 1) cs))"
  by pat_completeness auto
termination
  by (relation "measure length") auto

declare runes.simps(2) [simp del]

section \<open>Decoding undoes encoding\<close>

lemma of_char_byte [simp]: "n < 256 \<Longrightarrow> (of_char (char_of n :: char) :: nat) = n"
  by simp

lemma is_cont_add [simp]: "is_cont (128 + y) \<longleftrightarrow> y < 64"
  by (auto simp: is_cont_def)

lemma decode_more:
  assumes "y < 64" "z < 64" "v < 64"
  shows "2 \<le> x \<Longrightarrow> x \<le> 31 \<Longrightarrow> decode_bytes ((192 + x) # (128 + y) # r) = (x * 64 + y, 2)"
    and "x \<le> 15 \<Longrightarrow> (x = 0 \<Longrightarrow> 32 \<le> y) \<Longrightarrow> (x = 13 \<Longrightarrow> y \<le> 31) \<Longrightarrow>
      decode_bytes ((224 + x) # (128 + y) # (128 + z) # r) = (x * 4096 + y * 64 + z, 3)"
    and "x \<le> 4 \<Longrightarrow> (x = 0 \<Longrightarrow> 16 \<le> y) \<Longrightarrow> (x = 4 \<Longrightarrow> y \<le> 15) \<Longrightarrow>
      decode_bytes ((240 + x) # (128 + y) # (128 + z) # (128 + v) # r) = (x * 262144 + y * 4096 + z * 64 + v, 4)"
  using assms by (auto simp: decode_bytes_def)

lemma utf8_bytes:
  assumes "scalar n"
  shows "map of_char (utf8 n) =
       (if n < 128 then [n]
        else if n < 2048 then [192 + n div 64, 128 + n mod 64]
        else if n < 65536 then [224 + n div 4096, 128 + n div 64 mod 64, 128 + n mod 64]
        else [240 + n div 262144, 128 + n div 4096 mod 64, 128 + n div 64 mod 64, 128 + n mod (64 :: nat)])"
proof -
  have "n < 1114112" using assms by (auto simp: scalar_def)
  moreover have "n div 64 < 32" if "n < 2048" using that by simp
  moreover have "n div 4096 < 16" if "n < 65536" using that by simp
  ultimately show ?thesis unfolding utf8_def by simp
qed

lemma split3: "(n :: nat) = n div 4096 * 4096 + n div 64 mod 64 * 64 + n mod 64"
proof -
  have "n div 4096 = n div 64 div 64" using div_mult2_eq [of n 64 64] by simp
  with div_mult_mod_eq [of n 64] div_mult_mod_eq [of "n div 64" 64] show ?thesis by linarith
qed

lemma split4: "(n :: nat) = n div 262144 * 262144 + n div 4096 mod 64 * 4096 + n div 64 mod 64 * 64 + n mod 64"
proof -
  have "n div 262144 = n div 4096 div 64" using div_mult2_eq [of n 4096 64] by simp
  with split3 [of n] div_mult_mod_eq [of "n div 4096" 64] show ?thesis by linarith
qed

lemma decode_utf8:
  assumes "scalar n"
  shows "DecodeRune (utf8 n @ s) = (n, length (utf8 n))"
proof -
  note bytes = utf8_bytes [OF assms]
  have mod: "m mod 64 < 64" for m :: nat by simp
  consider (one) "n < 128" | (two) "128 \<le> n" "n < 2048" | (three) "2048 \<le> n" "n < 65536" | (four) "65536 \<le> n"
    by linarith
  then show ?thesis
  proof cases
    case one
    then show ?thesis by (simp add: DecodeRune_def utf8_def decode_bytes_def)
  next
    case two
    then have "2 \<le> n div 64" "n div 64 \<le> 31" by auto
    then have "decode_bytes ((192 + n div 64) # (128 + n mod 64) # map of_char s) = (n div 64 * 64 + n mod 64, 2)"
      by (rule decode_more(1) [OF mod mod mod])
    moreover have "length (utf8 n) = 2" using two by (simp add: utf8_def)
    ultimately show ?thesis using two by (simp add: DecodeRune_def bytes)
  next
    case three
    define x y z where d: "x = n div 4096" "y = n div 64 mod 64" "z = n mod 64"
    then have n: "n = x * 4096 + y * 64 + z" "y < 64" "z < 64" using split3 [of n] by simp_all
    have "x \<le> 15" using three n by linarith
    moreover have "x = 0 \<Longrightarrow> 32 \<le> y" using three n by linarith
    moreover have "x = 13 \<Longrightarrow> y \<le> 31" using assms n unfolding scalar_def by linarith
    ultimately have "decode_bytes ((224 + x) # (128 + y) # (128 + z) # map of_char s) = (n, 3)"
      using decode_more(2) [OF n(2,3,3)] n(1) by simp
    moreover have "length (utf8 n) = 3" using three by (simp add: utf8_def)
    ultimately show ?thesis using three by (simp add: DecodeRune_def bytes d)
  next
    case four
    define x y z v where d: "x = n div 262144" "y = n div 4096 mod 64" "z = n div 64 mod 64" "v = n mod 64"
    then have n: "n = x * 262144 + y * 4096 + z * 64 + v" "y < 64" "z < 64" "v < 64" using split4 [of n] by simp_all
    have "x \<le> 4" using assms n unfolding scalar_def by linarith
    moreover have "x = 0 \<Longrightarrow> 16 \<le> y" using four n by linarith
    moreover have "x = 4 \<Longrightarrow> y \<le> 15" using assms n unfolding scalar_def by linarith
    ultimately have "decode_bytes ((240 + x) # (128 + y) # (128 + z) # (128 + v) # map of_char s) = (n, 4)"
      using decode_more(3) [OF n(2,3,4)] n(1) by simp
    moreover have "length (utf8 n) = 4" using four by (simp add: utf8_def)
    ultimately show ?thesis using four by (simp add: DecodeRune_def bytes d)
  qed
qed

lemma utf8_nonempty: "utf8 n \<noteq> []"
  by (simp add: utf8_def)

lemma runes_utf8: "scalar n \<Longrightarrow> runes (utf8 n @ s) = n # runes s"
proof -
  assume n: "scalar n"
  obtain c cs where cs: "utf8 n = c # cs" using utf8_nonempty [of n] by (cases "utf8 n") auto
  with decode_utf8 [OF n, of s] show ?thesis by (simp add: runes.simps(2))
qed

lemma runes_text: "list_all scalar rs \<Longrightarrow> runes (text_of rs) = rs"
  by (induction rs) (simp_all add: text_of_def runes_utf8)

section \<open>Letter case\<close>

text \<open>
  \<open>strings.EqualFold\<close> compares code point by code point. Two ASCII letters are compared without a table; for
  the rest, \<open>orbit\<close> gives the smallest code point of the cycle that \<open>unicode.SimpleFold\<close> goes through, from the
  tables of the \<open>unicode\<close> package, which are generated from the Unicode database.
\<close>

definition fold_eq :: "(nat \<Rightarrow> nat) \<Rightarrow> nat \<Rightarrow> nat \<Rightarrow> bool" where
  "fold_eq orbit a b \<longleftrightarrow>
     a = b \<or>
     (if a < 128 \<and> b < 128 then 65 \<le> min a b \<and> min a b \<le> 90 \<and> max a b = min a b + 32
      else orbit a = orbit b)"

definition EqualFold :: "(nat \<Rightarrow> nat) \<Rightarrow> string \<Rightarrow> string \<Rightarrow> bool" where
  "EqualFold orbit s t \<longleftrightarrow> list_all2 (fold_eq orbit) (runes s) (runes t)"

lemma EqualFold_refl [simp]: "EqualFold orbit s s"
  by (simp add: EqualFold_def list.rel_refl fold_eq_def)

end
