(* ===== verification/Json.thy ===== *)
theory Json
  imports Unicode
begin

text \<open>
  What \<open>json.Unmarshal(data, &tiers)\<close> of Go's encoding/json does with a \<open>[]string\<close> variable that
  is nil: the call first checks the whole text against the grammar (a syntax error leaves the
  variable alone), then stores what fits. In a string literal a byte that is no part of well-formed UTF-8 is
  read as U+FFFD. Recursion is bounded by fuel, twice the
  length of the text and two: every reader leaves a shorter text (\<open>parse_shorter\<close>), so more fuel
  changes nothing (\<open>parse_value_fuel\<close>).
\<close>

datatype json =
    JNull
  | JBool bool
  | JNumber string
  | JString string
  | JArray "json list"
  | JObject "(string \<times> json) list"

section \<open>Lexical parts\<close>

abbreviation dq :: char where "dq \<equiv> CHR 0x22"
abbreviation bslash :: char where "bslash \<equiv> CHR 0x5C"

definition is_ws :: "char \<Rightarrow> bool" where
  "is_ws c \<longleftrightarrow> c = CHR '' '' \<or> c = CHR 0x09 \<or> c = CHR 0x0A \<or> c = CHR 0x0D"

definition skip_ws :: "string \<Rightarrow> string" where
  "skip_ws s = dropWhile is_ws s"

definition hex_val :: "char \<Rightarrow> nat option" where
  "hex_val c =
     (let n = (of_char c :: nat)
      in if 48 \<le> n \<and> n \<le> 57 then Some (n - 48)
         else if 97 \<le> n \<and> n \<le> 102 then Some (n - 87)
         else if 65 \<le> n \<and> n \<le> 70 then Some (n - 55) else None)"

fun hex4 :: "string \<Rightarrow> nat option" where
  "hex4 (a # b # c # d # _) =
     (case (hex_val a, hex_val b, hex_val c, hex_val d) of
        (Some w, Some x, Some y, Some z) \<Rightarrow> Some (4096 * w + 256 * x + 16 * y + z)
      | _ \<Rightarrow> None)"
| "hex4 _ = None"

definition escape_char :: "char \<Rightarrow> char option" where
  "escape_char e =
     (if e = dq \<or> e = bslash \<or> e = CHR ''/'' then Some e
      else if e = CHR ''b'' then Some (CHR 0x08)
      else if e = CHR ''f'' then Some (CHR 0x0C)
      else if e = CHR ''n'' then Some (CHR 0x0A)
      else if e = CHR ''r'' then Some (CHR 0x0D)
      else if e = CHR ''t'' then Some (CHR 0x09) else None)"

text \<open>\<open>utf16.DecodeRune\<close> of a high surrogate and what an escape that follows holds.\<close>

definition low_surrogate :: "string \<Rightarrow> nat option" where
  "low_surrogate s =
     (case s of
        b # u # r \<Rightarrow>
          if b = bslash \<and> u = CHR ''u''
          then (case hex4 r of
                  Some n \<Rightarrow> if 56320 \<le> n \<and> n < 57344 then Some n else None
                | None \<Rightarrow> None)
          else None
      | _ \<Rightarrow> None)"

definition emit :: "string \<Rightarrow> (string \<times> string) option \<Rightarrow> (string \<times> string) option" where
  "emit p r = map_option (\<lambda>(s, rest). (p @ s, rest)) r"

text \<open>A string literal after its opening quote: the decoded text and what follows the literal.\<close>

function parse_str :: "string \<Rightarrow> (string \<times> string) option" where
  "parse_str [] = None"
| "parse_str (c # cs) =
     (if c = dq then Some ([], cs)
      else if c = bslash then
        (case cs of
           [] \<Rightarrow> None
         | e # cs' \<Rightarrow>
             if e = CHR ''u'' then
               (case hex4 cs' of
                  None \<Rightarrow> None
                | Some n \<Rightarrow>
                    if 55296 \<le> n \<and> n < 57344 then
                      (case (if n < 56320 then low_surrogate (drop 4 cs') else None) of
                         Some m \<Rightarrow> emit (utf8 (65536 + (n - 55296) * 1024 + (m - 56320)))
                                        (parse_str (drop 10 cs'))
                       | None \<Rightarrow> emit (utf8 65533) (parse_str (drop 4 cs')))
                    else emit (utf8 n) (parse_str (drop 4 cs')))
             else (case escape_char e of
                     None \<Rightarrow> None
                   | Some d \<Rightarrow> emit [d] (parse_str cs')))
      else if (of_char c :: nat) < 32 then None
      else if (of_char c :: nat) < 128 then emit [c] (parse_str cs)
      else (let (r, n) = DecodeRune (c # cs) in emit (utf8 r) (parse_str (drop (n - 1) cs))))"
  by pat_completeness auto
termination
  by (relation "measure length") auto

text \<open>Numbers: the text is kept, the reader only needs to know where it ends.\<close>

definition digits1 :: "string \<Rightarrow> (string \<times> string) option" where
  "digits1 s =
     (let d = takeWhile is_digit s in if d = [] then None else Some (d, dropWhile is_digit s))"

definition parse_int_part :: "string \<Rightarrow> (string \<times> string) option" where
  "parse_int_part s =
     (case s of
        [] \<Rightarrow> None
      | c # cs \<Rightarrow> if c = CHR ''0'' then Some ([c], cs) else digits1 s)"

definition parse_frac :: "string \<Rightarrow> (string \<times> string) option" where
  "parse_frac s =
     (case s of
        [] \<Rightarrow> Some ([], [])
      | c # cs \<Rightarrow> if c = CHR ''.'' then emit [c] (digits1 cs) else Some ([], s))"

definition parse_exp :: "string \<Rightarrow> (string \<times> string) option" where
  "parse_exp s =
     (case s of
        [] \<Rightarrow> Some ([], [])
      | c # cs \<Rightarrow>
          if c = CHR ''e'' \<or> c = CHR ''E'' then
            (case cs of
               [] \<Rightarrow> None
             | g # cs' \<Rightarrow> if g = CHR ''+'' \<or> g = CHR ''-'' then emit [c, g] (digits1 cs')
                          else emit [c] (digits1 cs))
          else Some ([], s))"

definition parse_number :: "string \<Rightarrow> (string \<times> string) option" where
  "parse_number s =
     (let sign = (if s \<noteq> [] \<and> hd s = CHR ''-'' then ''-'' else []);
          body = (if s \<noteq> [] \<and> hd s = CHR ''-'' then tl s else s)
      in Option.bind (parse_int_part body) (\<lambda>(i, r1).
         Option.bind (parse_frac r1) (\<lambda>(f, r2).
         Option.bind (parse_exp r2) (\<lambda>(e, r3). Some (sign @ i @ f @ e, r3)))))"

section \<open>Values\<close>

definition strip_prefix :: "string \<Rightarrow> string \<Rightarrow> string option" where
  "strip_prefix p s = (if take (length p) s = p then Some (drop (length p) s) else None)"

text \<open>
  \<open>parse_value\<close> reads a value; \<open>parse_elems\<close> the rest of an array after a value may start;
  \<open>parse_members\<close> the rest of an object where a key is due.
\<close>

fun parse_value :: "nat \<Rightarrow> string \<Rightarrow> (json \<times> string) option"
  and parse_elems :: "nat \<Rightarrow> string \<Rightarrow> (json list \<times> string) option"
  and parse_members :: "nat \<Rightarrow> string \<Rightarrow> ((string \<times> json) list \<times> string) option" where
  "parse_value 0 s = None"
| "parse_value (Suc f) s =
     (case skip_ws s of
        [] \<Rightarrow> None
      | c # cs \<Rightarrow>
          if c = dq then map_option (\<lambda>(t, r). (JString t, r)) (parse_str cs)
          else if c = CHR ''['' then
            (case skip_ws cs of
               [] \<Rightarrow> None
             | d # ds \<Rightarrow> if d = CHR '']'' then Some (JArray [], ds)
                         else map_option (\<lambda>(vs, r). (JArray vs, r)) (parse_elems f cs))
          else if c = CHR ''{'' then
            (case skip_ws cs of
               [] \<Rightarrow> None
             | d # ds \<Rightarrow> if d = CHR ''}'' then Some (JObject [], ds)
                         else map_option (\<lambda>(ms, r). (JObject ms, r)) (parse_members f cs))
          else if c = CHR ''t'' then map_option (\<lambda>r. (JBool True, r)) (strip_prefix ''rue'' cs)
          else if c = CHR ''f'' then map_option (\<lambda>r. (JBool False, r)) (strip_prefix ''alse'' cs)
          else if c = CHR ''n'' then map_option (\<lambda>r. (JNull, r)) (strip_prefix ''ull'' cs)
          else map_option (\<lambda>(t, r). (JNumber t, r)) (parse_number (c # cs)))"
| "parse_elems 0 s = None"
| "parse_elems (Suc f) s =
     (case parse_value f s of
        None \<Rightarrow> None
      | Some (v, r) \<Rightarrow>
          (case skip_ws r of
             [] \<Rightarrow> None
           | c # cs \<Rightarrow>
               if c = CHR '']'' then Some ([v], cs)
               else if c = CHR '','' then map_option (\<lambda>(vs, r'). (v # vs, r')) (parse_elems f cs)
               else None))"
| "parse_members 0 s = None"
| "parse_members (Suc f) s =
     (case skip_ws s of
        [] \<Rightarrow> None
      | q # qs \<Rightarrow>
          if q \<noteq> dq then None
          else (case parse_str qs of
                  None \<Rightarrow> None
                | Some (k, r) \<Rightarrow>
                    (case skip_ws r of
                       [] \<Rightarrow> None
                     | c # cs \<Rightarrow>
                         if c \<noteq> CHR '':'' then None
                         else (case parse_value f cs of
                                 None \<Rightarrow> None
                               | Some (v, r') \<Rightarrow>
                                   (case skip_ws r' of
                                      [] \<Rightarrow> None
                                    | d # ds \<Rightarrow>
                                        if d = CHR ''}'' then Some ([(k, v)], ds)
                                        else if d = CHR '','' then
                                          map_option (\<lambda>(ms, r''). ((k, v) # ms, r'')) (parse_members f ds)
                                        else None)))))"

fun json_depth :: "json \<Rightarrow> nat" where
  "json_depth (JArray vs) = Suc (foldl max 0 (map json_depth vs))"
| "json_depth (JObject ms) = Suc (foldl max 0 (map (\<lambda>(k, v). json_depth v) ms))"
| "json_depth _ = 0"

text \<open>The text as one value, with nothing but space after it and at most 10000 levels of nesting.\<close>

definition parse_json :: "string \<Rightarrow> json option" where
  "parse_json s =
     (case parse_value (2 * length s + 2) s of
        None \<Rightarrow> None
      | Some (v, r) \<Rightarrow> if skip_ws r = [] \<and> json_depth v \<le> 10000 then Some v else None)"

text \<open>An element that is not a string leaves the zero value of its slot.\<close>

fun elem_string :: "json \<Rightarrow> string" where
  "elem_string (JString t) = t"
| "elem_string _ = []"

definition UnmarshalStrings :: "string \<Rightarrow> string list" where
  "UnmarshalStrings s =
     (case parse_json s of
        Some (JArray vs) \<Rightarrow> map elem_string vs
      | _ \<Rightarrow> [])"

section \<open>Reading back an array of strings\<close>

text \<open>
  A writer of JSON: quotes, backslashes and control characters are escaped, everything else is written as it
  is, in UTF-8. Texts are given as lists of code points.
\<close>

definition json_rune :: "nat \<Rightarrow> string" where
  "json_rune n =
     (if n = 34 then [bslash, dq]
      else if n = 92 then [bslash, bslash]
      else if n < 32 then bslash # ''u00'' @ [hex_digit (n div 16), hex_digit (n mod 16)]
      else utf8 n)"

definition json_quote :: "nat list \<Rightarrow> string" where
  "json_quote rs = dq # concat (map json_rune rs) @ [dq]"

definition json_list :: "nat list list \<Rightarrow> string" where
  "json_list rss = ''['' @ Join (map json_quote rss) '','' @ '']''"

lemma hex_val_digit: "n < 16 \<Longrightarrow> hex_val (hex_digit n) = Some n"
  by (auto simp: hex_val_def hex_digit_def Let_def)

lemma parse_json_rune:
  assumes "scalar n"
  shows "parse_str (json_rune n @ s) = emit (utf8 n) (parse_str s)"
proof -
  consider (quote) "n = 34" | (slash) "n = 92" | (control) "n < 32"
    | (ascii) "n \<noteq> 34" "n \<noteq> 92" "32 \<le> n" "n < 128" | (more) "128 \<le> n" by linarith
  then show ?thesis
  proof cases
    case control
    have "hex4 (''00'' @ [hex_digit (n div 16), hex_digit (n mod 16)] @ s) = Some n"
    proof -
      have "hex_val (CHR ''0'') = Some 0" by (simp add: hex_val_def)
      moreover have "n div 16 < 16" "n mod 16 < 16" using control by simp_all
      ultimately show ?thesis by (simp add: hex_val_digit)
    qed
    with control show ?thesis by (simp add: json_rune_def)
  next
    case ascii
    then have c: "utf8 n = [char_of n]" "(of_char (char_of n :: char) :: nat) = n" by (simp_all add: utf8_def)
    have "(char_of n :: char) \<noteq> dq"
    proof
      assume "(char_of n :: char) = dq"
      with c(2) have "n = of_char dq" by simp
      with ascii(1) show False by simp
    qed
    moreover have "(char_of n :: char) \<noteq> bslash"
    proof
      assume "(char_of n :: char) = bslash"
      with c(2) have "n = of_char bslash" by simp
      with ascii(2) show False by simp
    qed
    ultimately show ?thesis using ascii c by (simp add: json_rune_def)
  next
    case more
    obtain c cs where cs: "utf8 n = c # cs" using utf8_nonempty [of n] by (cases "utf8 n") auto
    then have "(of_char c :: nat) = hd (map of_char (utf8 n))" by simp
    then have c: "128 \<le> (of_char c :: nat)" using more by (simp add: utf8_bytes [OF assms])
    then have "c \<noteq> dq" "c \<noteq> bslash" by auto
    with decode_utf8 [OF assms, of s] cs c more show ?thesis by (simp add: json_rune_def)
  next
    case quote
    have "utf8 34 = [dq]" by code_simp
    with quote show ?thesis by (simp add: json_rune_def escape_char_def)
  next
    case slash
    have "utf8 92 = [bslash]" by code_simp
    with slash show ?thesis by (simp add: json_rune_def escape_char_def)
  qed
qed

lemma parse_str_quoted:
  "list_all scalar rs \<Longrightarrow> parse_str (concat (map json_rune rs) @ dq # s) = Some (text_of rs, s)"
  by (induction rs) (simp_all add: text_of_def parse_json_rune emit_def del: parse_str.simps(2), simp_all)

lemma skip_ws_simps [simp]:
  "skip_ws [] = []" "skip_ws (dq # s) = dq # s" "skip_ws (CHR '']'' # s) = CHR '']'' # s"
  "skip_ws (CHR ''['' # s) = CHR ''['' # s" "skip_ws (CHR '','' # s) = CHR '','' # s"
  by (simp_all add: skip_ws_def is_ws_def)

lemma parse_quoted: "list_all scalar rs \<Longrightarrow> parse_value (Suc f) (json_quote rs @ r) = Some (JString (text_of rs), r)"
  by (simp add: json_quote_def parse_str_quoted)

lemma parse_elems_quoted:
  assumes "list_all (list_all scalar) ts" "ts \<noteq> []" "length ts < f"
  shows "parse_elems f (Join (map json_quote ts) '','' @ CHR '']'' # r) = Some (map (\<lambda>rs. JString (text_of rs)) ts, r)"
  using assms
proof (induction ts arbitrary: f)
  case Nil
  then show ?case by simp
next
  case (Cons t ts)
  have f: "f = Suc (Suc (f - 2))" using Cons.prems(3) by simp
  define g where "g = f - 2"
  with f have f: "f = Suc (Suc g)" by simp
  show ?case
  proof (cases ts)
    case Nil
    with Cons.prems f show ?thesis by (simp add: parse_quoted del: parse_value.simps)
  next
    case (Cons u us)
    have "parse_elems (Suc g) (Join (map json_quote ts) '','' @ CHR '']'' # r) = Some (map (\<lambda>rs. JString (text_of rs)) ts, r)"
      using Cons Cons.prems f by (intro Cons.IH) simp_all
    with Cons Cons.prems f show ?thesis
      by (simp add: parse_quoted del: parse_value.simps)
  qed
qed

lemma json_depth_strings: "json_depth (JArray (map (\<lambda>rs. JString (text_of rs)) ts)) = 1"
proof -
  have "foldl max 0 (map json_depth (map (\<lambda>rs. JString (text_of rs)) ts)) = 0" by (induction ts) simp_all
  then show ?thesis by simp
qed

lemma Join_quoted_head: "ts \<noteq> [] \<Longrightarrow> \<exists>s. Join (map json_quote ts) sep = dq # s"
  by (cases ts; cases "tl ts") (auto simp: json_quote_def)

lemma length_le_Join: "length ts \<le> length (Join (map json_quote ts) '','')"
proof (induction ts)
  case (Cons t ts)
  then show ?case by (cases ts) (simp_all add: json_quote_def)
qed simp

lemma parse_json_list:
  assumes "list_all (list_all scalar) ts"
  shows "parse_json (json_list ts) = Some (JArray (map (\<lambda>rs. JString (text_of rs)) ts))"
proof (cases "ts = []")
  case True
  then show ?thesis by (simp add: parse_json_def json_list_def numeral_eq_Suc)
next
  case False
  let ?f = "2 * length (json_list ts) + 1"
  obtain s where s: "Join (map json_quote ts) '','' = dq # s"
    using Join_quoted_head [OF False] by blast
  have "length ts < ?f" using length_le_Join [of ts] by (simp add: json_list_def)
  then have "parse_elems ?f (Join (map json_quote ts) '','' @ CHR '']'' # []) = Some (map (\<lambda>rs. JString (text_of rs)) ts, [])"
    by (rule parse_elems_quoted [OF assms False])
  then have "parse_value (Suc ?f) (json_list ts) = Some (JArray (map (\<lambda>rs. JString (text_of rs)) ts), [])"
    using s by (simp add: json_list_def)
  then show ?thesis
    by (simp add: parse_json_def json_depth_strings del: parse_value.simps json_depth.simps)
qed

lemma UnmarshalStrings_json_list: "list_all (list_all scalar) ts \<Longrightarrow> UnmarshalStrings (json_list ts) = map text_of ts"
  by (simp add: UnmarshalStrings_def parse_json_list comp_def)

section \<open>The fuel is enough\<close>

text \<open>Every reader leaves a shorter text, so the recursion cannot run deeper than the text is long.\<close>

lemma length_skip_ws: "length (skip_ws s) \<le> length s"
  by (simp add: skip_ws_def length_dropWhile_le)

lemma skip_ws_Cons: "skip_ws s = c # cs \<Longrightarrow> length cs < length s"
  using length_skip_ws [of s] by simp

lemma emit_Some: "emit p m = Some (t, r) \<longleftrightarrow> (\<exists>u. m = Some (u, r) \<and> t = p @ u)"
  by (cases m) (auto simp: emit_def)

lemma parse_str_shorter: "parse_str s = Some (t, r) \<Longrightarrow> length r < length s"
proof (induction s arbitrary: t r rule: length_induct)
  case (1 s)
  then have IH: "\<And>u t r. parse_str u = Some (t, r) \<Longrightarrow> length u < length s \<Longrightarrow> length r < length u" by blast
  from "1.prems" show ?case
    by (cases s) (auto simp: emit_Some split: if_splits list.splits option.splits prod.splits, (drule IH, simp, simp)+)
qed

lemma digits1_shorter: "digits1 s = Some (d, r) \<Longrightarrow> length r < length s"
proof -
  assume d: "digits1 s = Some (d, r)"
  then have "takeWhile is_digit s \<noteq> []" "r = dropWhile is_digit s"
    by (auto simp: digits1_def Let_def split: if_splits)
  then show ?thesis by (metis length_append length_greater_0_conv less_add_same_cancel2 takeWhile_dropWhile_id)
qed

lemma number_parts_shorter:
  "parse_int_part s = Some (t, r) \<Longrightarrow> length r < length s"
  "parse_frac s = Some (t, r) \<Longrightarrow> length r \<le> length s"
  "parse_exp s = Some (t, r) \<Longrightarrow> length r \<le> length s"
  by (fastforce simp: parse_int_part_def parse_frac_def parse_exp_def emit_Some
      dest: digits1_shorter split: list.splits if_splits)+

lemma parse_number_shorter: "parse_number s = Some (t, r) \<Longrightarrow> length r < length s"
  by (auto simp: parse_number_def Let_def bind_eq_Some_conv split: if_splits
      dest!: number_parts_shorter)

lemma strip_prefix_shorter: "strip_prefix p s = Some r \<Longrightarrow> length r \<le> length s"
  by (auto simp: strip_prefix_def split: if_splits)

lemma parse_shorter:
  "parse_value f s = Some (v, r) \<Longrightarrow> length r < length s"
  "parse_elems f s = Some (vs, r) \<Longrightarrow> length r < length s"
  "parse_members f s = Some (ms, r) \<Longrightarrow> length r < length s"
proof (induction f s and f s and f s arbitrary: v r and vs r and ms r
    rule: parse_value_parse_elems_parse_members.induct)
  case (2 f s)
  then show ?case
    by (fastforce split: list.splits if_splits
        dest: skip_ws_Cons parse_str_shorter parse_number_shorter strip_prefix_shorter)
next
  case (4 f s)
  then show ?case
    by (fastforce split: list.splits if_splits option.splits dest: skip_ws_Cons)
next
  case (6 f s)
  then show ?case
    by (fastforce split: list.splits if_splits option.splits dest: skip_ws_Cons parse_str_shorter)
qed simp_all

text \<open>One more unit of fuel than the text needs changes nothing, so any larger amount does not either.\<close>

lemma parse_fuel_step:
  "2 * length s < f \<Longrightarrow> parse_value (Suc f) s = parse_value f s"
  "2 * length s + 1 < f \<Longrightarrow> parse_elems (Suc f) s = parse_elems f s"
  "2 * length s + 1 < f \<Longrightarrow> parse_members (Suc f) s = parse_members f s"
proof (induction f s and f s and f s rule: parse_value_parse_elems_parse_members.induct)
  case (2 f s)
  have elems: "parse_elems (Suc f) cs = parse_elems f cs"
    if "skip_ws s = CHR ''['' # cs" "skip_ws cs = d # ds" "d \<noteq> CHR '']''" for cs d ds
    using "2.IH"(1) [OF that(1) _ _ that(2,3)] "2.prems" skip_ws_Cons [OF that(1)] by simp
  have members: "parse_members (Suc f) cs = parse_members f cs"
    if "skip_ws s = CHR ''{'' # cs" "skip_ws cs = d # ds" "d \<noteq> CHR ''}''" for cs d ds
    using "2.IH"(2) [OF that(1) _ _ _ that(2,3)] "2.prems" skip_ws_Cons [OF that(1)] by simp
  show ?case
    unfolding parse_value.simps(2) [of "Suc f" s] parse_value.simps(2) [of f s]
    using elems members by (simp split: list.split del: parse_value.simps parse_elems.simps parse_members.simps)
next
  case (4 f s)
  have v: "parse_value (Suc f) s = parse_value f s" using "4.IH"(1) "4.prems" by simp
  have e: "parse_elems (Suc f) cs = parse_elems f cs"
    if "parse_value f s = Some (w, r)" "skip_ws r = CHR '','' # cs" for w r cs
    using "4.IH"(2) [OF that(1) _ that(2)] "4.prems" skip_ws_Cons [OF that(2)] parse_shorter(1) [OF that(1)] by simp
  show ?case
    unfolding parse_elems.simps(2) [of "Suc f" s] parse_elems.simps(2) [of f s] v
    using e by (simp split: list.split option.split del: parse_value.simps parse_elems.simps)
next
  case (6 f s)
  have v: "parse_value (Suc f) cs = parse_value f cs"
    if "skip_ws s = dq # qs" "parse_str qs = Some (k, r)" "skip_ws r = CHR '':'' # cs" for qs k r cs
    using "6.IH"(1) [OF that(1) _ that(2) _ that(3)] "6.prems" skip_ws_Cons [OF that(1)]
      parse_str_shorter [OF that(2)] skip_ws_Cons [OF that(3)] by simp
  have m: "parse_members (Suc f) ds = parse_members f ds"
    if "skip_ws s = dq # qs" "parse_str qs = Some (k, r)" "skip_ws r = CHR '':'' # cs"
      "parse_value f cs = Some (w, r')" "skip_ws r' = CHR '','' # ds" for qs k r cs w r' ds
    using "6.IH"(2) [OF that(1) _ that(2) _ that(3) _ that(4) _ that(5)] "6.prems" skip_ws_Cons [OF that(1)]
      parse_str_shorter [OF that(2)] skip_ws_Cons [OF that(3)] parse_shorter(1) [OF that(4)]
      skip_ws_Cons [OF that(5)] by simp
  show ?case
    unfolding parse_members.simps(2) [of "Suc f" s] parse_members.simps(2) [of f s]
    using v m by (simp split: list.split option.split del: parse_value.simps parse_members.simps)
qed simp_all

lemma parse_value_fuel: "2 * length s < f \<Longrightarrow> parse_value (f + n) s = parse_value f s"
  by (induction n) (simp_all add: parse_fuel_step del: parse_value.simps)

end
