(* ===== verification/Plugins.thy ===== *)
theory Plugins
  imports Reconciler Json
begin

text \<open>
  internal/controller/plugin.go: the plugin lifecycle over a PostgreSQL-protocol connection. Every
  statement is sent with \<open>rc_Exec\<close> and is the text that the source formats. A range over
  \<open>MigrationContext\<close> visits the association list in its order, which stands for whatever order
  the runtime picks.
\<close>

section \<open>Statements\<close>

definition createPluginSQL :: "string \<Rightarrow> string \<Rightarrow> string" where
  "createPluginSQL name version = ''CREATE PLUGIN '' @ name @ '' '' @ version"

definition addServiceSQL :: "string \<Rightarrow> string \<Rightarrow> string \<Rightarrow> string \<Rightarrow> string" where
  "addServiceSQL name version svc tierName =
     ''ALTER PLUGIN '' @ name @ '' '' @ version @ '' ADD SERVICE '' @ svc @ '' TO TIER '' @ tierName"

definition setContextSQL :: "string \<Rightarrow> string \<Rightarrow> string \<Rightarrow> string \<Rightarrow> string" where
  "setContextSQL name version k v =
     ''ALTER PLUGIN '' @ name @ '' '' @ version @ '' SET migration_context.'' @ k @ ''='' @
     [CHR 0x27] @ v @ [CHR 0x27] @ '' OPTION(TIMEOUT=1200)''"

definition migrateSQL :: "string \<Rightarrow> string \<Rightarrow> string" where
  "migrateSQL name version = ''ALTER PLUGIN '' @ name @ '' MIGRATE TO '' @ version"

definition enableSQL :: "string \<Rightarrow> string \<Rightarrow> string" where
  "enableSQL name version = ''ALTER PLUGIN '' @ name @ '' '' @ version @ '' ENABLE''"

definition disableSQL :: "string \<Rightarrow> string \<Rightarrow> string" where
  "disableSQL name version = ''ALTER PLUGIN '' @ name @ '' '' @ version @ '' DISABLE''"

definition dropSQL :: "string \<Rightarrow> string \<Rightarrow> string" where
  "dropSQL name version = ''DROP PLUGIN '' @ name @ '' '' @ version"

definition selectEnabledSQL :: "string \<Rightarrow> string \<Rightarrow> string" where
  "selectEnabledSQL name version =
     ''SELECT enabled FROM _pico_plugin WHERE name = '' @ [CHR 0x27] @ name @ [CHR 0x27] @
     '' AND version = '' @ [CHR 0x27] @ version @ [CHR 0x27]"

definition selectServicesSQL :: "string \<Rightarrow> string \<Rightarrow> string" where
  "selectServicesSQL name version =
     ''SELECT name, tiers FROM _pico_service WHERE plugin_name = '' @ [CHR 0x27] @ name @ [CHR 0x27] @
     '' AND version = '' @ [CHR 0x27] @ version @ [CHR 0x27]"

definition selectPluginsSQL :: string where
  "selectPluginsSQL = ''SELECT name, version, enabled FROM _pico_plugin''"

section \<open>Queries\<close>

definition rowsErr :: "'r Rows \<Rightarrow> 'a \<Rightarrow> ('s, 'a) go" where
  "rowsErr rows x = (case rw_Err rows of None \<Rightarrow> returnG x | Some e \<Rightarrow> failG e)"

text \<open>The rows that \<open>rows.Scan\<close> could read; the others are skipped with \<open>continue\<close>.\<close>

fun scannedRows :: "(error + 'r) list \<Rightarrow> 'r list" where
  "scannedRows [] = []"
| "scannedRows (Inl _ # rs) = scannedRows rs"
| "scannedRows (Inr x # rs) = x # scannedRows rs"

definition queryPluginState ::
  "'s Reconciler \<Rightarrow> conn \<Rightarrow> string \<Rightarrow> string \<Rightarrow> ('s, bool \<times> bool) go" where
  "queryPluginState r conn name version =
     bindG (rc_QueryEnabled r conn (selectEnabledSQL name version)) (\<lambda>rows.
       case rw_Rows rows of
         [] \<Rightarrow> rowsErr rows (False, False)
       | Inl e # _ \<Rightarrow> failG e
       | Inr enabled # _ \<Rightarrow> rowsErr rows (True, enabled))"

definition queryPluginServices ::
  "'s Reconciler \<Rightarrow> conn \<Rightarrow> string \<Rightarrow> string \<Rightarrow> ('s, (string \<times> string list) list) go" where
  "queryPluginServices r conn name version =
     bindG (rc_QueryServices r conn (selectServicesSQL name version)) (\<lambda>rows.
       rowsErr rows (map (\<lambda>(svcName, tiersJSON). (svcName, UnmarshalStrings tiersJSON))
                      (scannedRows (rw_Rows rows))))"

definition getAdminPassword :: "'s Reconciler \<Rightarrow> PicoclusterDB \<Rightarrow> ('s, string) go" where
  "getAdminPassword r cl =
     (let ref = spec_AdminPassword (cl_Spec cl)
      in bindG (rc_GetSecret r (cl_Namespace cl, sk_SecretName ref)) (\<lambda>secret.
           case map_of (se_Data secret) (sk_Key ref) of
             None \<Rightarrow> failG (Failure (''key '' @ fmt_q (sk_Key ref) @ '' not found in secret '' @
                                     fmt_q (sk_SecretName ref)))
           | Some val \<Rightarrow> returnG val))"

fun containsString :: "(nat \<Rightarrow> nat) \<Rightarrow> string list \<Rightarrow> string \<Rightarrow> bool" where
  "containsString orbit [] s = False"
| "containsString orbit (v # vs) s = (if EqualFold orbit v s then True else containsString orbit vs s)"

section \<open>One plugin\<close>

definition addService ::
  "'s Reconciler \<Rightarrow> conn \<Rightarrow> PluginSpec \<Rightarrow> string \<Rightarrow> string \<Rightarrow> ('s, unit) go" where
  "addService r conn plugin tierName svcName =
     wrapG (''ADD SERVICE '' @ svcName @ '' TO TIER'')
       (rc_Exec r conn (addServiceSQL (pl_Name plugin) (pl_Version plugin) svcName tierName))"

definition installPlugin ::
  "'s Reconciler \<Rightarrow> conn \<Rightarrow> PluginSpec \<Rightarrow> string \<Rightarrow> ('s, unit) go" where
  "installPlugin r conn plugin tierName =
     bindG (forG (\<lambda>svc. addService r conn plugin tierName (pl_SvcName svc)) (pl_Services plugin)) (\<lambda>_.
     bindG (forG (\<lambda>(k, v). wrapG (''SET migration_context.'' @ k)
                             (rc_Exec r conn (setContextSQL (pl_Name plugin) (pl_Version plugin) k v)))
             (pl_MigrationContext plugin)) (\<lambda>_.
       wrapG ''MIGRATE PLUGIN'' (rc_Exec r conn (migrateSQL (pl_Name plugin) (pl_Version plugin)))))"

definition reconcilePlugin ::
  "'s Reconciler \<Rightarrow> conn \<Rightarrow> PluginSpec \<Rightarrow> string \<Rightarrow> ('s, PluginStatus) go" where
  "reconcilePlugin r conn plugin tierName =
     bindG (queryPluginState r conn (pl_Name plugin) (pl_Version plugin)) (\<lambda>(existing, enabled).
     bindG (if \<not> existing
            then wrapG ''CREATE PLUGIN''
                   (rc_Exec r conn (createPluginSQL (pl_Name plugin) (pl_Version plugin)))
            else returnG ()) (\<lambda>_.
     bindG (if \<not> enabled then installPlugin r conn plugin tierName else returnG ()) (\<lambda>_.
     bindG (queryPluginServices r conn (pl_Name plugin) (pl_Version plugin)) (\<lambda>services.
     bindG (forG (\<lambda>(svcName, tiers).
                    if \<not> containsString (rc_FoldClass r) tiers tierName then addService r conn plugin tierName svcName
                    else returnG ()) services) (\<lambda>_.
     bindG (if \<not> enabled
            then wrapG ''ENABLE PLUGIN''
                   (rc_Exec r conn (enableSQL (pl_Name plugin) (pl_Version plugin)))
            else returnG ()) (\<lambda>_.
       returnG \<lparr>pu_Name = pl_Name plugin, pu_Version = pl_Version plugin,
                pu_Enabled = (if \<not> enabled then True else enabled)\<rparr>))))))"

section \<open>Versions no longer in the spec\<close>

text \<open>The map \<open>desired\<close>: the last entry for a name wins.\<close>

definition desiredVersions :: "TierSpec \<Rightarrow> (string \<times> string) list" where
  "desiredVersions tier =
     foldl (\<lambda>m p. AList.update (pl_Name p) (pl_Version p) m) [] (tier_Plugins tier)"

definition keepsPlugin :: "TierSpec \<Rightarrow> string \<times> string \<times> bool \<Rightarrow> bool" where
  "keepsPlugin tier = (\<lambda>(name, version, _). map_of (desiredVersions tier) name = Some version)"

definition dropPlugin :: "'s Reconciler \<Rightarrow> conn \<Rightarrow> string \<times> string \<times> bool \<Rightarrow> ('s, unit) go" where
  "dropPlugin r conn = (\<lambda>(name, version, enabled).
     bindG (if enabled
            then wrapG (''DISABLE PLUGIN '' @ name @ '' '' @ version)
                   (rc_Exec r conn (disableSQL name version))
            else returnG ()) (\<lambda>_.
       wrapG (''DROP PLUGIN '' @ name @ '' '' @ version) (rc_Exec r conn (dropSQL name version))))"

definition dropObsoletePlugins :: "'s Reconciler \<Rightarrow> conn \<Rightarrow> TierSpec \<Rightarrow> ('s, unit) go" where
  "dropObsoletePlugins r conn tier =
     bindG (rc_QueryPlugins r conn selectPluginsSQL) (\<lambda>rows.
     bindG (rowsErr rows (scannedRows (rw_Rows rows))) (\<lambda>installed.
       forG (\<lambda>inst. if keepsPlugin tier inst then returnG () else dropPlugin r conn inst) installed))"

section \<open>All plugins of a tier\<close>

definition pluginHost :: "PicoclusterDB \<Rightarrow> TierSpec \<Rightarrow> string" where
  "pluginHost cl tier =
     tier_Name tier @ ''-'' @ cl_Name cl @ ''.'' @ cl_Namespace cl @ ''.svc.cluster.local''"

definition connString :: "PicoclusterDB \<Rightarrow> TierSpec \<Rightarrow> string \<Rightarrow> string" where
  "connString cl tier password =
     ''host='' @ pluginHost cl tier @ '' port='' @
     fmt_d (servicePort (sr_PgPort (spec_Service (cl_Spec cl))) 5432) @
     '' user=admin password='' @ password @ '' dbname=picodata sslmode=disable''"

definition reconcileTierPlugins ::
  "'s Reconciler \<Rightarrow> PicoclusterDB \<Rightarrow> TierSpec \<Rightarrow> ('s, PluginStatus list) go" where
  "reconcileTierPlugins r cl tier =
     (if tier_Plugins tier = [] then returnG []
      else
        bindG (wrapG ''get admin password'' (getAdminPassword r cl)) (\<lambda>password.
        bindG (wrapG (''connect to '' @ pluginHost cl tier)
                 (rc_Connect r (connString cl tier password))) (\<lambda>conn.
          deferG (rc_Close r conn)
            (bindG (mapG (\<lambda>plugin. wrapG (''plugin '' @ pl_Name plugin)
                             (reconcilePlugin r conn plugin (tier_Name tier))) (tier_Plugins tier)) (\<lambda>statuses.
             bindG (tryG (dropObsoletePlugins r conn tier)) (\<lambda>_. returnG statuses))))))"

section \<open>Properties of the helpers\<close>

lemma containsString_iff: "containsString orbit vs s \<longleftrightarrow> (\<exists>v \<in> set vs. EqualFold orbit v s)"
  by (induction vs) auto

lemma set_scannedRows: "x \<in> set (scannedRows rs) \<longleftrightarrow> Inr x \<in> set rs"
  by (induction rs rule: scannedRows.induct) auto

text \<open>Lookups in \<open>desired\<close>: names outside the spec are absent, the last version wins.\<close>

lemma foldl_update_lookup:
  "map_of (foldl (\<lambda>m p. AList.update (f p) (g p) m) m0 ps) n =
   (case find (\<lambda>p. f p = n) (rev ps) of None \<Rightarrow> map_of m0 n | Some p \<Rightarrow> Some (g p))"
proof (induction ps rule: rev_induct)
  case (snoc p ps)
  then show ?case by (simp add: update_conv')
qed simp

lemma desiredVersions_lookup:
  "map_of (desiredVersions tier) n =
   map_option pl_Version (find (\<lambda>p. pl_Name p = n) (rev (tier_Plugins tier)))"
  by (simp add: desiredVersions_def foldl_update_lookup split: option.split)

lemma desiredVersions_None_iff:
  "map_of (desiredVersions tier) n = None \<longleftrightarrow> n \<notin> pl_Name ` set (tier_Plugins tier)"
  by (auto simp: desiredVersions_lookup find_None_iff)

lemma desiredVersions_unique:
  assumes "p \<in> set (tier_Plugins tier)" "distinct (map pl_Name (tier_Plugins tier))"
  shows "map_of (desiredVersions tier) (pl_Name p) = Some (pl_Version p)"
proof -
  have "find (\<lambda>p'. pl_Name p' = pl_Name p) ps = Some p"
    if "p \<in> set ps" "distinct (map pl_Name ps)" for ps
    using that by (induction ps) (auto simp: image_iff)
  from this [of "rev (tier_Plugins tier)"] assms show ?thesis
    by (simp add: desiredVersions_lookup rev_map [symmetric])
qed

end
