(* ===== verification/Plugin_Trace.thy ===== *)
theory Plugin_Trace
  imports Plugins "HOL-Library.Sublist"
begin

text \<open>
  What plugin.go sends to the database, whatever the database answers. \<open>logExec r\<close> is the
  reconciler \<open>r\<close> with a log of the statements passed to \<open>rc_Exec\<close>; \<open>follows m A\<close> says that the
  statements \<open>m\<close> sends are a prefix of one of the plans in \<open>A\<close>, and the whole plan when \<open>m\<close>
  returns without an error. The rules compose plans the way \<open>bindG\<close> and \<open>forG\<close> compose code.
\<close>

section \<open>Logging\<close>

definition quietly :: "('s, 'a) go \<Rightarrow> ('s \<times> 'l, 'a) go" where
  "quietly m = (\<lambda>(s, l). map_option (\<lambda>(r, s'). (r, (s', l))) (m s))"

definition noting :: "'l \<Rightarrow> ('s, 'a) go \<Rightarrow> ('s \<times> 'l list, 'a) go" where
  "noting x m = (\<lambda>(s, l). map_option (\<lambda>(r, s'). (r, (s', l @ [x]))) (m s))"

definition logExec :: "'s Reconciler \<Rightarrow> ('s \<times> string list) Reconciler" where
  "logExec r =
     \<lparr>rc_GetPicocluster = (\<lambda>k. quietly (rc_GetPicocluster r k)),
      rc_GetConfigMap = (\<lambda>k. quietly (rc_GetConfigMap r k)),
      rc_CreateConfigMap = (\<lambda>x. quietly (rc_CreateConfigMap r x)),
      rc_PatchConfigMap = (\<lambda>x y. quietly (rc_PatchConfigMap r x y)),
      rc_GetService = (\<lambda>k. quietly (rc_GetService r k)),
      rc_CreateService = (\<lambda>x. quietly (rc_CreateService r x)),
      rc_PatchService = (\<lambda>x y. quietly (rc_PatchService r x y)),
      rc_GetIngress = (\<lambda>k. quietly (rc_GetIngress r k)),
      rc_CreateIngress = (\<lambda>x. quietly (rc_CreateIngress r x)),
      rc_PatchIngress = (\<lambda>x y. quietly (rc_PatchIngress r x y)),
      rc_GetStatefulSet = (\<lambda>k. quietly (rc_GetStatefulSet r k)),
      rc_CreateStatefulSet = (\<lambda>x. quietly (rc_CreateStatefulSet r x)),
      rc_PatchStatefulSet = (\<lambda>x y. quietly (rc_PatchStatefulSet r x y)),
      rc_ListStatefulSets = (\<lambda>n l. quietly (rc_ListStatefulSets r n l)),
      rc_DeleteStatefulSet = (\<lambda>x. quietly (rc_DeleteStatefulSet r x)),
      rc_GetSecret = (\<lambda>k. quietly (rc_GetSecret r k)),
      rc_PatchStatus = (\<lambda>x y. quietly (rc_PatchStatus r x y)),
      rc_SetControllerReference = rc_SetControllerReference r,
      rc_Now = quietly (rc_Now r),
      rc_Quantity = rc_Quantity r,
      rc_FoldClass = rc_FoldClass r,
      rc_Connect = (\<lambda>c. quietly (rc_Connect r c)),
      rc_Close = (\<lambda>c. quietly (rc_Close r c)),
      rc_Exec = (\<lambda>c q. noting q (rc_Exec r c q)),
      rc_QueryEnabled = (\<lambda>c q. quietly (rc_QueryEnabled r c q)),
      rc_QueryServices = (\<lambda>c q. quietly (rc_QueryServices r c q)),
      rc_QueryPlugins = (\<lambda>c q. quietly (rc_QueryPlugins r c q))\<rparr>"

section \<open>Plans\<close>

definition follows :: "('s \<times> 'l list, 'a) go \<Rightarrow> 'l list set \<Rightarrow> bool" where
  "follows m A \<longleftrightarrow>
     (\<forall>s l r s' l'. m (s, l) = Some (r, (s', l')) \<longrightarrow>
        (\<exists>p \<in> A. \<exists>q. l' = l @ q \<and> prefix q p \<and> ((\<exists>x. r = Ok x) \<longrightarrow> q = p)))"

lemma followsI:
  assumes "\<And>s l r s' l'. m (s, l) = Some (r, (s', l')) \<Longrightarrow>
    \<exists>p \<in> A. \<exists>q. l' = l @ q \<and> prefix q p \<and> ((\<exists>x. r = Ok x) \<longrightarrow> q = p)"
  shows "follows m A"
  using assms by (simp add: follows_def)

lemma followsD:
  assumes "follows m A" "m (s, l) = Some (r, (s', l'))"
  shows "\<exists>p \<in> A. \<exists>q. l' = l @ q \<and> prefix q p \<and> ((\<exists>x. r = Ok x) \<longrightarrow> q = p)"
  using assms by (simp add: follows_def)

lemma follows_mono: "follows m A \<Longrightarrow> A \<subseteq> B \<Longrightarrow> follows m B"
  unfolding follows_def by blast

lemma follows_return: "follows (returnG x) {[]}"
  by (simp add: follows_def)

lemma follows_fail: "follows (failG e) {[]}"
  by (simp add: follows_def)

lemma follows_quietly: "follows (quietly m) {[]}"
  by (auto simp: follows_def quietly_def)

lemma follows_noting: "follows (noting x m) {[x]}"
  by (auto simp: follows_def noting_def)

lemma follows_wrap: "follows m A \<Longrightarrow> follows (wrapG msg m) A"
  unfolding follows_def wrapG_def by (fastforce split: go_splits)

lemma follows_bind:
  assumes m: "follows m A" and f: "\<And>x. follows (f x) B" and ne: "B \<noteq> {}"
  shows "follows (bindG m f) {a @ b |a b. a \<in> A \<and> b \<in> B}"
proof (rule followsI)
  fix s l r s' l'
  assume run: "bindG m f (s, l) = Some (r, (s', l'))"
  then obtain r1 s1 l1 where m1: "m (s, l) = Some (r1, (s1, l1))"
    by (cases "m (s, l)") auto
  from followsD [OF m this] obtain a q where a: "a \<in> A" "l1 = l @ q" "prefix q a"
      "(\<exists>x. r1 = Ok x) \<longrightarrow> q = a" by blast
  show "\<exists>p \<in> {a @ b |a b. a \<in> A \<and> b \<in> B}. \<exists>q. l' = l @ q \<and> prefix q p \<and> ((\<exists>x. r = Ok x) \<longrightarrow> q = p)"
  proof (cases "\<exists>x. r1 = Ok x")
    case True
    then obtain x where "r1 = Ok x" by blast
    with run m1 have "f x (s1, l1) = Some (r, (s', l'))" by simp
    from followsD [OF f this] obtain b q' where b: "b \<in> B" "l' = l1 @ q'" "prefix q' b"
        "(\<exists>x. r = Ok x) \<longrightarrow> q' = b" by blast
    with a True show ?thesis by fastforce
  next
    case False
    with run m1 have "l' = l1" "\<nexists>x. r = Ok x" by (cases r1; auto)+
    moreover from ne obtain b where "b \<in> B" by blast
    ultimately show ?thesis using a by (metis (mono_tags, lifting) mem_Collect_eq prefix_prefix)
  qed
qed

lemma follows_bind1:
  assumes "follows m {a}" "\<And>x. follows (f x) B" "B \<noteq> {}"
  shows "follows (bindG m f) ((@) a ` B)"
  using follows_bind [OF assms] by (rule follows_mono) auto

lemma follows_bind2:
  assumes "follows m {a}" "\<And>x. follows (f x) {b}"
  shows "follows (bindG m f) {a @ b}"
  using follows_bind [OF assms] by (rule follows_mono) auto

lemma follows_query:
  assumes "follows m {[]}" "\<And>x. follows (f x) B" "B \<noteq> {}"
  shows "follows (bindG m f) B"
  using follows_bind1 [OF assms] by simp

lemma follows_for:
  assumes "\<And>x. follows (body x) {plan x}"
  shows "follows (forG body xs) {concat (map plan xs)}"
proof (induction xs)
  case Nil
  show ?case unfolding forG.simps list.map concat.simps by (rule follows_return)
next
  case (Cons x xs)
  show ?case using follows_bind2 [OF assms Cons] by simp
qed

lemma follows_if: "follows m {a} \<Longrightarrow> follows n {b} \<Longrightarrow> follows (if c then m else n) {if c then a else b}"
  by simp

section \<open>The lifecycle of a plugin\<close>

text \<open>
  The statements of one pass over a plugin, given whether it exists and is enabled and the
  services that the database lists for it.
\<close>

definition lifecycle ::
  "(nat \<Rightarrow> nat) \<Rightarrow> PluginSpec \<Rightarrow> string \<Rightarrow> bool \<Rightarrow> bool \<Rightarrow> (string \<times> string list) list \<Rightarrow> string list" where
  "lifecycle orbit plugin tierName existing enabled services =
     (let n = pl_Name plugin; v = pl_Version plugin in
      (if \<not> existing then [createPluginSQL n v] else []) @
      (if \<not> enabled
       then map (\<lambda>svc. addServiceSQL n v (pl_SvcName svc) tierName) (pl_Services plugin) @
            map (\<lambda>(k, val). setContextSQL n v k val) (pl_MigrationContext plugin) @
            [migrateSQL n v]
       else []) @
      map (\<lambda>(svc, _). addServiceSQL n v svc tierName)
        (filter (\<lambda>(_, tiers). \<not> containsString orbit tiers tierName) services) @
      (if \<not> enabled then [enableSQL n v] else []))"

lemma logExec_sel [simp]:
  "rc_FoldClass (logExec r) = rc_FoldClass r"
  "rc_Exec (logExec r) = (\<lambda>c q. noting q (rc_Exec r c q))"
  "rc_QueryEnabled (logExec r) = (\<lambda>c q. quietly (rc_QueryEnabled r c q))"
  "rc_QueryServices (logExec r) = (\<lambda>c q. quietly (rc_QueryServices r c q))"
  "rc_QueryPlugins (logExec r) = (\<lambda>c q. quietly (rc_QueryPlugins r c q))"
  by (simp_all add: logExec_def)

lemma follows_rowsErr: "follows (rowsErr rows x) {[]}"
  by (cases "rw_Err rows") (simp_all add: rowsErr_def follows_return follows_fail del: run_return run_fail)

lemma follows_queryPluginState: "follows (queryPluginState (logExec r) conn n v) {[]}"
proof -
  have "follows (case rw_Rows rows of [] \<Rightarrow> rowsErr rows (False, False)
       | Inl e # _ \<Rightarrow> failG e | Inr enabled # _ \<Rightarrow> rowsErr rows (True, enabled)) {[]}" for rows
    by (auto simp: follows_rowsErr follows_fail simp del: run_fail split: list.split sum.split)
  then show ?thesis
    unfolding queryPluginState_def logExec_sel using follows_bind2 [OF follows_quietly] by fastforce
qed

lemma follows_queryPluginServices: "follows (queryPluginServices (logExec r) conn n v) {[]}"
  unfolding queryPluginServices_def logExec_sel
  using follows_bind2 [OF follows_quietly follows_rowsErr] by fastforce

lemma follows_addService:
  "follows (addService (logExec r) conn plugin tierName svc)
     {[addServiceSQL (pl_Name plugin) (pl_Version plugin) svc tierName]}"
  unfolding addService_def logExec_sel by (intro follows_wrap follows_noting)

lemma concat_map_singleton: "concat (map (\<lambda>x. [f x]) xs) = map f xs"
  by (induction xs) simp_all

lemma follows_installPlugin:
  "follows (installPlugin (logExec r) conn plugin tierName)
     {map (\<lambda>svc. addServiceSQL (pl_Name plugin) (pl_Version plugin) (pl_SvcName svc) tierName) (pl_Services plugin) @
      map (\<lambda>(k, val). setContextSQL (pl_Name plugin) (pl_Version plugin) k val) (pl_MigrationContext plugin) @
      [migrateSQL (pl_Name plugin) (pl_Version plugin)]}"
proof -
  have set_ctx: "follows ((\<lambda>(k, v). wrapG (''SET migration_context.'' @ k)
        (rc_Exec (logExec r) conn (setContextSQL (pl_Name plugin) (pl_Version plugin) k v))) kv)
      {[(\<lambda>(k, v). setContextSQL (pl_Name plugin) (pl_Version plugin) k v) kv]}" for kv
    unfolding logExec_sel by (cases kv) (auto intro: follows_wrap follows_noting)
  show ?thesis
    unfolding installPlugin_def
    by (rule follows_bind2 follows_for [OF follows_addService, unfolded concat_map_singleton]
        follows_for [OF set_ctx, unfolded concat_map_singleton])+
      (auto intro: follows_wrap follows_noting)
qed

lemma follows_bindServices:
  "follows (forG (\<lambda>(svcName, tiers).
       if \<not> containsString orbit tiers tierName then addService (logExec r) conn plugin tierName svcName
       else returnG ()) services)
     {map (\<lambda>(svc, _). addServiceSQL (pl_Name plugin) (pl_Version plugin) svc tierName)
        (filter (\<lambda>(_, tiers). \<not> containsString orbit tiers tierName) services)}"
proof -
  let ?plan = "\<lambda>(svc, tiers). if \<not> containsString orbit tiers tierName
      then [addServiceSQL (pl_Name plugin) (pl_Version plugin) svc tierName] else []"
  have eq: "map (\<lambda>(svc, _). addServiceSQL (pl_Name plugin) (pl_Version plugin) svc tierName)
        (filter (\<lambda>(_, tiers). \<not> containsString orbit tiers tierName) services) =
      concat (map ?plan services)"
    by (induction services) auto
  show ?thesis
    unfolding eq by (rule follows_for) (simp add: split_beta follows_addService follows_return del: run_return)
qed

lemma follows_exec: "follows (wrapG msg (rc_Exec (logExec r) conn q)) {[q]}"
  unfolding logExec_sel by (intro follows_wrap follows_noting)

lemma follows_when: "follows m {a} \<Longrightarrow> follows (if c then m else returnG ()) {if c then a else []}"
  by (simp add: follows_return del: run_return)

text \<open>A query that the log does not see runs as it does without the log.\<close>

lemma quietly_return: "quietly (returnG x) = returnG x"
  by (rule ext) (auto simp: quietly_def)

lemma quietly_fail: "quietly (failG e) = failG e"
  by (rule ext) (auto simp: quietly_def)

lemma quietly_bind: "bindG (quietly m) (\<lambda>x. quietly (f x)) = quietly (bindG m f)"
  by (rule ext) (auto simp: quietly_def bindG_def split: option.split prod.split result.split)

lemma quietly_rowsErr: "quietly (rowsErr rows x) = rowsErr rows x"
  by (cases "rw_Err rows") (simp_all add: rowsErr_def quietly_return quietly_fail del: run_return run_fail)

lemma queryPluginState_quiet: "queryPluginState (logExec r) conn n v = quietly (queryPluginState r conn n v)"
proof -
  have eq: "(case rw_Rows rows of [] \<Rightarrow> rowsErr rows (False, False)
       | Inl e # _ \<Rightarrow> failG e | Inr enabled # _ \<Rightarrow> rowsErr rows (True, enabled)) =
     quietly (case rw_Rows rows of [] \<Rightarrow> rowsErr rows (False, False)
       | Inl e # _ \<Rightarrow> failG e | Inr enabled # _ \<Rightarrow> rowsErr rows (True, enabled))" for rows
    by (auto simp: quietly_rowsErr quietly_fail simp del: run_fail split: list.split sum.split)
  show ?thesis
    unfolding queryPluginState_def logExec_sel quietly_bind [symmetric]
    by (rule arg_cong [where f = "bindG _"]) (rule ext, rule eq)
qed

text \<open>What follows the first query, given its answer.\<close>

definition afterState ::
  "'s Reconciler \<Rightarrow> conn \<Rightarrow> PluginSpec \<Rightarrow> string \<Rightarrow> bool \<Rightarrow> bool \<Rightarrow> ('s, PluginStatus) go" where
  "afterState r conn plugin tierName existing enabled =
     bindG (if \<not> existing
            then wrapG ''CREATE PLUGIN''
                   (rc_Exec r conn (createPluginSQL (pl_Name plugin) (pl_Version plugin)))
            else returnG ()) (\<lambda>_.
     bindG (if \<not> enabled then installPlugin r conn plugin tierName else returnG ()) (\<lambda>_.
     bindG (queryPluginServices r conn (pl_Name plugin) (pl_Version plugin)) (\<lambda>services.
     bindG (forG (\<lambda>(svcName, tiers).
                    if \<not> containsString (rc_FoldClass r) tiers tierName then addService r conn plugin tierName svcName
                    else returnG ()) services) (\<lambda>_.
     bindG (if \<not> enabled
            then wrapG ''ENABLE PLUGIN''
                   (rc_Exec r conn (enableSQL (pl_Name plugin) (pl_Version plugin)))
            else returnG ()) (\<lambda>_.
       returnG \<lparr>pu_Name = pl_Name plugin, pu_Version = pl_Version plugin,
                pu_Enabled = (if \<not> enabled then True else enabled)\<rparr>)))))"

lemma reconcilePlugin_state:
  "reconcilePlugin r conn plugin tierName =
     bindG (queryPluginState r conn (pl_Name plugin) (pl_Version plugin)) (\<lambda>(existing, enabled).
       afterState r conn plugin tierName existing enabled)"
  unfolding reconcilePlugin_def afterState_def by (rule refl)

lemma follows_afterState:
  "follows (afterState (logExec r) conn plugin tierName existing enabled)
     (range (lifecycle (rc_FoldClass r) plugin tierName existing enabled))"
proof -
  let ?n = "pl_Name plugin" and ?v = "pl_Version plugin"
  let ?bind = "\<lambda>services. map (\<lambda>(svc, _). addServiceSQL ?n ?v svc tierName)
        (filter (\<lambda>(_, tiers). \<not> containsString (rc_FoldClass r) tiers tierName) services)"
  have tail: "follows (bindG (forG (\<lambda>(svcName, tiers).
          if \<not> containsString (rc_FoldClass r) tiers tierName then addService (logExec r) conn plugin tierName svcName
          else returnG ()) services) (\<lambda>_.
        bindG (if \<not> enabled then wrapG ''ENABLE PLUGIN'' (rc_Exec (logExec r) conn (enableSQL ?n ?v))
               else returnG ()) (\<lambda>_. returnG st)))
      {?bind services @ (if \<not> enabled then [enableSQL ?n ?v] else []) @ []}" for services st
    by (intro follows_bind2 follows_bindServices follows_when follows_exec follows_return)
  have rest: "follows (bindG (queryPluginServices (logExec r) conn ?n ?v) (\<lambda>services.
        bindG (forG (\<lambda>(svcName, tiers).
          if \<not> containsString (rc_FoldClass r) tiers tierName then addService (logExec r) conn plugin tierName svcName
          else returnG ()) services) (\<lambda>_.
        bindG (if \<not> enabled then wrapG ''ENABLE PLUGIN'' (rc_Exec (logExec r) conn (enableSQL ?n ?v))
               else returnG ()) (\<lambda>_. returnG st))))
      (range (\<lambda>services. ?bind services @ (if \<not> enabled then [enableSQL ?n ?v] else []) @ []))"
    for st
    by (rule follows_query [OF follows_queryPluginServices follows_mono [OF tail]]) auto
  note install = follows_bind1 [OF follows_when [OF follows_installPlugin] rest]
  note create = follows_bind1 [OF follows_when [OF follows_exec] install]
  show ?thesis
    unfolding afterState_def logExec_sel(1)
    by (rule follows_mono, rule create) (auto simp: lifecycle_def Let_def)
qed

text \<open>The statements that a pass over a plugin sends, given the state that the database reports.\<close>

lemma reconcilePlugin_trace:
  assumes state: "queryPluginState r conn (pl_Name plugin) (pl_Version plugin) s = Some (Ok (existing, enabled), s1)"
    and run: "reconcilePlugin (logExec r) conn plugin tierName (s, l) = Some (res, (s', l'))"
  shows "\<exists>services q. l' = l @ q \<and> prefix q (lifecycle (rc_FoldClass r) plugin tierName existing enabled services) \<and>
    ((\<exists>x. res = Ok x) \<longrightarrow> q = lifecycle (rc_FoldClass r) plugin tierName existing enabled services)"
proof -
  have "queryPluginState (logExec r) conn (pl_Name plugin) (pl_Version plugin) (s, l) =
      Some (Ok (existing, enabled), (s1, l))"
    by (simp add: queryPluginState_quiet quietly_def state)
  with run have "afterState (logExec r) conn plugin tierName existing enabled (s1, l) = Some (res, (s', l'))"
    by (simp add: reconcilePlugin_state)
  from followsD [OF follows_afterState this] show ?thesis by blast
qed

text \<open>An enabled plugin whose services are all bound gets no statement, and the pass succeeds.\<close>

lemma steady_services:
  assumes "\<forall>(svc, tiers) \<in> set services. containsString orbit tiers tierName"
  shows "forG (\<lambda>(svcName, tiers). if \<not> containsString orbit tiers tierName
      then addService r conn plugin tierName svcName else returnG ()) services s = Some (Ok (), s)"
  using assms by (induction services) auto

lemma reconcilePlugin_steady:
  assumes "queryPluginState r conn (pl_Name plugin) (pl_Version plugin) s = Some (Ok (True, True), s1)"
    and "queryPluginServices r conn (pl_Name plugin) (pl_Version plugin) s1 = Some (Ok services, s2)"
    and "\<forall>(svc, tiers) \<in> set services. containsString (rc_FoldClass r) tiers tierName"
  shows "reconcilePlugin r conn plugin tierName s =
    Some (Ok \<lparr>pu_Name = pl_Name plugin, pu_Version = pl_Version plugin, pu_Enabled = True\<rparr>, s2)"
  using assms(1,2) steady_services [OF assms(3), of r conn plugin s2]
  by (simp add: reconcilePlugin_state afterState_def)

lemma reconcilePlugin_enabled:
  assumes "reconcilePlugin r conn plugin tierName s = Some (Ok st, s')"
  shows "st = \<lparr>pu_Name = pl_Name plugin, pu_Version = pl_Version plugin, pu_Enabled = True\<rparr>"
  using assms by (auto simp: reconcilePlugin_state afterState_def bind_Ok_iff split_beta)

section \<open>Obsolete versions\<close>

definition dropStatements :: "TierSpec \<Rightarrow> (string \<times> string \<times> bool) list \<Rightarrow> string list" where
  "dropStatements tier installed =
     concat (map (\<lambda>(name, version, enabled).
       if keepsPlugin tier (name, version, enabled) then []
       else (if enabled then [disableSQL name version] else []) @ [dropSQL name version]) installed)"

lemma follows_dropPlugin:
  "follows (dropPlugin (logExec r) conn (n, v, e)) {(if e then [disableSQL n v] else []) @ [dropSQL n v]}"
  unfolding dropPlugin_def prod.case by (intro follows_bind2 follows_when follows_exec)

lemma follows_drops:
  "follows (forG (\<lambda>inst. if keepsPlugin tier inst then returnG () else dropPlugin (logExec r) conn inst) installed)
     {dropStatements tier installed}"
  unfolding dropStatements_def
proof (rule follows_for)
  fix x
  show "follows (if keepsPlugin tier x then returnG () else dropPlugin (logExec r) conn x)
     {case x of (name, version, enabled) \<Rightarrow>
        if keepsPlugin tier (name, version, enabled) then []
        else (if enabled then [disableSQL name version] else []) @ [dropSQL name version]}"
  proof (cases x)
    case (fields n v e)
    show ?thesis unfolding fields prod.case by (rule follows_if [OF follows_return follows_dropPlugin])
  qed
qed

lemma dropObsoletePlugins_trace:
  assumes rows: "rc_QueryPlugins r conn selectPluginsSQL s = Some (Ok rows, s1)"
    and run: "dropObsoletePlugins (logExec r) conn tier (s, l) = Some (res, (s', l'))"
  shows "\<exists>q. l' = l @ q \<and> prefix q (dropStatements tier (scannedRows (rw_Rows rows))) \<and>
    (res = Ok () \<longrightarrow> q = dropStatements tier (scannedRows (rw_Rows rows)))"
proof (cases "rw_Err rows")
  case None
  with rows run have "forG (\<lambda>inst. if keepsPlugin tier inst then returnG () else dropPlugin (logExec r) conn inst)
      (scannedRows (rw_Rows rows)) (s1, l) = Some (res, (s', l'))"
    by (simp add: dropObsoletePlugins_def quietly_def rowsErr_def)
  from followsD [OF follows_drops this] show ?thesis by blast
next
  case (Some e)
  with rows run show ?thesis
    by (auto simp: dropObsoletePlugins_def quietly_def rowsErr_def bindG_def)
qed

lemma set_dropStatements:
  "q \<in> set (dropStatements tier installed) \<longleftrightarrow>
   (\<exists>n v e. (n, v, e) \<in> set installed \<and> map_of (desiredVersions tier) n \<noteq> Some v \<and>
      (q = dropSQL n v \<or> (e \<and> q = disableSQL n v)))"
  by (fastforce simp: dropStatements_def keepsPlugin_def split: if_splits)

end
