(* ===== verification/Controller.thy ===== *)
theory Controller
  imports Plugins
begin

text \<open>
  \<open>reconcileTier\<close> and \<open>Reconcile\<close> of internal/controller/picoclusterdb_controller.go, composed of
  the builders and the resource reconcilers in the order of the source. The loop over the
  replicasets counts with an int32, so it is a \<open>partial_function\<close>: whether it returns is a theorem,
  and not true of every tier. The tier is threaded through because building a StatefulSet writes
  through its pointers.
\<close>

section \<open>One tier\<close>

definition setRefMeta :: "'s Reconciler \<Rightarrow> PicoclusterDB \<Rightarrow> ObjectMeta \<Rightarrow> ('s, ObjectMeta) go" where
  "setRefMeta r cl m = liftG (rc_SetControllerReference r cl m)"

text \<open>The body of the loop over the replicasets.\<close>

definition rsBody ::
  "'s Reconciler \<Rightarrow> PicoclusterDB \<Rightarrow> string \<Rightarrow> int32 \<Rightarrow> TierSpec \<Rightarrow> ('s, TierSpec) go" where
  "rsBody r cl configData rsIndex tier =
     (let (sts, tier') = buildStatefulSet (rc_Quantity r) cl tier rsIndex configData
      in bindG (setRefMeta r cl (st_Meta sts)) (\<lambda>m.
         bindG (wrapG (''statefulset rs'' @ fmt_d rsIndex)
                  (reconcileStatefulSet r (sts\<lparr>st_Meta := m\<rparr>))) (\<lambda>_.
           returnG tier')))"

text \<open>\<open>for rsIndex := int32(1); rsIndex <= tier.Replicas; rsIndex++\<close>, from an index on.\<close>

partial_function (option) rsLoop ::
  "'s Reconciler \<Rightarrow> PicoclusterDB \<Rightarrow> string \<Rightarrow> int32 \<Rightarrow> TierSpec \<Rightarrow> 's \<Rightarrow> (TierSpec result \<times> 's) option" where
  "rsLoop r cl configData rsIndex tier s =
     (if sint rsIndex \<le> sint (tier_Replicas tier)
      then bindG (rsBody r cl configData rsIndex tier)
             (\<lambda>tier'. rsLoop r cl configData (rsIndex + 1) tier') s
      else returnG tier s)"

definition reconcileTierIngress :: "'s Reconciler \<Rightarrow> PicoclusterDB \<Rightarrow> TierSpec \<Rightarrow> ('s, unit) go" where
  "reconcileTierIngress r cl tier =
     (if (case tier_Ingress tier of None \<Rightarrow> False | Some i \<Rightarrow> in_Enabled i)
      then bindG (liftG (buildIngress cl tier)) (\<lambda>desiredIngress.
           bindG (setRefMeta r cl (ig_Meta desiredIngress)) (\<lambda>m.
             wrapG ''ingress'' (reconcileIngress r (desiredIngress\<lparr>ig_Meta := m\<rparr>))))
      else returnG ())"

definition reconcileTier :: "'s Reconciler \<Rightarrow> PicoclusterDB \<Rightarrow> TierSpec \<Rightarrow> ('s, TierSpec) go" where
  "reconcileTier r cl tier =
     bindG (liftG (buildConfigMap cl tier)) (\<lambda>desiredCM.
     bindG (setRefMeta r cl (cm_Meta desiredCM)) (\<lambda>m.
     bindG (wrapG ''configmap'' (reconcileConfigMap r (desiredCM\<lparr>cm_Meta := m\<rparr>))) (\<lambda>_.
     let desiredHeadless = buildInterconnectService cl tier in
     bindG (setRefMeta r cl (sv_Meta desiredHeadless)) (\<lambda>m.
     bindG (wrapG ''headless service'' (reconcileService r (desiredHeadless\<lparr>sv_Meta := m\<rparr>))) (\<lambda>_.
     let desiredClient = buildClientService cl tier in
     bindG (setRefMeta r cl (sv_Meta desiredClient)) (\<lambda>m.
     bindG (wrapG ''client service'' (reconcileService r (desiredClient\<lparr>sv_Meta := m\<rparr>))) (\<lambda>_.
     let configData = (case map_of (cm_Data desiredCM) ''config.yaml'' of None \<Rightarrow> '''' | Some d \<Rightarrow> d) in
     bindG (rsLoop r cl configData 1 tier) (\<lambda>tier'.
     bindG (wrapG ''cleanup statefulsets'' (deleteExtraStatefulSets r cl tier')) (\<lambda>_.
     bindG (reconcileTierIngress r cl tier') (\<lambda>_.
       returnG tier'))))))))))"

section \<open>The whole cluster\<close>

text \<open>\<open>ctrl.Result\<close>: only \<open>RequeueAfter\<close> is ever set, here in seconds.\<close>

record Result =
  rs_RequeueAfter :: int

text \<open>What the body of the loop over the tiers keeps between iterations.\<close>

record Progress =
  pg_Cluster :: PicoclusterDB
  pg_Statuses :: "TierStatus list"
  pg_AllReady :: bool

text \<open>The body either returns from \<open>Reconcile\<close> or goes on.\<close>

datatype step = Done Result | Continue Progress

definition setTier :: "nat \<Rightarrow> TierSpec \<Rightarrow> PicoclusterDB \<Rightarrow> PicoclusterDB" where
  "setTier i tier cl = cl\<lparr>cl_Spec := (cl_Spec cl)\<lparr>spec_Tiers := (cl_Tiers cl)[i := tier]\<rparr>\<rparr>"

definition pluginStep ::
  "'s Reconciler \<Rightarrow> PicoclusterDB \<Rightarrow> TierSpec \<Rightarrow> TierStatus list \<Rightarrow> TierStatus \<Rightarrow> bool \<Rightarrow>
   ('s, Result + TierStatus) go" where
  "pluginStep r cl tier tierStatuses ts ready =
     (if ready \<and> 0 < length (tier_Plugins tier)
      then bindG (tryG (reconcileTierPlugins r cl tier)) (\<lambda>res. case res of
             Inl err \<Rightarrow>
               bindG (tryG (updateStatus r cl tierStatuses False)) (\<lambda>_.
                 returnG (Inl \<lparr>rs_RequeueAfter = 15\<rparr>))
           | Inr pluginStatuses \<Rightarrow> returnG (Inr (ts\<lparr>tt_Plugins := pluginStatuses\<rparr>)))
      else returnG (Inr ts))"

definition tierStep :: "'s Reconciler \<Rightarrow> nat \<Rightarrow> Progress \<Rightarrow> ('s, step) go" where
  "tierStep r i p =
     (let tier = cl_Tiers (pg_Cluster p) ! i in
      bindG (wrapG (''tier '' @ tier_Name tier) (reconcileTier r (pg_Cluster p) tier)) (\<lambda>tier'.
      let cl = setTier i tier' (pg_Cluster p) in
      bindG (tierStatus r cl tier') (\<lambda>(ts, ready).
      bindG (pluginStep r cl tier' (pg_Statuses p) ts ready) (\<lambda>res. case res of
          Inl result \<Rightarrow> returnG (Done result)
        | Inr ts' \<Rightarrow> returnG (Continue
            \<lparr>pg_Cluster = cl, pg_Statuses = pg_Statuses p @ [ts'],
             pg_AllReady = (if \<not> ready then False else pg_AllReady p)\<rparr>)))))"

fun tiersLoop :: "'s Reconciler \<Rightarrow> nat list \<Rightarrow> Progress \<Rightarrow> ('s, step) go" where
  "tiersLoop r [] p = returnG (Continue p)"
| "tiersLoop r (i # is) p =
     bindG (tierStep r i p) (\<lambda>st. case st of
         Done result \<Rightarrow> returnG (Done result)
       | Continue p' \<Rightarrow> tiersLoop r is p')"

definition Reconcile :: "'s Reconciler \<Rightarrow> key \<Rightarrow> ('s, Result) go" where
  "Reconcile r req =
     bindG (tryG (rc_GetPicocluster r req)) (\<lambda>got. case got of
         Inl err \<Rightarrow> if IsNotFound err then returnG \<lparr>rs_RequeueAfter = 0\<rparr> else failG err
       | Inr cl \<Rightarrow>
           bindG (tiersLoop r [0..<length (cl_Tiers cl)]
                    \<lparr>pg_Cluster = cl, pg_Statuses = [], pg_AllReady = True\<rparr>) (\<lambda>st. case st of
               Done result \<Rightarrow> returnG result
             | Continue p \<Rightarrow>
                 bindG (updateStatus r (pg_Cluster p) (pg_Statuses p) (pg_AllReady p)) (\<lambda>_.
                   returnG \<lparr>rs_RequeueAfter = 0\<rparr>)))"

section \<open>The loop over the replicasets\<close>

text \<open>The indices that the counter takes, from one on, when it does not overflow.\<close>

definition rs_indices :: "int32 \<Rightarrow> int32 \<Rightarrow> int32 list" where
  "rs_indices i n = map word_of_int [sint i..sint n]"

lemma rs_indices_Nil: "sint n < sint i \<Longrightarrow> rs_indices i n = []"
  by (simp add: rs_indices_def)

lemma rs_indices_Cons:
  assumes "sint i \<le> sint n" "sint n < 2147483647"
  shows "rs_indices i n = i # rs_indices (i + 1) n"
proof -
  have "sint (i + 1) = sint i + 1" using assms by (intro sint_inc32) simp
  then show ?thesis using assms by (simp add: rs_indices_def upto_rec1)
qed

lemma length_rs_indices: "length (rs_indices 1 n) = nat (sint n)"
  by (simp add: rs_indices_def)

lemma set_rs_indices:
  assumes "sint n < 2147483647"
  shows "j \<in> set (rs_indices 1 n) \<longleftrightarrow> 1 \<le> sint j \<and> sint j \<le> sint n"
proof
  assume "j \<in> set (rs_indices 1 n)"
  then obtain v where v: "1 \<le> v" "v \<le> sint n" "j = word_of_int v"
    by (auto simp: rs_indices_def)
  with assms have "sint j = v" by (simp add: sint_word_of_int32)
  with v show "1 \<le> sint j \<and> sint j \<le> sint n" by simp
next
  assume "1 \<le> sint j \<and> sint j \<le> sint n"
  then have "word_of_int (sint j) \<in> set (rs_indices 1 n)"
    unfolding rs_indices_def set_map by (intro imageI) simp
  then show "j \<in> set (rs_indices 1 n)" by simp
qed

lemma rsBody_replicas:
  assumes "rsBody r cl cfg i tier s = Some (Ok tier', s')"
  shows "tier' = after_build (rc_Quantity r) cl tier i cfg"
  using assms by (auto simp: rsBody_def bind_Ok_iff split_beta Let_def)

text \<open>Below the largest int32 the loop is a fold over the indices, so it ends.\<close>

lemma rsLoop_fold:
  assumes "sint (tier_Replicas tier) < 2147483647"
  shows "rsLoop r cl cfg i tier s = foldG (rsBody r cl cfg) (rs_indices i (tier_Replicas tier)) tier s"
  using assms
proof (induction "nat (sint (tier_Replicas tier) + 1 - sint i)" arbitrary: i tier s)
  case 0
  then have lt: "sint (tier_Replicas tier) < sint i" by simp
  then show ?case by (subst rsLoop.simps) (simp add: rs_indices_Nil)
next
  case (Suc n)
  then have le: "sint i \<le> sint (tier_Replicas tier)" by simp
  have step: "rsLoop r cl cfg (i + 1) tier' s' =
      foldG (rsBody r cl cfg) (rs_indices (i + 1) (tier_Replicas tier)) tier' s'"
    if "rsBody r cl cfg i tier s = Some (Ok tier', s')" for tier' s'
  proof -
    have R: "tier_Replicas tier' = tier_Replicas tier" using rsBody_replicas [OF that] by simp
    have "sint (i + 1) = sint i + 1" using le Suc.prems by (intro sint_inc32) simp
    then have "n = nat (sint (tier_Replicas tier') + 1 - sint (i + 1))" using Suc.hyps(2) R by simp
    then have "rsLoop r cl cfg (i + 1) tier' s' =
        foldG (rsBody r cl cfg) (rs_indices (i + 1) (tier_Replicas tier')) tier' s'"
      using Suc.prems R by (intro Suc.hyps(1)) simp_all
    with R show ?thesis by simp
  qed
  show ?case
    using le Suc.prems step
    by (subst rsLoop.simps) (auto simp: rs_indices_Cons bindG_def split: go_splits)
qed

text \<open>At the largest int32 the counter wraps and the guard never fails.\<close>

lemma rsLoop_diverges:
  assumes body: "\<And>i t s. I s \<Longrightarrow> \<exists>t' s'. rsBody r cl cfg i t s = Some (Ok t', s') \<and> I s'"
    and max: "tier_Replicas tier = MaxInt32" and start: "I s"
  shows "rsLoop r cl cfg i tier s = None"
proof (rule ccontr)
  let ?ok = "\<lambda>r cl cfg. \<forall>i t s. I s \<longrightarrow> (\<exists>t' s'. rsBody r cl cfg i t s = Some (Ok t', s') \<and> I s')"
  assume "rsLoop r cl cfg i tier s \<noteq> None"
  then obtain y where y: "rsLoop r cl cfg i tier s = Some y" by blast
  have "?ok r cl cfg \<longrightarrow> I s \<longrightarrow> tier_Replicas tier \<noteq> MaxInt32"
  proof (rule rsLoop.raw_induct [where P = "\<lambda>r cl cfg i t s y.
      ?ok r cl cfg \<longrightarrow> I s \<longrightarrow> tier_Replicas t \<noteq> MaxInt32", OF _ y])
    fix loop and r :: "'a Reconciler" and cl cfg i t s y
    assume IH: "\<And>r cl cfg i t s y. loop r cl cfg i t s = Some y \<Longrightarrow>
        ?ok (r :: 'a Reconciler) cl cfg \<longrightarrow> I s \<longrightarrow> tier_Replicas t \<noteq> MaxInt32"
      and eq: "(if sint i \<le> sint (tier_Replicas t)
         then bindG (rsBody r cl cfg i t) (loop r cl cfg (i + 1)) s else returnG t s) = Some y"
    show "?ok r cl cfg \<longrightarrow> I s \<longrightarrow> tier_Replicas t \<noteq> MaxInt32"
    proof (intro impI notI)
      assume all: "?ok r cl cfg" and I: "I s" and R: "tier_Replicas t = MaxInt32"
      from all I obtain t' s' where b: "rsBody r cl cfg i t s = Some (Ok t', s')" "I s'" by blast
      have "loop r cl cfg (i + 1) t' s' = Some y"
        using eq b(1) R sint32_upper [of i] by simp
      with IH all b(2) have "tier_Replicas t' \<noteq> MaxInt32" by blast
      with rsBody_replicas [OF b(1)] R show False by simp
    qed
  qed
  with body max start show False by blast
qed

section \<open>The loop over the tiers\<close>

lemma tiersLoop_append:
  "tiersLoop r (is @ js) p s =
   bindG (tiersLoop r is p) (\<lambda>st. case st of
       Done result \<Rightarrow> returnG (Done result) | Continue p' \<Rightarrow> tiersLoop r js p') s"
proof (induction "is" arbitrary: p s)
  case Nil
  show ?case unfolding tiersLoop.simps append.simps by simp
next
  case (Cons i "is")
  show ?case
  proof (cases "tierStep r i p s")
    case None
    then show ?thesis by simp
  next
    case (Some a)
    obtain res s' where a: "a = (res, s')" by (cases a)
    show ?thesis
    proof (cases res)
      case (Ok st)
      with Some a Cons show ?thesis by (cases st) (simp_all add: bindG_def split: go_splits)
    qed (use Some a in simp_all)
  qed
qed

definition tier_ready :: "TierStatus \<Rightarrow> bool" where
  "tier_ready ts \<longleftrightarrow> sint (tt_DesiredReplicas ts) \<le> sint (tt_ReadyReplicas ts)"

lemma pluginStep_counts:
  assumes "pluginStep r cl tier sts ts ready s = Some (Ok (Inr ts'), s')"
  shows "\<exists>pls. ts' = ts\<lparr>tt_Plugins := pls\<rparr>"
proof (cases "ready \<and> 0 < length (tier_Plugins tier)")
  case True
  with assms obtain res s1 where res: "tryG (reconcileTierPlugins r cl tier) s = Some (Ok res, s1)"
      "(case res of
          Inl err \<Rightarrow> bindG (tryG (updateStatus r cl sts False)) (\<lambda>_. returnG (Inl \<lparr>rs_RequeueAfter = 15\<rparr>))
        | Inr pls \<Rightarrow> returnG (Inr (ts\<lparr>tt_Plugins := pls\<rparr>))) s1 = Some (Ok (Inr ts'), s')"
    unfolding pluginStep_def if_P [OF True] bind_Ok_iff by blast
  then show ?thesis by (cases res) (auto simp: bind_Ok_iff)
next
  case False
  with assms have "ts' = ts\<lparr>tt_Plugins := tt_Plugins ts\<rparr>" by (auto simp: pluginStep_def)
  then show ?thesis by blast
qed

lemma tierStep_status:
  assumes "tierStep r i p s = Some (Ok (Continue p'), s')"
  shows "\<exists>ts. pg_Statuses p' = pg_Statuses p @ [ts] \<and> pg_AllReady p' = (pg_AllReady p \<and> tier_ready ts)"
proof -
  from assms obtain tier' s1 ts ready s2 ts' where
      st: "tierStatus r (setTier i tier' (pg_Cluster p)) tier' s1 = Some (Ok (ts, ready), s2)"
      and pl: "pluginStep r (setTier i tier' (pg_Cluster p)) tier' (pg_Statuses p) ts ready s2 = Some (Ok (Inr ts'), s')"
      and p': "p' = \<lparr>pg_Cluster = setTier i tier' (pg_Cluster p), pg_Statuses = pg_Statuses p @ [ts'],
          pg_AllReady = (if \<not> ready then False else pg_AllReady p)\<rparr>"
    by (auto simp: tierStep_def Let_def bind_Ok_iff split: sum.splits) (metis sum.exhaust)
  have "ready = tier_ready ts" using st by (auto simp: tierStatus_def bind_Ok_iff tier_ready_def)
  then have "ready = tier_ready ts'" using pluginStep_counts [OF pl] by (auto simp: tier_ready_def)
  with p' show ?thesis by auto
qed

text \<open>The loop collects one status per tier and is all ready exactly when every one of them is.\<close>

lemma tiersLoop_statuses:
  assumes "tiersLoop r is p s = Some (Ok (Continue p'), s')"
  shows "\<exists>new. pg_Statuses p' = pg_Statuses p @ new \<and> length new = length is \<and>
    pg_AllReady p' = (pg_AllReady p \<and> list_all tier_ready new)"
  using assms
proof (induction "is" arbitrary: p s)
  case Nil
  then show ?case by simp
next
  case (Cons i "is")
  then obtain p1 s1 where p1: "tierStep r i p s = Some (Ok (Continue p1), s1)"
      "tiersLoop r is p1 s1 = Some (Ok (Continue p'), s')"
    by (auto simp: bind_Ok_iff split: step.splits) (metis step.exhaust)
  from tierStep_status [OF p1(1)] obtain ts where ts: "pg_Statuses p1 = pg_Statuses p @ [ts]"
      "pg_AllReady p1 = (pg_AllReady p \<and> tier_ready ts)" by blast
  from Cons.IH [OF p1(2)] obtain new where "pg_Statuses p' = pg_Statuses p1 @ new" "length new = length is"
      "pg_AllReady p' = (pg_AllReady p1 \<and> list_all tier_ready new)" by blast
  with ts show ?case by (intro exI [of _ "ts # new"]) auto
qed

text \<open>The loop leaves early only to be called again in 15 seconds.\<close>

lemma pluginStep_done:
  assumes "pluginStep r cl tier sts ts ready s = Some (Ok (Inl d), s')"
  shows "d = \<lparr>rs_RequeueAfter = 15\<rparr>"
proof (cases "ready \<and> 0 < length (tier_Plugins tier)")
  case True
  with assms obtain res s1 where "tryG (reconcileTierPlugins r cl tier) s = Some (Ok res, s1)"
      "(case res of
          Inl err \<Rightarrow> bindG (tryG (updateStatus r cl sts False)) (\<lambda>_. returnG (Inl \<lparr>rs_RequeueAfter = 15\<rparr>))
        | Inr pls \<Rightarrow> returnG (Inr (ts\<lparr>tt_Plugins := pls\<rparr>))) s1 = Some (Ok (Inl d), s')"
    unfolding pluginStep_def if_P [OF True] bind_Ok_iff by blast
  then show ?thesis by (cases res) (auto simp: bind_Ok_iff)
qed (use assms in \<open>auto simp: pluginStep_def\<close>)

lemma tierStep_done:
  assumes "tierStep r i p s = Some (Ok (Done d), s')"
  shows "d = \<lparr>rs_RequeueAfter = 15\<rparr>"
proof -
  from assms obtain cl tier ts ready s1 res s2 where
      res: "pluginStep r cl tier (pg_Statuses p) ts ready s1 = Some (Ok res, s2)"
      "(case res of Inl result \<Rightarrow> returnG (Done result)
        | Inr ts' \<Rightarrow> returnG (Continue \<lparr>pg_Cluster = cl, pg_Statuses = pg_Statuses p @ [ts'],
             pg_AllReady = (if \<not> ready then False else pg_AllReady p)\<rparr>)) s2 = Some (Ok (Done d), s')"
    unfolding tierStep_def Let_def bind_Ok_iff split_beta by blast
  then show ?thesis by (cases res) (auto dest: pluginStep_done)
qed

lemma tiersLoop_done:
  assumes "tiersLoop r is p s = Some (Ok (Done d), s')"
  shows "d = \<lparr>rs_RequeueAfter = 15\<rparr>"
  using assms
proof (induction "is" arbitrary: p s)
  case (Cons i "is")
  then obtain st s1 where st: "tierStep r i p s = Some (Ok st, s1)"
      "(case st of Done result \<Rightarrow> returnG (Done result) | Continue p' \<Rightarrow> tiersLoop r is p') s1 =
        Some (Ok (Done d), s')"
    unfolding tiersLoop.simps bind_Ok_iff by blast
  then show ?case by (cases st) (auto dest: tierStep_done Cons.IH)
qed simp

end
