(* ===== verification/Upsert.thy ===== *)
theory Upsert
  imports Reconciler
begin

text \<open>
  The four resource reconcilers follow one pattern: get the object, create it if it is absent, else
  overwrite the managed fields and patch. The locale \<open>object_kind\<close> states what the pattern needs of
  a kind of object; its interpretations on the four merge functions of the reconciler discharge
  that. \<open>kind_server\<close> is the documented behaviour of an API server for one kind, the hypothesis
  under which a reconciler is shown to converge.
\<close>

section \<open>The pattern\<close>

definition upsert ::
  "(key \<Rightarrow> ('s, 'o) go) \<Rightarrow> ('o \<Rightarrow> ('s, unit) go) \<Rightarrow> ('o \<Rightarrow> 'o \<Rightarrow> ('s, unit) go) \<Rightarrow>
   ('o \<Rightarrow> ObjectMeta) \<Rightarrow> ('o \<Rightarrow> 'o \<Rightarrow> 'o) \<Rightarrow> 'o \<Rightarrow> ('s, unit) go" where
  "upsert get create patch meta merge desired =
     bindG (tryG (get (meta_key (meta desired)))) (\<lambda>got. case got of
         Inl err \<Rightarrow> if IsNotFound err then create desired else failG err
       | Inr existing \<Rightarrow> patch existing (merge existing desired))"

lemma reconcile_upsert:
  "reconcileConfigMap r = upsert (rc_GetConfigMap r) (rc_CreateConfigMap r) (rc_PatchConfigMap r) cm_Meta mergeConfigMap"
  "reconcileService r = upsert (rc_GetService r) (rc_CreateService r) (rc_PatchService r) sv_Meta mergeService"
  "reconcileIngress r = upsert (rc_GetIngress r) (rc_CreateIngress r) (rc_PatchIngress r) ig_Meta mergeIngress"
  "reconcileStatefulSet r = upsert (rc_GetStatefulSet r) (rc_CreateStatefulSet r) (rc_PatchStatefulSet r) st_Meta mergeStatefulSet"
  by (rule ext, simp only: upsert_def reconcileConfigMap_def reconcileService_def
      reconcileIngress_def reconcileStatefulSet_def)+

section \<open>An API server, for one kind\<close>

text \<open>
  \<open>sel\<close> and \<open>upd\<close> read and write the objects of the kind in a view of the world. A read returns
  what is stored, or an error that \<open>IsNotFound\<close> recognises; creating an absent object and patching
  an object that is still as it was read succeed and store what was sent.
\<close>

definition kind_server ::
  "(key \<Rightarrow> ('s, 'o) go) \<Rightarrow> ('o \<Rightarrow> ('s, unit) go) \<Rightarrow> ('o \<Rightarrow> 'o \<Rightarrow> ('s, unit) go) \<Rightarrow>
   ('o \<Rightarrow> ObjectMeta) \<Rightarrow> ('v \<Rightarrow> key \<rightharpoonup> 'o) \<Rightarrow> (((key \<rightharpoonup> 'o) \<Rightarrow> (key \<rightharpoonup> 'o)) \<Rightarrow> 'v \<Rightarrow> 'v) \<Rightarrow>
   ('s \<Rightarrow> 'v) \<Rightarrow> bool" where
  "kind_server get create patch meta sel upd view \<longleftrightarrow>
     (\<forall>k s. case sel (view s) k of
        None \<Rightarrow> \<exists>e s'. get k s = Some (Err e, s') \<and> IsNotFound e \<and> view s' = view s
      | Some ob \<Rightarrow> \<exists>s'. get k s = Some (Ok ob, s') \<and> view s' = view s) \<and>
     (\<forall>ob s. sel (view s) (meta_key (meta ob)) = None \<longrightarrow>
        (\<exists>s'. create ob s = Some (Ok (), s') \<and>
              view s' = upd (\<lambda>m. m(meta_key (meta ob) \<mapsto> ob)) (view s))) \<and>
     (\<forall>old new s. sel (view s) (meta_key (meta old)) = Some old \<and>
        meta_key (meta new) = meta_key (meta old) \<longrightarrow>
        (\<exists>s'. patch old new s = Some (Ok (), s') \<and>
              view s' = upd (\<lambda>m. m(meta_key (meta old) \<mapsto> new)) (view s)))"

lemma kind_server_absent:
  assumes "kind_server get create patch meta sel upd view" "sel (view s) k = None"
  obtains e s' where "get k s = Some (Err e, s')" "IsNotFound e" "view s' = view s"
proof -
  from assms(1) have "case sel (view s) k of
      None \<Rightarrow> \<exists>e s'. get k s = Some (Err e, s') \<and> IsNotFound e \<and> view s' = view s
    | Some ob \<Rightarrow> \<exists>s'. get k s = Some (Ok ob, s') \<and> view s' = view s"
    unfolding kind_server_def by blast
  with assms(2) that show ?thesis by auto
qed

lemma kind_server_present:
  assumes "kind_server get create patch meta sel upd view" "sel (view s) k = Some ob"
  obtains s' where "get k s = Some (Ok ob, s')" "view s' = view s"
proof -
  from assms(1) have "case sel (view s) k of
      None \<Rightarrow> \<exists>e s'. get k s = Some (Err e, s') \<and> IsNotFound e \<and> view s' = view s
    | Some ob \<Rightarrow> \<exists>s'. get k s = Some (Ok ob, s') \<and> view s' = view s"
    unfolding kind_server_def by blast
  with assms(2) that show ?thesis by auto
qed

lemma kind_server_create:
  assumes "kind_server get create patch meta sel upd view"
    and "sel (view s) (meta_key (meta ob)) = None"
  obtains s' where "create ob s = Some (Ok (), s')"
    "view s' = upd (\<lambda>m. m(meta_key (meta ob) \<mapsto> ob)) (view s)"
  using assms unfolding kind_server_def by blast

lemma kind_server_patch:
  assumes "kind_server get create patch meta sel upd view"
    and "sel (view s) (meta_key (meta old)) = Some old" "meta_key (meta new) = meta_key (meta old)"
  obtains s' where "patch old new s = Some (Ok (), s')"
    "view s' = upd (\<lambda>m. m(meta_key (meta old) \<mapsto> new)) (view s)"
  using assms unfolding kind_server_def by blast

definition put_object :: "('o \<Rightarrow> 'o \<Rightarrow> 'o) \<Rightarrow> 'o option \<Rightarrow> 'o \<Rightarrow> 'o" where
  "put_object merge old desired = (case old of None \<Rightarrow> desired | Some e \<Rightarrow> merge e desired)"

section \<open>Kinds of objects\<close>

locale object_kind =
  fixes meta :: "'o \<Rightarrow> ObjectMeta"
    and merge :: "'o \<Rightarrow> 'o \<Rightarrow> 'o"
    and managed :: "'o \<Rightarrow> 'm"
    and unmanaged :: "'o \<Rightarrow> 'u"
  assumes merge_key: "meta_key (meta (merge e d)) = meta_key (meta e)"
    and merge_managed: "managed (merge e d) = managed d"
    and merge_unmanaged: "unmanaged (merge e d) = unmanaged e"
    and determined: "managed a = managed b \<Longrightarrow> unmanaged a = unmanaged b \<Longrightarrow> a = b"
begin

lemma merge_in_sync: "managed e = managed d \<Longrightarrow> merge e d = e"
  by (rule determined) (simp_all add: merge_managed merge_unmanaged)

lemma merge_idem: "merge (merge e d) d = merge e d"
  by (rule merge_in_sync) (rule merge_managed)

lemma merge_latest: "merge (merge e d) d' = merge e d'"
  by (rule determined) (simp_all add: merge_managed merge_unmanaged)

lemma put_managed: "managed (put_object merge old d) = managed d"
  by (cases old) (simp_all add: put_object_def merge_managed)

lemma put_key:
  "(\<And>e. old = Some e \<Longrightarrow> meta_key (meta e) = meta_key (meta d)) \<Longrightarrow>
   meta_key (meta (put_object merge old d)) = meta_key (meta d)"
  by (cases old) (simp_all add: put_object_def merge_key)

lemma put_idem: "put_object merge (Some (put_object merge old d)) d = put_object merge old d"
  by (cases old) (simp_all add: put_object_def merge_idem merge_in_sync)

text \<open>With a well-behaved server the pattern returns and stores the desired managed fields.\<close>

lemma upsert_converges:
  assumes server: "kind_server get create patch meta sel upd view"
    and keyed: "\<And>e. sel (view s) (meta_key (meta d)) = Some e \<Longrightarrow> meta_key (meta e) = meta_key (meta d)"
  shows "\<exists>s'. upsert get create patch meta merge d s = Some (Ok (), s') \<and>
    view s' = upd (\<lambda>m. m(meta_key (meta d) \<mapsto>
      put_object merge (sel (view s) (meta_key (meta d))) d)) (view s)"
proof (cases "sel (view s) (meta_key (meta d))")
  case None
  then obtain e s1 where get: "get (meta_key (meta d)) s = Some (Err e, s1)" "IsNotFound e" "view s1 = view s"
    using kind_server_absent [OF server] by blast
  with None obtain s2 where "create d s1 = Some (Ok (), s2)"
      "view s2 = upd (\<lambda>m. m(meta_key (meta d) \<mapsto> d)) (view s)"
    using kind_server_create [OF server, of s1 d] by auto
  with get None show ?thesis by (simp add: upsert_def put_object_def)
next
  case (Some e)
  then obtain s1 where get: "get (meta_key (meta d)) s = Some (Ok e, s1)" "view s1 = view s"
    using kind_server_present [OF server] by blast
  have key: "meta_key (meta e) = meta_key (meta d)" using keyed Some by simp
  obtain s2 where "patch e (merge e d) s1 = Some (Ok (), s2)"
      "view s2 = upd (\<lambda>m. m(meta_key (meta e) \<mapsto> merge e d)) (view s)"
    using kind_server_patch [OF server, of s1 e "merge e d"] Some get(2) key by (auto simp: merge_key)
  with get key Some show ?thesis by (simp add: upsert_def put_object_def)
qed

end

section \<open>The four kinds\<close>

definition managedConfigMap :: "ConfigMap \<Rightarrow> labels \<times> labels" where
  "managedConfigMap cm = (cm_Data cm, om_Labels (cm_Meta cm))"

definition managedService :: "Service \<Rightarrow> ServicePort list \<times> labels \<times> labels" where
  "managedService sv = (sv_Ports (sv_Spec sv), sv_Selector (sv_Spec sv), om_Labels (sv_Meta sv))"

definition managedIngress :: "Ingress \<Rightarrow> IngressObjSpec \<times> labels \<times> labels" where
  "managedIngress ig = (ig_Spec ig, om_Annotations (ig_Meta ig), om_Labels (ig_Meta ig))"

definition managedStatefulSet :: "StatefulSet \<Rightarrow> int32 option \<times> PodTemplateSpec \<times> labels" where
  "managedStatefulSet st =
     (ss_Replicas (st_Spec st), ss_Template (st_Spec st), om_Labels (st_Meta st))"

text \<open>Metadata and specs without the managed fields.\<close>

definition metaRest :: "ObjectMeta \<Rightarrow> string \<times> string \<times> string list" where
  "metaRest m = (om_Name m, om_Namespace m, om_OwnerReferences m)"

definition specRest :: "ServiceObjSpec \<Rightarrow> string \<times> string \<times> bool" where
  "specRest s = (sv_ClusterIP s, sv_Type s, sv_PublishNotReadyAddresses s)"

definition stsRest ::
  "StatefulSetSpec \<Rightarrow> string \<times> labels \<times> PersistentVolumeClaim list \<times> string \<times> string" where
  "stsRest s = (ss_ServiceName s, ss_Selector s, ss_VolumeClaimTemplates s,
                ss_PodManagementPolicy s, ss_UpdateStrategy s)"

lemmas managed_defs = managedConfigMap_def managedService_def managedIngress_def managedStatefulSet_def
  metaRest_def specRest_def stsRest_def
lemmas merge_fun_defs = mergeConfigMap_def mergeService_def mergeIngress_def mergeStatefulSet_def

interpretation cm_kind: object_kind cm_Meta mergeConfigMap managedConfigMap
  "\<lambda>cm. (metaRest (cm_Meta cm), om_Annotations (cm_Meta cm))"
  by unfold_locales (auto simp: managed_defs merge_fun_defs intro!: ConfigMap.equality ObjectMeta.equality)

interpretation sv_kind: object_kind sv_Meta mergeService managedService
  "\<lambda>sv. (metaRest (sv_Meta sv), om_Annotations (sv_Meta sv), specRest (sv_Spec sv))"
  by unfold_locales
    (auto simp: managed_defs merge_fun_defs intro!: Service.equality ObjectMeta.equality ServiceObjSpec.equality)

interpretation ig_kind: object_kind ig_Meta mergeIngress managedIngress "\<lambda>ig. metaRest (ig_Meta ig)"
  by unfold_locales
    (auto simp: managed_defs merge_fun_defs meta_key_def intro!: Ingress.equality ObjectMeta.equality)

interpretation st_kind: object_kind st_Meta mergeStatefulSet managedStatefulSet
  "\<lambda>st. (metaRest (st_Meta st), om_Annotations (st_Meta st), stsRest (st_Spec st), st_ReadyReplicas st)"
  by unfold_locales
    (auto simp: managed_defs merge_fun_defs intro!: StatefulSet.equality ObjectMeta.equality StatefulSetSpec.equality)

end
