(* ===== verification/Convergence.thy ===== *)
theory Convergence
  imports Controller Upsert
begin

text \<open>
  What \<open>reconcileTier\<close> does to the objects that the API server holds. \<open>Store\<close> is an abstract view of
  those objects; \<open>sync_tier\<close> is the specification, a pure function on stores; \<open>api_server\<close> is the
  documented behaviour of a server without concurrent writers. Under it the handler returns and
  implements the specification, which is then shown to be idempotent, to establish what each object
  should be, and to leave everything else alone.
\<close>

section \<open>Stores\<close>

record Store =
  so_cms :: "key \<rightharpoonup> ConfigMap"
  so_svcs :: "key \<rightharpoonup> Service"
  so_ings :: "key \<rightharpoonup> Ingress"
  so_stss :: "key \<rightharpoonup> StatefulSet"

text \<open>Every object is stored under its own namespace and name.\<close>

definition keyed :: "('o \<Rightarrow> ObjectMeta) \<Rightarrow> (key \<rightharpoonup> 'o) \<Rightarrow> bool" where
  "keyed meta m \<longleftrightarrow> (\<forall>k ob. m k = Some ob \<longrightarrow> meta_key (meta ob) = k)"

definition store_ok :: "Store \<Rightarrow> bool" where
  "store_ok v \<longleftrightarrow> keyed cm_Meta (so_cms v) \<and> keyed sv_Meta (so_svcs v) \<and>
                  keyed ig_Meta (so_ings v) \<and> keyed st_Meta (so_stss v)"

lemma keyedD: "keyed meta m \<Longrightarrow> m k = Some ob \<Longrightarrow> meta_key (meta ob) = k"
  unfolding keyed_def by blast

section \<open>A well-behaved API server\<close>

definition list_law :: "'s Reconciler \<Rightarrow> ('s \<Rightarrow> Store) \<Rightarrow> bool" where
  "list_law r view \<longleftrightarrow>
     (\<forall>ns sel s. \<exists>items s'. rc_ListStatefulSets r ns sel s = Some (Ok items, s') \<and> view s' = view s \<and>
        set items = {st \<in> ran (so_stss (view s)).
          om_Namespace (st_Meta st) = ns \<and> matches_labels sel (om_Labels (st_Meta st))})"

definition delete_law :: "'s Reconciler \<Rightarrow> ('s \<Rightarrow> Store) \<Rightarrow> bool" where
  "delete_law r view \<longleftrightarrow>
     (\<forall>st s. \<exists>res s'. rc_DeleteStatefulSet r st s = Some (res, s') \<and>
        (if so_stss (view s) (meta_key (st_Meta st)) = None
         then (\<exists>e. res = Err e \<and> IsNotFound e) \<and> view s' = view s
         else res = Ok () \<and> view s' = so_stss_update (\<lambda>m. m(meta_key (st_Meta st) := None)) (view s)))"

text \<open>\<open>SetControllerReference\<close> writes the owner references and nothing else.\<close>

definition owner_law :: "'s Reconciler \<Rightarrow> bool" where
  "owner_law r \<longleftrightarrow>
     (\<forall>cl m. \<exists>refs. rc_SetControllerReference r cl m = Ok (m\<lparr>om_OwnerReferences := refs\<rparr>))"

definition api_server :: "'s Reconciler \<Rightarrow> ('s \<Rightarrow> Store) \<Rightarrow> bool" where
  "api_server r view \<longleftrightarrow>
     kind_server (rc_GetConfigMap r) (rc_CreateConfigMap r) (rc_PatchConfigMap r) cm_Meta
       so_cms so_cms_update view \<and>
     kind_server (rc_GetService r) (rc_CreateService r) (rc_PatchService r) sv_Meta
       so_svcs so_svcs_update view \<and>
     kind_server (rc_GetIngress r) (rc_CreateIngress r) (rc_PatchIngress r) ig_Meta
       so_ings so_ings_update view \<and>
     kind_server (rc_GetStatefulSet r) (rc_CreateStatefulSet r) (rc_PatchStatefulSet r) st_Meta
       so_stss so_stss_update view \<and>
     list_law r view \<and> delete_law r view \<and> owner_law r"

lemma owner_law_of: "api_server r view \<Longrightarrow> owner_law r"
  by (simp add: api_server_def)

section \<open>The specification\<close>

text \<open>Create or merge one object; then a list of them, in order.\<close>

definition put_in :: "('o \<Rightarrow> ObjectMeta) \<Rightarrow> ('o \<Rightarrow> 'o \<Rightarrow> 'o) \<Rightarrow> 'o \<Rightarrow> (key \<rightharpoonup> 'o) \<Rightarrow> (key \<rightharpoonup> 'o)" where
  "put_in meta merge d m = m(meta_key (meta d) \<mapsto> put_object merge (m (meta_key (meta d))) d)"

definition owned :: "'s Reconciler \<Rightarrow> PicoclusterDB \<Rightarrow> ObjectMeta \<Rightarrow> ObjectMeta" where
  "owned r cl m = (case rc_SetControllerReference r cl m of Ok m' \<Rightarrow> m' | _ \<Rightarrow> m)"

text \<open>The objects that a tier should have.\<close>

definition configData :: "PicoclusterDB \<Rightarrow> TierSpec \<Rightarrow> string" where
  "configData cl tier = (case cl_Tiers cl of [] \<Rightarrow> '''' | t0 # _ \<Rightarrow> configYAML cl tier t0)"

definition desiredConfigMap :: "'s Reconciler \<Rightarrow> PicoclusterDB \<Rightarrow> TierSpec \<Rightarrow> ConfigMap" where
  "desiredConfigMap r cl tier =
     \<lparr>cm_Meta = owned r cl (new_meta (configMapName cl tier) (cl_Namespace cl)),
      cm_Data = [(''config.yaml'', configData cl tier)]\<rparr>"

definition ownedService :: "'s Reconciler \<Rightarrow> PicoclusterDB \<Rightarrow> Service \<Rightarrow> Service" where
  "ownedService r cl sv = sv\<lparr>sv_Meta := owned r cl (sv_Meta sv)\<rparr>"

definition ownedSet :: "'s Reconciler \<Rightarrow> PicoclusterDB \<Rightarrow> StatefulSet \<Rightarrow> StatefulSet" where
  "ownedSet r cl st = st\<lparr>st_Meta := owned r cl (st_Meta st)\<rparr>"

definition desiredSets :: "'s Reconciler \<Rightarrow> PicoclusterDB \<Rightarrow> TierSpec \<Rightarrow> StatefulSet list" where
  "desiredSets r cl tier =
     map (ownedSet r cl)
       (fst (build_seq (rc_Quantity r) cl (configData cl tier) (rs_indices 1 (tier_Replicas tier)) tier))"

definition desiredIngress :: "'s Reconciler \<Rightarrow> PicoclusterDB \<Rightarrow> TierSpec \<Rightarrow> Ingress option" where
  "desiredIngress r cl tier =
     (if (case tier_Ingress tier of None \<Rightarrow> False | Some i \<Rightarrow> in_Enabled i)
      then (case buildIngress cl tier of
              Ok ig \<Rightarrow> Some (ig\<lparr>ig_Meta := owned r cl (ig_Meta ig)\<rparr>) | _ \<Rightarrow> None)
      else None)"

text \<open>The StatefulSets of the tier beyond its replica count are removed.\<close>

definition surplus :: "PicoclusterDB \<Rightarrow> TierSpec \<Rightarrow> StatefulSet \<Rightarrow> bool" where
  "surplus cl tier st \<longleftrightarrow>
     om_Namespace (st_Meta st) = cl_Namespace cl \<and>
     matches_labels (tierLabels cl tier) (om_Labels (st_Meta st)) \<and> isExtra tier st"

definition prune :: "PicoclusterDB \<Rightarrow> TierSpec \<Rightarrow> (key \<rightharpoonup> StatefulSet) \<Rightarrow> (key \<rightharpoonup> StatefulSet)" where
  "prune cl tier m =
     (\<lambda>k. case m k of None \<Rightarrow> None | Some st \<Rightarrow> if surplus cl tier st then None else Some st)"

definition sync_config :: "'s Reconciler \<Rightarrow> PicoclusterDB \<Rightarrow> TierSpec \<Rightarrow> Store \<Rightarrow> Store" where
  "sync_config r cl tier =
     so_cms_update (put_in cm_Meta mergeConfigMap (desiredConfigMap r cl tier))"

definition sync_services :: "'s Reconciler \<Rightarrow> PicoclusterDB \<Rightarrow> TierSpec \<Rightarrow> Store \<Rightarrow> Store" where
  "sync_services r cl tier =
     so_svcs_update (\<lambda>m.
       put_in sv_Meta mergeService (ownedService r cl (buildClientService cl tier))
         (put_in sv_Meta mergeService (ownedService r cl (buildInterconnectService cl tier)) m))"

definition sync_sets :: "'s Reconciler \<Rightarrow> PicoclusterDB \<Rightarrow> TierSpec \<Rightarrow> Store \<Rightarrow> Store" where
  "sync_sets r cl tier =
     so_stss_update (\<lambda>m.
       prune cl tier (fold (put_in st_Meta mergeStatefulSet) (desiredSets r cl tier) m))"

definition sync_ingress :: "'s Reconciler \<Rightarrow> PicoclusterDB \<Rightarrow> TierSpec \<Rightarrow> Store \<Rightarrow> Store" where
  "sync_ingress r cl tier =
     so_ings_update (case desiredIngress r cl tier of
       None \<Rightarrow> (\<lambda>m. m) | Some d \<Rightarrow> put_in ig_Meta mergeIngress d)"

definition sync_tier :: "'s Reconciler \<Rightarrow> PicoclusterDB \<Rightarrow> TierSpec \<Rightarrow> Store \<Rightarrow> Store" where
  "sync_tier r cl tier v =
     sync_ingress r cl tier (sync_sets r cl tier (sync_services r cl tier (sync_config r cl tier v)))"

section \<open>The resource reconcilers implement it\<close>

lemma owner_law_meta:
  assumes "owner_law r"
  shows "\<exists>refs. owned r cl m = m\<lparr>om_OwnerReferences := refs\<rparr> \<and> rc_SetControllerReference r cl m = Ok (owned r cl m)"
proof -
  from assms obtain refs where "rc_SetControllerReference r cl m = Ok (m\<lparr>om_OwnerReferences := refs\<rparr>)"
    unfolding owner_law_def by blast
  then show ?thesis by (auto simp: owned_def)
qed

lemma owned_simps:
  assumes "owner_law r"
  shows "rc_SetControllerReference r cl m = Ok (owned r cl m)"
    and "meta_key (owned r cl m) = meta_key m"
    and "om_Labels (owned r cl m) = om_Labels m"
    and "om_Namespace (owned r cl m) = om_Namespace m"
    and "om_Annotations (owned r cl m) = om_Annotations m"
  using owner_law_meta [OF assms, of cl m] by auto

lemma store_okD:
  assumes "store_ok v"
  shows "so_cms v k = Some c \<Longrightarrow> meta_key (cm_Meta c) = k"
    and "so_svcs v k = Some sv \<Longrightarrow> meta_key (sv_Meta sv) = k"
    and "so_ings v k = Some ig \<Longrightarrow> meta_key (ig_Meta ig) = k"
    and "so_stss v k = Some st \<Longrightarrow> meta_key (st_Meta st) = k"
  using assms unfolding store_ok_def by (blast dest: keyedD)+

lemma Store_update_cong:
  "f (so_cms v) = g (so_cms v) \<Longrightarrow> so_cms_update f v = so_cms_update g v"
  "f2 (so_svcs v) = g2 (so_svcs v) \<Longrightarrow> so_svcs_update f2 v = so_svcs_update g2 v"
  "f3 (so_ings v) = g3 (so_ings v) \<Longrightarrow> so_ings_update f3 v = so_ings_update g3 v"
  "f4 (so_stss v) = g4 (so_stss v) \<Longrightarrow> so_stss_update f4 v = so_stss_update g4 v"
  by (cases v; simp)+

lemma reconcileConfigMap_puts:
  assumes "api_server r view" "store_ok (view s)"
  shows "\<exists>s'. reconcileConfigMap r d s = Some (Ok (), s') \<and>
    view s' = so_cms_update (put_in cm_Meta mergeConfigMap d) (view s)"
proof -
  from assms have "\<exists>s'. reconcileConfigMap r d s = Some (Ok (), s') \<and>
      view s' = so_cms_update (\<lambda>m. m(meta_key (cm_Meta d) \<mapsto>
        put_object mergeConfigMap (so_cms (view s) (meta_key (cm_Meta d))) d)) (view s)"
    unfolding reconcile_upsert api_server_def
    by (intro cm_kind.upsert_converges) (auto dest: store_okD)
  then show ?thesis by (auto simp: put_in_def intro: Store_update_cong)
qed

lemma reconcileService_puts:
  assumes "api_server r view" "store_ok (view s)"
  shows "\<exists>s'. reconcileService r d s = Some (Ok (), s') \<and>
    view s' = so_svcs_update (put_in sv_Meta mergeService d) (view s)"
proof -
  from assms have "\<exists>s'. reconcileService r d s = Some (Ok (), s') \<and>
      view s' = so_svcs_update (\<lambda>m. m(meta_key (sv_Meta d) \<mapsto>
        put_object mergeService (so_svcs (view s) (meta_key (sv_Meta d))) d)) (view s)"
    unfolding reconcile_upsert api_server_def
    by (intro sv_kind.upsert_converges) (auto dest: store_okD)
  then show ?thesis by (auto simp: put_in_def intro: Store_update_cong)
qed

lemma reconcileIngress_puts:
  assumes "api_server r view" "store_ok (view s)"
  shows "\<exists>s'. reconcileIngress r d s = Some (Ok (), s') \<and>
    view s' = so_ings_update (put_in ig_Meta mergeIngress d) (view s)"
proof -
  from assms have "\<exists>s'. reconcileIngress r d s = Some (Ok (), s') \<and>
      view s' = so_ings_update (\<lambda>m. m(meta_key (ig_Meta d) \<mapsto>
        put_object mergeIngress (so_ings (view s) (meta_key (ig_Meta d))) d)) (view s)"
    unfolding reconcile_upsert api_server_def
    by (intro ig_kind.upsert_converges) (auto dest: store_okD)
  then show ?thesis by (auto simp: put_in_def intro: Store_update_cong)
qed

lemma reconcileStatefulSet_puts:
  assumes "api_server r view" "store_ok (view s)"
  shows "\<exists>s'. reconcileStatefulSet r d s = Some (Ok (), s') \<and>
    view s' = so_stss_update (put_in st_Meta mergeStatefulSet d) (view s)"
proof -
  from assms have "\<exists>s'. reconcileStatefulSet r d s = Some (Ok (), s') \<and>
      view s' = so_stss_update (\<lambda>m. m(meta_key (st_Meta d) \<mapsto>
        put_object mergeStatefulSet (so_stss (view s) (meta_key (st_Meta d))) d)) (view s)"
    unfolding reconcile_upsert api_server_def
    by (intro st_kind.upsert_converges) (auto dest: store_okD)
  then show ?thesis by (auto simp: put_in_def intro: Store_update_cong)
qed

section \<open>Scale down\<close>

definition remove_keys :: "key set \<Rightarrow> (key \<rightharpoonup> 'o) \<Rightarrow> (key \<rightharpoonup> 'o)" where
  "remove_keys K m = (\<lambda>k. if k \<in> K then None else m k)"

lemma delete_one:
  assumes "delete_law r view"
  shows "\<exists>s'. ignoreNotFoundG (rc_DeleteStatefulSet r st) s = Some (Ok (), s') \<and>
    view s' = so_stss_update (remove_keys {meta_key (st_Meta st)}) (view s)"
proof -
  let ?k = "meta_key (st_Meta st)"
  from assms obtain res s' where del: "rc_DeleteStatefulSet r st s = Some (res, s')"
    and law: "if so_stss (view s) ?k = None then (\<exists>e. res = Err e \<and> IsNotFound e) \<and> view s' = view s
       else res = Ok () \<and> view s' = so_stss_update (\<lambda>m. m(?k := None)) (view s)"
    unfolding delete_law_def by blast
  show ?thesis
  proof (cases "so_stss (view s) ?k = None")
    case True
    then have "remove_keys {?k} (so_stss (view s)) = so_stss (view s)"
      by (auto simp: remove_keys_def)
    with True del law show ?thesis
      by (cases "view s") (auto simp: ignoreNotFoundG_def)
  next
    case False
    have "so_stss_update (\<lambda>m. m(?k := None)) (view s) = so_stss_update (remove_keys {?k}) (view s)"
      by (rule Store_update_cong) (auto simp: remove_keys_def)
    with False del law show ?thesis by (auto simp: ignoreNotFoundG_def)
  qed
qed

lemma delete_items:
  assumes "delete_law r view"
  shows "\<exists>s'. forG (\<lambda>sts. if P sts then ignoreNotFoundG (rc_DeleteStatefulSet r sts) else returnG ()) items s =
      Some (Ok (), s') \<and>
    view s' = so_stss_update (remove_keys {meta_key (st_Meta st) |st. st \<in> set items \<and> P st}) (view s)"
proof (induction items arbitrary: s)
  case Nil
  then show ?case by (cases "view s") (simp add: remove_keys_def)
next
  case (Cons st items)
  obtain s1 where s1: "(if P st then ignoreNotFoundG (rc_DeleteStatefulSet r st) else returnG ()) s = Some (Ok (), s1)"
      "view s1 = so_stss_update (remove_keys (if P st then {meta_key (st_Meta st)} else {})) (view s)"
  proof (cases "P st")
    case True
    with delete_one [OF assms, of st s] that show ?thesis by auto
  next
    case False
    then show ?thesis using that [of s] by (cases "view s") (simp add: remove_keys_def)
  qed
  from Cons obtain s2 where s2: "forG (\<lambda>sts. if P sts then ignoreNotFoundG (rc_DeleteStatefulSet r sts)
        else returnG ()) items s1 = Some (Ok (), s2)"
      "view s2 = so_stss_update (remove_keys {meta_key (st_Meta st) |st. st \<in> set items \<and> P st}) (view s1)"
    by blast
  have "view s2 = so_stss_update (remove_keys {meta_key (st_Meta st') |st'. st' \<in> set (st # items) \<and> P st'}) (view s)"
    by (cases "view s") (auto simp: s2(2) s1(2) remove_keys_def fun_eq_iff)
  with s1(1) s2(1) show ?case by auto
qed

lemma deleteExtra_prunes:
  assumes api: "api_server r view" and ok: "store_ok (view s)"
  shows "\<exists>s'. deleteExtraStatefulSets r cl tier s = Some (Ok (), s') \<and>
    view s' = so_stss_update (prune cl tier) (view s)"
proof -
  from api obtain items s1 where list:
      "rc_ListStatefulSets r (cl_Namespace cl) (tierLabels cl tier) s = Some (Ok items, s1)"
      "view s1 = view s"
      "set items = {st \<in> ran (so_stss (view s)). om_Namespace (st_Meta st) = cl_Namespace cl \<and>
         matches_labels (tierLabels cl tier) (om_Labels (st_Meta st))}"
    unfolding api_server_def list_law_def by blast
  from api obtain s2 where s2:
      "forG (\<lambda>sts. if isExtra tier sts then ignoreNotFoundG (rc_DeleteStatefulSet r sts)
        else returnG ()) items s1 = Some (Ok (), s2)"
      "view s2 = so_stss_update (remove_keys {meta_key (st_Meta st) |st. st \<in> set items \<and> isExtra tier st}) (view s1)"
    unfolding api_server_def using delete_items [of r view "isExtra tier" items s1] by blast
  have "remove_keys {meta_key (st_Meta st) |st. st \<in> set items \<and> isExtra tier st} (so_stss (view s)) =
      prune cl tier (so_stss (view s))" (is "?l = ?r")
  proof (rule ext)
    fix k
    show "?l k = ?r k"
    proof (cases "so_stss (view s) k")
      case None
      then show ?thesis by (simp add: remove_keys_def prune_def)
    next
      case (Some st)
      have "k \<in> {meta_key (st_Meta st) |st. st \<in> set items \<and> isExtra tier st} \<longleftrightarrow> surplus cl tier st"
      proof -
        have "st' = st" if "st' \<in> ran (so_stss (view s))" "meta_key (st_Meta st') = k" for st'
        proof -
          from that(1) obtain k' where k': "so_stss (view s) k' = Some st'" by (auto simp: ran_def)
          with store_okD(4) [OF ok k'] that(2) Some show ?thesis by simp
        qed
        with Some store_okD(4) [OF ok Some] list(3) show ?thesis
          unfolding surplus_def by (auto intro: ranI)
      qed
      with Some show ?thesis by (simp add: remove_keys_def prune_def)
    qed
  qed
  then have "view s2 = so_stss_update (prune cl tier) (view s)"
    unfolding s2(2) list(2) by (rule Store_update_cong)
  with list(1) s2(1) show ?thesis by (simp add: deleteExtraStatefulSets_def)
qed

section \<open>Keys are kept\<close>

context object_kind
begin

lemma put_in_keyed: "keyed meta m \<Longrightarrow> keyed meta (put_in meta merge d m)"
  by (auto simp: put_in_def keyed_def intro!: put_key split: if_splits simp del: split_paired_All)

lemma fold_put_keyed: "keyed meta m \<Longrightarrow> keyed meta (fold (put_in meta merge) ds m)"
  by (induction ds arbitrary: m) (simp_all add: put_in_keyed)

lemma fold_put:
  assumes "distinct (map (\<lambda>d. meta_key (meta d)) ds)"
  shows "fold (put_in meta merge) ds m k =
    (case find (\<lambda>d. meta_key (meta d) = k) ds of
       None \<Rightarrow> m k | Some d \<Rightarrow> Some (put_object merge (m k) d))"
  using assms
proof (induction ds arbitrary: m)
  case (Cons d ds)
  have "find (\<lambda>d'. meta_key (meta d') = meta_key (meta d)) ds = None"
    unfolding find_None_iff using Cons.prems by (simp add: image_iff) metis
  with Cons show ?case by (auto simp: put_in_def split: option.split)
qed simp

text \<open>Putting the same objects twice is putting them once.\<close>

lemma put_in_idem: "put_in meta merge d (put_in meta merge d m) = put_in meta merge d m"
  by (simp add: put_in_def put_idem)

lemma put_in_other: "k \<noteq> meta_key (meta d) \<Longrightarrow> put_in meta merge d m k = m k"
  by (simp add: put_in_def)

lemma put_in_commute:
  "meta_key (meta d) \<noteq> meta_key (meta d') \<Longrightarrow>
   put_in meta merge d (put_in meta merge d' m) = put_in meta merge d' (put_in meta merge d m)"
  by (auto simp: put_in_def fun_upd_twist)

lemma put_in_synced:
  "\<exists>ob. put_in meta merge d m (meta_key (meta d)) = Some ob \<and> managed ob = managed d"
  by (simp add: put_in_def put_managed)

end

lemma store_ok_updates:
  assumes "store_ok v"
  shows "store_ok (so_cms_update (put_in cm_Meta mergeConfigMap c) v)"
    and "store_ok (so_svcs_update (put_in sv_Meta mergeService sv) v)"
    and "store_ok (so_ings_update (put_in ig_Meta mergeIngress ig) v)"
    and "store_ok (so_stss_update (put_in st_Meta mergeStatefulSet st) v)"
    and "store_ok (so_stss_update (fold (put_in st_Meta mergeStatefulSet) sts) v)"
    and "store_ok (so_stss_update (prune cl tier) v)"
  using assms
  by (simp_all add: store_ok_def cm_kind.put_in_keyed sv_kind.put_in_keyed ig_kind.put_in_keyed
      st_kind.put_in_keyed st_kind.fold_put_keyed)
    (auto simp: keyed_def prune_def split: option.splits if_splits)

section \<open>The handler implements the specification\<close>

lemma build_seq_tier [simp]:
  "tier_Name (snd (build_seq q cl cfg is tier)) = tier_Name tier"
  "tier_Replicas (snd (build_seq q cl cfg is tier)) = tier_Replicas tier"
  "tier_Ingress (snd (build_seq q cl cfg is tier)) = tier_Ingress tier"
  "tier_Plugins (snd (build_seq q cl cfg is tier)) = tier_Plugins tier"
  "tier_ReplicationFactor (snd (build_seq q cl cfg is tier)) = tier_ReplicationFactor tier"
  "tier_CanVote (snd (build_seq q cl cfg is tier)) = tier_CanVote tier"
  by (induction "is" arbitrary: tier) (simp_all add: split_beta Let_def)

text \<open>Names, labels and the Ingress depend on fields that the builds leave alone.\<close>

lemma build_seq_derived [simp]:
  "tierLabels cl (snd (build_seq q cl' cfg is tier)) = tierLabels cl tier"
  "isExtra (snd (build_seq q cl' cfg is tier)) = isExtra tier"
  "surplus cl (snd (build_seq q cl' cfg is tier)) = surplus cl tier"
  "prune cl (snd (build_seq q cl' cfg is tier)) = prune cl tier"
  "buildIngress cl (snd (build_seq q cl' cfg is tier)) = buildIngress cl tier"
  unfolding prune_def surplus_def isExtra_def buildIngress_def tierLabels_def clientServiceName_def
    build_seq_tier by (rule refl)+

lemma rsBody_puts:
  assumes "api_server r view" "store_ok (view s)"
  shows "\<exists>s'. rsBody r cl cfg i tier s = Some (Ok (after_build (rc_Quantity r) cl tier i cfg), s') \<and>
    view s' = so_stss_update (put_in st_Meta mergeStatefulSet
      (ownedSet r cl (built (rc_Quantity r) cl tier i cfg))) (view s)"
proof -
  let ?b = "built (rc_Quantity r) cl tier i cfg"
  obtain s' where "reconcileStatefulSet r (ownedSet r cl ?b) s = Some (Ok (), s')"
      "view s' = so_stss_update (put_in st_Meta mergeStatefulSet (ownedSet r cl ?b)) (view s)"
    using reconcileStatefulSet_puts [OF assms] by blast
  moreover have "rc_SetControllerReference r cl (st_Meta ?b) = Ok (owned r cl (st_Meta ?b))"
    using assms(1) by (simp add: api_server_def owned_simps)
  ultimately show ?thesis
    by (simp add: rsBody_def setRefMeta_def split_beta Let_def ownedSet_def)
qed

lemma rs_fold_puts:
  assumes "api_server r view" "store_ok (view s)"
  shows "\<exists>s'. foldG (rsBody r cl cfg) is tier s =
      Some (Ok (snd (build_seq (rc_Quantity r) cl cfg is tier)), s') \<and>
    view s' = so_stss_update (fold (put_in st_Meta mergeStatefulSet)
      (map (ownedSet r cl) (fst (build_seq (rc_Quantity r) cl cfg is tier)))) (view s)"
  using assms
proof (induction "is" arbitrary: tier s)
  case Nil
  then show ?case by simp
next
  case (Cons i "is")
  let ?t = "after_build (rc_Quantity r) cl tier i cfg"
  obtain s1 where s1: "rsBody r cl cfg i tier s = Some (Ok ?t, s1)"
      "view s1 = so_stss_update (put_in st_Meta mergeStatefulSet
        (ownedSet r cl (built (rc_Quantity r) cl tier i cfg))) (view s)"
    using rsBody_puts [OF Cons.prems] by blast
  have "store_ok (view s1)" unfolding s1(2) by (rule store_ok_updates(4)) (rule Cons.prems(2))
  from Cons.IH [OF Cons.prems(1) this, of ?t] s1 show ?case
    by (auto simp: split_beta Let_def comp_def)
qed

lemma reconcileTierIngress_puts:
  assumes "api_server r view" "store_ok (view s)"
  shows "\<exists>s'. reconcileTierIngress r cl tier s = Some (Ok (), s') \<and>
    view s' = sync_ingress r cl tier (view s)"
proof (cases "case tier_Ingress tier of None \<Rightarrow> False | Some i \<Rightarrow> in_Enabled i")
  case False
  then show ?thesis by (simp add: reconcileTierIngress_def sync_ingress_def desiredIngress_def)
next
  case True
  then obtain ig where ig: "buildIngress cl tier = Ok ig"
    by (auto simp: buildIngress_def Let_def split: option.splits)
  have ref: "rc_SetControllerReference r cl (ig_Meta ig) = Ok (owned r cl (ig_Meta ig))"
    using assms(1) by (simp add: api_server_def owned_simps)
  show ?thesis
    using reconcileIngress_puts [OF assms, of "ig\<lparr>ig_Meta := owned r cl (ig_Meta ig)\<rparr>"] True ig ref
    by (auto simp: reconcileTierIngress_def sync_ingress_def desiredIngress_def setRefMeta_def)
qed

text \<open>What comes after the loop over the replicasets, and the state in which the loop starts.\<close>

definition reconcileTierTail :: "'s Reconciler \<Rightarrow> PicoclusterDB \<Rightarrow> TierSpec \<Rightarrow> ('s, TierSpec) go" where
  "reconcileTierTail r cl tier' =
     bindG (wrapG ''cleanup statefulsets'' (deleteExtraStatefulSets r cl tier')) (\<lambda>_.
     bindG (reconcileTierIngress r cl tier') (\<lambda>_.
       returnG tier'))"

lemma reconcileTier_to_loop:
  assumes api: "api_server r view" and ok: "store_ok (view s)" and ne: "cl_Tiers cl \<noteq> []"
  shows "\<exists>s'. view s' = sync_services r cl tier (sync_config r cl tier (view s)) \<and> store_ok (view s') \<and>
    reconcileTier r cl tier s = bindG (rsLoop r cl (configData cl tier) 1 tier) (reconcileTierTail r cl) s'"
proof -
  from ne obtain t0 ts where ts: "cl_Tiers cl = t0 # ts" by (cases "cl_Tiers cl") simp_all
  have ref: "rc_SetControllerReference r cl m = Ok (owned r cl m)" for m
    using api by (simp add: api_server_def owned_simps)
  have cm: "buildConfigMap cl tier =
      Ok ((desiredConfigMap r cl tier)\<lparr>cm_Meta := new_meta (configMapName cl tier) (cl_Namespace cl)\<rparr>)"
    by (simp add: buildConfigMap_def desiredConfigMap_def configData_def ts)
  let ?v1 = "sync_config r cl tier (view s)"
  obtain s1 where s1: "reconcileConfigMap r (desiredConfigMap r cl tier) s = Some (Ok (), s1)" "view s1 = ?v1"
    using reconcileConfigMap_puts [OF api ok, of "desiredConfigMap r cl tier"]
    unfolding sync_config_def by blast
  have ok1: "store_ok (view s1)" unfolding s1(2) sync_config_def by (rule store_ok_updates(1)) (rule ok)
  let ?h = "ownedService r cl (buildInterconnectService cl tier)"
  let ?c = "ownedService r cl (buildClientService cl tier)"
  obtain s2 where s2: "reconcileService r ?h s1 = Some (Ok (), s2)"
      "view s2 = so_svcs_update (put_in sv_Meta mergeService ?h) ?v1"
    using reconcileService_puts [OF api ok1, of ?h] unfolding s1(2) by blast
  have ok2: "store_ok (view s2)"
    unfolding s2(2) by (rule store_ok_updates(2)) (rule ok1 [unfolded s1(2)])
  obtain s3 where s3: "reconcileService r ?c s2 = Some (Ok (), s3)"
      "view s3 = so_svcs_update (put_in sv_Meta mergeService ?c) (view s2)"
    using reconcileService_puts [OF api ok2, of ?c] by blast
  have v3: "view s3 = sync_services r cl tier ?v1"
    unfolding s3(2) s2(2) sync_services_def by (cases ?v1) simp
  have ok3: "store_ok (view s3)" unfolding s3(2) by (rule store_ok_updates(2)) (rule ok2)
  have "desiredConfigMap r cl tier =
      ((desiredConfigMap r cl tier)\<lparr>cm_Meta := owned r cl (new_meta (configMapName cl tier) (cl_Namespace cl))\<rparr>)"
    "map_of (cm_Data (desiredConfigMap r cl tier)) ''config.yaml'' = Some (configData cl tier)"
    by (simp_all add: desiredConfigMap_def)
  then have "reconcileTier r cl tier s = bindG (rsLoop r cl (configData cl tier) 1 tier) (reconcileTierTail r cl) s3"
    using s1(1) s2(1) s3(1)
    by (simp add: reconcileTier_def cm setRefMeta_def ref Let_def ownedService_def reconcileTierTail_def [abs_def]
        del: run_return)
  with v3 ok3 show ?thesis by blast
qed

text \<open>
  With fewer than 2147483647 replicasets the handler returns without an error and the store becomes
  what the specification says.
\<close>

lemma reconcileTier_syncs:
  assumes api: "api_server r view" and ok: "store_ok (view s)"
    and ne: "cl_Tiers cl \<noteq> []" and bound: "sint (tier_Replicas tier) < 2147483647"
  shows "\<exists>s'. reconcileTier r cl tier s =
      Some (Ok (snd (build_seq (rc_Quantity r) cl (configData cl tier)
        (rs_indices 1 (tier_Replicas tier)) tier)), s') \<and>
    view s' = sync_tier r cl tier (view s)"
proof -
  let ?seq = "build_seq (rc_Quantity r) cl (configData cl tier) (rs_indices 1 (tier_Replicas tier)) tier"
  let ?v3 = "sync_services r cl tier (sync_config r cl tier (view s))"
  obtain s3 where v3: "view s3 = ?v3" and ok3: "store_ok (view s3)" and eq:
      "reconcileTier r cl tier s = bindG (rsLoop r cl (configData cl tier) 1 tier) (reconcileTierTail r cl) s3"
    using reconcileTier_to_loop [OF api ok ne] by blast
  obtain s4 where s4: "rsLoop r cl (configData cl tier) 1 tier s3 = Some (Ok (snd ?seq), s4)"
      "view s4 = so_stss_update (fold (put_in st_Meta mergeStatefulSet) (desiredSets r cl tier)) (view s3)"
    using rs_fold_puts [OF api ok3] unfolding rsLoop_fold [OF bound] desiredSets_def by blast
  have ok4: "store_ok (view s4)" unfolding s4(2) by (rule store_ok_updates(5)) (rule ok3)
  obtain s5 where s5: "deleteExtraStatefulSets r cl (snd ?seq) s4 = Some (Ok (), s5)"
      "view s5 = so_stss_update (prune cl tier) (view s4)"
    using deleteExtra_prunes [OF api ok4, of cl "snd ?seq"] by auto
  have v5: "view s5 = sync_sets r cl tier ?v3"
    unfolding s5(2) s4(2) v3 sync_sets_def by (cases ?v3) simp
  have ok5: "store_ok (view s5)" unfolding s5(2) by (rule store_ok_updates(6)) (rule ok4)
  have ing: "reconcileTierIngress r cl (snd ?seq) = reconcileTierIngress r cl tier"
    by (simp add: reconcileTierIngress_def)
  obtain s6 where s6: "reconcileTierIngress r cl tier s5 = Some (Ok (), s6)"
      "view s6 = sync_ingress r cl tier (view s5)"
    using reconcileTierIngress_puts [OF api ok5] by blast
  show ?thesis
    using s4(1) s5(1) s6 ing v5 eq by (simp add: reconcileTierTail_def sync_tier_def)
qed

text \<open>At the largest int32 the loop over the replicasets never ends, and so the handler does not.\<close>

lemma reconcileTier_diverges:
  assumes "api_server r view" and "store_ok (view s)" and "cl_Tiers cl \<noteq> []"
    and "tier_Replicas tier = MaxInt32"
  shows "reconcileTier r cl tier s = None"
proof -
  obtain s' where ok: "store_ok (view s')" and eq: "reconcileTier r cl tier s =
      bindG (rsLoop r cl (configData cl tier) 1 tier) (reconcileTierTail r cl) s'"
    using reconcileTier_to_loop [OF assms(1-3)] by blast
  have "rsLoop r cl (configData cl tier) 1 tier s' = None"
  proof (rule rsLoop_diverges [where I = "\<lambda>s. store_ok (view s)"])
    fix i t s assume "store_ok (view s)"
    then show "\<exists>t' s'. rsBody r cl (configData cl tier) i t s = Some (Ok t', s') \<and> store_ok (view s')"
      using rsBody_puts [OF assms(1)] store_ok_updates(4) by metis
  qed (rule assms(4), rule ok)
  with eq show ?thesis by simp
qed

end
