(* ===== verification/Cluster_Sync.thy ===== *)
theory Cluster_Sync
  imports Convergence
begin

text \<open>
  What the specification \<open>sync_tier\<close> establishes. \<open>tier_synced\<close> says, object by object, that a store
  is as a tier wants it: the ConfigMap, the two Services, one StatefulSet per replicaset, none beyond
  the replica count, and the Ingress when it is enabled. A pass establishes it, a second pass changes
  nothing, objects of others are left alone, and so the tiers of a cluster can be brought in sync one
  after the other.
\<close>

section \<open>In sync\<close>

definition in_sync :: "('o \<Rightarrow> ObjectMeta) \<Rightarrow> ('o \<Rightarrow> 'm) \<Rightarrow> (key \<rightharpoonup> 'o) \<Rightarrow> 'o \<Rightarrow> bool" where
  "in_sync meta managed m d =
     (case m (meta_key (meta d)) of None \<Rightarrow> False | Some ob \<Rightarrow> managed ob = managed d)"

definition tier_synced :: "'s Reconciler \<Rightarrow> PicoclusterDB \<Rightarrow> TierSpec \<Rightarrow> Store \<Rightarrow> bool" where
  "tier_synced r cl tier v \<longleftrightarrow>
     in_sync cm_Meta managedConfigMap (so_cms v) (desiredConfigMap r cl tier) \<and>
     in_sync sv_Meta managedService (so_svcs v) (ownedService r cl (buildInterconnectService cl tier)) \<and>
     in_sync sv_Meta managedService (so_svcs v) (ownedService r cl (buildClientService cl tier)) \<and>
     list_all (in_sync st_Meta managedStatefulSet (so_stss v)) (desiredSets r cl tier) \<and>
     (\<forall>k st. so_stss v k = Some st \<longrightarrow> \<not> surplus cl tier st) \<and>
     (case desiredIngress r cl tier of
        None \<Rightarrow> True | Some d \<Rightarrow> in_sync ig_Meta managedIngress (so_ings v) d)"

section \<open>The keys of a tier's objects\<close>

lemma owned_keys [simp]:
  assumes "owner_law r"
  shows "meta_key (cm_Meta (desiredConfigMap r cl tier)) = (cl_Namespace cl, configMapName cl tier)"
    and "meta_key (sv_Meta (ownedService r cl sv)) = meta_key (sv_Meta sv)"
    and "meta_key (st_Meta (ownedSet r cl st)) = meta_key (st_Meta st)"
  using assms by (simp_all add: desiredConfigMap_def ownedService_def ownedSet_def owned_simps)

lemma service_names_differ: "interconnectServiceName cl tier \<noteq> clientServiceName cl tier"
  by (simp add: interconnectServiceName_def clientServiceName_def)

lemma desiredSets_keys:
  assumes "owner_law r"
  shows "map (\<lambda>d. meta_key (st_Meta d)) (desiredSets r cl tier) =
    map (\<lambda>i. (cl_Namespace cl, statefulSetName cl tier i)) (rs_indices 1 (tier_Replicas tier))"
  by (simp add: desiredSets_def comp_def owned_keys [OF assms] build_seq_keys)

lemma distinct_rs_indices:
  assumes "sint n < 2147483647"
  shows "distinct (rs_indices 1 n)"
  unfolding rs_indices_def distinct_map
proof
  show "inj_on (word_of_int :: int \<Rightarrow> int32) (set [sint (1 :: int32)..sint n])"
  proof (rule inj_onI)
    fix x y :: int
    assume xy: "x \<in> set [sint (1 :: int32)..sint n]" "y \<in> set [sint (1 :: int32)..sint n]"
      and eq: "(word_of_int x :: int32) = word_of_int y"
    from xy have "1 \<le> x" "x \<le> sint n" "1 \<le> y" "y \<le> sint n" by simp_all
    then have "sint (word_of_int x :: int32) = x" "sint (word_of_int y :: int32) = y"
      using assms by (simp_all only: sint_word_of_int32)
    then show "x = y" unfolding eq by (rule trans [OF sym])
  qed
qed simp

lemma distinct_desiredSets:
  assumes "owner_law r" "sint (tier_Replicas tier) < 2147483647"
  shows "distinct (map (\<lambda>d. meta_key (st_Meta d)) (desiredSets r cl tier))"
  unfolding desiredSets_keys [OF assms(1)] distinct_map
  using distinct_rs_indices [OF assms(2)] assms(2)
  by (auto simp: inj_on_def statefulSetName_inject set_rs_indices)

text \<open>The labels that the StatefulSets of a tier carry, and that make none of them surplus.\<close>

lemma build_seq_labels:
  "map (\<lambda>s. om_Labels (st_Meta s)) (fst (build_seq q cl cfg is tier)) = map (replicasetLabels cl tier) is"
  by (induction "is" arbitrary: tier) (simp_all add: split_beta Let_def)

lemma desiredSets_mem:
  assumes law: "owner_law r" and d: "d \<in> set (desiredSets r cl tier)"
  obtains i where "i \<in> set (rs_indices 1 (tier_Replicas tier))"
    "meta_key (st_Meta d) = (cl_Namespace cl, statefulSetName cl tier i)"
    "om_Labels (st_Meta d) = replicasetLabels cl tier i"
proof -
  let ?is = "rs_indices 1 (tier_Replicas tier)"
  let ?bs = "fst (build_seq (rc_Quantity r) cl (configData cl tier) ?is tier)"
  from d obtain n where n: "n < length ?bs" "d = ownedSet r cl (?bs ! n)"
    by (auto simp: desiredSets_def in_set_conv_nth)
  then have len: "n < length ?is" by simp
  have "meta_key (st_Meta (?bs ! n)) = (cl_Namespace cl, statefulSetName cl tier (?is ! n))"
    using arg_cong [OF build_seq_keys [of "rc_Quantity r" cl "configData cl tier" ?is tier],
        of "\<lambda>xs. xs ! n"] n(1) len by simp
  moreover have "om_Labels (st_Meta (?bs ! n)) = replicasetLabels cl tier (?is ! n)"
    using arg_cong [OF build_seq_labels [of "rc_Quantity r" cl "configData cl tier" ?is tier],
        of "\<lambda>xs. xs ! n"] n(1) len by simp
  ultimately show ?thesis
    using that [of "?is ! n"] len n(2) law by (simp add: ownedSet_def owned_simps)
qed

lemma build_seq_nth:
  "n < length is \<Longrightarrow> \<exists>t'. fst (build_seq q cl cfg is tier) ! n = built q cl t' (is ! n) cfg \<and>
     tier_Name t' = tier_Name tier \<and> tier_ReplicationFactor t' = tier_ReplicationFactor tier"
proof (induction "is" arbitrary: tier n)
  case (Cons i "is")
  show ?case
  proof (cases n)
    case 0
    then show ?thesis by (auto simp: split_beta Let_def)
  next
    case (Suc m)
    with Cons.prems Cons.IH [of m "after_build q cl tier i cfg"] show ?thesis
      by (simp add: split_beta Let_def)
  qed
qed simp

text \<open>The StatefulSet that the tier wants for one of its replicasets.\<close>

lemma desiredSet_fields:
  assumes law: "owner_law r" and bound: "sint (tier_Replicas tier) < 2147483647"
    and i: "1 \<le> sint i" "sint i \<le> sint (tier_Replicas tier)"
  shows "\<exists>d \<in> set (desiredSets r cl tier).
    meta_key (st_Meta d) = (cl_Namespace cl, statefulSetName cl tier i) \<and>
    ss_Replicas (st_Spec d) = Some (tier_ReplicationFactor tier) \<and>
    om_Labels (st_Meta d) = replicasetLabels cl tier i \<and>
    map_of (om_Annotations (pt_Meta (ss_Template (st_Spec d)))) ''checksum/config'' =
      Some (configHash (configData cl tier))"
proof -
  let ?is = "rs_indices 1 (tier_Replicas tier)"
  let ?bs = "fst (build_seq (rc_Quantity r) cl (configData cl tier) ?is tier)"
  from i bound obtain n where n: "n < length ?is" "?is ! n = i"
    by (metis in_set_conv_nth set_rs_indices)
  from build_seq_nth [OF n(1)] obtain t' where
      t': "?bs ! n = built (rc_Quantity r) cl t' i (configData cl tier)"
      "tier_Name t' = tier_Name tier" "tier_ReplicationFactor t' = tier_ReplicationFactor tier"
    unfolding n(2) by blast
  have "ownedSet r cl (?bs ! n) \<in> set (desiredSets r cl tier)"
    using n(1) by (simp add: desiredSets_def)
  moreover have "replicasetLabels cl t' i = replicasetLabels cl tier i"
      "statefulSetName cl t' i = statefulSetName cl tier i"
    using t'(2) by (simp_all add: replicasetLabels_def tierLabels_def statefulSetName_def)
  ultimately show ?thesis
    using t' law by (intro bexI [of _ "ownedSet r cl (?bs ! n)"]) (simp_all add: ownedSet_def owned_simps)
qed

lemma isExtra_index:
  "om_Labels (st_Meta st) = replicasetLabels cl t i \<Longrightarrow>
   isExtra tier st \<longleftrightarrow> sint (tier_Replicas tier) < sint i"
  by (simp add: isExtra_def)

lemma put_labels: "om_Labels (st_Meta (put_object mergeStatefulSet old d)) = om_Labels (st_Meta d)"
  using st_kind.put_managed [of old d] by (simp add: managedStatefulSet_def)

lemma desired_not_surplus:
  assumes "owner_law r" "sint (tier_Replicas tier) < 2147483647" "d \<in> set (desiredSets r cl tier)"
  shows "\<not> surplus cl tier (put_object mergeStatefulSet old d)"
proof -
  obtain i where i: "i \<in> set (rs_indices 1 (tier_Replicas tier))"
      "om_Labels (st_Meta d) = replicasetLabels cl tier i"
    using desiredSets_mem [OF assms(1,3)] by metis
  then have "\<not> isExtra tier (put_object mergeStatefulSet old d)"
    using assms(2) by (simp add: isExtra_index [of _ cl tier i] put_labels set_rs_indices)
  then show ?thesis by (simp add: surplus_def)
qed

section \<open>The StatefulSets after a pass\<close>

definition set_for :: "StatefulSet list \<Rightarrow> key \<Rightarrow> StatefulSet option" where
  "set_for ds k = find (\<lambda>d. meta_key (st_Meta d) = k) ds"

lemma set_for_Some: "set_for ds k = Some d \<Longrightarrow> d \<in> set ds \<and> meta_key (st_Meta d) = k"
  by (auto simp: set_for_def find_Some_iff)

lemma sync_sets_lookup:
  assumes "owner_law r" "sint (tier_Replicas tier) < 2147483647"
  shows "so_stss (sync_sets r cl tier v) k =
    (case set_for (desiredSets r cl tier) k of
       Some d \<Rightarrow> Some (put_object mergeStatefulSet (so_stss v k) d)
     | None \<Rightarrow> (case so_stss v k of None \<Rightarrow> None
                 | Some st \<Rightarrow> if surplus cl tier st then None else Some st))"
proof -
  note put = st_kind.fold_put [OF distinct_desiredSets [OF assms, of cl], of "so_stss v" k]
  show ?thesis
  proof (cases "set_for (desiredSets r cl tier) k")
    case None
    with put show ?thesis by (simp add: sync_sets_def prune_def set_for_def)
  next
    case (Some d)
    with put have "fold (put_in st_Meta mergeStatefulSet) (desiredSets r cl tier) (so_stss v) k =
        Some (put_object mergeStatefulSet (so_stss v k) d)"
      by (simp add: set_for_def)
    with Some desired_not_surplus [OF assms] set_for_Some [OF Some] show ?thesis
      by (simp add: sync_sets_def prune_def)
  qed
qed

lemma set_for_mem:
  assumes "owner_law r" "sint (tier_Replicas tier) < 2147483647" "d \<in> set (desiredSets r cl tier)"
  shows "set_for (desiredSets r cl tier) (meta_key (st_Meta d)) = Some d"
proof -
  have "find (\<lambda>d'. meta_key (st_Meta d') = meta_key (st_Meta d)) ds = Some d"
    if "d \<in> set ds" "distinct (map (\<lambda>d. meta_key (st_Meta d)) ds)" for ds
    using that by (induction ds) (auto simp: image_iff)
  from this [OF assms(3) distinct_desiredSets [OF assms(1,2)]] show ?thesis by (simp add: set_for_def)
qed

section \<open>One pass\<close>

lemma sync_tier_sel:
  "so_cms (sync_tier r cl tier v) = put_in cm_Meta mergeConfigMap (desiredConfigMap r cl tier) (so_cms v)"
  "so_svcs (sync_tier r cl tier v) =
     put_in sv_Meta mergeService (ownedService r cl (buildClientService cl tier))
       (put_in sv_Meta mergeService (ownedService r cl (buildInterconnectService cl tier)) (so_svcs v))"
  "so_stss (sync_tier r cl tier v) = so_stss (sync_sets r cl tier v)"
  "so_ings (sync_tier r cl tier v) =
     (case desiredIngress r cl tier of None \<Rightarrow> so_ings v | Some d \<Rightarrow> put_in ig_Meta mergeIngress d (so_ings v))"
  by (simp_all add: sync_tier_def sync_ingress_def sync_sets_def sync_services_def sync_config_def
      split: option.split)

context object_kind
begin

lemma in_sync_put: "in_sync meta managed (put_in meta merge d m) d"
  by (simp add: in_sync_def put_in_def put_managed)

lemma in_sync_put_other:
  "meta_key (meta d) \<noteq> meta_key (meta d') \<Longrightarrow>
   in_sync meta managed (put_in meta merge d' m) d = in_sync meta managed m d"
  by (simp add: in_sync_def put_in_def)

end

lemma sync_sets_in_sync:
  assumes "owner_law r" "sint (tier_Replicas tier) < 2147483647" "d \<in> set (desiredSets r cl tier)"
  shows "in_sync st_Meta managedStatefulSet (so_stss (sync_sets r cl tier v)) d"
  using set_for_mem [OF assms] st_kind.put_managed
  by (simp add: in_sync_def sync_sets_lookup [OF assms(1,2)])

lemma sync_sets_no_surplus:
  assumes "owner_law r" "sint (tier_Replicas tier) < 2147483647"
    and "so_stss (sync_sets r cl tier v) k = Some st"
  shows "\<not> surplus cl tier st"
  using assms(3) desired_not_surplus [OF assms(1,2)]
  by (auto simp: sync_sets_lookup [OF assms(1,2)] dest: set_for_Some split: option.splits if_splits)

lemma sync_tier_synced:
  assumes law: "owner_law r" and bound: "sint (tier_Replicas tier) < 2147483647"
  shows "tier_synced r cl tier (sync_tier r cl tier v)"
proof -
  let ?h = "ownedService r cl (buildInterconnectService cl tier)"
  let ?c = "ownedService r cl (buildClientService cl tier)"
  have "meta_key (sv_Meta ?h) \<noteq> meta_key (sv_Meta ?c)"
    using law service_names_differ by simp
  then have "in_sync sv_Meta managedService (so_svcs (sync_tier r cl tier v)) ?h"
    by (simp add: sync_tier_sel sv_kind.in_sync_put_other sv_kind.in_sync_put)
  then show ?thesis
    using sync_sets_in_sync [OF law bound] sync_sets_no_surplus [OF law bound]
    unfolding tier_synced_def
    by (auto simp: sync_tier_sel cm_kind.in_sync_put sv_kind.in_sync_put ig_kind.in_sync_put list_all_iff
        split: option.split)
qed

text \<open>A second pass finds everything in place.\<close>

lemma sync_sets_idem:
  assumes "owner_law r" "sint (tier_Replicas tier) < 2147483647"
  shows "so_stss (sync_sets r cl tier (sync_sets r cl tier v)) = so_stss (sync_sets r cl tier v)"
proof (rule ext)
  fix k
  show "so_stss (sync_sets r cl tier (sync_sets r cl tier v)) k = so_stss (sync_sets r cl tier v) k"
    by (auto simp: sync_sets_lookup [OF assms] st_kind.put_idem split: option.split)
qed

lemma sync_sets_cong: "so_stss v = so_stss v' \<Longrightarrow> so_stss (sync_sets r cl tier v) = so_stss (sync_sets r cl tier v')"
  by (simp add: sync_sets_def)

lemma sync_tier_idem:
  assumes law: "owner_law r" and bound: "sint (tier_Replicas tier) < 2147483647"
  shows "sync_tier r cl tier (sync_tier r cl tier v) = sync_tier r cl tier v"
proof (rule Store.equality)
  let ?h = "ownedService r cl (buildInterconnectService cl tier)"
  let ?c = "ownedService r cl (buildClientService cl tier)"
  have ne: "meta_key (sv_Meta ?h) \<noteq> meta_key (sv_Meta ?c)" using law service_names_differ by simp
  show "so_svcs (sync_tier r cl tier (sync_tier r cl tier v)) = so_svcs (sync_tier r cl tier v)"
    unfolding sync_tier_sel sv_kind.put_in_commute [OF ne] sv_kind.put_in_idem ..
  show "so_stss (sync_tier r cl tier (sync_tier r cl tier v)) = so_stss (sync_tier r cl tier v)"
    using sync_sets_idem [OF law bound, of cl v]
      sync_sets_cong [of "sync_tier r cl tier v" "sync_sets r cl tier v" r cl tier]
    by (simp add: sync_tier_sel)
  show "so_ings (sync_tier r cl tier (sync_tier r cl tier v)) = so_ings (sync_tier r cl tier v)"
    by (simp add: sync_tier_sel ig_kind.put_in_idem split: option.split)
qed (simp_all add: sync_tier_sel cm_kind.put_in_idem)

section \<open>What being in sync means, object by object\<close>

lemma synced_config:
  assumes law: "owner_law r" and sync: "tier_synced r cl tier v"
  shows "\<exists>cm. so_cms v (cl_Namespace cl, configMapName cl tier) = Some cm \<and>
    cm_Data cm = [(''config.yaml'', configData cl tier)]"
proof -
  from sync have "in_sync cm_Meta managedConfigMap (so_cms v) (desiredConfigMap r cl tier)"
    by (simp add: tier_synced_def)
  then show ?thesis
    by (auto simp: in_sync_def managedConfigMap_def desiredConfigMap_def owned_simps [OF law] split: option.splits)
qed

lemma synced_set:
  assumes law: "owner_law r" and bound: "sint (tier_Replicas tier) < 2147483647"
    and sync: "tier_synced r cl tier v" and i: "1 \<le> sint i" "sint i \<le> sint (tier_Replicas tier)"
  shows "\<exists>st. so_stss v (cl_Namespace cl, statefulSetName cl tier i) = Some st \<and>
    ss_Replicas (st_Spec st) = Some (tier_ReplicationFactor tier) \<and>
    om_Labels (st_Meta st) = replicasetLabels cl tier i \<and>
    map_of (om_Annotations (pt_Meta (ss_Template (st_Spec st)))) ''checksum/config'' =
      Some (configHash (configData cl tier))"
proof -
  obtain d where d: "d \<in> set (desiredSets r cl tier)"
      "meta_key (st_Meta d) = (cl_Namespace cl, statefulSetName cl tier i)"
      "ss_Replicas (st_Spec d) = Some (tier_ReplicationFactor tier)"
      "om_Labels (st_Meta d) = replicasetLabels cl tier i"
      "map_of (om_Annotations (pt_Meta (ss_Template (st_Spec d)))) ''checksum/config'' =
        Some (configHash (configData cl tier))"
    using desiredSet_fields [OF law bound i] by blast
  from sync d(1) have "in_sync st_Meta managedStatefulSet (so_stss v) d"
    by (simp add: tier_synced_def list_all_iff)
  with d(2-5) show ?thesis by (auto simp: in_sync_def managedStatefulSet_def split: option.splits)
qed

lemma synced_no_extra:
  assumes sync: "tier_synced r cl tier v" and st: "so_stss v k = Some st"
    and "om_Namespace (st_Meta st) = cl_Namespace cl" "om_Labels (st_Meta st) = replicasetLabels cl tier j"
  shows "sint j \<le> sint (tier_Replicas tier)"
proof -
  from sync st have "\<not> surplus cl tier st" unfolding tier_synced_def by blast
  with assms(3,4) show ?thesis by (simp add: surplus_def isExtra_index [of _ cl tier j])
qed

section \<open>What a pass leaves alone\<close>

definition touches_set :: "PicoclusterDB \<Rightarrow> TierSpec \<Rightarrow> key \<Rightarrow> bool" where
  "touches_set cl tier k \<longleftrightarrow>
     (\<exists>i. 1 \<le> sint i \<and> sint i \<le> sint (tier_Replicas tier) \<and>
          k = (cl_Namespace cl, statefulSetName cl tier i))"

lemma set_for_touches:
  assumes "owner_law r" "sint (tier_Replicas tier) < 2147483647"
  shows "set_for (desiredSets r cl tier) k \<noteq> None \<longleftrightarrow> touches_set cl tier k"
proof
  assume "set_for (desiredSets r cl tier) k \<noteq> None"
  then obtain d where "d \<in> set (desiredSets r cl tier)" "meta_key (st_Meta d) = k"
    by (auto dest: set_for_Some)
  with assms show "touches_set cl tier k"
    by (elim desiredSets_mem [OF assms(1)]) (auto simp: touches_set_def set_rs_indices)
next
  assume "touches_set cl tier k"
  then have "k \<in> set (map (\<lambda>d. meta_key (st_Meta d)) (desiredSets r cl tier))"
    unfolding desiredSets_keys [OF assms(1)] using assms(2)
    by (auto simp: touches_set_def set_rs_indices)
  then show "set_for (desiredSets r cl tier) k \<noteq> None"
    by (auto simp: set_for_def find_None_iff)
qed

lemma sync_sets_frame:
  assumes "owner_law r" "sint (tier_Replicas tier) < 2147483647" "\<not> touches_set cl tier k"
    and "\<And>st. so_stss v k = Some st \<Longrightarrow> \<not> surplus cl tier st"
  shows "so_stss (sync_sets r cl tier v) k = so_stss v k"
proof -
  have "set_for (desiredSets r cl tier) k = None"
    using set_for_touches [OF assms(1,2), of cl k] assms(3) by blast
  with assms(4) show ?thesis
    by (simp add: sync_sets_lookup [OF assms(1,2)] split: option.split)
qed

section \<open>Tiers do not disturb each other\<close>

text \<open>No two Services of the cluster, headless or client, have the same name.\<close>

definition names_ok :: "PicoclusterDB \<Rightarrow> bool" where
  "names_ok cl \<longleftrightarrow>
     distinct (concat (map (\<lambda>t. [interconnectServiceName cl t, clientServiceName cl t]) (cl_Tiers cl)))"

definition apart :: "PicoclusterDB \<Rightarrow> TierSpec \<Rightarrow> TierSpec \<Rightarrow> bool" where
  "apart cl t u \<longleftrightarrow> tier_Name t \<noteq> tier_Name u \<and>
     interconnectServiceName cl t \<noteq> clientServiceName cl u \<and>
     clientServiceName cl t \<noteq> interconnectServiceName cl u"

lemma distinct_concat_nth:
  assumes "distinct (concat xss)" "i < length xss" "j < length xss" "i \<noteq> j"
  shows "set (xss ! i) \<inter> set (xss ! j) = {}"
  using assms
proof (induction xss arbitrary: i j)
  case (Cons xs xss)
  have "set (xss ! n) \<subseteq> set (concat xss)" if "n < length xss" for n
    using that by (auto intro: nth_mem)
  with Cons show ?case by (cases i; cases j) (fastforce simp del: set_concat)+
qed simp

lemma names_ok_apart:
  assumes "names_ok cl" "i < length (cl_Tiers cl)" "j < length (cl_Tiers cl)" "i \<noteq> j"
  shows "apart cl (cl_Tiers cl ! i) (cl_Tiers cl ! j)"
  using distinct_concat_nth [OF assms(1) [unfolded names_ok_def], of i j] assms(2-4)
  by (auto simp: apart_def client_name.inject)

lemma ingress_key:
  assumes "owner_law r" "desiredIngress r cl t = Some d"
  shows "meta_key (ig_Meta d) = (cl_Namespace cl, clientServiceName cl t)"
  using assms
  by (auto simp: desiredIngress_def owned_simps buildIngress_key split: if_splits result.splits)

lemma in_sync_set_kept:
  assumes law: "owner_law r" and bt: "sint (tier_Replicas t) < 2147483647"
    and bu: "sint (tier_Replicas u) < 2147483647"
    and ne: "tier_Name t \<noteq> tier_Name u" and d: "d \<in> set (desiredSets r cl t)"
    and sync: "in_sync st_Meta managedStatefulSet (so_stss v) d"
  shows "in_sync st_Meta managedStatefulSet (so_stss (sync_sets r cl u v)) d"
proof -
  obtain i where i: "i \<in> set (rs_indices 1 (tier_Replicas t))"
      "meta_key (st_Meta d) = (cl_Namespace cl, statefulSetName cl t i)"
      "om_Labels (st_Meta d) = replicasetLabels cl t i"
    using desiredSets_mem [OF law d] by blast
  have "\<not> touches_set cl u (meta_key (st_Meta d))"
    using i(1,2) bt ne by (auto simp: touches_set_def statefulSetName_inject set_rs_indices)
  moreover have "\<not> surplus cl u st" if "so_stss v (meta_key (st_Meta d)) = Some st" for st
  proof -
    from sync that have "om_Labels (st_Meta st) = replicasetLabels cl t i"
      by (simp add: in_sync_def managedStatefulSet_def i(3))
    then show ?thesis using ne by (auto simp: surplus_def matches_tier_iff)
  qed
  ultimately have "so_stss (sync_sets r cl u v) (meta_key (st_Meta d)) = so_stss v (meta_key (st_Meta d))"
    by (rule sync_sets_frame [OF law bu])
  with sync show ?thesis by (simp add: in_sync_def)
qed

lemma no_surplus_kept:
  assumes law: "owner_law r" and bu: "sint (tier_Replicas u) < 2147483647"
    and ne: "tier_Name t \<noteq> tier_Name u"
    and none: "\<forall>k st. so_stss v k = Some st \<longrightarrow> \<not> surplus cl t st"
    and st: "so_stss (sync_sets r cl u v) k = Some st"
  shows "\<not> surplus cl t st"
proof (cases "set_for (desiredSets r cl u) k")
  case None
  with st have "so_stss v k = Some st"
    by (simp add: sync_sets_lookup [OF law bu] split: option.splits if_splits)
  with none show ?thesis by blast
next
  case (Some d)
  then obtain i where "om_Labels (st_Meta d) = replicasetLabels cl u i"
    using desiredSets_mem [OF law] set_for_Some by metis
  moreover from st Some have "st = put_object mergeStatefulSet (so_stss v k) d"
    by (simp add: sync_sets_lookup [OF law bu])
  ultimately show ?thesis using ne by (auto simp: surplus_def put_labels matches_tier_iff)
qed

lemma tier_synced_kept:
  assumes law: "owner_law r" and ap: "apart cl t u"
    and bt: "sint (tier_Replicas t) < 2147483647" and bu: "sint (tier_Replicas u) < 2147483647"
    and sync: "tier_synced r cl t v"
  shows "tier_synced r cl t (sync_tier r cl u v)"
  unfolding tier_synced_def
proof (intro conjI)
  from ap have ne: "tier_Name t \<noteq> tier_Name u" by (simp add: apart_def)
  note sv = sync [unfolded tier_synced_def]
  have cm: "configMapName cl t \<noteq> configMapName cl u" using ne by (simp add: cm_name.inject)
  from cm sv show "in_sync cm_Meta managedConfigMap (so_cms (sync_tier r cl u v)) (desiredConfigMap r cl t)"
    by (simp add: sync_tier_sel cm_kind.in_sync_put_other law)
  have names: "clientServiceName cl t \<noteq> clientServiceName cl u"
      "interconnectServiceName cl t \<noteq> interconnectServiceName cl u"
    using ne by (simp_all add: client_name.inject peer_name.inject)
  with ap sv show "in_sync sv_Meta managedService (so_svcs (sync_tier r cl u v))
      (ownedService r cl (buildInterconnectService cl t))"
    by (simp add: sync_tier_sel sv_kind.in_sync_put_other law apart_def)
  from names ap sv show "in_sync sv_Meta managedService (so_svcs (sync_tier r cl u v))
      (ownedService r cl (buildClientService cl t))"
    by (simp add: sync_tier_sel sv_kind.in_sync_put_other law apart_def)
  show "list_all (in_sync st_Meta managedStatefulSet (so_stss (sync_tier r cl u v))) (desiredSets r cl t)"
    using sv in_sync_set_kept [OF law bt bu ne] by (simp add: list_all_iff sync_tier_sel)
  show "\<forall>k st. so_stss (sync_tier r cl u v) k = Some st \<longrightarrow> \<not> surplus cl t st"
    using sv no_surplus_kept [OF law bu ne] unfolding sync_tier_sel by blast
  show "case desiredIngress r cl t of None \<Rightarrow> True
      | Some d \<Rightarrow> in_sync ig_Meta managedIngress (so_ings (sync_tier r cl u v)) d"
    using sv names
    by (auto simp: sync_tier_sel ig_kind.in_sync_put_other ingress_key [OF law] split: option.splits)
qed

end
