(* ===== verification/Calm_Calls.thy ===== *)
theory Calm_Calls
  imports Plugins
begin

text \<open>
  Calls that leave part of the world alone. \<open>keeps sure view m\<close> says that \<open>m\<close> does not change what \<open>view\<close> shows and,
  if \<open>sure\<close> is set, that it always returns and never panics. The rules follow the ways of composing
  computations; with them everything in plugin.go and the status update keeps what the calls they make keep.
\<close>

section \<open>Computations\<close>

definition keeps :: "bool \<Rightarrow> ('s \<Rightarrow> 'v) \<Rightarrow> ('s, 'a) go \<Rightarrow> bool" where
  "keeps sure view m \<longleftrightarrow>
     (\<forall>s. case m s of
        None \<Rightarrow> \<not> sure
      | Some (res, s') \<Rightarrow> view s' = view s \<and> (sure \<longrightarrow> (\<forall>p. res \<noteq> Panic p)))"

abbreviation calm :: "('s \<Rightarrow> 'v) \<Rightarrow> ('s, 'a) go \<Rightarrow> bool" where
  "calm \<equiv> keeps True"

abbreviation silent :: "('s \<Rightarrow> 'v) \<Rightarrow> ('s, 'a) go \<Rightarrow> bool" where
  "silent \<equiv> keeps False"

lemma calm_iff:
  "calm view m \<longleftrightarrow> (\<forall>s. \<exists>res s'. m s = Some (res, s') \<and> (\<forall>p. res \<noteq> Panic p) \<and> view s' = view s)"
  unfolding keeps_def by (rule all_cong1) (auto split: option.split)

lemma calmE:
  assumes "calm view m"
  obtains (Ok) x s' where "m s = Some (Ok x, s')" "view s' = view s"
    | (Err) e s' where "m s = Some (Err e, s')" "view s' = view s"
  using assms unfolding calm_iff by (metis result.exhaust)

lemma keeps_view: "keeps sure view m \<Longrightarrow> m s = Some (res, s') \<Longrightarrow> view s' = view s"
  by (auto simp: keeps_def dest!: spec [of _ s])

lemma keepsI:
  assumes "\<And>s. m s = None \<Longrightarrow> \<not> sure"
    and "\<And>s res s'. m s = Some (res, s') \<Longrightarrow> view s' = view s \<and> (sure \<longrightarrow> (\<forall>p. res \<noteq> Panic p))"
  shows "keeps sure view m"
  using assms by (auto simp: keeps_def split: option.split)

lemma keepsE:
  assumes "keeps sure view m"
  obtains (None) "m s = None" "\<not> sure"
    | (Ok) x s' where "m s = Some (Ok x, s')" "view s' = view s"
    | (Err) e s' where "m s = Some (Err e, s')" "view s' = view s"
    | (Panic) p s' where "m s = Some (Panic p, s')" "view s' = view s" "\<not> sure"
proof -
  from assms have at: "case m s of None \<Rightarrow> \<not> sure
      | Some (res, s') \<Rightarrow> view s' = view s \<and> (sure \<longrightarrow> (\<forall>p. res \<noteq> Panic p))"
    unfolding keeps_def by blast
  show ?thesis
  proof (cases "m s")
    case None
    with at that(1) show ?thesis by simp
  next
    case (Some out)
    obtain res s' where out: "out = (res, s')" by fastforce
    with at Some that(2-4) show ?thesis by (cases res) auto
  qed
qed

lemma keeps_return [intro]: "keeps sure view (returnG x)"
  by (simp add: keeps_def)

lemma keeps_fail [intro]: "keeps sure view (failG e)"
  by (simp add: keeps_def)

lemma keeps_bind [intro]:
  assumes m: "keeps sure view m" and f: "\<And>x. keeps sure view (f x)"
  shows "keeps sure view (bindG m f)"
  unfolding keeps_def
proof
  fix s
  from m show "case bindG m f s of None \<Rightarrow> \<not> sure
      | Some (res, s') \<Rightarrow> view s' = view s \<and> (sure \<longrightarrow> (\<forall>p. res \<noteq> Panic p))"
  proof (cases rule: keepsE [where s = s])
    case (Ok x s')
    with f [of x] show ?thesis by (cases rule: keepsE [where s = s']) simp_all
  qed (simp_all add: bindG_def)
qed

lemma keeps_try [intro]: "keeps sure view m \<Longrightarrow> keeps sure view (tryG m)"
  unfolding keeps_def [of sure view "tryG m"]
proof
  fix s assume "keeps sure view m"
  then show "case tryG m s of None \<Rightarrow> \<not> sure
      | Some (res, s') \<Rightarrow> view s' = view s \<and> (sure \<longrightarrow> (\<forall>p. res \<noteq> Panic p))"
    by (cases rule: keepsE [where s = s]) (simp_all add: tryG_def)
qed

lemma keeps_wrap [intro]: "keeps sure view m \<Longrightarrow> keeps sure view (wrapG msg m)"
  unfolding keeps_def [of sure view "wrapG msg m"]
proof
  fix s assume "keeps sure view m"
  then show "case wrapG msg m s of None \<Rightarrow> \<not> sure
      | Some (res, s') \<Rightarrow> view s' = view s \<and> (sure \<longrightarrow> (\<forall>p. res \<noteq> Panic p))"
    by (cases rule: keepsE [where s = s]) (simp_all add: wrapG_def)
qed

lemma keeps_for [intro]: "(\<And>x. keeps sure view (body x)) \<Longrightarrow> keeps sure view (forG body xs)"
  by (induction xs) (auto simp del: run_return)

lemma keeps_map [intro]: "(\<And>x. keeps sure view (body x)) \<Longrightarrow> keeps sure view (mapG body xs)"
  by (induction xs) (auto simp del: run_return)

lemma keeps_defer [intro]:
  assumes c: "keeps sure view c" and m: "keeps sure view m"
  shows "keeps sure view (deferG c m)"
  unfolding keeps_def
proof
  fix s
  have "case deferG c m s of None \<Rightarrow> \<not> sure
      | Some (res, s'') \<Rightarrow> view s'' = view s \<and> (sure \<longrightarrow> (\<forall>p. res \<noteq> Panic p))"
    if "m s = Some (r, s')" "view s' = view s" "sure \<longrightarrow> (\<forall>p. r \<noteq> Panic p)" for r s'
    using c that by (cases rule: keepsE [where s = s']) (simp_all add: deferG_def)
  with m show "case deferG c m s of None \<Rightarrow> \<not> sure
      | Some (res, s'') \<Rightarrow> view s'' = view s \<and> (sure \<longrightarrow> (\<forall>p. res \<noteq> Panic p))"
    by (cases rule: keepsE [where s = s]) (simp_all add: deferG_def)
qed

section \<open>The calls that do not manage objects\<close>

definition other_calls :: "bool \<Rightarrow> 's Reconciler \<Rightarrow> ('s \<Rightarrow> 'v) \<Rightarrow> bool" where
  "other_calls sure r view \<longleftrightarrow>
     (\<forall>k. keeps sure view (rc_GetPicocluster r k)) \<and>
     (\<forall>k. keeps sure view (rc_GetSecret r k)) \<and>
     (\<forall>a b. keeps sure view (rc_PatchStatus r a b)) \<and>
     keeps sure view (rc_Now r) \<and>
     (\<forall>c. keeps sure view (rc_Connect r c)) \<and>
     (\<forall>c. keeps sure view (rc_Close r c)) \<and>
     (\<forall>c q. keeps sure view (rc_Exec r c q)) \<and>
     (\<forall>c q. keeps sure view (rc_QueryEnabled r c q)) \<and>
     (\<forall>c q. keeps sure view (rc_QueryServices r c q)) \<and>
     (\<forall>c q. keeps sure view (rc_QueryPlugins r c q))"

abbreviation quiet_world :: "'s Reconciler \<Rightarrow> ('s \<Rightarrow> 'v) \<Rightarrow> bool" where
  "quiet_world \<equiv> other_calls True"

abbreviation silent_world :: "'s Reconciler \<Rightarrow> ('s \<Rightarrow> 'v) \<Rightarrow> bool" where
  "silent_world \<equiv> other_calls False"

lemma keeps_rowsErr [intro]: "keeps sure view (rowsErr rows x)"
  by (cases "rw_Err rows") (auto simp: rowsErr_def simp del: run_return run_fail)

lemma other_call_rules:
  assumes "other_calls sure r view"
  shows "keeps sure view (rc_GetPicocluster r k)" "keeps sure view (rc_GetSecret r k)" "keeps sure view (rc_PatchStatus r a b)"
    "keeps sure view (rc_Now r)" "keeps sure view (rc_Connect r cs)" "keeps sure view (rc_Close r c)"
    "keeps sure view (rc_Exec r c q)" "keeps sure view (rc_QueryEnabled r c q)" "keeps sure view (rc_QueryServices r c q)"
    "keeps sure view (rc_QueryPlugins r c q)"
  using assms unfolding other_calls_def by blast+

lemma keeps_updateStatus: "other_calls sure r view \<Longrightarrow> keeps sure view (updateStatus r cl ts b)"
  unfolding updateStatus_def by (intro keeps_bind other_call_rules)

lemma keeps_exec: "other_calls sure r view \<Longrightarrow> keeps sure view (wrapG msg (rc_Exec r c q))"
  by (intro keeps_wrap other_call_rules)

lemma keeps_when: "keeps sure view m \<Longrightarrow> keeps sure view (if b then m else returnG ())"
  by (simp add: keeps_return del: run_return)

lemma keeps_reconcilePlugin:
  assumes q: "other_calls sure r view"
  shows "keeps sure view (reconcilePlugin r conn plugin tierName)"
proof -
  have state: "keeps sure view (queryPluginState r conn n v)" for n v
    unfolding queryPluginState_def
    by (intro keeps_bind other_call_rules [OF q]) (auto split: list.split sum.split simp del: run_return run_fail)
  have services: "keeps sure view (queryPluginServices r conn n v)" for n v
    unfolding queryPluginServices_def by (intro keeps_bind other_call_rules [OF q]) auto
  have add: "keeps sure view (addService r conn plugin tierName svc)" for svc
    unfolding addService_def by (intro keeps_exec q)
  have install: "keeps sure view (installPlugin r conn plugin tierName)"
    unfolding installPlugin_def by (intro keeps_bind keeps_for add keeps_exec q) (auto intro: keeps_exec q)
  show ?thesis
    unfolding reconcilePlugin_def split_beta
    by (intro keeps_bind state services keeps_when keeps_exec install keeps_for add keeps_return q)
qed

lemma keeps_reconcileTierPlugins:
  assumes q: "other_calls sure r view"
  shows "keeps sure view (reconcileTierPlugins r cl tier)"
proof -
  have pw: "keeps sure view (getAdminPassword r cl)"
    unfolding getAdminPassword_def Let_def
    by (intro keeps_bind other_call_rules [OF q]) (auto split: option.split simp del: run_return run_fail)
  have drop: "keeps sure view (dropPlugin r conn inst)" for conn inst
    unfolding dropPlugin_def split_beta by (intro keeps_bind keeps_when keeps_exec q)
  have dropAll: "keeps sure view (dropObsoletePlugins r conn tier)" for conn
    unfolding dropObsoletePlugins_def
    by (intro keeps_bind other_call_rules [OF q] keeps_rowsErr keeps_for) (auto intro: drop simp del: run_return)
  have "keeps sure view (bindG (wrapG ''get admin password'' (getAdminPassword r cl)) (\<lambda>password.
        bindG (wrapG (''connect to '' @ pluginHost cl tier)
                 (rc_Connect r (connString cl tier password))) (\<lambda>conn.
          deferG (rc_Close r conn)
            (bindG (mapG (\<lambda>plugin. wrapG (''plugin '' @ pl_Name plugin)
                             (reconcilePlugin r conn plugin (tier_Name tier))) (tier_Plugins tier)) (\<lambda>statuses.
             bindG (tryG (dropObsoletePlugins r conn tier)) (\<lambda>_. returnG statuses))))))"
    by (intro keeps_bind keeps_wrap pw other_call_rules [OF q] keeps_defer keeps_map keeps_reconcilePlugin q
        keeps_try dropAll keeps_return)
  then show ?thesis unfolding reconcileTierPlugins_def by (auto simp del: run_return)
qed

end
