(* ===== verification/Reconcile_Sync.thy ===== *)
theory Reconcile_Sync
  imports Cluster_Sync Calm_Calls
begin

text \<open>
  \<open>Reconcile\<close> on a whole cluster. The loop over the tiers writes the mutated tiers back into the
  cluster object; the fields it changes are inputs of nothing that another tier builds. Calls that
  go to the database, to the clock or to the status subresource do not touch the managed objects,
  which \<open>calm\<close> states and \<open>quiet_world\<close> assumes of each of them.
\<close>

section \<open>Inputs of the builders\<close>

definition tier_id :: "TierSpec \<Rightarrow> string \<times> int32 \<times> bool" where
  "tier_id t = (tier_Name t, tier_ReplicationFactor t, tier_CanVote t)"

text \<open>Two versions of a cluster that differ in mutable tier fields and in the status only.\<close>

definition same_inputs :: "PicoclusterDB \<Rightarrow> PicoclusterDB \<Rightarrow> bool" where
  "same_inputs cl cl' \<longleftrightarrow>
     cl_Meta cl' = cl_Meta cl \<and>
     cl_Spec cl' = (cl_Spec cl)\<lparr>spec_Tiers := cl_Tiers cl'\<rparr> \<and>
     map tier_id (cl_Tiers cl') = map tier_id (cl_Tiers cl)"

lemma same_inputs_refl [simp]: "same_inputs cl cl"
  by (simp add: same_inputs_def)

lemma same_inputs_length: "same_inputs cl cl' \<Longrightarrow> length (cl_Tiers cl') = length (cl_Tiers cl)"
  unfolding same_inputs_def by (metis length_map)

lemma same_inputs_sel:
  assumes "same_inputs cl cl'"
  shows "cl_Meta cl' = cl_Meta cl"
    and "spec_Image (cl_Spec cl') = spec_Image (cl_Spec cl)"
    and "spec_ImagePullSecrets (cl_Spec cl') = spec_ImagePullSecrets (cl_Spec cl)"
    and "spec_ClusterName (cl_Spec cl') = spec_ClusterName (cl_Spec cl)"
    and "spec_AdminPassword (cl_Spec cl') = spec_AdminPassword (cl_Spec cl)"
    and "spec_Cluster (cl_Spec cl') = spec_Cluster (cl_Spec cl)"
    and "spec_Service (cl_Spec cl') = spec_Service (cl_Spec cl)"
    and "spec_StartupProbe (cl_Spec cl') = spec_StartupProbe (cl_Spec cl)"
    and "spec_LivenessProbe (cl_Spec cl') = spec_LivenessProbe (cl_Spec cl)"
    and "spec_ReadinessProbe (cl_Spec cl') = spec_ReadinessProbe (cl_Spec cl)"
proof -
  obtain ts where spec: "cl_Spec cl' = (cl_Spec cl)\<lparr>spec_Tiers := ts\<rparr>"
    using assms unfolding same_inputs_def by blast
  show "spec_Image (cl_Spec cl') = spec_Image (cl_Spec cl)"
    "spec_ImagePullSecrets (cl_Spec cl') = spec_ImagePullSecrets (cl_Spec cl)"
    "spec_ClusterName (cl_Spec cl') = spec_ClusterName (cl_Spec cl)"
    "spec_AdminPassword (cl_Spec cl') = spec_AdminPassword (cl_Spec cl)"
    "spec_Cluster (cl_Spec cl') = spec_Cluster (cl_Spec cl)"
    "spec_Service (cl_Spec cl') = spec_Service (cl_Spec cl)"
    "spec_StartupProbe (cl_Spec cl') = spec_StartupProbe (cl_Spec cl)"
    "spec_LivenessProbe (cl_Spec cl') = spec_LivenessProbe (cl_Spec cl)"
    "spec_ReadinessProbe (cl_Spec cl') = spec_ReadinessProbe (cl_Spec cl)"
    by (simp_all add: spec)
  show "cl_Meta cl' = cl_Meta cl" using assms unfolding same_inputs_def by blast
qed

text \<open>A tier's entry in the configuration is a function of its \<open>tier_id\<close>.\<close>

lemma map_tierYAML:
  assumes "same_inputs cl cl'"
  shows "map tierYAML (cl_Tiers cl') = map tierYAML (cl_Tiers cl)"
proof -
  have "\<exists>g. tierYAML = g \<circ> tier_id"
    by (rule exI [of _ "\<lambda>(n, rf, cv). ''          '' @ n @ '':\<newline>            replication_factor: '' @
        fmt_d (orInt rf 1) @ ''\<newline>            can_vote: '' @ fmt_v cv @ ''\<newline>''"])
      (simp add: fun_eq_iff tierYAML_def tier_id_def)
  then obtain g where "tierYAML = g \<circ> tier_id" ..
  with assms show ?thesis unfolding same_inputs_def by (metis map_map)
qed

lemma configData_same:
  assumes "same_inputs cl cl'"
  shows "configData cl' tier = configData cl tier"
proof (cases "cl_Tiers cl")
  case Nil
  with same_inputs_length [OF assms] have "cl_Tiers cl' = []" by simp
  with Nil show ?thesis by (simp add: configData_def)
next
  case (Cons t ts)
  with assms obtain t' ts' where cl': "cl_Tiers cl' = t' # ts'" and id: "tier_Name t' = tier_Name t"
    by (cases "cl_Tiers cl'") (auto simp: same_inputs_def tier_id_def)
  have "configYAML cl' tier t' = configYAML cl tier t"
    using map_tierYAML [OF assms] id
    by (simp add: configYAML_def same_inputs_sel [OF assms] peerFQDN_def pgListen_def Let_def)
  with Cons cl' show ?thesis by (simp add: configData_def)
qed

lemma names_same:
  assumes "same_inputs cl cl'"
  shows "configMapName cl' = configMapName cl" "clientServiceName cl' = clientServiceName cl"
    "interconnectServiceName cl' = interconnectServiceName cl" "statefulSetName cl' = statefulSetName cl"
    "tierLabels cl' = tierLabels cl" "replicasetLabels cl' = replicasetLabels cl"
    "surplus cl' = surplus cl"
  unfolding surplus_def replicasetLabels_def tierLabels_def statefulSetName_def
    interconnectServiceName_def clientServiceName_def configMapName_def
    fun_eq_iff same_inputs_sel [OF assms] by simp_all

lemma builders_same:
  assumes "same_inputs cl cl'"
  shows "buildInterconnectService cl' = buildInterconnectService cl"
    "buildClientService cl' = buildClientService cl"
    "buildIngress cl' = buildIngress cl"
    "buildStatefulSet q cl' = buildStatefulSet q cl"
  unfolding buildInterconnectService_def buildClientService_def buildIngress_def buildStatefulSet_unfold
    podAffinity_def mainContainer_def buildConfigInitContainer_def initScript_def sedExprs_def sedExpr_def
    baseEnv_def advertiseAddr_def containerPorts_def podVolumes_def
    fun_eq_iff names_same [OF assms] same_inputs_sel [OF assms]
  by (intro allI refl)+

text \<open>Whether a tier is in sync does not depend on the mutable fields of the cluster's tiers.\<close>

lemma build_seq_same:
  assumes "same_inputs cl cl'"
  shows "build_seq q cl' cfg is tier = build_seq q cl cfg is tier"
  by (induction "is" arbitrary: tier) (simp_all add: builders_same [OF assms])

lemma in_sync_cong:
  "meta_key (meta d) = meta_key (meta d') \<Longrightarrow> managed d = managed d' \<Longrightarrow>
   in_sync meta managed m d = in_sync meta managed m d'"
  by (simp add: in_sync_def split: option.split)

lemma tier_synced_same:
  assumes law: "owner_law r" and same: "same_inputs cl cl'"
  shows "tier_synced r cl' tier v \<longleftrightarrow> tier_synced r cl tier v"
proof -
  note own = owned_simps [OF law]
  have meta: "cl_Meta cl' = cl_Meta cl" by (rule same_inputs_sel [OF same])
  have cm: "in_sync cm_Meta managedConfigMap m (desiredConfigMap r cl' tier) =
      in_sync cm_Meta managedConfigMap m (desiredConfigMap r cl tier)" for m
    by (rule in_sync_cong)
      (simp_all add: desiredConfigMap_def own managedConfigMap_def configData_same [OF same] names_same [OF same] meta)
  have sv: "in_sync sv_Meta managedService m (ownedService r cl' x) =
      in_sync sv_Meta managedService m (ownedService r cl x)" for m x
    by (rule in_sync_cong) (simp_all add: ownedService_def own managedService_def)
  have st: "in_sync st_Meta managedStatefulSet m (ownedSet r cl' x) =
      in_sync st_Meta managedStatefulSet m (ownedSet r cl x)" for m x
    by (rule in_sync_cong) (simp_all add: ownedSet_def own managedStatefulSet_def)
  have ig: "(case desiredIngress r cl' tier of None \<Rightarrow> True | Some d \<Rightarrow> in_sync ig_Meta managedIngress m d) =
      (case desiredIngress r cl tier of None \<Rightarrow> True | Some d \<Rightarrow> in_sync ig_Meta managedIngress m d)" for m
    by (simp add: desiredIngress_def builders_same [OF same] own managedIngress_def in_sync_def
        split: result.split option.split)
  show ?thesis
    unfolding tier_synced_def cm ig
    by (simp add: sv st desiredSets_def list_all_iff builders_same [OF same] build_seq_same [OF same]
        configData_same [OF same] names_same [OF same])
qed

lemma setTier_same:
  assumes "i < length (cl_Tiers cl)" "tier_id t = tier_id (cl_Tiers cl ! i)"
  shows "same_inputs cl (setTier i t cl)"
proof -
  have "(map tier_id (cl_Tiers cl))[i := tier_id t] = map tier_id (cl_Tiers cl)"
    using assms by (simp add: list_update_same_conv)
  then show ?thesis by (simp add: same_inputs_def setTier_def map_update)
qed

lemma same_inputs_trans: "same_inputs a b \<Longrightarrow> same_inputs b c \<Longrightarrow> same_inputs a c"
  unfolding same_inputs_def by (cases "cl_Spec a", cases "cl_Spec b", cases "cl_Spec c") simp

section \<open>The loop over the tiers\<close>

lemma prune_keyed: "keyed st_Meta m \<Longrightarrow> keyed st_Meta (prune cl tier m)"
  unfolding keyed_def prune_def by (auto split: option.splits if_splits simp del: split_paired_All)

lemma sync_tier_ok: "store_ok v \<Longrightarrow> store_ok (sync_tier r cl tier v)"
proof -
  assume v: "store_ok v"
  then have "store_ok (sync_config r cl tier v)" by (simp add: sync_config_def store_ok_updates)
  then have "store_ok (sync_services r cl tier (sync_config r cl tier v))"
    by (simp add: sync_services_def store_ok_def sv_kind.put_in_keyed)
  then have "store_ok (sync_sets r cl tier (sync_services r cl tier (sync_config r cl tier v)))"
    by (simp add: sync_sets_def store_ok_def prune_keyed st_kind.fold_put_keyed)
  then show ?thesis
    by (cases "desiredIngress r cl tier")
      (simp_all add: sync_tier_def sync_ingress_def store_ok_def ig_kind.put_in_keyed)
qed

lemma tierStatus_quiet:
  assumes "api_server r view"
  shows "\<exists>x s'. tierStatus r cl tier s = Some (Ok x, s') \<and> view s' = view s"
proof -
  from assms have "list_law r view" by (simp add: api_server_def)
  then obtain items s' where
    "rc_ListStatefulSets r (cl_Namespace cl) (tierLabels cl tier) s = Some (Ok items, s')" "view s' = view s"
    unfolding list_law_def by blast
  then show ?thesis by (simp add: tierStatus_def)
qed

lemma pluginStep_quiet:
  assumes "quiet_world r view"
  shows "\<exists>x s'. pluginStep r cl tier sts ts ready s = Some (Ok x, s') \<and> view s' = view s \<and>
    (\<forall>d. x = Inl d \<longrightarrow> d = \<lparr>rs_RequeueAfter = 15\<rparr> \<and> tier_Plugins tier \<noteq> [])"
proof (cases "ready \<and> 0 < length (tier_Plugins tier)")
  case True
  from keeps_reconcileTierPlugins [OF assms, of cl tier] show ?thesis
  proof (cases rule: calmE [where s = s])
    case (Ok x s')
    with True show ?thesis by (simp add: pluginStep_def)
  next
    case (Err e s1)
    from keeps_updateStatus [OF assms, of cl sts False] show ?thesis
      by (cases rule: calmE [where s = s1]) (use Err True in \<open>simp_all add: pluginStep_def\<close>)
  qed
qed (auto simp: pluginStep_def)

end
