(* ===== verification/Pass_Writes.thy ===== *)
theory Pass_Writes
  imports Reconcile_Sync
begin

text \<open>
  What a pass may write, whatever calls fail. \<open>tame_api\<close> is what is left of the behaviour of an API server
  when any call may fail, with or without having had its effect, and when other calls may even panic or not
  return; \<open>pass_write\<close> lists the single writes a pass over a cluster may make. Every pass, complete or not,
  is a sequence of such writes.
\<close>

section \<open>A server that may fail\<close>

definition tame_kind ::
  "(key \<Rightarrow> ('s, 'o) go) \<Rightarrow> ('o \<Rightarrow> ('s, unit) go) \<Rightarrow> ('o \<Rightarrow> 'o \<Rightarrow> ('s, unit) go) \<Rightarrow>
   ('o \<Rightarrow> ObjectMeta) \<Rightarrow> ('v \<Rightarrow> key \<rightharpoonup> 'o) \<Rightarrow> (((key \<rightharpoonup> 'o) \<Rightarrow> (key \<rightharpoonup> 'o)) \<Rightarrow> 'v \<Rightarrow> 'v) \<Rightarrow>
   ('s \<Rightarrow> 'v) \<Rightarrow> bool" where
  "tame_kind get create patch meta sel upd view \<longleftrightarrow>
     (\<forall>k s res s'. get k s = Some (res, s') \<longrightarrow>
        view s' = view s \<and> (\<forall>ob. res = Ok ob \<longrightarrow> sel (view s) k = Some ob)) \<and>
     (\<forall>ob s res s'. create ob s = Some (res, s') \<longrightarrow>
        view s' = view s \<or>
        sel (view s) (meta_key (meta ob)) = None \<and> view s' = upd (\<lambda>m. m(meta_key (meta ob) \<mapsto> ob)) (view s)) \<and>
     (\<forall>old new s res s'. patch old new s = Some (res, s') \<and>
        sel (view s) (meta_key (meta old)) = Some old \<and> meta_key (meta new) = meta_key (meta old) \<longrightarrow>
        view s' = view s \<or> view s' = upd (\<lambda>m. m(meta_key (meta old) \<mapsto> new)) (view s))"

definition tame_list :: "'s Reconciler \<Rightarrow> ('s \<Rightarrow> Store) \<Rightarrow> bool" where
  "tame_list r view \<longleftrightarrow>
     (\<forall>ns sel s res s'. rc_ListStatefulSets r ns sel s = Some (res, s') \<longrightarrow> view s' = view s \<and>
        (\<forall>items. res = Ok items \<longrightarrow> set items \<subseteq> {st \<in> ran (so_stss (view s)).
          om_Namespace (st_Meta st) = ns \<and> matches_labels sel (om_Labels (st_Meta st))}))"

definition tame_delete :: "'s Reconciler \<Rightarrow> ('s \<Rightarrow> Store) \<Rightarrow> bool" where
  "tame_delete r view \<longleftrightarrow>
     (\<forall>st s res s'. rc_DeleteStatefulSet r st s = Some (res, s') \<longrightarrow>
        view s' = view s \<or> view s' = so_stss_update (\<lambda>m. m(meta_key (st_Meta st) := None)) (view s))"

definition tame_owner :: "'s Reconciler \<Rightarrow> bool" where
  "tame_owner r \<longleftrightarrow>
     (\<forall>cl m m'. rc_SetControllerReference r cl m = Ok m' \<longrightarrow> (\<exists>refs. m' = m\<lparr>om_OwnerReferences := refs\<rparr>))"

definition tame_api :: "'s Reconciler \<Rightarrow> ('s \<Rightarrow> Store) \<Rightarrow> bool" where
  "tame_api r view \<longleftrightarrow>
     tame_kind (rc_GetConfigMap r) (rc_CreateConfigMap r) (rc_PatchConfigMap r) cm_Meta
       so_cms so_cms_update view \<and>
     tame_kind (rc_GetService r) (rc_CreateService r) (rc_PatchService r) sv_Meta
       so_svcs so_svcs_update view \<and>
     tame_kind (rc_GetIngress r) (rc_CreateIngress r) (rc_PatchIngress r) ig_Meta
       so_ings so_ings_update view \<and>
     tame_kind (rc_GetStatefulSet r) (rc_CreateStatefulSet r) (rc_PatchStatefulSet r) st_Meta
       so_stss so_stss_update view \<and>
     tame_list r view \<and> tame_delete r view \<and> tame_owner r \<and> silent_world r view"

context object_kind
begin

text \<open>The pattern of the reconcilers writes nothing, or the desired object merged with what is stored.\<close>

lemma upsert_tame:
  assumes tame: "tame_kind get create patch meta sel upd view"
    and keyed: "\<And>e. sel (view s) (meta_key (meta d)) = Some e \<Longrightarrow> meta_key (meta e) = meta_key (meta d)"
    and run: "upsert get create patch meta merge d s = Some (res, s')"
  shows "view s' = view s \<or>
    view s' = upd (\<lambda>m. m(meta_key (meta d) \<mapsto> put_object merge (sel (view s) (meta_key (meta d))) d)) (view s)"
proof -
  from tame have read: "view s1 = view s \<and> (\<forall>ob. got = Ok ob \<longrightarrow> sel (view s) (meta_key (meta d)) = Some ob)"
    if "get (meta_key (meta d)) s = Some (got, s1)" for got s1
    using that unfolding tame_kind_def by blast
  from run obtain got s1 where got: "get (meta_key (meta d)) s = Some (got, s1)"
    by (cases "get (meta_key (meta d)) s") (auto simp: upsert_def bindG_def tryG_def)
  show ?thesis
  proof (cases got)
    case (Ok e)
    with read [OF got] have e: "sel (view s1) (meta_key (meta e)) = Some e" "view s1 = view s"
        "meta_key (meta e) = meta_key (meta d)" "sel (view s) (meta_key (meta d)) = Some e"
      using keyed by auto
    have "patch e (merge e d) s1 = Some (res, s')" using run got Ok by (simp add: upsert_def)
    with tame e(1) have "view s' = view s1 \<or> view s' = upd (\<lambda>m. m(meta_key (meta e) \<mapsto> merge e d)) (view s1)"
      unfolding tame_kind_def using merge_key by blast
    with e show ?thesis by (simp add: put_object_def)
  next
    case (Err err)
    show ?thesis
    proof (cases "IsNotFound err")
      case True
      with run got Err have "create d s1 = Some (res, s')" by (simp add: upsert_def)
      with tame have "view s' = view s1 \<or> sel (view s1) (meta_key (meta d)) = None \<and>
          view s' = upd (\<lambda>m. m(meta_key (meta d) \<mapsto> d)) (view s1)"
        unfolding tame_kind_def by blast
      with read [OF got] show ?thesis by (auto simp: put_object_def)
    next
      case False
      with run got Err read [OF got] show ?thesis by (simp add: upsert_def)
    qed
  next
    case (Panic p)
    with run got read [OF got] show ?thesis by (simp add: upsert_def bindG_def tryG_def)
  qed
qed

end

section \<open>The writes of a pass\<close>

text \<open>The indices that the loop over the replicasets can visit: at the largest int32 it wraps to the negative ones.\<close>

definition rs_index :: "TierSpec \<Rightarrow> int32 \<Rightarrow> bool" where
  "rs_index t i \<longleftrightarrow> sint i \<le> sint (tier_Replicas t) \<and> (1 \<le> sint i \<or> tier_Replicas t = MaxInt32)"

inductive pass_write :: "PicoclusterDB \<Rightarrow> Store \<Rightarrow> Store \<Rightarrow> bool" for cl :: PicoclusterDB where
  write_config: "t \<in> set (cl_Tiers cl) \<Longrightarrow> meta_key (cm_Meta ob) = (cl_Namespace cl, configMapName cl t) \<Longrightarrow>
    pass_write cl v (so_cms_update (\<lambda>m. m(meta_key (cm_Meta ob) \<mapsto> ob)) v)"
| write_service: "t \<in> set (cl_Tiers cl) \<Longrightarrow> meta_key (sv_Meta ob) = (cl_Namespace cl, n) \<Longrightarrow>
    n = interconnectServiceName cl t \<or> n = clientServiceName cl t \<Longrightarrow>
    pass_write cl v (so_svcs_update (\<lambda>m. m(meta_key (sv_Meta ob) \<mapsto> ob)) v)"
| write_ingress: "t \<in> set (cl_Tiers cl) \<Longrightarrow> meta_key (ig_Meta ob) = (cl_Namespace cl, clientServiceName cl t) \<Longrightarrow>
    tier_Ingress t = Some i \<Longrightarrow> in_Enabled i \<Longrightarrow>
    pass_write cl v (so_ings_update (\<lambda>m. m(meta_key (ig_Meta ob) \<mapsto> ob)) v)"
| write_set: "t \<in> set (cl_Tiers cl) \<Longrightarrow> meta_key (st_Meta ob) = (cl_Namespace cl, statefulSetName cl t rs) \<Longrightarrow>
    om_Labels (st_Meta ob) = replicasetLabels cl t rs \<Longrightarrow> rs_index t rs \<Longrightarrow>
    pass_write cl v (so_stss_update (\<lambda>m. m(meta_key (st_Meta ob) \<mapsto> ob)) v)"
| delete_set: "t \<in> set (cl_Tiers cl) \<Longrightarrow> so_stss v k = Some st \<Longrightarrow> surplus cl t st \<Longrightarrow>
    pass_write cl v (so_stss_update (\<lambda>m. m(k := None)) v)"

abbreviation pass_writes :: "PicoclusterDB \<Rightarrow> Store \<Rightarrow> Store \<Rightarrow> bool" where
  "pass_writes cl \<equiv> rtranclp (pass_write cl)"

lemma keyed_put: "keyed meta m \<Longrightarrow> meta_key (meta ob) = k \<Longrightarrow> keyed meta (m(k \<mapsto> ob))"
  unfolding keyed_def by (metis fun_upd_apply option.inject)

lemma keyed_remove: "keyed meta m \<Longrightarrow> keyed meta (m(k := None))"
  unfolding keyed_def by (metis fun_upd_apply option.distinct(1))

lemma pass_write_ok: "pass_write cl v w \<Longrightarrow> store_ok v \<Longrightarrow> store_ok w"
  by (cases rule: pass_write.cases) (auto simp: store_ok_def keyed_put keyed_remove)

lemma pass_writes_ok: "pass_writes cl v w \<Longrightarrow> store_ok v \<Longrightarrow> store_ok w"
  by (induction rule: rtranclp_induct) (auto dest: pass_write_ok)

section \<open>A calculus\<close>

text \<open>Every run of \<open>m\<close> makes writes of the pass only; if it returns a value, that satisfies \<open>Q\<close>.\<close>

definition within :: "('s \<Rightarrow> Store) \<Rightarrow> PicoclusterDB \<Rightarrow> ('s, 'a) go \<Rightarrow> ('a \<Rightarrow> bool) \<Rightarrow> bool" where
  "within view cl m Q \<longleftrightarrow>
     (\<forall>s res s'. m s = Some (res, s') \<and> store_ok (view s) \<longrightarrow>
        pass_writes cl (view s) (view s') \<and> (\<forall>x. res = Ok x \<longrightarrow> Q x))"

lemma withinI:
  assumes "\<And>s res s'. m s = Some (res, s') \<Longrightarrow> store_ok (view s) \<Longrightarrow>
    pass_writes cl (view s) (view s') \<and> (\<forall>x. res = Ok x \<longrightarrow> Q x)"
  shows "within view cl m Q"
  using assms unfolding within_def by blast

lemma withinD:
  assumes "within view cl m Q" "m s = Some (res, s')" "store_ok (view s)"
  shows "pass_writes cl (view s) (view s')" "res = Ok x \<Longrightarrow> Q x" "store_ok (view s')"
  using assms pass_writes_ok unfolding within_def by blast+

lemma within_return: "Q x \<Longrightarrow> within view cl (returnG x) Q"
  by (simp add: within_def)

lemma within_lift: "(\<And>x. res = Ok x \<Longrightarrow> Q x) \<Longrightarrow> within view cl (liftG res) Q"
  by (auto simp: within_def)

lemma within_fail: "within view cl (failG e) Q"
  by (simp add: within_def)

lemma within_silent: "silent view m \<Longrightarrow> within view cl m (\<lambda>_. True)"
  unfolding within_def using keeps_view by fastforce

lemma within_weaken: "within view cl m P \<Longrightarrow> (\<And>x. P x \<Longrightarrow> Q x) \<Longrightarrow> within view cl m Q"
  unfolding within_def by blast

lemma within_bind:
  assumes m: "within view cl m P" and f: "\<And>x. P x \<Longrightarrow> within view cl (f x) Q"
  shows "within view cl (bindG m f) Q"
proof (rule withinI)
  fix s res s'
  assume run: "bindG m f s = Some (res, s')" and ok: "store_ok (view s)"
  then obtain r1 s1 where m1: "m s = Some (r1, s1)" by (cases "m s") (auto simp: bindG_def)
  show "pass_writes cl (view s) (view s') \<and> (\<forall>x. res = Ok x \<longrightarrow> Q x)"
  proof (cases r1)
    case (Ok y)
    with run m1 have "f y s1 = Some (res, s')" by simp
    note step = f [OF withinD(2) [OF m m1 ok Ok]] this withinD(3) [OF m m1 ok]
    show ?thesis using withinD(1) [OF m m1 ok] withinD(1,2) [OF step] by auto
  qed (use run m1 withinD(1) [OF m m1 ok] in \<open>auto simp: bindG_def\<close>)
qed

lemma within_try:
  "within view cl m Q \<Longrightarrow> within view cl (tryG m) (\<lambda>x. case x of Inl e \<Rightarrow> True | Inr y \<Rightarrow> Q y)"
  unfolding within_def tryG_def by (fastforce split: option.splits result.splits)

lemma within_wrap: "within view cl m Q \<Longrightarrow> within view cl (wrapG msg m) Q"
  unfolding within_def wrapG_def by (fastforce split: option.splits result.splits)

lemma within_for: "(\<And>x. x \<in> set xs \<Longrightarrow> within view cl (body x) (\<lambda>_. True)) \<Longrightarrow> within view cl (forG body xs) (\<lambda>_. True)"
  by (induction xs) (auto intro!: within_bind within_return simp del: run_return)

section \<open>The resource reconcilers\<close>

lemma tame_setRef:
  assumes "tame_api r view"
  shows "within view cl (setRefMeta r cur m) (\<lambda>m'. \<exists>refs. m' = m\<lparr>om_OwnerReferences := refs\<rparr>)"
  unfolding setRefMeta_def using assms by (intro within_lift) (auto simp: tame_api_def tame_owner_def)

text \<open>An upsert of an object whose storage, whatever was there before, is a write of the pass.\<close>

context object_kind
begin

lemma within_upsert:
  assumes tame: "tame_kind get create patch meta sel upd view"
    and keyed: "\<And>v e. store_ok v \<Longrightarrow> sel v (meta_key (meta d)) = Some e \<Longrightarrow> meta_key (meta e) = meta_key (meta d)"
    and allowed: "\<And>v ob. meta_key (meta ob) = meta_key (meta d) \<Longrightarrow> managed ob = managed d \<Longrightarrow>
      pass_write cl v (upd (\<lambda>m. m(meta_key (meta d) \<mapsto> ob)) v)"
  shows "within view cl (upsert get create patch meta merge d) (\<lambda>_. True)"
proof (rule withinI)
  fix s res s'
  assume run: "upsert get create patch meta merge d s = Some (res, s')" and ok: "store_ok (view s)"
  let ?ob = "put_object merge (sel (view s) (meta_key (meta d))) d"
  have "meta_key (meta ?ob) = meta_key (meta d)" using keyed [OF ok] by (intro put_key) auto
  then have "pass_write cl (view s) (upd (\<lambda>m. m(meta_key (meta d) \<mapsto> ?ob)) (view s))"
    using put_managed by (intro allowed)
  with upsert_tame [OF tame keyed [OF ok] run] show "pass_writes cl (view s) (view s') \<and> (\<forall>x. res = Ok x \<longrightarrow> True)"
    by auto
qed

end

lemma tame_kinds:
  assumes "tame_api r view"
  shows "tame_kind (rc_GetConfigMap r) (rc_CreateConfigMap r) (rc_PatchConfigMap r) cm_Meta so_cms so_cms_update view"
    and "tame_kind (rc_GetService r) (rc_CreateService r) (rc_PatchService r) sv_Meta so_svcs so_svcs_update view"
    and "tame_kind (rc_GetIngress r) (rc_CreateIngress r) (rc_PatchIngress r) ig_Meta so_ings so_ings_update view"
    and "tame_kind (rc_GetStatefulSet r) (rc_CreateStatefulSet r) (rc_PatchStatefulSet r) st_Meta so_stss so_stss_update view"
    and "tame_list r view" and "tame_delete r view" and "silent_world r view"
  using assms by (simp_all add: tame_api_def)

lemma store_ok_keyed:
  assumes "store_ok v"
  shows "so_cms v k = Some c \<Longrightarrow> meta_key (cm_Meta c) = k" and "so_svcs v k = Some s \<Longrightarrow> meta_key (sv_Meta s) = k"
    and "so_ings v k = Some i \<Longrightarrow> meta_key (ig_Meta i) = k" and "so_stss v k = Some st \<Longrightarrow> meta_key (st_Meta st) = k"
  using assms by (auto simp: store_ok_def dest: keyedD)

lemma within_config:
  assumes tame: "tame_api r view" and t: "t \<in> set (cl_Tiers cl)"
    and key: "meta_key (cm_Meta d) = (cl_Namespace cl, configMapName cl t)"
  shows "within view cl (reconcileConfigMap r d) (\<lambda>_. True)"
  unfolding reconcile_upsert
proof (rule cm_kind.within_upsert [OF tame_kinds(1) [OF tame]])
  fix v and ob :: ConfigMap assume "meta_key (cm_Meta ob) = meta_key (cm_Meta d)"
  with key pass_write.write_config [OF t, of ob v]
  show "pass_write cl v (so_cms_update (\<lambda>m. m(meta_key (cm_Meta d) \<mapsto> ob)) v)" by simp
qed (rule store_ok_keyed)

lemma within_service:
  assumes tame: "tame_api r view" and t: "t \<in> set (cl_Tiers cl)"
    and key: "meta_key (sv_Meta d) = (cl_Namespace cl, n)" "n = interconnectServiceName cl t \<or> n = clientServiceName cl t"
  shows "within view cl (reconcileService r d) (\<lambda>_. True)"
  unfolding reconcile_upsert
proof (rule sv_kind.within_upsert [OF tame_kinds(2) [OF tame]])
  fix v and ob :: Service assume "meta_key (sv_Meta ob) = meta_key (sv_Meta d)"
  with key pass_write.write_service [OF t, of ob n v]
  show "pass_write cl v (so_svcs_update (\<lambda>m. m(meta_key (sv_Meta d) \<mapsto> ob)) v)" by simp
qed (rule store_ok_keyed)

lemma within_ingress:
  assumes tame: "tame_api r view" and t: "t \<in> set (cl_Tiers cl)" "tier_Ingress t = Some i" "in_Enabled i"
    and key: "meta_key (ig_Meta d) = (cl_Namespace cl, clientServiceName cl t)"
  shows "within view cl (reconcileIngress r d) (\<lambda>_. True)"
  unfolding reconcile_upsert
proof (rule ig_kind.within_upsert [OF tame_kinds(3) [OF tame]])
  fix v and ob :: Ingress assume "meta_key (ig_Meta ob) = meta_key (ig_Meta d)"
  with key pass_write.write_ingress [OF t(1) _ t(2,3), of ob v]
  show "pass_write cl v (so_ings_update (\<lambda>m. m(meta_key (ig_Meta d) \<mapsto> ob)) v)" by simp
qed (rule store_ok_keyed)

lemma within_set:
  assumes tame: "tame_api r view" and t: "t \<in> set (cl_Tiers cl)" "rs_index t rs"
    and key: "meta_key (st_Meta d) = (cl_Namespace cl, statefulSetName cl t rs)"
    and labels: "om_Labels (st_Meta d) = replicasetLabels cl t rs"
  shows "within view cl (reconcileStatefulSet r d) (\<lambda>_. True)"
  unfolding reconcile_upsert
proof (rule st_kind.within_upsert [OF tame_kinds(4) [OF tame]])
  fix v and ob :: StatefulSet assume "meta_key (st_Meta ob) = meta_key (st_Meta d)" "managedStatefulSet ob = managedStatefulSet d"
  with key labels pass_write.write_set [OF t(1) _ _ t(2), of ob v]
  show "pass_write cl v (so_stss_update (\<lambda>m. m(meta_key (st_Meta d) \<mapsto> ob)) v)"
    by (simp add: managedStatefulSet_def)
qed (rule store_ok_keyed)

section \<open>One tier\<close>

text \<open>What of a tier and of its cluster decides where the objects are.\<close>

definition tier_frame :: "TierSpec \<Rightarrow> string \<times> int32 \<times> IngressSpec option" where
  "tier_frame t = (tier_Name t, tier_Replicas t, tier_Ingress t)"

definition cl_frame :: "PicoclusterDB \<Rightarrow> ObjectMeta \<times> string \<times> (string \<times> int32 \<times> IngressSpec option) list" where
  "cl_frame cl = (cl_Meta cl, spec_ClusterName (cl_Spec cl), map tier_frame (cl_Tiers cl))"

lemma frame_names:
  assumes "cl_frame cur = cl_frame cl" "tier_frame t' = tier_frame t"
  shows "cl_Meta cur = cl_Meta cl" "configMapName cur t' = configMapName cl t" "clientServiceName cur t' = clientServiceName cl t"
    "interconnectServiceName cur t' = interconnectServiceName cl t" "statefulSetName cur t' = statefulSetName cl t"
    "tierLabels cur t' = tierLabels cl t" "replicasetLabels cur t' = replicasetLabels cl t"
    "tier_Replicas t' = tier_Replicas t" "tier_Ingress t' = tier_Ingress t" "isExtra t' st = isExtra t st"
    "rs_index t' i = rs_index t i"
  using assms by (simp_all add: cl_frame_def tier_frame_def configMapName_def clientServiceName_def
      interconnectServiceName_def statefulSetName_def tierLabels_def replicasetLabels_eq fun_eq_iff isExtra_def rs_index_def cong: option.case_cong)

lemma frame_after_build [simp]: "tier_frame (after_build q cl t i cfg) = tier_frame t"
  by (simp add: tier_frame_def)

lemma within_rsBody:
  assumes tame: "tame_api r view" and t: "t \<in> set (cl_Tiers cl)"
    and at: "cl_frame cur = cl_frame cl" and fr: "tier_frame t' = tier_frame t"
    and i: "rs_index t' i"
  shows "within view cl (rsBody r cur cfg i t') (\<lambda>t''. tier_frame t'' = tier_frame t)"
proof -
  note names = frame_names [OF at fr]
  have "within view cl (reconcileStatefulSet r ((built (rc_Quantity r) cur t' i cfg)\<lparr>st_Meta := m\<rparr>)) (\<lambda>_. True)"
    if "\<exists>refs. m = (st_Meta (built (rc_Quantity r) cur t' i cfg))\<lparr>om_OwnerReferences := refs\<rparr>" for m
    using that i built_simps(1-4) [of "rc_Quantity r" cur t' i cfg]
    by (intro within_set [OF tame t, of i]) (auto simp: meta_key_def names)
  then show ?thesis
    unfolding rsBody_def split_beta Let_def
    by (intro within_bind [OF tame_setRef [OF tame]] within_bind [OF within_wrap] within_return) (simp_all add: fr)
qed

lemma within_rsLoop:
  assumes tame: "tame_api r view" and t: "t \<in> set (cl_Tiers cl)" and at: "cl_frame cur = cl_frame cl"
    and fr: "tier_frame t' = tier_frame t" and i: "1 \<le> sint i \<or> tier_Replicas t = MaxInt32"
  shows "within view cl (rsLoop r cur cfg i t') (\<lambda>t''. tier_frame t'' = tier_frame t)"
proof (rule withinI)
  let ?W = "\<lambda>s i t' (res, s'). tier_frame t' = tier_frame t \<longrightarrow> 1 \<le> sint i \<or> tier_Replicas t = MaxInt32 \<longrightarrow> store_ok (view s) \<longrightarrow>
    pass_writes cl (view s) (view s') \<and> (\<forall>x. res = Ok x \<longrightarrow> tier_frame x = tier_frame t)"
  fix s res s'
  assume run: "rsLoop r cur cfg i t' s = Some (res, s')" and ok: "store_ok (view s)"
  have "r = r \<longrightarrow> cur = cur \<longrightarrow> ?W s i t' (res, s')"
  proof (rule rsLoop.raw_induct [where P = "\<lambda>r0 cur0 cfg i t' s y. r0 = r \<longrightarrow> cur0 = cur \<longrightarrow> ?W s i t' y", OF _ run],
      intro impI)
    fix loop r0 cur0 cfg i t' s y
    assume IH: "\<And>r0 cur0 cfg i t' s y. loop r0 cur0 cfg i t' s = Some y \<Longrightarrow> r0 = r \<longrightarrow> cur0 = cur \<longrightarrow> ?W s i t' y"
      and eq: "(if sint i \<le> sint (tier_Replicas t')
         then bindG (rsBody r0 cur0 cfg i t') (loop r0 cur0 cfg (i + 1)) s else returnG t' s) = Some y"
      and same: "r0 = r" "cur0 = cur"
    show "?W s i t' y"
    proof (cases "sint i \<le> sint (tier_Replicas t')")
      case True
      have "?W s i t' y" if fr: "tier_frame t' = tier_frame t" and i: "1 \<le> sint i \<or> tier_Replicas t = MaxInt32"
      proof -
        have R: "tier_Replicas t' = tier_Replicas t" by (rule frame_names [OF at fr])
        with True i have index: "rs_index t' i" by (simp add: rs_index_def)
        have next_i: "1 \<le> sint (i + 1) \<or> tier_Replicas t = MaxInt32"
        proof (cases "tier_Replicas t = MaxInt32")
          case False
          with True i R have "1 \<le> sint i" "sint i \<noteq> 2147483647" using sint32_not_max [of "tier_Replicas t"] sint32_upper [of "tier_Replicas t"] by auto
          then show ?thesis using sint_inc32 [of i] sint32_upper [of i] by simp
        qed simp
        have body: "within view cl (rsBody r cur cfg i t') (\<lambda>t''. tier_frame t'' = tier_frame t)"
          by (rule within_rsBody [OF tame t at fr index])
        have "within view cl (loop r cur cfg (i + 1) u) (\<lambda>t''. tier_frame t'' = tier_frame t)"
          if "tier_frame u = tier_frame t" for u
        proof (rule withinI)
          fix s res s'
          assume "loop r cur cfg (i + 1) u s = Some (res, s')" "store_ok (view s)"
          with IH [OF this(1)] that next_i
          show "pass_writes cl (view s) (view s') \<and> (\<forall>x. res = Ok x \<longrightarrow> tier_frame x = tier_frame t)" by simp
        qed
        note all = within_bind [OF body this]
        obtain res s' where y: "y = (res, s')" by fastforce
        with eq True same have "bindG (rsBody r cur cfg i t') (loop r cur cfg (i + 1)) s = Some (res, s')" by simp
        with withinD(1,2) [OF all this] show ?thesis unfolding y prod.case by blast
      qed
      then show ?thesis unfolding split_def by blast
    next
      case False
      with eq show ?thesis by auto
    qed
  qed
  with fr i ok show "pass_writes cl (view s) (view s') \<and> (\<forall>x. res = Ok x \<longrightarrow> tier_frame x = tier_frame t)" by simp
qed

text \<open>Each listed item is still stored or already gone, so the loop deletes surplus StatefulSets only.\<close>

lemma delete_loop_writes:
  assumes del: "tame_delete r view" and t: "t \<in> set (cl_Tiers cl)"
    and items: "\<forall>x \<in> set xs. (isExtra t' x \<longrightarrow> surplus cl t x) \<and>
      (so_stss (view s) (meta_key (st_Meta x)) = None \<or> so_stss (view s) (meta_key (st_Meta x)) = Some x)"
    and run: "forG (\<lambda>x. if isExtra t' x then ignoreNotFoundG (rc_DeleteStatefulSet r x) else returnG ()) xs s = Some (res, s')"
  shows "pass_writes cl (view s) (view s')"
  using items run
proof (induction xs arbitrary: s)
  case (Cons x xs)
  let ?body = "\<lambda>x. if isExtra t' x then ignoreNotFoundG (rc_DeleteStatefulSet r x) else returnG ()"
  from Cons.prems(2) obtain r1 s1 where one: "?body x s = Some (r1, s1)"
    by (cases "?body x s") (auto simp: bindG_def)
  then have cases: "view s1 = view s \<or>
      isExtra t' x \<and> view s1 = so_stss_update (\<lambda>m. m(meta_key (st_Meta x) := None)) (view s)"
    using del unfolding tame_delete_def ignoreNotFoundG_def
    by (fastforce simp: bindG_def tryG_def split: if_splits option.splits result.splits)
  then have "pass_writes cl (view s) (view s1)"
  proof (elim disjE conjE)
    assume e: "isExtra t' x" "view s1 = so_stss_update (\<lambda>m. m(meta_key (st_Meta x) := None)) (view s)"
    from Cons.prems(1) e(1) have x: "surplus cl t x"
      "so_stss (view s) (meta_key (st_Meta x)) = None \<or> so_stss (view s) (meta_key (st_Meta x)) = Some x" by auto
    from x(2) show ?thesis
    proof
      assume "so_stss (view s) (meta_key (st_Meta x)) = None"
      then have "view s1 = view s" by (simp add: e(2) fun_upd_idem)
      then show ?thesis by simp
    next
      assume "so_stss (view s) (meta_key (st_Meta x)) = Some x"
      with delete_set [OF t _ x(1)] show ?thesis unfolding e(2) by blast
    qed
  qed simp
  moreover have "pass_writes cl (view s1) (view s')"
  proof (cases r1)
    case (Ok u)
    with Cons.prems(2) one have "forG ?body xs s1 = Some (res, s')" by simp
    moreover have "\<forall>x \<in> set xs. (isExtra t' x \<longrightarrow> surplus cl t x) \<and>
        (so_stss (view s1) (meta_key (st_Meta x)) = None \<or> so_stss (view s1) (meta_key (st_Meta x)) = Some x)"
      using Cons.prems(1) cases by (elim disjE) (simp_all add: fun_upd_apply)
    ultimately show ?thesis by (intro Cons.IH)
  qed (use Cons.prems(2) one in \<open>simp_all add: bindG_def\<close>)
  ultimately show ?case by simp
qed simp

lemma within_delete:
  assumes tame: "tame_api r view" and t: "t \<in> set (cl_Tiers cl)"
    and at: "cl_frame cur = cl_frame cl" and fr: "tier_frame t' = tier_frame t"
  shows "within view cl (deleteExtraStatefulSets r cur t') (\<lambda>_. True)"
proof (rule withinI)
  fix s res s'
  assume run: "deleteExtraStatefulSets r cur t' s = Some (res, s')" and ok: "store_ok (view s)"
  then obtain got s1 where list: "rc_ListStatefulSets r (cl_Namespace cur) (tierLabels cur t') s = Some (got, s1)"
    by (cases "rc_ListStatefulSets r (cl_Namespace cur) (tierLabels cur t') s")
       (auto simp: deleteExtraStatefulSets_def bindG_def)
  with tame_kinds(5) [OF tame] have read: "view s1 = view s" "\<And>items. got = Ok items \<Longrightarrow>
      set items \<subseteq> {st \<in> ran (so_stss (view s)).
        om_Namespace (st_Meta st) = cl_Namespace cur \<and> matches_labels (tierLabels cur t') (om_Labels (st_Meta st))}"
    unfolding tame_list_def by blast+
  show "pass_writes cl (view s) (view s') \<and> (\<forall>x. res = Ok x \<longrightarrow> True)"
  proof (cases got)
    case (Ok items)
    with run list have loop: "forG (\<lambda>x. if isExtra t' x then ignoreNotFoundG (rc_DeleteStatefulSet r x) else returnG ()) items s1 = Some (res, s')"
      by (simp add: deleteExtraStatefulSets_def)
    have "(isExtra t' x \<longrightarrow> surplus cl t x) \<and> (so_stss (view s1) (meta_key (st_Meta x)) = None \<or>
        so_stss (view s1) (meta_key (st_Meta x)) = Some x)" if "x \<in> set items" for x
    proof -
      from read(2) [OF Ok] that have x: "x \<in> ran (so_stss (view s))" "om_Namespace (st_Meta x) = cl_Namespace cur"
          "matches_labels (tierLabels cur t') (om_Labels (st_Meta x))" by auto
      from x(1) obtain k where "so_stss (view s) k = Some x" by (auto simp: ran_def)
      with store_ok_keyed(4) [OF ok this] x(2,3) show ?thesis
        by (simp add: read(1) surplus_def frame_names [OF at fr])
    qed
    with delete_loop_writes [OF tame_kinds(6) [OF tame] t _ loop] read(1) show ?thesis by auto
  qed (use run list read(1) in \<open>auto simp: deleteExtraStatefulSets_def bindG_def\<close>)
qed

lemma within_tierIngress:
  assumes tame: "tame_api r view" and t: "t \<in> set (cl_Tiers cl)"
    and at: "cl_frame cur = cl_frame cl" and fr: "tier_frame t' = tier_frame t"
  shows "within view cl (reconcileTierIngress r cur t') (\<lambda>_. True)"
proof (cases "tier_Ingress t'")
  case (Some i)
  note names = frame_names [OF at fr]
  have "within view cl (reconcileIngress r (d\<lparr>ig_Meta := m\<rparr>)) (\<lambda>_. True)"
    if "buildIngress cur t' = Ok d" "\<exists>refs. m = (ig_Meta d)\<lparr>om_OwnerReferences := refs\<rparr>" "in_Enabled i" for d m
    using that Some names(9)
    by (intro within_ingress [OF tame t, of i]) (auto simp: buildIngress_def meta_key_def names Let_def split: option.splits)
  with Some show ?thesis
    unfolding reconcileTierIngress_def
    by (auto intro!: within_bind [OF within_lift [where Q = "\<lambda>d. buildIngress cur t' = Ok d"]]
        within_bind [OF tame_setRef [OF tame]] within_wrap within_return simp del: run_return)
qed (simp add: reconcileTierIngress_def within_return del: run_return)

lemma config_at: "buildConfigMap cl t = Ok d \<Longrightarrow> meta_key (cm_Meta d) = (cl_Namespace cl, configMapName cl t)"
  by (auto simp: buildConfigMap_def meta_key_def split: list.splits)

lemma services_at:
  "meta_key (sv_Meta (buildInterconnectService cl t)) = (cl_Namespace cl, interconnectServiceName cl t)"
  "meta_key (sv_Meta (buildClientService cl t)) = (cl_Namespace cl, clientServiceName cl t)"
  by (simp_all add: buildInterconnectService_def buildClientService_def meta_key_def Let_def)

lemma within_tier:
  assumes tame: "tame_api r view" and t: "t \<in> set (cl_Tiers cl)"
    and at: "cl_frame cur = cl_frame cl" and fr: "tier_frame t' = tier_frame t"
  shows "within view cl (reconcileTier r cur t') (\<lambda>t''. tier_frame t'' = tier_frame t)"
proof -
  note names = frame_names [OF at fr]
  have config: "within view cl (reconcileConfigMap r (d\<lparr>cm_Meta := m\<rparr>)) (\<lambda>_. True)"
    if "buildConfigMap cur t' = Ok d" "\<exists>refs. m = (cm_Meta d)\<lparr>om_OwnerReferences := refs\<rparr>" for d m
    using config_at [OF that(1)] that(2) by (intro within_config [OF tame t]) (auto simp: meta_key_def names)
  have service: "within view cl (reconcileService r (d\<lparr>sv_Meta := m\<rparr>)) (\<lambda>_. True)"
    if "d = buildInterconnectService cur t' \<or> d = buildClientService cur t'"
      "\<exists>refs. m = (sv_Meta d)\<lparr>om_OwnerReferences := refs\<rparr>" for d m
    using services_at [of cur t'] that
    by (intro within_service [OF tame t, of _ "om_Name (sv_Meta d)"]) (auto simp: meta_key_def names)
  show ?thesis
    unfolding reconcileTier_def Let_def
    by (intro within_bind [OF within_lift [where Q = "\<lambda>d. buildConfigMap cur t' = Ok d"]]
        within_bind [OF tame_setRef [OF tame]] within_bind [OF within_wrap [OF config]]
        within_bind [OF within_wrap [OF service]] within_bind [OF within_rsLoop [OF tame t at fr, of 1]]
        within_bind [OF within_wrap [OF within_delete [OF tame t at]]]
        within_bind [OF within_tierIngress [OF tame t at]] within_return) (assumption | simp)+
qed

section \<open>A whole pass\<close>

lemma silent_tierStatus: "tame_api r view \<Longrightarrow> silent view (tierStatus r cl t)"
  unfolding tierStatus_def
  by (intro keeps_bind keeps_return keepsI) (auto simp: tame_api_def tame_list_def)

lemma silent_pluginStep: "tame_api r view \<Longrightarrow> silent view (pluginStep r cl t sts ts ready)"
  unfolding pluginStep_def
  by (auto simp: tame_kinds split: sum.split simp del: run_return
      intro!: keeps_bind keeps_try keeps_reconcileTierPlugins keeps_updateStatus keeps_return)

text \<open>What the loop over the tiers keeps of the cluster.\<close>

fun step_frame :: "PicoclusterDB \<Rightarrow> step \<Rightarrow> bool" where
  "step_frame cl (Done result) \<longleftrightarrow> True"
| "step_frame cl (Continue p) \<longleftrightarrow> cl_frame (pg_Cluster p) = cl_frame cl"

lemma frame_setTier:
  assumes at: "cl_frame cur = cl_frame cl" and i: "i < length (cl_Tiers cl)"
    and fr: "tier_frame t' = tier_frame (cl_Tiers cl ! i)"
  shows "cl_frame (setTier i t' cur) = cl_frame cl"
proof -
  have "map tier_frame (cl_Tiers cur) = map tier_frame (cl_Tiers cl)" using at by (simp add: cl_frame_def)
  with fr i have "map tier_frame ((cl_Tiers cur)[i := t']) = map tier_frame (cl_Tiers cl)"
    by (simp add: map_update list_update_same_conv)
  with at show ?thesis by (simp add: cl_frame_def setTier_def)
qed

lemma frame_nth:
  assumes "cl_frame cur = cl_frame cl" "i < length (cl_Tiers cl)"
  shows "tier_frame (cl_Tiers cur ! i) = tier_frame (cl_Tiers cl ! i)"
proof -
  have "map tier_frame (cl_Tiers cur) = map tier_frame (cl_Tiers cl)" using assms(1) by (simp add: cl_frame_def)
  with assms(2) show ?thesis by (metis length_map nth_map)
qed

lemma within_tierStep:
  assumes tame: "tame_api r view" and at: "cl_frame (pg_Cluster p) = cl_frame cl" and i: "i < length (cl_Tiers cl)"
  shows "within view cl (tierStep r i p) (step_frame cl)"
proof -
  note tier = within_tier [OF tame nth_mem [OF i] at frame_nth [OF at i]]
  show ?thesis
    unfolding tierStep_def Let_def split_beta
    by (intro within_bind [OF within_wrap [OF tier]] within_bind [OF within_silent [OF silent_tierStatus [OF tame]]]
          within_bind [OF within_silent [OF silent_pluginStep [OF tame]]])
      (auto split: sum.split intro!: within_return frame_setTier [OF at i] simp del: run_return)
qed

lemma within_tiersLoop:
  assumes tame: "tame_api r view" and "cl_frame (pg_Cluster p) = cl_frame cl" and "set is \<subseteq> {..<length (cl_Tiers cl)}"
  shows "within view cl (tiersLoop r is p) (step_frame cl)"
  using assms(2,3)
proof (induction "is" arbitrary: p)
  case (Cons i "is")
  then have "within view cl (tierStep r i p) (step_frame cl)" by (intro within_tierStep [OF tame]) auto
  then show ?case using Cons
    by (auto intro!: within_bind within_return split: step.split simp del: run_return)
qed (simp add: within_return del: run_return)

lemma pass_within:
  assumes tame: "tame_api r view" and run: "Reconcile r req s = Some (res, s')" and ok: "store_ok (view s)"
  obtains (Served) cl s0 where "rc_GetPicocluster r req s = Some (Ok cl, s0)" "pass_writes cl (view s) (view s')"
    | (Unread) "view s' = view s"
proof -
  from other_call_rules(1) [OF tame_kinds(7) [OF tame], of req] show ?thesis
  proof (cases rule: keepsE [where s = s])
    case (Ok cl s0)
    let ?m = "bindG (tiersLoop r [0..<length (cl_Tiers cl)] \<lparr>pg_Cluster = cl, pg_Statuses = [], pg_AllReady = True\<rparr>)
      (\<lambda>st. case st of Done result \<Rightarrow> returnG result
        | Continue p \<Rightarrow> bindG (updateStatus r (pg_Cluster p) (pg_Statuses p) (pg_AllReady p)) (\<lambda>_.
            returnG \<lparr>rs_RequeueAfter = 0\<rparr>))"
    have "within view cl ?m (\<lambda>_. True)"
    proof (rule within_bind [OF within_tiersLoop [OF tame]])
      fix st
      show "within view cl (case st of Done result \<Rightarrow> returnG result
        | Continue p \<Rightarrow> bindG (updateStatus r (pg_Cluster p) (pg_Statuses p) (pg_AllReady p)) (\<lambda>_.
            returnG \<lparr>rs_RequeueAfter = 0\<rparr>)) (\<lambda>_. True)"
        by (cases st) (auto intro!: within_return within_silent keeps_bind keeps_updateStatus tame_kinds(7) [OF tame]
            keeps_return simp del: run_return)
    qed auto
    moreover have "?m s0 = Some (res, s')" using run Ok by (simp add: Reconcile_def)
    moreover have "store_ok (view s0)" using Ok(2) ok by simp
    ultimately have "pass_writes cl (view s0) (view s')" by (rule withinD(1))
    then have "pass_writes cl (view s) (view s')" by (simp only: Ok(2))
    with Ok(1) show ?thesis by (rule Served)
  next
    case (Err e s0)
    with run have "s' = s0" by (auto simp: Reconcile_def split: if_splits)
    with Err(2) show ?thesis by (intro Unread) simp
  next
    case (Panic p s0)
    with run have "s' = s0" by (simp add: Reconcile_def bindG_def tryG_def)
    with Panic(2) show ?thesis by (intro Unread) simp
  next
    case None
    with run show ?thesis by (simp add: Reconcile_def bindG_def tryG_def)
  qed
qed

end
