(* ===== verification/Memory_World.thy ===== *)
theory Memory_World
  imports Pass_Writes Samples
begin

text \<open>
  A concrete world: an API server that keeps its objects in association lists, a database that gives
  scripted answers and records the statements it gets, and a clock. It satisfies the hypotheses on
  the API server and on the other calls, so the theorems that rest on them are about something, and
  the handlers can be run on it.
\<close>

section \<open>State\<close>

record World =
  w_clusters :: "(key \<times> PicoclusterDB) list"
  w_cms :: "(key \<times> ConfigMap) list"
  w_svcs :: "(key \<times> Service) list"
  w_ings :: "(key \<times> Ingress) list"
  w_stss :: "(key \<times> StatefulSet) list"
  w_secrets :: "(key \<times> Secret) list"
  w_enabled :: "bool Rows"
  w_services :: "(string \<times> string) Rows"
  w_plugins :: "(string \<times> string \<times> bool) Rows"
  w_log :: "string list"
  w_clock :: time

definition mem_get :: "('s \<Rightarrow> (key \<times> 'o) list) \<Rightarrow> key \<Rightarrow> ('s, 'o) go" where
  "mem_get sel k = (\<lambda>s. case map_of (sel s) k of
       None \<Rightarrow> Some (Err (NotFound (snd k)), s) | Some x \<Rightarrow> Some (Ok x, s))"

definition mem_create ::
  "('o \<Rightarrow> ObjectMeta) \<Rightarrow> ('s \<Rightarrow> (key \<times> 'o) list) \<Rightarrow>
   (((key \<times> 'o) list \<Rightarrow> (key \<times> 'o) list) \<Rightarrow> 's \<Rightarrow> 's) \<Rightarrow> 'o \<Rightarrow> ('s, unit) go" where
  "mem_create meta sel upd x = (\<lambda>s. case map_of (sel s) (meta_key (meta x)) of
       None \<Rightarrow> Some (Ok (), upd (AList.update (meta_key (meta x)) x) s)
     | Some _ \<Rightarrow> Some (Err (Failure ''already exists''), s))"

definition mem_patch ::
  "('o \<Rightarrow> ObjectMeta) \<Rightarrow> ('s \<Rightarrow> (key \<times> 'o) list) \<Rightarrow>
   (((key \<times> 'o) list \<Rightarrow> (key \<times> 'o) list) \<Rightarrow> 's \<Rightarrow> 's) \<Rightarrow> 'o \<Rightarrow> 'o \<Rightarrow> ('s, unit) go" where
  "mem_patch meta sel upd old new = (\<lambda>s. case map_of (sel s) (meta_key (meta new)) of
       None \<Rightarrow> Some (Err (NotFound (om_Name (meta new))), s)
     | Some _ \<Rightarrow> Some (Ok (), upd (AList.update (meta_key (meta new)) new) s))"

definition mem_list :: "string \<Rightarrow> labels \<Rightarrow> (World, StatefulSet list) go" where
  "mem_list ns ls = (\<lambda>s. Some (Ok (filter (\<lambda>st. om_Namespace (st_Meta st) = ns \<and>
       matches_labels ls (om_Labels (st_Meta st))) (map snd (AList.clearjunk (w_stss s)))), s))"

definition mem_delete :: "StatefulSet \<Rightarrow> (World, unit) go" where
  "mem_delete st = (\<lambda>s. case map_of (w_stss s) (meta_key (st_Meta st)) of
       None \<Rightarrow> Some (Err (NotFound (om_Name (st_Meta st))), s)
     | Some _ \<Rightarrow> Some (Ok (), w_stss_update (AList.delete (meta_key (st_Meta st))) s))"

text \<open>The status subresource: the rest of the stored object stays as it is.\<close>

definition mem_patch_status :: "PicoclusterDB \<Rightarrow> PicoclusterDB \<Rightarrow> (World, unit) go" where
  "mem_patch_status old new = (\<lambda>s. case map_of (w_clusters s) (meta_key (cl_Meta new)) of
       None \<Rightarrow> Some (Err (NotFound (cl_Name new)), s)
     | Some c \<Rightarrow> Some (Ok (), w_clusters_update
         (AList.update (meta_key (cl_Meta new)) (c\<lparr>cl_Status := cl_Status new\<rparr>)) s))"

definition mem :: "World Reconciler" where
  "mem =
     \<lparr>rc_GetPicocluster = mem_get w_clusters,
      rc_GetConfigMap = mem_get w_cms,
      rc_CreateConfigMap = mem_create cm_Meta w_cms w_cms_update,
      rc_PatchConfigMap = mem_patch cm_Meta w_cms w_cms_update,
      rc_GetService = mem_get w_svcs,
      rc_CreateService = mem_create sv_Meta w_svcs w_svcs_update,
      rc_PatchService = mem_patch sv_Meta w_svcs w_svcs_update,
      rc_GetIngress = mem_get w_ings,
      rc_CreateIngress = mem_create ig_Meta w_ings w_ings_update,
      rc_PatchIngress = mem_patch ig_Meta w_ings w_ings_update,
      rc_GetStatefulSet = mem_get w_stss,
      rc_CreateStatefulSet = mem_create st_Meta w_stss w_stss_update,
      rc_PatchStatefulSet = mem_patch st_Meta w_stss w_stss_update,
      rc_ListStatefulSets = mem_list,
      rc_DeleteStatefulSet = mem_delete,
      rc_GetSecret = mem_get w_secrets,
      rc_PatchStatus = mem_patch_status,
      rc_SetControllerReference = (\<lambda>cl m. Ok (m\<lparr>om_OwnerReferences := [cl_Name cl]\<rparr>)),
      rc_Now = (\<lambda>s. Some (Ok (w_clock s), s)),
      rc_Quantity = \<lparr>ql_MustParse = Quantity, ql_IsZero = (\<lambda>q. q = Quantity ''0'')\<rparr>,
      rc_FoldClass = id,
      rc_Connect = (\<lambda>_. returnG 0),
      rc_Close = (\<lambda>_. returnG ()),
      rc_Exec = (\<lambda>_ q s. Some (Ok (), w_log_update (\<lambda>l. l @ [q]) s)),
      rc_QueryEnabled = (\<lambda>_ _ s. Some (Ok (w_enabled s), s)),
      rc_QueryServices = (\<lambda>_ _ s. Some (Ok (w_services s), s)),
      rc_QueryPlugins = (\<lambda>_ _ s. Some (Ok (w_plugins s), s))\<rparr>"

definition mem_view :: "World \<Rightarrow> Store" where
  "mem_view s = \<lparr>so_cms = map_of (w_cms s), so_svcs = map_of (w_svcs s), so_ings = map_of (w_ings s),
                 so_stss = map_of (w_stss s)\<rparr>"

text \<open>A world with one cluster and nothing reconciled yet.\<close>

definition freshWorld :: "PicoclusterDB \<Rightarrow> World" where
  "freshWorld cl =
     \<lparr>w_clusters = [(meta_key (cl_Meta cl), cl)], w_cms = [], w_svcs = [], w_ings = [], w_stss = [],
      w_secrets = [], w_enabled = \<lparr>rw_Rows = [], rw_Err = None\<rparr>,
      w_services = \<lparr>rw_Rows = [], rw_Err = None\<rparr>, w_plugins = \<lparr>rw_Rows = [], rw_Err = None\<rparr>,
      w_log = [], w_clock = 0\<rparr>"

text \<open>A StatefulSet of replicaset 3, of a time when the storage tier had three.\<close>

definition staleSet :: StatefulSet where
  "staleSet = built (rc_Quantity mem) sampleCluster storageTier 3 []"

definition staleWorld :: World where
  "staleWorld = (freshWorld sampleCluster)\<lparr>w_stss := [(meta_key (st_Meta staleSet), staleSet)]\<rparr>"

text \<open>The in-memory world with an API server that refuses every write of a ConfigMap.\<close>

definition refusing :: "World Reconciler" where
  "refusing = mem\<lparr>rc_CreateConfigMap := (\<lambda>_. failG (Failure ''quota''))\<rparr>"

section \<open>The laws\<close>

lemma mem_kind_server:
  assumes sel: "\<And>s. vsel (mem_view s) = map_of (sel s)"
    and upd: "\<And>f s. mem_view (upd f s) = vupd (\<lambda>_. map_of (f (sel s))) (mem_view s)"
    and cong: "\<And>f g v. f (vsel v) = g (vsel v) \<Longrightarrow> vupd f v = vupd g v"
  shows "kind_server (mem_get sel) (mem_create meta sel upd) (mem_patch meta sel upd) meta vsel vupd mem_view"
  unfolding kind_server_def
proof (intro conjI allI impI)
  fix k s
  show "case vsel (mem_view s) k of
      None \<Rightarrow> \<exists>e s'. mem_get sel k s = Some (Err e, s') \<and> IsNotFound e \<and> mem_view s' = mem_view s
    | Some ob \<Rightarrow> \<exists>s'. mem_get sel k s = Some (Ok ob, s') \<and> mem_view s' = mem_view s"
    by (simp add: sel mem_get_def split: option.split)
next
  fix ob s
  assume "vsel (mem_view s) (meta_key (meta ob)) = None"
  then show "\<exists>s'. mem_create meta sel upd ob s = Some (Ok (), s') \<and>
      mem_view s' = vupd (\<lambda>m. m(meta_key (meta ob) \<mapsto> ob)) (mem_view s)"
    by (auto simp: sel upd mem_create_def update_conv' intro!: cong)
next
  fix old new s
  assume "vsel (mem_view s) (meta_key (meta old)) = Some old \<and> meta_key (meta new) = meta_key (meta old)"
  then show "\<exists>s'. mem_patch meta sel upd old new s = Some (Ok (), s') \<and>
      mem_view s' = vupd (\<lambda>m. m(meta_key (meta old) \<mapsto> new)) (mem_view s)"
    by (auto simp: sel upd mem_patch_def update_conv' intro!: cong)
qed

lemma ran_clearjunk: "ran (map_of l) = snd ` set (AList.clearjunk l)"
  by (metis distinct_clearjunk map_of_clearjunk ran_distinct)

lemma mem_list_law: "list_law mem mem_view"
  by (auto simp: list_law_def mem_def mem_list_def mem_view_def ran_clearjunk)

lemma mem_delete_law: "delete_law mem mem_view"
  unfolding delete_law_def
  by (auto simp: mem_def mem_delete_def mem_view_def delete_conv' split: option.split)

lemma mem_api_server: "api_server mem mem_view"
proof -
  have "owner_law mem" by (auto simp: owner_law_def mem_def)
  moreover have "kind_server (rc_GetConfigMap mem) (rc_CreateConfigMap mem) (rc_PatchConfigMap mem) cm_Meta
      so_cms so_cms_update mem_view"
    unfolding mem_def Reconciler.simps
    by (rule mem_kind_server, simp add: mem_view_def, simp add: mem_view_def, erule Store_update_cong)
  moreover have "kind_server (rc_GetService mem) (rc_CreateService mem) (rc_PatchService mem) sv_Meta
      so_svcs so_svcs_update mem_view"
    unfolding mem_def Reconciler.simps
    by (rule mem_kind_server, simp add: mem_view_def, simp add: mem_view_def, erule Store_update_cong)
  moreover have "kind_server (rc_GetIngress mem) (rc_CreateIngress mem) (rc_PatchIngress mem) ig_Meta
      so_ings so_ings_update mem_view"
    unfolding mem_def Reconciler.simps
    by (rule mem_kind_server, simp add: mem_view_def, simp add: mem_view_def, erule Store_update_cong)
  moreover have "kind_server (rc_GetStatefulSet mem) (rc_CreateStatefulSet mem) (rc_PatchStatefulSet mem) st_Meta
      so_stss so_stss_update mem_view"
    unfolding mem_def Reconciler.simps
    by (rule mem_kind_server, simp add: mem_view_def, simp add: mem_view_def, erule Store_update_cong)
  ultimately show ?thesis using mem_list_law mem_delete_law by (simp add: api_server_def)
qed

lemma mem_quiet: "quiet_world mem mem_view"
  unfolding other_calls_def calm_iff
  by (auto simp: mem_def mem_get_def mem_patch_status_def mem_patch_def mem_view_def split: option.split)

text \<open>It is also tame, and so is the server that refuses ConfigMaps.\<close>

lemma mem_kind_tame:
  assumes sel: "\<And>s. vsel (mem_view s) = map_of (sel s)"
    and upd: "\<And>f s. mem_view (upd f s) = vupd (\<lambda>_. map_of (f (sel s))) (mem_view s)"
    and cong: "\<And>f g v. f (vsel v) = g (vsel v) \<Longrightarrow> vupd f v = vupd g v"
    and create: "create = mem_create meta sel upd \<or> create = (\<lambda>_. failG e)"
  shows "tame_kind (mem_get sel) create (mem_patch meta sel upd) meta vsel vupd mem_view"
  unfolding tame_kind_def
proof (intro conjI allI impI)
  fix ob s res s'
  assume "create ob s = Some (res, s')"
  with create show "mem_view s' = mem_view s \<or> vsel (mem_view s) (meta_key (meta ob)) = None \<and>
      mem_view s' = vupd (\<lambda>m. m(meta_key (meta ob) \<mapsto> ob)) (mem_view s)"
    by (auto simp: sel upd mem_create_def update_conv' split: option.splits intro!: cong)
next
  fix old new s res s'
  assume "mem_patch meta sel upd old new s = Some (res, s') \<and>
    vsel (mem_view s) (meta_key (meta old)) = Some old \<and> meta_key (meta new) = meta_key (meta old)"
  then show "mem_view s' = mem_view s \<or> mem_view s' = vupd (\<lambda>m. m(meta_key (meta old) \<mapsto> new)) (mem_view s)"
    by (auto simp: sel upd mem_patch_def update_conv' split: option.splits intro!: cong)
qed (auto simp: sel mem_get_def split: option.splits)

lemma mem_silent: "silent_world mem mem_view"
  using mem_quiet unfolding other_calls_def keeps_def by (auto split: option.splits)

lemma tame_mem:
  assumes "create = mem_create cm_Meta w_cms w_cms_update \<or> create = (\<lambda>_. failG e)"
  shows "tame_api (mem\<lparr>rc_CreateConfigMap := create\<rparr>) mem_view"
proof -
  have "tame_list mem mem_view"
    by (auto simp: tame_list_def mem_def mem_list_def mem_view_def ran_clearjunk)
  moreover have "tame_delete mem mem_view"
    by (auto simp: tame_delete_def mem_def mem_delete_def mem_view_def delete_conv' split: option.splits)
  moreover have "tame_owner mem" by (auto simp: tame_owner_def mem_def)
  ultimately have "tame_list (mem\<lparr>rc_CreateConfigMap := create\<rparr>) mem_view"
    "tame_delete (mem\<lparr>rc_CreateConfigMap := create\<rparr>) mem_view" "tame_owner (mem\<lparr>rc_CreateConfigMap := create\<rparr>)"
    "silent_world (mem\<lparr>rc_CreateConfigMap := create\<rparr>) mem_view"
    using mem_silent by (simp_all add: tame_list_def tame_delete_def tame_owner_def other_calls_def)
  moreover note kinds = mem_kind_tame [where vsel = so_cms and vupd = so_cms_update and create = create and e = e]
    mem_kind_tame [where vsel = so_svcs and vupd = so_svcs_update, OF _ _ Store_update_cong(2) disjI1 [OF refl]]
    mem_kind_tame [where vsel = so_ings and vupd = so_ings_update, OF _ _ Store_update_cong(3) disjI1 [OF refl]]
    mem_kind_tame [where vsel = so_stss and vupd = so_stss_update, OF _ _ Store_update_cong(4) disjI1 [OF refl]]
  ultimately show ?thesis
    using assms unfolding tame_api_def
    by (auto simp: mem_def mem_view_def intro!: kinds Store_update_cong(1))
qed

lemma mem_tame: "tame_api mem mem_view"
  using tame_mem [of "mem_create cm_Meta w_cms w_cms_update"] by (simp add: mem_def)

lemma refusing_tame: "tame_api refusing mem_view"
  unfolding refusing_def by (rule tame_mem) (rule disjI2, rule refl)

lemma fresh_store_ok [simp]: "store_ok (mem_view (freshWorld cl))"
  by (simp add: store_ok_def keyed_def mem_view_def freshWorld_def)

lemma fresh_get [simp]:
  "rc_GetPicocluster mem (meta_key (cl_Meta cl)) (freshWorld cl) = Some (Ok cl, freshWorld cl)"
  by (simp add: mem_def mem_get_def freshWorld_def)

lemma sample_names_ok: "names_ok sampleCluster"
  by (simp add: names_ok_def interconnectServiceName_def clientServiceName_def)

lemma refused_tier:
  "reconcileTier refusing sampleCluster storageTier (freshWorld sampleCluster) =
     Some (Err (Wrapped ''configmap'' (Failure ''quota'')), freshWorld sampleCluster)"
  by (simp add: reconcileTier_def buildConfigMap_def setRefMeta_def reconcileConfigMap_def refusing_def mem_def
      mem_get_def freshWorld_def bindG_def tryG_def wrapG_def)

text \<open>Reconciling the idle cluster creates three objects and reports the tier as ready.\<close>

lemma idle_tier_run:
  "\<exists>s'. reconcileTier mem (idleCluster ps) (idleTier ps) (freshWorld (idleCluster ps)) = Some (Ok (idleTier ps), s') \<and>
     w_clusters s' = [(meta_key (cl_Meta (idleCluster ps)), (idleCluster ps))] \<and> w_stss s' = [] \<and> w_secrets s' = []"
  by (simp add: reconcileTier_def buildConfigMap_def idleCluster_def setRefMeta_def reconcileConfigMap_def
      reconcileService_def mem_def mem_get_def mem_create_def freshWorld_def bindG_def tryG_def wrapG_def
      deleteExtraStatefulSets_def mem_list_def reconcileTierIngress_def buildInterconnectService_def
      buildClientService_def interconnectServiceName_def clientServiceName_def meta_key_def
      rsLoop.simps [of _ _ _ 1] idleTier_def routerTier_def Let_def)

lemma idle_reconciled:
  "\<exists>s'. Reconcile mem (''prod'', ''pico'') (freshWorld (idleCluster [])) = Some (Ok \<lparr>rs_RequeueAfter = 0\<rparr>, s')"
proof -
  obtain s1 where s1: "reconcileTier mem (idleCluster []) (idleTier []) (freshWorld (idleCluster [])) = Some (Ok (idleTier []), s1)"
      "w_clusters s1 = [(meta_key (cl_Meta (idleCluster [])), (idleCluster []))]" "w_stss s1 = []"
    using idle_tier_run [of "[]"] by blast
  have get: "rc_GetPicocluster mem (''prod'', ''pico'') (freshWorld (idleCluster [])) = Some (Ok (idleCluster []), freshWorld (idleCluster []))"
    using fresh_get [of "idleCluster []"] by (simp add: idleCluster_def meta_key_def)
  have tiers: "cl_Tiers (idleCluster []) = [(idleTier [])]" "tier_Plugins (idleTier []) = []"
    by (simp_all add: idleCluster_def idleTier_def)
  have same: "setTier 0 (idleTier []) (idleCluster []) = (idleCluster [])"
    by (simp add: setTier_def idleCluster_def)
  have status: "\<exists>ts ready. tierStatus mem (idleCluster []) (idleTier []) s1 = Some (Ok (ts, ready), s1)"
    by (simp add: tierStatus_def mem_def mem_list_def)
  have patch: "\<exists>s'. updateStatus mem (idleCluster []) ts b s1 = Some (Ok (), s')" for ts b
    using s1(2) by (simp add: updateStatus_def mem_def mem_patch_status_def mem_patch_def)
  from status obtain ts ready where "tierStatus mem (idleCluster []) (idleTier []) s1 = Some (Ok (ts, ready), s1)" by blast
  with s1(1) tiers same have "tierStep mem 0 \<lparr>pg_Cluster = (idleCluster []), pg_Statuses = [], pg_AllReady = True\<rparr>
      (freshWorld (idleCluster [])) = Some (Ok (Continue \<lparr>pg_Cluster = (idleCluster []), pg_Statuses = [ts],
        pg_AllReady = (if \<not> ready then False else True)\<rparr>), s1)"
    by (simp add: tierStep_def Let_def pluginStep_def)
  with get tiers patch [of "[ts]" "if \<not> ready then False else True"] show ?thesis
    by (auto simp: Reconcile_def)
qed

end
