(* ===== verification/Plugin_Properties.thy ===== *)
theory Plugin_Properties
  imports Plugin_Trace Memory_World
begin

text \<open>
  Properties of the plugin lifecycle of internal/controller/plugin.go: what is sent to the database
  and in which order, what a pass reports, what happens to versions that are no longer declared, and
  how the database's lists of tiers are read.
\<close>

text \<open>
  Three states of the sample database: nothing installed; everything installed and bound; a plugin of
  the storage tier and one that no tier declares.
\<close>

definition bareWorld :: World where
  "bareWorld =
     (freshWorld sampleCluster)\<lparr>w_secrets :=
       [((''prod'', ''admin''), \<lparr>se_Meta = new_meta ''admin'' ''prod'', se_Data = [(''password'', ''T0psecret'')]\<rparr>)]\<rparr>"

definition steadyWorld :: World where
  "steadyWorld = bareWorld\<lparr>w_enabled := \<lparr>rw_Rows = [Inr True], rw_Err = None\<rparr>,
     w_services := \<lparr>rw_Rows = [Inr (''kv'', json_list [runes ''Storage''])], rw_Err = None\<rparr>\<rparr>"

definition installedRows :: "(string \<times> string \<times> bool) Rows" where
  "installedRows =
     \<lparr>rw_Rows = [Inr (''radix'', ''0.9.0'', True), Inr (''silo'', ''1.0.0'', True)], rw_Err = None\<rparr>"

definition crowdedWorld :: World where
  "crowdedWorld = steadyWorld\<lparr>w_plugins := installedRows\<rparr>"

definition siloPlugin :: PluginSpec where
  "siloPlugin = samplePlugin\<lparr>pl_Name := ''silo''\<rparr>"

lemma mapG_reports:
  assumes "mapG body xs s = Some (Ok ys, s')"
    and "\<And>x s y s'. body x s = Some (Ok y, s') \<Longrightarrow> y = f x"
  shows "ys = map f xs"
  using assms(1)
proof (induction xs arbitrary: s ys)
  case (Cons x xs)
  then show ?case by (fastforce simp: bind_Ok_iff dest: assms(2))
qed simp

lemma defer_result: "deferG c m s = Some (Ok x, s') \<Longrightarrow> \<exists>s1. m s = Some (Ok x, s1)"
  by (auto simp: deferG_def split: go_splits)

text \<open>What the sample database answers in its steady state.\<close>

lemma steady_state:
  "queryPluginState mem 0 (pl_Name samplePlugin) (pl_Version samplePlugin) steadyWorld =
     Some (Ok (True, True), steadyWorld)"
  by (simp add: queryPluginState_def mem_def steadyWorld_def rowsErr_def)

lemma read_storage: "UnmarshalStrings (json_list [runes ''Storage'']) = [''Storage'']"
  by code_simp

lemma steady_bound:
  "queryPluginServices mem 0 (pl_Name samplePlugin) (pl_Version samplePlugin) steadyWorld =
     Some (Ok [(''kv'', [''Storage''])], steadyWorld)"
  by (simp add: queryPluginServices_def mem_def steadyWorld_def rowsErr_def
      read_storage)

lemma steady_fold: "\<forall>(svc, tiers) \<in> set [(''kv'', [''Storage''])]. containsString orbit tiers ''storage''"
proof -
  have "containsString orbit [''Storage''] ''storage''" by code_simp
  then show ?thesis by simp
qed

lemma steady_password: "getAdminPassword mem sampleCluster steadyWorld = Some (Ok ''T0psecret'', steadyWorld)"
proof -
  have "rc_GetSecret mem (''prod'', ''admin'') steadyWorld =
      Some (Ok \<lparr>se_Meta = new_meta ''admin'' ''prod'', se_Data = [(''password'', ''T0psecret'')]\<rparr>, steadyWorld)"
    by (simp add: mem_def mem_get_def steadyWorld_def bareWorld_def)
  then show ?thesis by (simp add: getAdminPassword_def Let_def sampleCluster_def sampleSpec_def)
qed

section \<open>Installing\<close>

text \<open>C9: Whatever the database answers and wherever a statement fails, the statements of one pass over a
  plugin are a prefix of the lifecycle CREATE, ADD SERVICE, SET migration_context, MIGRATE, ADD
  SERVICE for services discovered later, ENABLE, with CREATE only for an absent version and the
  install and ENABLE steps only for a version that is not enabled; a pass that succeeds has sent the
  whole of it.\<close>

theorem plugin_lifecycle_order:
  assumes "queryPluginState r conn (pl_Name plugin) (pl_Version plugin) s = Some (Ok (existing, enabled), s1)"
    and "reconcilePlugin (logExec r) conn plugin tierName (s, l) = Some (res, (s', l'))"
  shows "\<exists>services q. l' = l @ q \<and> prefix q (lifecycle (rc_FoldClass r) plugin tierName existing enabled services) \<and>
    ((\<exists>x. res = Ok x) \<longrightarrow> q = lifecycle (rc_FoldClass r) plugin tierName existing enabled services)"
  using assms by (rule reconcilePlugin_trace)

theorem plugin_lifecycle_order_witness:
  "queryPluginState mem 0 ''radix'' ''0.9.0'' bareWorld = Some (Ok (False, False), bareWorld) \<and>
   (\<exists>res s' l' services. reconcilePlugin (logExec mem) 0 samplePlugin ''storage'' (bareWorld, []) = Some (res, (s', l')) \<and>
      prefix l' (lifecycle (rc_FoldClass mem) samplePlugin ''storage'' False False services))"
proof -
  have state: "queryPluginState mem 0 (pl_Name samplePlugin) (pl_Version samplePlugin) bareWorld =
      Some (Ok (False, False), bareWorld)"
    by (simp add: queryPluginState_def mem_def bareWorld_def freshWorld_def rowsErr_def)
  have "reconcilePlugin (logExec mem) 0 samplePlugin ''storage'' (bareWorld, []) \<noteq> None"
    by (simp add: reconcilePlugin_def queryPluginState_def queryPluginServices_def installPlugin_def
        addService_def logExec_def mem_def bareWorld_def freshWorld_def rowsErr_def quietly_def noting_def
        samplePlugin_def sampleService_def bindG_def wrapG_def)
  then obtain res s' l' where run:
      "reconcilePlugin (logExec mem) 0 samplePlugin ''storage'' (bareWorld, []) = Some (res, (s', l'))"
    by auto
  from plugin_lifecycle_order [OF state run] run state show ?thesis
    by (auto simp: samplePlugin_def)
qed

text \<open>C26: A plugin version that is enabled and whose services are all bound to the tier gets no statement
  at all: the pass succeeds in the state the two queries leave, for every behaviour of the other
  calls.\<close>

theorem plugin_steady_state:
  assumes "queryPluginState r conn (pl_Name plugin) (pl_Version plugin) s = Some (Ok (True, True), s1)"
    and "queryPluginServices r conn (pl_Name plugin) (pl_Version plugin) s1 = Some (Ok services, s2)"
    and "\<forall>(svc, tiers) \<in> set services. containsString (rc_FoldClass r) tiers tierName"
  shows "reconcilePlugin r conn plugin tierName s =
    Some (Ok \<lparr>pu_Name = pl_Name plugin, pu_Version = pl_Version plugin, pu_Enabled = True\<rparr>, s2)"
  using assms by (rule reconcilePlugin_steady)

theorem plugin_steady_state_witness:
  "\<exists>st. reconcilePlugin mem 0 samplePlugin ''storage'' steadyWorld = Some (Ok st, steadyWorld) \<and> pu_Enabled st"
proof -
  from plugin_steady_state [OF steady_state steady_bound steady_fold] show ?thesis by simp
qed

text \<open>C27: When the plugins of a tier are reconciled without an error, the report has one entry per declared
  plugin, in order, with its name and version, and every one of them enabled.\<close>

theorem plugin_report_complete:
  assumes "reconcileTierPlugins r cl tier s = Some (Ok statuses, s')"
  shows "statuses = map (\<lambda>p. \<lparr>pu_Name = pl_Name p, pu_Version = pl_Version p, pu_Enabled = True\<rparr>) (tier_Plugins tier)"
proof (cases "tier_Plugins tier = []")
  case True
  with assms show ?thesis by (simp add: reconcileTierPlugins_def)
next
  case False
  with assms obtain conn s1 s2 where "mapG (\<lambda>plugin. wrapG (''plugin '' @ pl_Name plugin)
      (reconcilePlugin r conn plugin (tier_Name tier))) (tier_Plugins tier) s1 = Some (Ok statuses, s2)"
    by (auto simp: reconcileTierPlugins_def bind_Ok_iff dest!: defer_result)
  then show ?thesis by (rule mapG_reports) (simp add: reconcilePlugin_enabled)
qed

theorem plugin_report_complete_witness:
  "\<exists>statuses s'. reconcileTierPlugins mem sampleCluster storageTier steadyWorld = Some (Ok statuses, s') \<and>
     map pu_Name statuses = [''radix''] \<and> list_all pu_Enabled statuses"
proof -
  note one = reconcilePlugin_steady [OF steady_state steady_bound steady_fold]
  have conn: "rc_Connect mem cs s = Some (Ok 0, s)" "rc_Close mem c s = Some (Ok (), s)" for cs c s
    by (simp_all add: mem_def)
  have drop: "dropObsoletePlugins mem 0 storageTier steadyWorld = Some (Ok (), steadyWorld)"
    by (simp add: dropObsoletePlugins_def mem_def steadyWorld_def bareWorld_def freshWorld_def rowsErr_def)
  obtain statuses s' where run:
      "reconcileTierPlugins mem sampleCluster storageTier steadyWorld = Some (Ok statuses, s')"
    using steady_password conn one drop by (simp add: reconcileTierPlugins_def deferG_def)
  from plugin_report_complete [OF run] run show ?thesis by (simp add: samplePlugin_def)
qed

text \<open>C28: Once a connection has been opened, every way of returning from the plugin pass goes through Close
  on that connection last, errors and panics included.\<close>

theorem connection_always_closed:
  assumes "tier_Plugins tier \<noteq> []"
    and "getAdminPassword r cl s = Some (Ok password, s1)"
    and "rc_Connect r (connString cl tier password) s1 = Some (Ok conn, s2)"
    and "reconcileTierPlugins r cl tier s = Some (res, s')"
  shows "\<exists>s3 closed. rc_Close r conn s3 = Some (closed, s')"
proof -
  define body where "body = bindG (mapG (\<lambda>plugin. wrapG (''plugin '' @ pl_Name plugin)
      (reconcilePlugin r conn plugin (tier_Name tier))) (tier_Plugins tier)) (\<lambda>statuses.
    bindG (tryG (dropObsoletePlugins r conn tier)) (\<lambda>_. returnG statuses))"
  have "deferG (rc_Close r conn) body s2 = Some (res, s')"
    using assms by (simp add: reconcileTierPlugins_def body_def)
  then show ?thesis by (auto simp: deferG_def split: go_splits)
qed

theorem connection_always_closed_witness:
  "\<exists>res s' s3 closed. reconcileTierPlugins mem sampleCluster storageTier steadyWorld = Some (res, s') \<and>
     rc_Close mem 0 s3 = Some (closed, s')"
proof -
  have conn: "rc_Connect mem (connString sampleCluster storageTier ''T0psecret'') steadyWorld = Some (Ok 0, steadyWorld)"
    by (simp add: mem_def)
  from keeps_reconcileTierPlugins [OF mem_quiet, of sampleCluster storageTier]
  obtain res s' where run: "reconcileTierPlugins mem sampleCluster storageTier steadyWorld = Some (res, s')"
    unfolding calm_iff by blast
  with connection_always_closed [OF _ steady_password conn run] show ?thesis by auto
qed

section \<open>Dropping\<close>

text \<open>C10: Whatever fails on the way, the statements that drop obsolete versions are a prefix of the plan that
  goes through the installed rows in order, skips the version that the tier declares, disables an
  enabled version before it drops it, and is complete when no error is returned.\<close>

theorem drop_plan:
  assumes "rc_QueryPlugins r conn selectPluginsSQL s = Some (Ok rows, s1)"
    and "dropObsoletePlugins (logExec r) conn tier (s, l) = Some (res, (s', l'))"
  shows "\<exists>q. l' = l @ q \<and> prefix q (dropStatements tier (scannedRows (rw_Rows rows))) \<and>
    (res = Ok () \<longrightarrow> q = dropStatements tier (scannedRows (rw_Rows rows)))"
  using assms by (rule dropObsoletePlugins_trace)

theorem drop_plan_witness:
  "\<exists>res s' l'. dropObsoletePlugins (logExec mem) 0 storageTier (crowdedWorld, []) = Some (res, (s', l')) \<and>
     prefix l' [disableSQL ''silo'' ''1.0.0'', dropSQL ''silo'' ''1.0.0'']"
proof -
  have rows: "rc_QueryPlugins mem 0 selectPluginsSQL crowdedWorld = Some (Ok installedRows, crowdedWorld)"
    by (simp add: mem_def crowdedWorld_def)
  have plan: "dropStatements storageTier (scannedRows (rw_Rows installedRows)) =
      [disableSQL ''silo'' ''1.0.0'', dropSQL ''silo'' ''1.0.0'']"
    by (simp add: dropStatements_def installedRows_def keepsPlugin_def desiredVersions_def samplePlugin_def)
  obtain res s' l' where run:
      "dropObsoletePlugins (logExec mem) 0 storageTier (crowdedWorld, []) = Some (res, (s', l'))"
    by (simp add: dropObsoletePlugins_def dropPlugin_def logExec_def mem_def crowdedWorld_def installedRows_def
        rowsErr_def quietly_def noting_def keepsPlugin_def desiredVersions_def samplePlugin_def bindG_def wrapG_def)
  from drop_plan [OF rows run] run show ?thesis by (auto simp: plan)
qed

text \<open>When every installed version is the declared one of its plugin and no plugin is declared twice, no
  statement is sent: a converged database is left alone.\<close>

lemma declared_versions_kept:
  assumes "distinct (map pl_Name (tier_Plugins tier))"
    and "\<forall>(n, v, e) \<in> set installed. \<exists>p \<in> set (tier_Plugins tier). pl_Name p = n \<and> pl_Version p = v"
  shows "dropStatements tier installed = []"
proof -
  have "map_of (desiredVersions tier) n = Some v" if "(n, v, e) \<in> set installed" for n v e
    using assms that desiredVersions_unique by fastforce
  then show ?thesis by (fastforce simp: dropStatements_def keepsPlugin_def)
qed

lemma declared_versions_kept_witness:
  "dropStatements storageTier [(''radix'', ''0.9.0'', True)] = []"
  using declared_versions_kept [of storageTier "[(''radix'', ''0.9.0'', True)]"]
  by (simp add: samplePlugin_def)

text \<open>C25: The table of installed plugins is the whole cluster's, but the declared versions are one tier's: when
  the drop step of a tier runs through, it has disabled (if it was enabled) and dropped every installed
  plugin whose name this tier does not declare, one statement right after the other, and so the plugins
  that other tiers of the cluster declare.\<close>

theorem undeclared_plugins_dropped:
  assumes "rc_QueryPlugins r conn selectPluginsSQL s = Some (Ok rows, s1)"
    and "(n, v, enabled) \<in> set (scannedRows (rw_Rows rows))"
    and "n \<notin> pl_Name ` set (tier_Plugins tier)"
    and "dropObsoletePlugins (logExec r) conn tier (s, l) = Some (Ok (), (s', l'))"
  shows "\<exists>before after. l' = l @ before @ (if enabled then [disableSQL n v] else []) @ [dropSQL n v] @ after"
proof -
  from assms(2) obtain pre post where rows: "scannedRows (rw_Rows rows) = pre @ (n, v, enabled) # post"
    by (meson split_list)
  have "map_of (desiredVersions tier) n = None" using assms(3) by (simp add: desiredVersions_None_iff)
  then have "dropStatements tier (scannedRows (rw_Rows rows)) = dropStatements tier pre @
      (if enabled then [disableSQL n v] else []) @ [dropSQL n v] @ dropStatements tier post"
    by (simp add: rows dropStatements_def keepsPlugin_def)
  with dropObsoletePlugins_trace [OF assms(1,4)] show ?thesis by fastforce
qed

theorem undeclared_plugins_dropped_witness:
  "samplePlugin \<in> set (tier_Plugins storageTier) \<and> storageTier \<in> set (cl_Tiers sampleCluster) \<and>
   (\<exists>s' l' before after. dropObsoletePlugins (logExec mem) 0 (routerTier\<lparr>tier_Plugins := [siloPlugin]\<rparr>) (crowdedWorld, []) =
        Some (Ok (), (s', l')) \<and>
      l' = before @ [disableSQL ''radix'' ''0.9.0''] @ [dropSQL ''radix'' ''0.9.0''] @ after)"
proof -
  let ?t = "routerTier\<lparr>tier_Plugins := [siloPlugin]\<rparr>"
  have rows: "rc_QueryPlugins mem 0 selectPluginsSQL crowdedWorld = Some (Ok installedRows, crowdedWorld)"
    by (simp add: mem_def crowdedWorld_def)
  have radix: "(''radix'', ''0.9.0'', True) \<in> set (scannedRows (rw_Rows installedRows))"
      "''radix'' \<notin> pl_Name ` set (tier_Plugins ?t)"
    by (simp_all add: installedRows_def siloPlugin_def)
  obtain s' l' where run: "dropObsoletePlugins (logExec mem) 0 ?t (crowdedWorld, []) = Some (Ok (), (s', l'))"
    by (simp add: dropObsoletePlugins_def dropPlugin_def logExec_def mem_def crowdedWorld_def installedRows_def
        rowsErr_def quietly_def noting_def keepsPlugin_def desiredVersions_def siloPlugin_def samplePlugin_def
        bindG_def wrapG_def)
  from undeclared_plugins_dropped [OF rows radix run] run show ?thesis by auto
qed

section \<open>Reading the database\<close>

text \<open>C37: Whatever Unicode text the tier names are, the JSON array that lists them, with quotes, backslashes and
  control characters escaped and the rest in UTF-8, is read back as that list, and a service counts as
  bound to a tier exactly when the list has a name of the same length that equals the tier's code point
  by code point, up to letter case.\<close>

theorem bound_tiers_roundtrip:
  assumes "list_all (list_all scalar) tiers" and "list_all scalar t"
  shows "UnmarshalStrings (json_list tiers) = map text_of tiers \<and>
    (containsString orbit (UnmarshalStrings (json_list tiers)) (text_of t) \<longleftrightarrow>
       (\<exists>u \<in> set tiers. list_all2 (fold_eq orbit) u t))"
proof -
  have read: "UnmarshalStrings (json_list tiers) = map text_of tiers"
    using assms(1) by (rule UnmarshalStrings_json_list)
  have "EqualFold orbit (text_of u) (text_of t) \<longleftrightarrow> list_all2 (fold_eq orbit) u t" if "u \<in> set tiers" for u
    using assms that by (simp add: EqualFold_def runes_text list_all_iff)
  then show ?thesis unfolding read by (simp add: containsString_iff)
qed

theorem bound_tiers_roundtrip_witness:
  "UnmarshalStrings (json_list [[82, 111], [34, 233, 8364, 128512, 10]]) = [''Ro'', text_of [34, 233, 8364, 128512, 10]] \<and>
   containsString id (UnmarshalStrings (json_list [[82, 111], [34, 233, 8364, 128512, 10]])) (text_of [114, 79])"
proof -
  let ?tiers = "[[82, 111], [34, 233, 8364, 128512, 10 :: nat]]"
  have "list_all (list_all scalar) ?tiers" "list_all scalar [114, 79]"
    by (simp_all add: scalar_def)
  note rt = bound_tiers_roundtrip [OF this, of id]
  have "\<exists>u \<in> set ?tiers. list_all2 (fold_eq id) u [114, 79]" by (simp add: fold_eq_def)
  with rt have "containsString id (UnmarshalStrings (json_list ?tiers)) (text_of [114, 79])" by blast
  moreover have "map text_of ?tiers = [''Ro'', text_of [34, 233, 8364, 128512, 10]]"
  proof -
    have "text_of [82, 111] = ''Ro''" by code_simp
    then show ?thesis by simp
  qed
  ultimately show ?thesis using rt by metis
qed

text \<open>The plugin pass connects to the client Service of the tier, on the port that this Service and the
  container call pg.\<close>

lemma plugins_connect_to_client_service:
  "pluginHost cl tier = om_Name (sv_Meta (buildClientService cl tier)) @ ''.'' @
     om_Namespace (sv_Meta (buildClientService cl tier)) @ ''.svc.cluster.local'' \<and>
   sp_Name (sv_Ports (sv_Spec (buildClientService cl tier)) ! 2) = ''pg'' \<and>
   connString cl tier pw = ''host='' @ pluginHost cl tier @ '' port='' @
     fmt_d (sp_Port (sv_Ports (sv_Spec (buildClientService cl tier)) ! 2)) @
     '' user=admin password='' @ pw @ '' dbname=picodata sslmode=disable''"
  by (simp add: pluginHost_def connString_def buildClientService_def clientServiceName_def servicePortOf_def Let_def)

end
