(* ===== verification/Manager_Main.thy ===== *)
theory Manager_Main
  imports Samples
begin

text \<open>
  cmd/main.go: from the command line to the options of the two servers and of the manager, and the
  start-up sequence that ends the process at the first failure. The manager, the TLS configuration
  of the standard library and the health checks are controller-runtime's and the standard library's;
  the record \<open>Runtime\<close> has one field per call, and \<open>rt_NewManager\<close> includes the
  \<open>GetConfigOrDie\<close> that feeds it, which ends the process with status 1 as well. \<open>SetupWithManager\<close> of
  internal/controller/picoclusterdb_controller.go hands the builder a list of kinds.
\<close>

section \<open>Flags\<close>

record Flags =
  fl_metricsAddr :: string
  fl_probeAddr :: string
  fl_enableLeaderElection :: bool
  fl_secureMetrics :: bool
  fl_webhookCertPath :: string
  fl_webhookCertName :: string
  fl_webhookCertKey :: string
  fl_metricsCertPath :: string
  fl_metricsCertName :: string
  fl_metricsCertKey :: string
  fl_enableHTTP2 :: bool

text \<open>The values of the flags that the command line leaves out.\<close>

definition defaultFlags :: Flags where
  "defaultFlags =
     \<lparr>fl_metricsAddr = ''0'', fl_probeAddr = '':8081'', fl_enableLeaderElection = False,
      fl_secureMetrics = True,
      fl_webhookCertPath = '''', fl_webhookCertName = ''tls.crt'', fl_webhookCertKey = ''tls.key'',
      fl_metricsCertPath = '''', fl_metricsCertName = ''tls.crt'', fl_metricsCertKey = ''tls.key'',
      fl_enableHTTP2 = False\<rparr>"

section \<open>Options\<close>

record TLSConfig =
  tc_NextProtos :: "string list"
  tc_Rest :: string

definition disableHTTP2 :: "TLSConfig \<Rightarrow> TLSConfig" where
  "disableHTTP2 c = c\<lparr>tc_NextProtos := [''http/1.1'']\<rparr>"

definition tlsOpts :: "Flags \<Rightarrow> (TLSConfig \<Rightarrow> TLSConfig) list" where
  "tlsOpts fl = (if \<not> fl_enableHTTP2 fl then [disableHTTP2] else [])"

record WebhookOptions =
  wo_TLSOpts :: "(TLSConfig \<Rightarrow> TLSConfig) list"
  wo_CertDir :: string
  wo_CertName :: string
  wo_KeyName :: string

definition webhookServerOptions :: "Flags \<Rightarrow> WebhookOptions" where
  "webhookServerOptions fl =
     (let o0 = \<lparr>wo_TLSOpts = tlsOpts fl, wo_CertDir = '''', wo_CertName = '''', wo_KeyName = ''''\<rparr>
      in if 0 < length (fl_webhookCertPath fl)
         then o0\<lparr>wo_CertDir := fl_webhookCertPath fl, wo_CertName := fl_webhookCertName fl,
                 wo_KeyName := fl_webhookCertKey fl\<rparr>
         else o0)"

datatype FilterProvider = NoFilter | WithAuthenticationAndAuthorization

record MetricsOptions =
  mo_BindAddress :: string
  mo_SecureServing :: bool
  mo_TLSOpts :: "(TLSConfig \<Rightarrow> TLSConfig) list"
  mo_FilterProvider :: FilterProvider
  mo_CertDir :: string
  mo_CertName :: string
  mo_KeyName :: string

definition metricsServerOptions :: "Flags \<Rightarrow> MetricsOptions" where
  "metricsServerOptions fl =
     (let o0 = \<lparr>mo_BindAddress = fl_metricsAddr fl, mo_SecureServing = fl_secureMetrics fl,
                mo_TLSOpts = tlsOpts fl, mo_FilterProvider = NoFilter,
                mo_CertDir = '''', mo_CertName = '''', mo_KeyName = ''''\<rparr>;
          o1 = (if fl_secureMetrics fl
                then o0\<lparr>mo_FilterProvider := WithAuthenticationAndAuthorization\<rparr> else o0)
      in if 0 < length (fl_metricsCertPath fl)
         then o1\<lparr>mo_CertDir := fl_metricsCertPath fl, mo_CertName := fl_metricsCertName fl,
                 mo_KeyName := fl_metricsCertKey fl\<rparr>
         else o1)"

record ManagerOptions =
  op_Metrics :: MetricsOptions
  op_Webhook :: WebhookOptions
  op_HealthProbeBindAddress :: string
  op_LeaderElection :: bool
  op_LeaderElectionID :: string

definition managerOptions :: "Flags \<Rightarrow> ManagerOptions" where
  "managerOptions fl =
     \<lparr>op_Metrics = metricsServerOptions fl, op_Webhook = webhookServerOptions fl,
      op_HealthProbeBindAddress = fl_probeAddr fl, op_LeaderElection = fl_enableLeaderElection fl,
      op_LeaderElectionID = ''ff578ea0.picodata.io''\<rparr>"

section \<open>Start-up\<close>

text \<open>What \<open>SetupWithManager\<close> asks controller-runtime to build.\<close>

datatype kind = PicoclusterDBKind | StatefulSetKind | ServiceKind | ConfigMapKind | IngressKind

record ControllerBuilder =
  cb_For :: kind
  cb_Owns :: "kind list"
  cb_Named :: string

text \<open>The calls of the start-up sequence; \<open>'m\<close> is the manager.\<close>

record ('s, 'm) Runtime =
  rt_NewManager :: "ManagerOptions \<Rightarrow> ('s, 'm) go"
  rt_Complete :: "'m \<Rightarrow> ControllerBuilder \<Rightarrow> ('s, unit) go"
  rt_AddHealthzCheck :: "'m \<Rightarrow> string \<Rightarrow> ('s, unit) go"
  rt_AddReadyzCheck :: "'m \<Rightarrow> string \<Rightarrow> ('s, unit) go"
  rt_Start :: "'m \<Rightarrow> ('s, unit) go"

definition SetupWithManager :: "('s, 'm) Runtime \<Rightarrow> 'm \<Rightarrow> ('s, unit) go" where
  "SetupWithManager rt mgr =
     rt_Complete rt mgr
       \<lparr>cb_For = PicoclusterDBKind,
        cb_Owns = [StatefulSetKind, ServiceKind, ConfigMapKind, IngressKind],
        cb_Named = ''picoclusterdb''\<rparr>"

text \<open>\<open>if err := m; err != nil { os.Exit(1) }\<close>, then the rest. The value is the exit status.\<close>

definition orExit :: "('s, 'a) go \<Rightarrow> ('a \<Rightarrow> ('s, int) go) \<Rightarrow> ('s, int) go" where
  "orExit m rest = bindG (tryG m) (\<lambda>res. case res of Inl _ \<Rightarrow> returnG 1 | Inr x \<Rightarrow> rest x)"

definition main :: "('s, 'm) Runtime \<Rightarrow> Flags \<Rightarrow> ('s, int) go" where
  "main rt fl =
     orExit (rt_NewManager rt (managerOptions fl)) (\<lambda>mgr.
     orExit (SetupWithManager rt mgr) (\<lambda>_.
     orExit (rt_AddHealthzCheck rt mgr ''healthz'') (\<lambda>_.
     orExit (rt_AddReadyzCheck rt mgr ''readyz'') (\<lambda>_.
     orExit (rt_Start rt mgr) (\<lambda>_.
       returnG 0)))))"

section \<open>Properties\<close>

lemma orExit_Ok [simp]: "m s = Some (Ok x, s') \<Longrightarrow> orExit m rest s = rest x s'"
  by (simp add: orExit_def)

lemma orExit_Err [simp]: "m s = Some (Err e, s') \<Longrightarrow> orExit m rest s = Some (Ok 1, s')"
  by (simp add: orExit_def)

lemma orExit_status:
  "orExit m rest s = Some (Ok c, s') \<longleftrightarrow>
   (\<exists>e. m s = Some (Err e, s') \<and> c = 1) \<or> (\<exists>x s1. m s = Some (Ok x, s1) \<and> rest x s1 = Some (Ok c, s'))"
  by (cases "m s"; cases "fst (the (m s))") (auto simp: orExit_def bindG_def tryG_def)

text \<open>Unless HTTP/2 is asked for on the command line, the TLS options of the webhook server and of the
  metrics server leave HTTP/1.1 as the only protocol of any TLS configuration; with the flag set
  they leave the configuration alone.\<close>

lemma http2_only_on_request:
  "fold (\<lambda>opt. opt) (wo_TLSOpts (op_Webhook (managerOptions fl))) c =
     (if fl_enableHTTP2 fl then c else c\<lparr>tc_NextProtos := [''http/1.1'']\<rparr>) \<and>
   fold (\<lambda>opt. opt) (mo_TLSOpts (op_Metrics (managerOptions fl))) c =
     (if fl_enableHTTP2 fl then c else c\<lparr>tc_NextProtos := [''http/1.1'']\<rparr>) \<and>
   (mo_FilterProvider (op_Metrics (managerOptions fl)) = WithAuthenticationAndAuthorization \<longleftrightarrow>
    mo_SecureServing (op_Metrics (managerOptions fl)))"
  by (simp add: managerOptions_def webhookServerOptions_def metricsServerOptions_def tlsOpts_def
      disableHTTP2_def Let_def)

text \<open>C38: The process ends with status 0 exactly when the manager was created, the controller registered, both
  health checks added and the manager ran without an error, in this order; otherwise it ends with
  status 1 in the state of the first call that failed.\<close>

theorem main_exit_status:
  assumes "main rt fl s = Some (Ok code, s')"
  shows "(code = 0 \<longleftrightarrow> (\<exists>mgr s1 s2 s3 s4.
      rt_NewManager rt (managerOptions fl) s = Some (Ok mgr, s1) \<and>
      SetupWithManager rt mgr s1 = Some (Ok (), s2) \<and>
      rt_AddHealthzCheck rt mgr ''healthz'' s2 = Some (Ok (), s3) \<and>
      rt_AddReadyzCheck rt mgr ''readyz'' s3 = Some (Ok (), s4) \<and>
      rt_Start rt mgr s4 = Some (Ok (), s'))) \<and>
    (code \<noteq> 0 \<longrightarrow> code = 1 \<and> (
      (\<exists>e. rt_NewManager rt (managerOptions fl) s = Some (Err e, s')) \<or>
      (\<exists>mgr s1. rt_NewManager rt (managerOptions fl) s = Some (Ok mgr, s1) \<and>
        ((\<exists>e. SetupWithManager rt mgr s1 = Some (Err e, s')) \<or>
         (\<exists>s2. SetupWithManager rt mgr s1 = Some (Ok (), s2) \<and>
           ((\<exists>e. rt_AddHealthzCheck rt mgr ''healthz'' s2 = Some (Err e, s')) \<or>
            (\<exists>s3. rt_AddHealthzCheck rt mgr ''healthz'' s2 = Some (Ok (), s3) \<and>
              ((\<exists>e. rt_AddReadyzCheck rt mgr ''readyz'' s3 = Some (Err e, s')) \<or>
               (\<exists>s4 e. rt_AddReadyzCheck rt mgr ''readyz'' s3 = Some (Ok (), s4) \<and>
                 rt_Start rt mgr s4 = Some (Err e, s'))))))))))"
  using assms unfolding main_def orExit_status by auto

theorem main_exit_status_witness:
  "main \<lparr>rt_NewManager = (\<lambda>_. returnG ()), rt_Complete = (\<lambda>_ _. returnG ()),
         rt_AddHealthzCheck = (\<lambda>_ _. returnG ()), rt_AddReadyzCheck = (\<lambda>_ _. failG (Failure ''started'')),
         rt_Start = (\<lambda>_. returnG ())\<rparr> defaultFlags (7 :: nat) = Some (Ok 1, 7) \<and> (1 :: int) \<noteq> 0"
proof -
  let ?rt = "\<lparr>rt_NewManager = (\<lambda>_. returnG ()), rt_Complete = (\<lambda>_ _. returnG ()),
         rt_AddHealthzCheck = (\<lambda>_ _. returnG ()), rt_AddReadyzCheck = (\<lambda>_ _. failG (Failure ''started'')),
         rt_Start = (\<lambda>_. returnG ())\<rparr> :: (nat, unit) Runtime"
  have run: "main ?rt defaultFlags 7 = Some (Ok 1, 7)"
    by (simp add: main_def SetupWithManager_def)
  from main_exit_status [OF run] run show ?thesis by simp
qed

end
