(* ===== verification/Go_Heap.thy ===== *)
theory Go_Heap
  imports Prelude
begin

text \<open>
  The memory of a Go program, as far as deep copies need it. A heap maps addresses to cells; an
  address is the next free one when it is allocated. What a cell holds is a parameter: \<open>block\<close> is one
  kind of content, a list of elements, which serves a slice's backing array and, with one element, the
  target of a pointer. Slices are whole arrays here (offset 0, length and capacity equal), as all those
  are that a deep copy makes.

  A \<open>copier\<close> is a copy function for a type together with what the type's values stand for: the
  abstract value they read as and the addresses they reach. The locale \<open>deep_copier\<close> is the contract of
  \<open>DeepCopyInto\<close>: the copy reads as the same value, reaches new cells only, and changes no old cell. The
  combinators for pointers, slices, maps, pairs of fields and structs keep the contract.
\<close>

section \<open>Heaps\<close>

type_synonym address = nat

record 'c go_heap =
  hp_next :: address
  hp_cells :: "address \<rightharpoonup> 'c"

definition cells_ok :: "'c go_heap \<Rightarrow> bool" where
  "cells_ok h \<longleftrightarrow> dom (hp_cells h) \<subseteq> {..<hp_next h}"

text \<open>Nothing that was allocated before has changed.\<close>

definition extends :: "'c go_heap \<Rightarrow> 'c go_heap \<Rightarrow> bool" where
  "extends h h' \<longleftrightarrow> hp_next h \<le> hp_next h' \<and> (\<forall>a < hp_next h. hp_cells h' a = hp_cells h a)"

lemma extends_refl [simp]: "extends h h"
  by (simp add: extends_def)

lemma extends_trans [trans]: "extends h h1 \<Longrightarrow> extends h1 h2 \<Longrightarrow> extends h h2"
  by (simp add: extends_def)

lemma extends_next: "extends h h' \<Longrightarrow> hp_next h \<le> hp_next h'"
  by (simp add: extends_def)

lemma cells_okD: "cells_ok h \<Longrightarrow> hp_cells h a = Some c \<Longrightarrow> a < hp_next h"
  by (auto simp: cells_ok_def)

text \<open>
  \<open>new(T)\<close> and \<open>make([]T, n)\<close> reserve an address. Their zero values are never read here: each use
  goes on to write the whole of the new cell.
\<close>

definition newG :: "('c go_heap, address) go" where
  "newG = (\<lambda>h. Some (Ok (hp_next h), h\<lparr>hp_next := Suc (hp_next h)\<rparr>))"

definition storeG :: "address \<Rightarrow> 'c \<Rightarrow> ('c go_heap, unit) go" where
  "storeG a c = (\<lambda>h. Some (Ok (), h\<lparr>hp_cells := (hp_cells h)(a \<mapsto> c)\<rparr>))"

definition read_cell :: "('c \<Rightarrow> 'b option) \<Rightarrow> 'c go_heap \<Rightarrow> address \<Rightarrow> 'b option" where
  "read_cell prj h a = Option.bind (hp_cells h a) prj"

definition loadG :: "('c \<Rightarrow> 'b option) \<Rightarrow> address \<Rightarrow> ('c go_heap, 'b) go" where
  "loadG prj a = (\<lambda>h. case read_cell prj h a of
       None \<Rightarrow> Some (Panic ''invalid memory address'', h) | Some x \<Rightarrow> Some (Ok x, h))"

lemma newG_run: "newG h = Some (Ok (hp_next h), h\<lparr>hp_next := Suc (hp_next h)\<rparr>)"
  by (simp add: newG_def)

lemma storeG_run: "storeG a c h = Some (Ok (), h\<lparr>hp_cells := (hp_cells h)(a \<mapsto> c)\<rparr>)"
  by (simp add: storeG_def)

lemma loadG_run: "read_cell prj h a = Some x \<Longrightarrow> loadG prj a h = Some (Ok x, h)"
  by (simp add: loadG_def)

lemma cells_ok_new: "cells_ok h \<Longrightarrow> cells_ok (h\<lparr>hp_next := Suc (hp_next h)\<rparr>)"
  by (force simp: cells_ok_def less_Suc_eq)

lemma extends_new [simp]: "extends h (h\<lparr>hp_next := Suc (hp_next h)\<rparr>)"
  by (simp add: extends_def)

lemma reserved_free: "cells_ok h \<Longrightarrow> hp_cells h (hp_next h) = None"
  by (metis cells_okD less_irrefl not_Some_eq)

lemma cells_ok_store: "cells_ok h \<Longrightarrow> a < hp_next h \<Longrightarrow> cells_ok (h\<lparr>hp_cells := (hp_cells h)(a \<mapsto> c)\<rparr>)"
  by (auto simp: cells_ok_def)

lemma extends_store:
  "extends h h' \<Longrightarrow> hp_next h \<le> a \<Longrightarrow> extends h (h'\<lparr>hp_cells := (hp_cells h')(a \<mapsto> c)\<rparr>)"
  by (auto simp: extends_def)

lemma read_cell_cong: "hp_cells h' a = hp_cells h a \<Longrightarrow> read_cell prj h' a = read_cell prj h a"
  by (simp add: read_cell_def)

lemma read_cell_dom: "read_cell prj h a = Some x \<Longrightarrow> a \<in> dom (hp_cells h)"
  by (auto simp: read_cell_def bind_eq_Some_conv)

section \<open>Blocks\<close>

record ('c, 'x) block =
  bk_make :: "'x list \<Rightarrow> 'c"
  bk_view :: "'c \<Rightarrow> 'x list option"

locale block_kind =
  fixes bk :: "('c, 'x) block"
  assumes view_make [simp]: "bk_view bk (bk_make bk xs) = Some xs"
begin

lemma make_inject: "bk_make bk xs = bk_make bk ys \<longleftrightarrow> xs = ys"
  by (metis option.inject view_make)

lemma read_make: "hp_cells h a = Some (bk_make bk xs) \<Longrightarrow> read_cell (bk_view bk) h a = Some xs"
  by (simp add: read_cell_def)

end

text \<open>The target of a pointer: a block of one element.\<close>

definition target :: "('c, 'x) block \<Rightarrow> 'c \<Rightarrow> 'x option" where
  "target bk c = (case bk_view bk c of Some [x] \<Rightarrow> Some x | _ \<Rightarrow> None)"

lemma target_make [simp]: "block_kind bk \<Longrightarrow> target bk (bk_make bk [x]) = Some x"
  by (simp add: target_def block_kind_def)

lemma target_iff: "target bk c = Some x \<longleftrightarrow> bk_view bk c = Some [x]"
  by (auto simp: target_def split: option.split list.split)

lemma read_target: "read_cell (target bk) h a = Some x \<longleftrightarrow> read_cell (bk_view bk) h a = Some [x]"
  by (simp add: read_cell_def bind_eq_Some_conv target_iff)

section \<open>The copying code\<close>

text \<open>
  \<^item> \<open>*out = new(T); (*in).DeepCopyInto(*out)\<close> for a pointer that is not nil, and \<open>DeepCopy\<close> itself.
  \<^item> \<open>*out = make([]T, len(*in)); for i := range *in { (*in)[i].DeepCopyInto(&(*out)[i]) }\<close>, and with
    \<open>returnG\<close> for elements \<open>copy(*out, *in)\<close>.
  \<^item> \<open>*out = make(map[string]string, len(*in)); for key, val := range *in { (*out)[key] = val }\<close>.
\<close>

definition copyPtr ::
  "('c, 'x) block \<Rightarrow> ('x \<Rightarrow> ('c go_heap, 'x) go) \<Rightarrow> address option \<Rightarrow> ('c go_heap, address option) go" where
  "copyPtr bk into p = (case p of
       None \<Rightarrow> returnG None
     | Some a \<Rightarrow>
         bindG newG (\<lambda>out.
         bindG (loadG (target bk) a) (\<lambda>x.
         bindG (into x) (\<lambda>y.
         bindG (storeG out (bk_make bk [y])) (\<lambda>_.
           returnG (Some out))))))"

definition copySlice ::
  "('c, 'x) block \<Rightarrow> ('x \<Rightarrow> ('c go_heap, 'x) go) \<Rightarrow> address option \<Rightarrow> ('c go_heap, address option) go" where
  "copySlice bk into p = (case p of
       None \<Rightarrow> returnG None
     | Some a \<Rightarrow>
         bindG newG (\<lambda>out.
         bindG (loadG (bk_view bk) a) (\<lambda>xs.
         bindG (mapG into xs) (\<lambda>ys.
         bindG (storeG out (bk_make bk ys)) (\<lambda>_.
           returnG (Some out))))))"

definition copyMap ::
  "('c, 'k \<times> 'v) block \<Rightarrow> address option \<Rightarrow> ('c go_heap, address option) go" where
  "copyMap bk p = (case p of
       None \<Rightarrow> returnG None
     | Some a \<Rightarrow>
         bindG newG (\<lambda>out.
         bindG (loadG (bk_view bk) a) (\<lambda>m.
         bindG (storeG out (bk_make bk (foldl (\<lambda>o' (key, val). AList.update key val o') [] m))) (\<lambda>_.
           returnG (Some out)))))"

section \<open>The contract\<close>

record ('c, 'x, 'v) copier =
  cp_copy :: "'x \<Rightarrow> ('c go_heap, 'x) go"
  cp_view :: "'c go_heap \<Rightarrow> 'x \<Rightarrow> 'v option"
  cp_refs :: "'c go_heap \<Rightarrow> 'x \<Rightarrow> address set"

locale deep_copier =
  fixes c :: "('c, 'x, 'v) copier"
  assumes local:
      "\<forall>a \<in> cp_refs c h x. hp_cells h' a = hp_cells h a \<Longrightarrow>
       cp_view c h' x = cp_view c h x \<and> cp_refs c h' x = cp_refs c h x"
    and closed: "cp_view c h x = Some v \<Longrightarrow> cp_refs c h x \<subseteq> dom (hp_cells h)"
    and copies: "cells_ok h \<Longrightarrow> cp_view c h x = Some v \<Longrightarrow>
       \<exists>y h'. cp_copy c x h = Some (Ok y, h') \<and> cells_ok h' \<and> extends h h' \<and>
         cp_view c h' y = Some v \<and> (\<forall>a \<in> cp_refs c h' y. hp_next h \<le> a)"
begin

lemma kept:
  assumes "cells_ok h" "cp_view c h x = Some v" "extends h h'"
  shows "cp_view c h' x = Some v" "cp_refs c h' x = cp_refs c h x"
proof -
  have "\<forall>a \<in> cp_refs c h x. hp_cells h' a = hp_cells h a"
    using closed [OF assms(2)] assms(1,3) by (auto simp: cells_ok_def extends_def)
  from local [OF this] assms(2)
  show "cp_view c h' x = Some v" "cp_refs c h' x = cp_refs c h x" by simp_all
qed

lemma reach_old: "cells_ok h \<Longrightarrow> cp_view c h x = Some v \<Longrightarrow> a \<in> cp_refs c h x \<Longrightarrow> a < hp_next h"
  using closed by (fastforce simp: cells_ok_def)

text \<open>Whatever is written to the old cells afterwards, the copy reads as the value that was copied.\<close>

lemma isolated:
  assumes "cells_ok h" "cp_view c h x = Some v"
  shows "\<exists>y h'. cp_copy c x h = Some (Ok y, h') \<and> extends h h' \<and> cp_view c h' x = Some v \<and>
    cp_refs c h' x \<inter> cp_refs c h' y = {} \<and>
    (\<forall>h''. (\<forall>a \<ge> hp_next h. hp_cells h'' a = hp_cells h' a) \<longrightarrow> cp_view c h'' y = Some v)"
proof -
  obtain y h' where y: "cp_copy c x h = Some (Ok y, h')" "cells_ok h'" "extends h h'"
      "cp_view c h' y = Some v" "\<forall>a \<in> cp_refs c h' y. hp_next h \<le> a"
    using copies [OF assms] by blast
  have "cp_refs c h' x \<inter> cp_refs c h' y = {}"
    using kept(2) [OF assms y(3)] reach_old [OF assms] y(5) by force
  moreover have "cp_view c h'' y = Some v" if "\<forall>a \<ge> hp_next h. hp_cells h'' a = hp_cells h' a" for h''
    using local [of h' y h''] y(4,5) that by simp
  ultimately show ?thesis using y kept(1) [OF assms y(3)] by blast
qed

text \<open>A slice of elements is copied element by element.\<close>

lemma copies_list:
  assumes "cells_ok h" "list_all2 (\<lambda>x v. cp_view c h x = Some v) xs vs"
  shows "\<exists>ys h'. mapG (cp_copy c) xs h = Some (Ok ys, h') \<and> cells_ok h' \<and> extends h h' \<and>
    list_all2 (\<lambda>y v. cp_view c h' y = Some v) ys vs \<and> (\<forall>y \<in> set ys. \<forall>a \<in> cp_refs c h' y. hp_next h \<le> a)"
  using assms(2,1)
proof (induction xs arbitrary: vs h)
  case Nil
  then show ?case by simp
next
  case (Cons x xs)
  then obtain v vs' where vs: "vs = v # vs'" "cp_view c h x = Some v"
      "list_all2 (\<lambda>x v. cp_view c h x = Some v) xs vs'" by (auto simp: list_all2_Cons1)
  obtain y h1 where y: "cp_copy c x h = Some (Ok y, h1)" "cells_ok h1" "extends h h1"
      "cp_view c h1 y = Some v" "\<forall>a \<in> cp_refs c h1 y. hp_next h \<le> a"
    using copies [OF Cons.prems(2) vs(2)] by blast
  have "list_all2 (\<lambda>x v. cp_view c h1 x = Some v) xs vs'"
    using vs(3) by (rule list_all2_mono) (rule kept(1) [OF Cons.prems(2) _ y(3)])
  from Cons.IH [OF this y(2)] obtain ys h2 where ys: "mapG (cp_copy c) xs h1 = Some (Ok ys, h2)"
      "cells_ok h2" "extends h1 h2" "list_all2 (\<lambda>y v. cp_view c h2 y = Some v) ys vs'"
      "\<forall>y \<in> set ys. \<forall>a \<in> cp_refs c h2 y. hp_next h1 \<le> a" by blast
  have "\<forall>z \<in> set (y # ys). \<forall>a \<in> cp_refs c h2 z. hp_next h \<le> a"
    using y(5) ys(5) kept(2) [OF y(2,4) ys(3)] extends_next [OF y(3)] by fastforce
  moreover have "mapG (cp_copy c) (x # xs) h = Some (Ok (y # ys), h2)" using y(1) ys(1) by simp
  ultimately show ?case
    using vs(1) ys(2,4) extends_trans [OF y(3) ys(3)] kept(1) [OF y(2,4) ys(3)] by auto
qed

end

end
