(* ===== verification/Go_Copiers.thy ===== *)
theory Go_Copiers
  imports Go_Heap
begin

text \<open>
  Ways to build the copier of a type from those of its parts: plain values, slices, pointers, maps,
  pairs of fields, and structs seen through some of their fields. Each keeps the contract \<open>deep_copier\<close>.
\<close>

section \<open>Plain values\<close>

definition flatC :: "('c, 'x, 'x) copier" where
  "flatC = \<lparr>cp_copy = returnG, cp_view = (\<lambda>h. Some), cp_refs = (\<lambda>h x. {})\<rparr>"

lemma flatC_simps [simp]:
  "cp_copy flatC = returnG" "cp_view flatC h x = Some x" "cp_refs flatC h x = {}"
  by (simp_all add: flatC_def)

lemma deep_flat [intro!]: "deep_copier flatC"
  by unfold_locales auto

interpretation flat: deep_copier flatC
  by (rule deep_flat)

section \<open>Slices\<close>

definition sliceC ::
  "('c, 'x) block \<Rightarrow> ('c, 'x, 'v) copier \<Rightarrow> ('c, address option, 'v list option) copier" where
  "sliceC bk c =
     \<lparr>cp_copy = copySlice bk (cp_copy c),
      cp_view = (\<lambda>h p. case p of
          None \<Rightarrow> Some None
        | Some a \<Rightarrow> (case read_cell (bk_view bk) h a of
             None \<Rightarrow> None
           | Some xs \<Rightarrow> map_option Some (those (map (cp_view c h) xs)))),
      cp_refs = (\<lambda>h p. case p of
          None \<Rightarrow> {}
        | Some a \<Rightarrow> insert a (case read_cell (bk_view bk) h a of
             None \<Rightarrow> {}
           | Some xs \<Rightarrow> \<Union> (set (map (cp_refs c h) xs))))\<rparr>"

lemma those_map_iff: "those (map f xs) = Some vs \<longleftrightarrow> list_all2 (\<lambda>x v. f x = Some v) xs vs"
proof (induction xs arbitrary: vs)
  case Nil
  then show ?case by auto
next
  case (Cons x xs)
  then show ?case by (cases "f x") (auto simp: list_all2_Cons1)
qed

lemma sliceC_None [simp]:
  "cp_copy (sliceC bk c) None = returnG None" "cp_view (sliceC bk c) h None = Some None"
  "cp_refs (sliceC bk c) h None = {}"
  by (simp_all add: sliceC_def copySlice_def)

lemma sliceC_Some:
  assumes "read_cell (bk_view bk) h a = Some xs"
  shows "cp_view (sliceC bk c) h (Some a) = map_option Some (those (map (cp_view c h) xs))"
    "cp_refs (sliceC bk c) h (Some a) = insert a (\<Union>x \<in> set xs. cp_refs c h x)"
  using assms by (simp_all add: sliceC_def)

lemma sliceC_view_Some:
  assumes "cp_view (sliceC bk c) h (Some a) = Some v"
  obtains xs vs where "read_cell (bk_view bk) h a = Some xs" "v = Some vs"
    "list_all2 (\<lambda>x v. cp_view c h x = Some v) xs vs"
  using assms by (auto simp: sliceC_def those_map_iff split: option.splits)

lemma slice_local:
  assumes c: "deep_copier c" and same: "\<forall>a \<in> cp_refs (sliceC bk c) h p. hp_cells h' a = hp_cells h a"
  shows "cp_view (sliceC bk c) h' p = cp_view (sliceC bk c) h p \<and>
    cp_refs (sliceC bk c) h' p = cp_refs (sliceC bk c) h p"
proof (cases p)
  case (Some a)
  then have read: "read_cell (bk_view bk) h' a = read_cell (bk_view bk) h a"
    using same by (intro read_cell_cong) (simp add: sliceC_def)
  show ?thesis
  proof (cases "read_cell (bk_view bk) h a")
    case (Some xs)
    have "cp_view c h' x = cp_view c h x \<and> cp_refs c h' x = cp_refs c h x" if "x \<in> set xs" for x
      using same that \<open>p = Some a\<close> Some by (intro deep_copier.local [OF c]) (auto simp: sliceC_Some)
    then show ?thesis using \<open>p = Some a\<close> read Some by (simp add: sliceC_Some cong: map_cong)
  qed (use \<open>p = Some a\<close> read in \<open>simp add: sliceC_def\<close>)
qed simp

lemma slice_closed:
  assumes c: "deep_copier c" and v: "cp_view (sliceC bk c) h p = Some v"
  shows "cp_refs (sliceC bk c) h p \<subseteq> dom (hp_cells h)"
proof (cases p)
  case (Some a)
  with v obtain xs vs where xs: "read_cell (bk_view bk) h a = Some xs"
      "list_all2 (\<lambda>x v. cp_view c h x = Some v) xs vs" by (auto elim: sliceC_view_Some)
  have "cp_refs c h x \<subseteq> dom (hp_cells h)" if x: "x \<in> set xs" for x
  proof -
    obtain v where "cp_view c h x = Some v" using xs(2) x by (auto simp: list_all2_conv_all_nth in_set_conv_nth)
    then show ?thesis by (rule deep_copier.closed [OF c])
  qed
  then show ?thesis using Some xs(1) read_cell_dom [OF xs(1)] by (simp add: sliceC_Some UN_subset_iff)
qed simp

lemma slice_copies:
  assumes bk: "block_kind bk" and c: "deep_copier c" and ok: "cells_ok h"
    and v: "cp_view (sliceC bk c) h p = Some v"
  shows "\<exists>q h'. copySlice bk (cp_copy c) p h = Some (Ok q, h') \<and> cells_ok h' \<and> extends h h' \<and>
    cp_view (sliceC bk c) h' q = Some v \<and> (\<forall>a \<in> cp_refs (sliceC bk c) h' q. hp_next h \<le> a)"
proof (cases p)
  case None
  with ok v show ?thesis by (auto simp: copySlice_def)
next
  case (Some a)
  with v obtain xs vs where xs: "read_cell (bk_view bk) h a = Some xs" "v = Some vs"
      "list_all2 (\<lambda>x v. cp_view c h x = Some v) xs vs" by (auto elim: sliceC_view_Some)
  let ?b = "hp_next h" and ?h0 = "h\<lparr>hp_next := Suc (hp_next h)\<rparr>"
  have "list_all2 (\<lambda>x v. cp_view c ?h0 x = Some v) xs vs"
    using xs(3) by (rule list_all2_mono) (rule deep_copier.kept(1) [OF c ok _ extends_new])
  from deep_copier.copies_list [OF c cells_ok_new [OF ok] this] obtain ys h1 where
      ys: "mapG (cp_copy c) xs ?h0 = Some (Ok ys, h1)" "cells_ok h1" "extends ?h0 h1"
        "list_all2 (\<lambda>y v. cp_view c h1 y = Some v) ys vs"
        "\<forall>y \<in> set ys. \<forall>r \<in> cp_refs c h1 y. Suc ?b \<le> r" by auto
  let ?h2 = "h1\<lparr>hp_cells := (hp_cells h1)(?b \<mapsto> bk_make bk ys)\<rparr>"
  have b: "?b < hp_next h1" using extends_next [OF ys(3)] by simp
  have same: "cp_view c ?h2 y = cp_view c h1 y \<and> cp_refs c ?h2 y = cp_refs c h1 y" if "y \<in> set ys" for y
    using ys(5) that by (intro deep_copier.local [OF c]) fastforce
  have read: "read_cell (bk_view bk) ?h2 ?b = Some ys"
    by (rule block_kind.read_make [OF bk]) simp
  have "list_all2 (\<lambda>y v. cp_view c ?h2 y = Some v) ys vs"
    using ys(4) same by (simp add: list_all2_conv_all_nth)
  then have "cp_view (sliceC bk c) ?h2 (Some ?b) = Some v"
    using read xs(2) by (simp add: sliceC_Some those_map_iff [THEN iffD2])
  moreover have "\<forall>r \<in> cp_refs (sliceC bk c) ?h2 (Some ?b). ?b \<le> r"
    using read same ys(5) by (fastforce simp: sliceC_Some)
  moreover have load: "loadG (bk_view bk) a ?h0 = Some (Ok xs, ?h0)"
    using xs(1) by (intro loadG_run) (simp add: read_cell_def)
  moreover have "extends h ?h2"
    using extends_trans [OF extends_new ys(3)] by (rule extends_store) simp
  moreover have "copySlice bk (cp_copy c) p h = Some (Ok (Some ?b), ?h2)"
    using Some ys(1) load by (simp add: copySlice_def newG_run storeG_run)
  ultimately show ?thesis using cells_ok_store [OF ys(2) b] by blast
qed

lemma deep_slice [intro]:
  assumes "block_kind bk" "deep_copier c"
  shows "deep_copier (sliceC bk c)"
proof (unfold_locales, goal_cases)
  case (1 h p h')
  then show ?case by (rule slice_local [OF assms(2)])
next
  case (2 h p v)
  then show ?case by (rule slice_closed [OF assms(2)])
next
  case (3 h p v)
  then show ?case using slice_copies [OF assms, of h p v] by (simp add: sliceC_def)
qed

section \<open>Pointers and maps\<close>

text \<open>
  A pointer is a slice of one element, a map a slice of entries with distinct keys: where the value
  exists the copying code does the same.
\<close>

definition viewed :: "('x \<Rightarrow> ('c go_heap, 'x) go) \<Rightarrow> ('v \<Rightarrow> 'w option) \<Rightarrow> ('c, 'x, 'v) copier \<Rightarrow> ('c, 'x, 'w) copier" where
  "viewed copy g c = \<lparr>cp_copy = copy, cp_view = (\<lambda>h x. Option.bind (cp_view c h x) g), cp_refs = cp_refs c\<rparr>"

lemma viewed_simps [simp]:
  "cp_copy (viewed copy g c) = copy" "cp_refs (viewed copy g c) = cp_refs c"
  "cp_view (viewed copy g c) h x = Option.bind (cp_view c h x) g"
  by (simp_all add: viewed_def)

lemma deep_viewed:
  assumes c: "deep_copier c"
    and same: "\<And>h x v w. cp_view c h x = Some v \<Longrightarrow> g v = Some w \<Longrightarrow> copy x h = cp_copy c x h"
  shows "deep_copier (viewed copy g c)"
proof (unfold_locales, goal_cases)
  case (1 h x h')
  then show ?case using deep_copier.local [OF c, of h x h'] by simp
next
  case (2 h x w)
  then show ?case using deep_copier.closed [OF c, of h x] by (auto simp: bind_eq_Some_conv)
next
  case (3 h x w)
  then obtain v where v: "cp_view c h x = Some v" "g v = Some w" by (auto simp: bind_eq_Some_conv)
  from deep_copier.copies [OF c 3(1) v(1)] obtain y h' where "cp_copy c x h = Some (Ok y, h')" "cells_ok h'"
      "extends h h'" "cp_view c h' y = Some v" "\<forall>a \<in> cp_refs c h' y. hp_next h \<le> a" by blast
  with v same [OF v] show ?case by auto
qed

definition the_one :: "'v list option \<Rightarrow> 'v option option" where
  "the_one vs = (case vs of None \<Rightarrow> Some None | Some [v] \<Rightarrow> Some (Some v) | Some _ \<Rightarrow> None)"

definition as_map :: "('k \<times> 'v) list option \<Rightarrow> ('k \<times> 'v) list option option" where
  "as_map m = (case m of None \<Rightarrow> Some None | Some kvs \<Rightarrow> if distinct (map fst kvs) then Some (Some kvs) else None)"

definition ptrC :: "('c, 'x) block \<Rightarrow> ('c, 'x, 'v) copier \<Rightarrow> ('c, address option, 'v option) copier" where
  "ptrC bk c = viewed (copyPtr bk (cp_copy c)) the_one (sliceC bk c)"

definition mapC :: "('c, 'k \<times> 'v) block \<Rightarrow> ('c, address option, ('k \<times> 'v) list option) copier" where
  "mapC bk = viewed (copyMap bk) as_map (sliceC bk flatC)"

lemma ptr_as_slice:
  assumes "cp_view (sliceC bk c) h p = Some v" "the_one v = Some w"
  shows "copyPtr bk into p h = copySlice bk into p h"
proof (cases p)
  case (Some a)
  with assms(1) obtain xs vs where xs: "read_cell (bk_view bk) h a = Some xs" "v = Some vs"
      "list_all2 (\<lambda>x v. cp_view c h x = Some v) xs vs" by (auto elim: sliceC_view_Some)
  then obtain x where x: "xs = [x]"
    using assms(2) by (auto simp: the_one_def list_all2_Cons2 split: list.splits)
  let ?h0 = "h\<lparr>hp_next := Suc (hp_next h)\<rparr>"
  have "loadG (bk_view bk) a ?h0 = Some (Ok [x], ?h0)" "loadG (target bk) a ?h0 = Some (Ok x, ?h0)"
    using xs(1) x by (auto intro!: loadG_run simp: read_cell_def target_def bind_eq_Some_conv)
  moreover have "mapG into [x] = bindG (into x) (\<lambda>y. returnG [y])" by (simp del: run_return)
  ultimately show ?thesis
    using Some by (simp add: copyPtr_def copySlice_def newG_run bind_assoc del: mapG.simps run_return)
qed (simp add: copyPtr_def copySlice_def)

lemma fold_update_distinct:
  "distinct (map fst (out @ m)) \<Longrightarrow> foldl (\<lambda>o' (key, val). AList.update key val o') out m = out @ m"
proof (induction m arbitrary: out)
  case (Cons kv m)
  have "AList.update (fst kv) (snd kv) out = out @ [kv]" if "fst kv \<notin> fst ` set out" for out :: "('a \<times> 'b) list"
    using that by (induction out) (auto split: prod.split)
  with Cons show ?case by (cases kv) auto
qed simp

lemma mapG_return: "mapG returnG xs = returnG xs"
  by (induction xs) simp_all

lemma map_as_slice:
  assumes "cp_view (sliceC bk flatC) h p = Some v" "as_map v = Some w"
  shows "copyMap bk p h = copySlice bk returnG p h"
proof (cases p)
  case (Some a)
  with assms(1) obtain xs vs where xs: "read_cell (bk_view bk) h a = Some xs" "v = Some vs"
      "list_all2 (\<lambda>x v. Some x = Some v) xs vs" by (auto elim: sliceC_view_Some)
  then have "xs = vs" by (simp add: list_all2_eq)
  then have d: "distinct (map fst xs)" using assms(2) xs(2) by (simp add: as_map_def split: if_splits)
  let ?h0 = "h\<lparr>hp_next := Suc (hp_next h)\<rparr>"
  have "loadG (bk_view bk) a ?h0 = Some (Ok xs, ?h0)"
    using xs(1) by (intro loadG_run) (simp add: read_cell_def)
  with Some d show ?thesis
    by (simp add: copyMap_def copySlice_def newG_run mapG_return fold_update_distinct [of "[]", simplified])
qed (simp add: copyMap_def copySlice_def)

lemma deep_ptr [intro]: "block_kind bk \<Longrightarrow> deep_copier c \<Longrightarrow> deep_copier (ptrC bk c)"
  unfolding ptrC_def by (rule deep_viewed) (auto simp: ptr_as_slice, simp add: sliceC_def)

lemma deep_map [intro]: "block_kind bk \<Longrightarrow> deep_copier (mapC bk)"
  unfolding mapC_def by (rule deep_viewed) (auto simp: map_as_slice, simp add: sliceC_def)

section \<open>Fields and structs\<close>

definition pairC :: "('c, 'x, 'v) copier \<Rightarrow> ('c, 'y, 'w) copier \<Rightarrow> ('c, 'x \<times> 'y, 'v \<times> 'w) copier" where
  "pairC c d =
     \<lparr>cp_copy = (\<lambda>(x, y). bindG (cp_copy c x) (\<lambda>x'. bindG (cp_copy d y) (\<lambda>y'. returnG (x', y')))),
      cp_view = (\<lambda>h (x, y). case cp_view c h x of None \<Rightarrow> None | Some v \<Rightarrow> map_option (Pair v) (cp_view d h y)),
      cp_refs = (\<lambda>h (x, y). cp_refs c h x \<union> cp_refs d h y)\<rparr>"

lemma pairC_simps [simp]:
  "cp_copy (pairC c d) (x, y) = bindG (cp_copy c x) (\<lambda>x'. bindG (cp_copy d y) (\<lambda>y'. returnG (x', y')))"
  "cp_refs (pairC c d) h (x, y) = cp_refs c h x \<union> cp_refs d h y"
  by (simp_all add: pairC_def)

lemma pairC_view:
  "cp_view (pairC c d) h (x, y) = Some (v, w) \<longleftrightarrow> cp_view c h x = Some v \<and> cp_view d h y = Some w"
  by (auto simp: pairC_def split: option.split)

lemma deep_pair [intro]:
  assumes c: "deep_copier c" and d: "deep_copier d"
  shows "deep_copier (pairC c d)"
proof (unfold_locales, goal_cases)
  case (1 h z h')
  obtain x y where z: "z = (x, y)" by (cases z)
  with 1 have "cp_view c h' x = cp_view c h x \<and> cp_refs c h' x = cp_refs c h x"
      "cp_view d h' y = cp_view d h y \<and> cp_refs d h' y = cp_refs d h y"
    by (auto intro!: deep_copier.local [OF c] deep_copier.local [OF d])
  then show ?case by (simp add: pairC_def z split: option.split)
next
  case (2 h z v)
  then show ?case
    by (cases z, cases v) (simp add: pairC_view deep_copier.closed [OF c] deep_copier.closed [OF d])
next
  case (3 h z w)
  obtain x y v1 v2 where z: "z = (x, y)" "w = (v1, v2)" by (cases z, cases w)
  with 3 have v: "cp_view c h x = Some v1" "cp_view d h y = Some v2" by (simp_all add: pairC_view)
  obtain x' h1 where x': "cp_copy c x h = Some (Ok x', h1)" "cells_ok h1" "extends h h1" "cp_view c h1 x' = Some v1"
      "\<forall>a \<in> cp_refs c h1 x'. hp_next h \<le> a" using deep_copier.copies [OF c 3(1) v(1)] by blast
  obtain y' h2 where y': "cp_copy d y h1 = Some (Ok y', h2)" "cells_ok h2" "extends h1 h2" "cp_view d h2 y' = Some v2"
      "\<forall>a \<in> cp_refs d h2 y'. hp_next h1 \<le> a"
    using deep_copier.copies [OF d x'(2) deep_copier.kept(1) [OF d 3(1) v(2) x'(3)]] by blast
  have "\<forall>a \<in> cp_refs (pairC c d) h2 (x', y'). hp_next h \<le> a"
    using deep_copier.kept(2) [OF c x'(2,4) y'(3)] x'(5) y'(5) extends_next [OF x'(3)] by force
  moreover have "cp_view (pairC c d) h2 (x', y') = Some w"
    using deep_copier.kept(1) [OF c x'(2,4) y'(3)] y'(4) z(2) by (simp add: pairC_view)
  moreover have "cp_copy (pairC c d) z h = Some (Ok (x', y'), h2)" using x'(1) y'(1) z(1) by simp
  ultimately show ?case using y'(2) extends_trans [OF x'(3) y'(3)] by blast
qed

text \<open>
  A struct whose fields \<open>get\<close> are references or hold some: \<open>*out = *in\<close> copies the rest, \<open>put\<close> stores
  the copied fields, and \<open>build\<close> gives the value from the rest and the values of the fields.
\<close>

definition structC ::
  "('r \<Rightarrow> ('c go_heap, 'r) go) \<Rightarrow> ('r \<Rightarrow> 'x) \<Rightarrow> ('r \<Rightarrow> 'v \<Rightarrow> 'w) \<Rightarrow> ('c, 'x, 'v) copier \<Rightarrow> ('c, 'r, 'w) copier" where
  "structC copy get build c =
     \<lparr>cp_copy = copy, cp_view = (\<lambda>h r. map_option (build r) (cp_view c h (get r))),
      cp_refs = (\<lambda>h r. cp_refs c h (get r))\<rparr>"

lemma structC_simps [simp]:
  "cp_copy (structC copy get build c) = copy"
  "cp_view (structC copy get build c) h r = map_option (build r) (cp_view c h (get r))"
  "cp_refs (structC copy get build c) h r = cp_refs c h (get r)"
  by (simp_all add: structC_def)

lemma deep_struct:
  assumes c: "deep_copier c"
    and copy: "\<And>r. copy r = bindG (cp_copy c (get r)) (\<lambda>y. returnG (put r y))"
    and get_put: "\<And>r y. get (put r y) = y" and build_put: "\<And>r y v. build (put r y) v = build r v"
  shows "deep_copier (structC copy get build c)"
proof (unfold_locales, goal_cases)
  case (1 h r h')
  then show ?case using deep_copier.local [OF c, of h "get r" h'] by simp
next
  case (2 h r w)
  then show ?case using deep_copier.closed [OF c, of h "get r"] by auto
next
  case (3 h r w)
  then obtain v where v: "cp_view c h (get r) = Some v" "w = build r v" by auto
  from deep_copier.copies [OF c 3(1) v(1)] obtain y h' where "cp_copy c (get r) h = Some (Ok y, h')" "cells_ok h'"
      "extends h h'" "cp_view c h' y = Some v" "\<forall>a \<in> cp_refs c h' y. hp_next h \<le> a" by blast
  with v(2) show ?case by (auto simp: copy get_put build_put)
qed

end
