(* ===== verification/Deep_Copy.thy ===== *)
theory Deep_Copy
  imports Go_Copiers Api_Types
begin

text \<open>
  zz_generated.deepcopy.go: \<open>DeepCopyInto\<close> and \<open>DeepCopy\<close> of the 20 types of the API, on a heap. The
  records here are the Go structs as they lie in memory, where a pointer, a slice and a map is an
  address or nil; a type without references is the record of \<open>Api_Types\<close>. Values of the types of
  k8s.io/api and apimachinery have an unknown layout \<open>'k\<close>: their deep copies are code of those
  libraries and come in as a record of copiers, with the contract \<open>deep_copier\<close> as hypothesis.
  \<open>DeepCopyInto\<close> returns what it writes to \<open>*out\<close>, for the caller to put in its place.
\<close>

section \<open>Structs in memory\<close>

record pLogSpec =
  plg_Level :: string
  plg_Format :: string
  plg_Destination :: "address option"

record pIngressTLSSpec =
  pts_Hosts :: "address option"
  pts_SecretName :: string

record pIngressSpec =
  pin_Enabled :: bool
  pin_Host :: string
  pin_IngressClassName :: "address option"
  pin_Annotations :: "address option"
  pin_TLS :: "address option"

record pPluginSpec =
  ppl_Name :: string
  ppl_Version :: string
  ppl_MigrationContext :: "address option"
  ppl_Services :: "address option"

record 'k pStorageSpec =
  psg_Size :: 'k
  psg_StorageClassName :: "address option"

record 'k pTierSpec =
  pti_Name :: string
  pti_Replicas :: int32
  pti_ReplicationFactor :: int32
  pti_CanVote :: bool
  pti_Storage :: "'k pStorageSpec"
  pti_Memtx :: MemtxSpec
  pti_Vinyl :: VinylSpec
  pti_Pg :: PgSpec
  pti_Log :: pLogSpec
  pti_Resources :: 'k
  pti_ShareDir :: string
  pti_Plugins :: "address option"
  pti_Env :: "address option"
  pti_Affinity :: "address option"
  pti_Tolerations :: "address option"
  pti_NodeSelector :: "address option"
  pti_TopologySpreadConstraints :: "address option"
  pti_SecurityContext :: "address option"
  pti_Ingress :: "address option"
  pti_DisableAutoAntiAffinity :: bool

record 'k pPicoclusterDBSpec =
  psp_Image :: ImageSpec
  psp_ImagePullSecrets :: "address option"
  psp_ClusterName :: string
  psp_AdminPassword :: SecretKeyRef
  psp_Cluster :: ClusterSpec
  psp_Tiers :: "address option"
  psp_Service :: ServiceSpec
  psp_StartupProbe :: "address option"
  psp_LivenessProbe :: "address option"
  psp_ReadinessProbe :: "address option"

record pTierStatus =
  ptt_Name :: string
  ptt_ReadyReplicas :: int32
  ptt_DesiredReplicas :: int32
  ptt_Plugins :: "address option"

record pPicoclusterDBStatus =
  pcs_Phase :: ClusterPhase
  pcs_Tiers :: "address option"
  pcs_Conditions :: "address option"

record 'k pPicoclusterDB =
  pcl_TypeMeta :: TypeMeta
  pcl_Meta :: 'k
  pcl_Spec :: "'k pPicoclusterDBSpec"
  pcl_Status :: pPicoclusterDBStatus

record 'k pPicoclusterDBList =
  pli_TypeMeta :: TypeMeta
  pli_ListMeta :: 'k
  pli_Items :: "address option"

text \<open>What a cell can hold.\<close>

datatype 'k cell =
    StringBlock "string list"
  | EntryBlock "(string \<times> string) list"
  | ExternBlock "'k list"
  | ClusterSpecBlock "ClusterSpec list"
  | ImageSpecBlock "ImageSpec list"
  | IngressSpecBlock "pIngressSpec list"
  | IngressTLSSpecBlock "pIngressTLSSpec list"
  | LogSpecBlock "pLogSpec list"
  | MemtxSpecBlock "MemtxSpec list"
  | PgSpecBlock "PgSpec list"
  | PicoclusterDBBlock "'k pPicoclusterDB list"
  | PicoclusterDBListBlock "'k pPicoclusterDBList list"
  | PicoclusterDBSpecBlock "'k pPicoclusterDBSpec list"
  | PicoclusterDBStatusBlock "pPicoclusterDBStatus list"
  | PluginServiceSpecBlock "PluginServiceSpec list"
  | PluginSpecBlock "pPluginSpec list"
  | PluginStatusBlock "PluginStatus list"
  | SecretKeyRefBlock "SecretKeyRef list"
  | ServiceSpecBlock "ServiceSpec list"
  | StorageSpecBlock "'k pStorageSpec list"
  | TierSpecBlock "'k pTierSpec list"
  | TierStatusBlock "pTierStatus list"
  | VinylSpecBlock "VinylSpec list"

definition strings :: "('k cell, string) block" where
  "strings = \<lparr>bk_make = StringBlock, bk_view = (\<lambda>c. case c of StringBlock xs \<Rightarrow> Some xs | _ \<Rightarrow> None)\<rparr>"

definition entries :: "('k cell, (string \<times> string)) block" where
  "entries = \<lparr>bk_make = EntryBlock, bk_view = (\<lambda>c. case c of EntryBlock xs \<Rightarrow> Some xs | _ \<Rightarrow> None)\<rparr>"

definition externs :: "('k cell, 'k) block" where
  "externs = \<lparr>bk_make = ExternBlock, bk_view = (\<lambda>c. case c of ExternBlock xs \<Rightarrow> Some xs | _ \<Rightarrow> None)\<rparr>"

definition clusterSpecs :: "('k cell, ClusterSpec) block" where
  "clusterSpecs = \<lparr>bk_make = ClusterSpecBlock, bk_view = (\<lambda>c. case c of ClusterSpecBlock xs \<Rightarrow> Some xs | _ \<Rightarrow> None)\<rparr>"

definition imageSpecs :: "('k cell, ImageSpec) block" where
  "imageSpecs = \<lparr>bk_make = ImageSpecBlock, bk_view = (\<lambda>c. case c of ImageSpecBlock xs \<Rightarrow> Some xs | _ \<Rightarrow> None)\<rparr>"

definition ingressSpecs :: "('k cell, pIngressSpec) block" where
  "ingressSpecs = \<lparr>bk_make = IngressSpecBlock, bk_view = (\<lambda>c. case c of IngressSpecBlock xs \<Rightarrow> Some xs | _ \<Rightarrow> None)\<rparr>"

definition ingressTLSSpecs :: "('k cell, pIngressTLSSpec) block" where
  "ingressTLSSpecs = \<lparr>bk_make = IngressTLSSpecBlock, bk_view = (\<lambda>c. case c of IngressTLSSpecBlock xs \<Rightarrow> Some xs | _ \<Rightarrow> None)\<rparr>"

definition logSpecs :: "('k cell, pLogSpec) block" where
  "logSpecs = \<lparr>bk_make = LogSpecBlock, bk_view = (\<lambda>c. case c of LogSpecBlock xs \<Rightarrow> Some xs | _ \<Rightarrow> None)\<rparr>"

definition memtxSpecs :: "('k cell, MemtxSpec) block" where
  "memtxSpecs = \<lparr>bk_make = MemtxSpecBlock, bk_view = (\<lambda>c. case c of MemtxSpecBlock xs \<Rightarrow> Some xs | _ \<Rightarrow> None)\<rparr>"

definition pgSpecs :: "('k cell, PgSpec) block" where
  "pgSpecs = \<lparr>bk_make = PgSpecBlock, bk_view = (\<lambda>c. case c of PgSpecBlock xs \<Rightarrow> Some xs | _ \<Rightarrow> None)\<rparr>"

definition picoclusterDBs :: "('k cell, 'k pPicoclusterDB) block" where
  "picoclusterDBs = \<lparr>bk_make = PicoclusterDBBlock, bk_view = (\<lambda>c. case c of PicoclusterDBBlock xs \<Rightarrow> Some xs | _ \<Rightarrow> None)\<rparr>"

definition picoclusterDBLists :: "('k cell, 'k pPicoclusterDBList) block" where
  "picoclusterDBLists = \<lparr>bk_make = PicoclusterDBListBlock, bk_view = (\<lambda>c. case c of PicoclusterDBListBlock xs \<Rightarrow> Some xs | _ \<Rightarrow> None)\<rparr>"

definition picoclusterDBSpecs :: "('k cell, 'k pPicoclusterDBSpec) block" where
  "picoclusterDBSpecs = \<lparr>bk_make = PicoclusterDBSpecBlock, bk_view = (\<lambda>c. case c of PicoclusterDBSpecBlock xs \<Rightarrow> Some xs | _ \<Rightarrow> None)\<rparr>"

definition picoclusterDBStatuss :: "('k cell, pPicoclusterDBStatus) block" where
  "picoclusterDBStatuss = \<lparr>bk_make = PicoclusterDBStatusBlock, bk_view = (\<lambda>c. case c of PicoclusterDBStatusBlock xs \<Rightarrow> Some xs | _ \<Rightarrow> None)\<rparr>"

definition pluginServiceSpecs :: "('k cell, PluginServiceSpec) block" where
  "pluginServiceSpecs = \<lparr>bk_make = PluginServiceSpecBlock, bk_view = (\<lambda>c. case c of PluginServiceSpecBlock xs \<Rightarrow> Some xs | _ \<Rightarrow> None)\<rparr>"

definition pluginSpecs :: "('k cell, pPluginSpec) block" where
  "pluginSpecs = \<lparr>bk_make = PluginSpecBlock, bk_view = (\<lambda>c. case c of PluginSpecBlock xs \<Rightarrow> Some xs | _ \<Rightarrow> None)\<rparr>"

definition pluginStatuss :: "('k cell, PluginStatus) block" where
  "pluginStatuss = \<lparr>bk_make = PluginStatusBlock, bk_view = (\<lambda>c. case c of PluginStatusBlock xs \<Rightarrow> Some xs | _ \<Rightarrow> None)\<rparr>"

definition secretKeyRefs :: "('k cell, SecretKeyRef) block" where
  "secretKeyRefs = \<lparr>bk_make = SecretKeyRefBlock, bk_view = (\<lambda>c. case c of SecretKeyRefBlock xs \<Rightarrow> Some xs | _ \<Rightarrow> None)\<rparr>"

definition serviceSpecs :: "('k cell, ServiceSpec) block" where
  "serviceSpecs = \<lparr>bk_make = ServiceSpecBlock, bk_view = (\<lambda>c. case c of ServiceSpecBlock xs \<Rightarrow> Some xs | _ \<Rightarrow> None)\<rparr>"

definition storageSpecs :: "('k cell, 'k pStorageSpec) block" where
  "storageSpecs = \<lparr>bk_make = StorageSpecBlock, bk_view = (\<lambda>c. case c of StorageSpecBlock xs \<Rightarrow> Some xs | _ \<Rightarrow> None)\<rparr>"

definition tierSpecs :: "('k cell, 'k pTierSpec) block" where
  "tierSpecs = \<lparr>bk_make = TierSpecBlock, bk_view = (\<lambda>c. case c of TierSpecBlock xs \<Rightarrow> Some xs | _ \<Rightarrow> None)\<rparr>"

definition tierStatuss :: "('k cell, pTierStatus) block" where
  "tierStatuss = \<lparr>bk_make = TierStatusBlock, bk_view = (\<lambda>c. case c of TierStatusBlock xs \<Rightarrow> Some xs | _ \<Rightarrow> None)\<rparr>"

definition vinylSpecs :: "('k cell, VinylSpec) block" where
  "vinylSpecs = \<lparr>bk_make = VinylSpecBlock, bk_view = (\<lambda>c. case c of VinylSpecBlock xs \<Rightarrow> Some xs | _ \<Rightarrow> None)\<rparr>"

interpretation strings: block_kind strings
  by unfold_locales (simp add: strings_def)

interpretation entries: block_kind entries
  by unfold_locales (simp add: entries_def)

interpretation externs: block_kind externs
  by unfold_locales (simp add: externs_def)

interpretation clusterSpecs: block_kind clusterSpecs
  by unfold_locales (simp add: clusterSpecs_def)

interpretation imageSpecs: block_kind imageSpecs
  by unfold_locales (simp add: imageSpecs_def)

interpretation ingressSpecs: block_kind ingressSpecs
  by unfold_locales (simp add: ingressSpecs_def)

interpretation ingressTLSSpecs: block_kind ingressTLSSpecs
  by unfold_locales (simp add: ingressTLSSpecs_def)

interpretation logSpecs: block_kind logSpecs
  by unfold_locales (simp add: logSpecs_def)

interpretation memtxSpecs: block_kind memtxSpecs
  by unfold_locales (simp add: memtxSpecs_def)

interpretation pgSpecs: block_kind pgSpecs
  by unfold_locales (simp add: pgSpecs_def)

interpretation picoclusterDBs: block_kind picoclusterDBs
  by unfold_locales (simp add: picoclusterDBs_def)

interpretation picoclusterDBLists: block_kind picoclusterDBLists
  by unfold_locales (simp add: picoclusterDBLists_def)

interpretation picoclusterDBSpecs: block_kind picoclusterDBSpecs
  by unfold_locales (simp add: picoclusterDBSpecs_def)

interpretation picoclusterDBStatuss: block_kind picoclusterDBStatuss
  by unfold_locales (simp add: picoclusterDBStatuss_def)

interpretation pluginServiceSpecs: block_kind pluginServiceSpecs
  by unfold_locales (simp add: pluginServiceSpecs_def)

interpretation pluginSpecs: block_kind pluginSpecs
  by unfold_locales (simp add: pluginSpecs_def)

interpretation pluginStatuss: block_kind pluginStatuss
  by unfold_locales (simp add: pluginStatuss_def)

interpretation secretKeyRefs: block_kind secretKeyRefs
  by unfold_locales (simp add: secretKeyRefs_def)

interpretation serviceSpecs: block_kind serviceSpecs
  by unfold_locales (simp add: serviceSpecs_def)

interpretation storageSpecs: block_kind storageSpecs
  by unfold_locales (simp add: storageSpecs_def)

interpretation tierSpecs: block_kind tierSpecs
  by unfold_locales (simp add: tierSpecs_def)

interpretation tierStatuss: block_kind tierStatuss
  by unfold_locales (simp add: tierStatuss_def)

interpretation vinylSpecs: block_kind vinylSpecs
  by unfold_locales (simp add: vinylSpecs_def)

section \<open>External types\<close>

record 'k KubeCopy =
  kc_ObjectMeta :: "('k cell, 'k, ObjectMeta) copier"
  kc_ListMeta :: "('k cell, 'k, ListMeta) copier"
  kc_Condition :: "('k cell, 'k, Condition) copier"
  kc_Quantity :: "('k cell, 'k, Quantity) copier"
  kc_ResourceRequirements :: "('k cell, 'k, ResourceRequirements) copier"
  kc_Probe :: "('k cell, 'k, Probe) copier"
  kc_EnvVar :: "('k cell, 'k, EnvVar) copier"
  kc_Affinity :: "('k cell, 'k, Affinity) copier"
  kc_Toleration :: "('k cell, 'k, Toleration) copier"
  kc_TopologySpreadConstraint :: "('k cell, 'k, TopologySpreadConstraint) copier"
  kc_PodSecurityContext :: "('k cell, 'k, PodSecurityContext) copier"

definition kube_ok :: "'k KubeCopy \<Rightarrow> bool" where
  "kube_ok K \<longleftrightarrow>
     deep_copier (kc_ObjectMeta K) \<and> deep_copier (kc_ListMeta K) \<and> deep_copier (kc_Condition K) \<and>
     deep_copier (kc_Quantity K) \<and> deep_copier (kc_ResourceRequirements K) \<and> deep_copier (kc_Probe K) \<and>
     deep_copier (kc_EnvVar K) \<and> deep_copier (kc_Affinity K) \<and> deep_copier (kc_Toleration K) \<and>
     deep_copier (kc_TopologySpreadConstraint K) \<and> deep_copier (kc_PodSecurityContext K)"

section \<open>DeepCopyInto\<close>

definition DeepCopyInto_ClusterSpec :: "ClusterSpec \<Rightarrow> ('k cell go_heap, ClusterSpec) go" where
  "DeepCopyInto_ClusterSpec inp = returnG inp"

definition DeepCopyInto_ImageSpec :: "ImageSpec \<Rightarrow> ('k cell go_heap, ImageSpec) go" where
  "DeepCopyInto_ImageSpec inp = returnG inp"

definition DeepCopyInto_MemtxSpec :: "MemtxSpec \<Rightarrow> ('k cell go_heap, MemtxSpec) go" where
  "DeepCopyInto_MemtxSpec inp = returnG inp"

definition DeepCopyInto_PgSpec :: "PgSpec \<Rightarrow> ('k cell go_heap, PgSpec) go" where
  "DeepCopyInto_PgSpec inp = returnG inp"

definition DeepCopyInto_PluginServiceSpec :: "PluginServiceSpec \<Rightarrow> ('k cell go_heap, PluginServiceSpec) go" where
  "DeepCopyInto_PluginServiceSpec inp = returnG inp"

definition DeepCopyInto_PluginStatus :: "PluginStatus \<Rightarrow> ('k cell go_heap, PluginStatus) go" where
  "DeepCopyInto_PluginStatus inp = returnG inp"

definition DeepCopyInto_SecretKeyRef :: "SecretKeyRef \<Rightarrow> ('k cell go_heap, SecretKeyRef) go" where
  "DeepCopyInto_SecretKeyRef inp = returnG inp"

definition DeepCopyInto_ServiceSpec :: "ServiceSpec \<Rightarrow> ('k cell go_heap, ServiceSpec) go" where
  "DeepCopyInto_ServiceSpec inp = returnG inp"

definition DeepCopyInto_VinylSpec :: "VinylSpec \<Rightarrow> ('k cell go_heap, VinylSpec) go" where
  "DeepCopyInto_VinylSpec inp = returnG inp"

definition DeepCopyInto_IngressTLSSpec :: "pIngressTLSSpec \<Rightarrow> ('k cell go_heap, pIngressTLSSpec) go" where
  "DeepCopyInto_IngressTLSSpec inp =
     bindG (copySlice strings returnG (pts_Hosts inp)) (\<lambda>hosts.
       returnG (inp\<lparr>pts_Hosts := hosts\<rparr>))"

definition DeepCopyInto_IngressSpec :: "pIngressSpec \<Rightarrow> ('k cell go_heap, pIngressSpec) go" where
  "DeepCopyInto_IngressSpec inp =
     bindG (copyPtr strings returnG (pin_IngressClassName inp)) (\<lambda>ingressClassName.
     bindG (copyMap entries (pin_Annotations inp)) (\<lambda>annotations.
     bindG (copySlice ingressTLSSpecs DeepCopyInto_IngressTLSSpec (pin_TLS inp)) (\<lambda>tLS.
       returnG (inp\<lparr>pin_IngressClassName := ingressClassName, pin_Annotations := annotations, pin_TLS := tLS\<rparr>))))"

definition DeepCopyInto_LogSpec :: "pLogSpec \<Rightarrow> ('k cell go_heap, pLogSpec) go" where
  "DeepCopyInto_LogSpec inp =
     bindG (copyPtr strings returnG (plg_Destination inp)) (\<lambda>destination.
       returnG (inp\<lparr>plg_Destination := destination\<rparr>))"

definition DeepCopyInto_PluginSpec :: "pPluginSpec \<Rightarrow> ('k cell go_heap, pPluginSpec) go" where
  "DeepCopyInto_PluginSpec inp =
     bindG (copyMap entries (ppl_MigrationContext inp)) (\<lambda>migrationContext.
     bindG (copySlice pluginServiceSpecs returnG (ppl_Services inp)) (\<lambda>services.
       returnG (inp\<lparr>ppl_MigrationContext := migrationContext, ppl_Services := services\<rparr>)))"

definition DeepCopyInto_StorageSpec :: "'k KubeCopy \<Rightarrow> 'k pStorageSpec \<Rightarrow> ('k cell go_heap, 'k pStorageSpec) go" where
  "DeepCopyInto_StorageSpec K inp =
     bindG (cp_copy (kc_Quantity K) (psg_Size inp)) (\<lambda>size.
     bindG (copyPtr strings returnG (psg_StorageClassName inp)) (\<lambda>storageClassName.
       returnG (inp\<lparr>psg_Size := size, psg_StorageClassName := storageClassName\<rparr>)))"

definition DeepCopyInto_TierSpec :: "'k KubeCopy \<Rightarrow> 'k pTierSpec \<Rightarrow> ('k cell go_heap, 'k pTierSpec) go" where
  "DeepCopyInto_TierSpec K inp =
     bindG (DeepCopyInto_StorageSpec K (pti_Storage inp)) (\<lambda>storage.
     bindG (DeepCopyInto_LogSpec (pti_Log inp)) (\<lambda>log.
     bindG (cp_copy (kc_ResourceRequirements K) (pti_Resources inp)) (\<lambda>resources.
     bindG (copySlice pluginSpecs DeepCopyInto_PluginSpec (pti_Plugins inp)) (\<lambda>plugins.
     bindG (copySlice externs (cp_copy (kc_EnvVar K)) (pti_Env inp)) (\<lambda>env.
     bindG (copyPtr externs (cp_copy (kc_Affinity K)) (pti_Affinity inp)) (\<lambda>affinity.
     bindG (copySlice externs (cp_copy (kc_Toleration K)) (pti_Tolerations inp)) (\<lambda>tolerations.
     bindG (copyMap entries (pti_NodeSelector inp)) (\<lambda>nodeSelector.
     bindG (copySlice externs (cp_copy (kc_TopologySpreadConstraint K)) (pti_TopologySpreadConstraints inp)) (\<lambda>topologySpreadConstraints.
     bindG (copyPtr externs (cp_copy (kc_PodSecurityContext K)) (pti_SecurityContext inp)) (\<lambda>securityContext.
     bindG (copyPtr ingressSpecs DeepCopyInto_IngressSpec (pti_Ingress inp)) (\<lambda>ingress.
       returnG (inp\<lparr>pti_Storage := storage, pti_Log := log, pti_Resources := resources, pti_Plugins := plugins, pti_Env := env, pti_Affinity := affinity, pti_Tolerations := tolerations, pti_NodeSelector := nodeSelector, pti_TopologySpreadConstraints := topologySpreadConstraints, pti_SecurityContext := securityContext, pti_Ingress := ingress\<rparr>))))))))))))"

definition DeepCopyInto_PicoclusterDBSpec :: "'k KubeCopy \<Rightarrow> 'k pPicoclusterDBSpec \<Rightarrow> ('k cell go_heap, 'k pPicoclusterDBSpec) go" where
  "DeepCopyInto_PicoclusterDBSpec K inp =
     bindG (copySlice strings returnG (psp_ImagePullSecrets inp)) (\<lambda>imagePullSecrets.
     bindG (copySlice tierSpecs (DeepCopyInto_TierSpec K) (psp_Tiers inp)) (\<lambda>tiers.
     bindG (copyPtr externs (cp_copy (kc_Probe K)) (psp_StartupProbe inp)) (\<lambda>startupProbe.
     bindG (copyPtr externs (cp_copy (kc_Probe K)) (psp_LivenessProbe inp)) (\<lambda>livenessProbe.
     bindG (copyPtr externs (cp_copy (kc_Probe K)) (psp_ReadinessProbe inp)) (\<lambda>readinessProbe.
       returnG (inp\<lparr>psp_ImagePullSecrets := imagePullSecrets, psp_Tiers := tiers, psp_StartupProbe := startupProbe, psp_LivenessProbe := livenessProbe, psp_ReadinessProbe := readinessProbe\<rparr>))))))"

definition DeepCopyInto_TierStatus :: "pTierStatus \<Rightarrow> ('k cell go_heap, pTierStatus) go" where
  "DeepCopyInto_TierStatus inp =
     bindG (copySlice pluginStatuss returnG (ptt_Plugins inp)) (\<lambda>plugins.
       returnG (inp\<lparr>ptt_Plugins := plugins\<rparr>))"

definition DeepCopyInto_PicoclusterDBStatus :: "'k KubeCopy \<Rightarrow> pPicoclusterDBStatus \<Rightarrow> ('k cell go_heap, pPicoclusterDBStatus) go" where
  "DeepCopyInto_PicoclusterDBStatus K inp =
     bindG (copySlice tierStatuss DeepCopyInto_TierStatus (pcs_Tiers inp)) (\<lambda>tiers.
     bindG (copySlice externs (cp_copy (kc_Condition K)) (pcs_Conditions inp)) (\<lambda>conditions.
       returnG (inp\<lparr>pcs_Tiers := tiers, pcs_Conditions := conditions\<rparr>)))"

definition DeepCopyInto_PicoclusterDB :: "'k KubeCopy \<Rightarrow> 'k pPicoclusterDB \<Rightarrow> ('k cell go_heap, 'k pPicoclusterDB) go" where
  "DeepCopyInto_PicoclusterDB K inp =
     bindG (cp_copy (kc_ObjectMeta K) (pcl_Meta inp)) (\<lambda>meta.
     bindG (DeepCopyInto_PicoclusterDBSpec K (pcl_Spec inp)) (\<lambda>spec.
     bindG (DeepCopyInto_PicoclusterDBStatus K (pcl_Status inp)) (\<lambda>status.
       returnG (inp\<lparr>pcl_Meta := meta, pcl_Spec := spec, pcl_Status := status\<rparr>))))"

definition DeepCopyInto_PicoclusterDBList :: "'k KubeCopy \<Rightarrow> 'k pPicoclusterDBList \<Rightarrow> ('k cell go_heap, 'k pPicoclusterDBList) go" where
  "DeepCopyInto_PicoclusterDBList K inp =
     bindG (cp_copy (kc_ListMeta K) (pli_ListMeta inp)) (\<lambda>listMeta.
     bindG (copySlice picoclusterDBs (DeepCopyInto_PicoclusterDB K) (pli_Items inp)) (\<lambda>items.
       returnG (inp\<lparr>pli_ListMeta := listMeta, pli_Items := items\<rparr>)))"

section \<open>DeepCopy\<close>

text \<open>\<open>nil\<close> for \<open>nil\<close>, otherwise a new struct filled by \<open>DeepCopyInto\<close>.\<close>

definition DeepCopy_ClusterSpec :: "address option \<Rightarrow> ('k cell go_heap, address option) go" where
  "DeepCopy_ClusterSpec inp = copyPtr clusterSpecs DeepCopyInto_ClusterSpec inp"

definition DeepCopy_ImageSpec :: "address option \<Rightarrow> ('k cell go_heap, address option) go" where
  "DeepCopy_ImageSpec inp = copyPtr imageSpecs DeepCopyInto_ImageSpec inp"

definition DeepCopy_IngressSpec :: "address option \<Rightarrow> ('k cell go_heap, address option) go" where
  "DeepCopy_IngressSpec inp = copyPtr ingressSpecs DeepCopyInto_IngressSpec inp"

definition DeepCopy_IngressTLSSpec :: "address option \<Rightarrow> ('k cell go_heap, address option) go" where
  "DeepCopy_IngressTLSSpec inp = copyPtr ingressTLSSpecs DeepCopyInto_IngressTLSSpec inp"

definition DeepCopy_LogSpec :: "address option \<Rightarrow> ('k cell go_heap, address option) go" where
  "DeepCopy_LogSpec inp = copyPtr logSpecs DeepCopyInto_LogSpec inp"

definition DeepCopy_MemtxSpec :: "address option \<Rightarrow> ('k cell go_heap, address option) go" where
  "DeepCopy_MemtxSpec inp = copyPtr memtxSpecs DeepCopyInto_MemtxSpec inp"

definition DeepCopy_PgSpec :: "address option \<Rightarrow> ('k cell go_heap, address option) go" where
  "DeepCopy_PgSpec inp = copyPtr pgSpecs DeepCopyInto_PgSpec inp"

definition DeepCopy_PicoclusterDB :: "'k KubeCopy \<Rightarrow> address option \<Rightarrow> ('k cell go_heap, address option) go" where
  "DeepCopy_PicoclusterDB K inp = copyPtr picoclusterDBs (DeepCopyInto_PicoclusterDB K) inp"

definition DeepCopy_PicoclusterDBList :: "'k KubeCopy \<Rightarrow> address option \<Rightarrow> ('k cell go_heap, address option) go" where
  "DeepCopy_PicoclusterDBList K inp = copyPtr picoclusterDBLists (DeepCopyInto_PicoclusterDBList K) inp"

definition DeepCopy_PicoclusterDBSpec :: "'k KubeCopy \<Rightarrow> address option \<Rightarrow> ('k cell go_heap, address option) go" where
  "DeepCopy_PicoclusterDBSpec K inp = copyPtr picoclusterDBSpecs (DeepCopyInto_PicoclusterDBSpec K) inp"

definition DeepCopy_PicoclusterDBStatus :: "'k KubeCopy \<Rightarrow> address option \<Rightarrow> ('k cell go_heap, address option) go" where
  "DeepCopy_PicoclusterDBStatus K inp = copyPtr picoclusterDBStatuss (DeepCopyInto_PicoclusterDBStatus K) inp"

definition DeepCopy_PluginServiceSpec :: "address option \<Rightarrow> ('k cell go_heap, address option) go" where
  "DeepCopy_PluginServiceSpec inp = copyPtr pluginServiceSpecs DeepCopyInto_PluginServiceSpec inp"

definition DeepCopy_PluginSpec :: "address option \<Rightarrow> ('k cell go_heap, address option) go" where
  "DeepCopy_PluginSpec inp = copyPtr pluginSpecs DeepCopyInto_PluginSpec inp"

definition DeepCopy_PluginStatus :: "address option \<Rightarrow> ('k cell go_heap, address option) go" where
  "DeepCopy_PluginStatus inp = copyPtr pluginStatuss DeepCopyInto_PluginStatus inp"

definition DeepCopy_SecretKeyRef :: "address option \<Rightarrow> ('k cell go_heap, address option) go" where
  "DeepCopy_SecretKeyRef inp = copyPtr secretKeyRefs DeepCopyInto_SecretKeyRef inp"

definition DeepCopy_ServiceSpec :: "address option \<Rightarrow> ('k cell go_heap, address option) go" where
  "DeepCopy_ServiceSpec inp = copyPtr serviceSpecs DeepCopyInto_ServiceSpec inp"

definition DeepCopy_StorageSpec :: "'k KubeCopy \<Rightarrow> address option \<Rightarrow> ('k cell go_heap, address option) go" where
  "DeepCopy_StorageSpec K inp = copyPtr storageSpecs (DeepCopyInto_StorageSpec K) inp"

definition DeepCopy_TierSpec :: "'k KubeCopy \<Rightarrow> address option \<Rightarrow> ('k cell go_heap, address option) go" where
  "DeepCopy_TierSpec K inp = copyPtr tierSpecs (DeepCopyInto_TierSpec K) inp"

definition DeepCopy_TierStatus :: "address option \<Rightarrow> ('k cell go_heap, address option) go" where
  "DeepCopy_TierStatus inp = copyPtr tierStatuss DeepCopyInto_TierStatus inp"

definition DeepCopy_VinylSpec :: "address option \<Rightarrow> ('k cell go_heap, address option) go" where
  "DeepCopy_VinylSpec inp = copyPtr vinylSpecs DeepCopyInto_VinylSpec inp"

text \<open>A value of interface type: nil, or a pointer with its type.\<close>

datatype RuntimeObject = NilObject | OfPicoclusterDB "address option" | OfPicoclusterDBList "address option"

definition DeepCopyObject_PicoclusterDB :: "'k KubeCopy \<Rightarrow> address option \<Rightarrow> ('k cell go_heap, RuntimeObject) go" where
  "DeepCopyObject_PicoclusterDB K inp =
     bindG (DeepCopy_PicoclusterDB K inp) (\<lambda>c.
       returnG (if c \<noteq> None then OfPicoclusterDB c else NilObject))"

definition DeepCopyObject_PicoclusterDBList :: "'k KubeCopy \<Rightarrow> address option \<Rightarrow> ('k cell go_heap, RuntimeObject) go" where
  "DeepCopyObject_PicoclusterDBList K inp =
     bindG (DeepCopy_PicoclusterDBList K inp) (\<lambda>c.
       returnG (if c \<noteq> None then OfPicoclusterDBList c else NilObject))"

end
