(* ===== verification/Deep_Copy_Correct.thy ===== *)
theory Deep_Copy_Correct
  imports Deep_Copy
begin

text \<open>
  What the structs of \<open>Deep_Copy\<close> stand for, and that each \<open>DeepCopyInto\<close> and \<open>DeepCopy\<close> keeps the contract
  \<open>deep_copier\<close>. The value of a struct in memory is the record of \<open>Api_Types\<close>; a nil slice or map is the
  empty list there. A copier is assembled from the copiers of the fields with the combinators of
  \<open>Go_Copiers\<close>, and its copy function is shown to be the one of the source.
\<close>

section \<open>Copiers of the types\<close>

lemma kube_okD:
  assumes "kube_ok K"
  shows "deep_copier (kc_ObjectMeta K)" "deep_copier (kc_ListMeta K)" "deep_copier (kc_Condition K)"
    "deep_copier (kc_Quantity K)" "deep_copier (kc_ResourceRequirements K)" "deep_copier (kc_Probe K)"
    "deep_copier (kc_EnvVar K)" "deep_copier (kc_Affinity K)" "deep_copier (kc_Toleration K)"
    "deep_copier (kc_TopologySpreadConstraint K)" "deep_copier (kc_PodSecurityContext K)"
  using assms by (simp_all add: kube_ok_def)

text \<open>The blocks and the copiers proved so far.\<close>

named_theorems deep_parts

lemmas kinds [deep_parts] =
  strings.block_kind_axioms entries.block_kind_axioms externs.block_kind_axioms
  clusterSpecs.block_kind_axioms imageSpecs.block_kind_axioms ingressSpecs.block_kind_axioms
  ingressTLSSpecs.block_kind_axioms logSpecs.block_kind_axioms memtxSpecs.block_kind_axioms
  pgSpecs.block_kind_axioms picoclusterDBs.block_kind_axioms picoclusterDBLists.block_kind_axioms
  picoclusterDBSpecs.block_kind_axioms picoclusterDBStatuss.block_kind_axioms pluginServiceSpecs.block_kind_axioms
  pluginSpecs.block_kind_axioms pluginStatuss.block_kind_axioms secretKeyRefs.block_kind_axioms
  serviceSpecs.block_kind_axioms storageSpecs.block_kind_axioms tierSpecs.block_kind_axioms
  tierStatuss.block_kind_axioms vinylSpecs.block_kind_axioms

lemmas combinators [deep_parts] = deep_flat deep_slice deep_ptr deep_map deep_pair kube_okD

definition or_nil :: "'a list option \<Rightarrow> 'a list" where
  "or_nil xs = (case xs of None \<Rightarrow> [] | Some ys \<Rightarrow> ys)"

lemma copy_combinators [simp]:
  "cp_copy (sliceC bk c) = copySlice bk (cp_copy c)"
  "cp_copy (ptrC bk c) = copyPtr bk (cp_copy c)"
  "cp_copy (mapC em) = copyMap em"
  by (simp_all add: sliceC_def ptrC_def mapC_def)

lemma flat_copies [simp]:
  "DeepCopyInto_ClusterSpec = returnG"
  "DeepCopyInto_ImageSpec = returnG"
  "DeepCopyInto_MemtxSpec = returnG"
  "DeepCopyInto_PgSpec = returnG"
  "DeepCopyInto_PluginServiceSpec = returnG"
  "DeepCopyInto_PluginStatus = returnG"
  "DeepCopyInto_SecretKeyRef = returnG"
  "DeepCopyInto_ServiceSpec = returnG"
  "DeepCopyInto_VinylSpec = returnG"
  by (simp_all add: fun_eq_iff DeepCopyInto_ClusterSpec_def DeepCopyInto_ImageSpec_def DeepCopyInto_MemtxSpec_def DeepCopyInto_PgSpec_def DeepCopyInto_PluginServiceSpec_def DeepCopyInto_PluginStatus_def DeepCopyInto_SecretKeyRef_def DeepCopyInto_ServiceSpec_def DeepCopyInto_VinylSpec_def)

definition ingressTLSSpecC :: "('k cell, pIngressTLSSpec, IngressTLSSpec) copier" where
  "ingressTLSSpecC = structC DeepCopyInto_IngressTLSSpec
     (\<lambda>p. pts_Hosts p)
     (\<lambda>p hosts.
       \<lparr>ts_Hosts = or_nil hosts,
            ts_SecretName = pts_SecretName p\<rparr>)
     (sliceC strings flatC)"

lemma copy_ingressTLSSpecC [simp]: "cp_copy ingressTLSSpecC = DeepCopyInto_IngressTLSSpec"
  by (simp add: ingressTLSSpecC_def)

lemma deep_ingressTLSSpecC [deep_parts]: "deep_copier ingressTLSSpecC"
  unfolding ingressTLSSpecC_def
  by (rule deep_struct [where put = "\<lambda>p hosts. p\<lparr>pts_Hosts := hosts\<rparr>"], (rule deep_parts | assumption)+)
    (auto simp: DeepCopyInto_IngressTLSSpec_def bind_assoc simp del: run_return)

definition ingressSpecC :: "('k cell, pIngressSpec, IngressSpec) copier" where
  "ingressSpecC = structC DeepCopyInto_IngressSpec
     (\<lambda>p. (pin_IngressClassName p, pin_Annotations p, pin_TLS p))
     (\<lambda>p (ingressClassName, annotations, tLS).
       \<lparr>in_Enabled = pin_Enabled p,
            in_Host = pin_Host p,
            in_IngressClassName = ingressClassName,
            in_Annotations = or_nil annotations,
            in_TLS = or_nil tLS\<rparr>)
     (pairC (ptrC strings flatC) (pairC (mapC entries) (sliceC ingressTLSSpecs ingressTLSSpecC)))"

lemma copy_ingressSpecC [simp]: "cp_copy ingressSpecC = DeepCopyInto_IngressSpec"
  by (simp add: ingressSpecC_def)

lemma deep_ingressSpecC [deep_parts]: "deep_copier ingressSpecC"
  unfolding ingressSpecC_def
  by (rule deep_struct [where put = "\<lambda>p (ingressClassName, annotations, tLS). p\<lparr>pin_IngressClassName := ingressClassName, pin_Annotations := annotations, pin_TLS := tLS\<rparr>"], (rule deep_parts | assumption)+)
    (auto simp: DeepCopyInto_IngressSpec_def bind_assoc simp del: run_return)

definition logSpecC :: "('k cell, pLogSpec, LogSpec) copier" where
  "logSpecC = structC DeepCopyInto_LogSpec
     (\<lambda>p. plg_Destination p)
     (\<lambda>p destination.
       \<lparr>lg_Level = plg_Level p,
            lg_Format = plg_Format p,
            lg_Destination = destination\<rparr>)
     (ptrC strings flatC)"

lemma copy_logSpecC [simp]: "cp_copy logSpecC = DeepCopyInto_LogSpec"
  by (simp add: logSpecC_def)

lemma deep_logSpecC [deep_parts]: "deep_copier logSpecC"
  unfolding logSpecC_def
  by (rule deep_struct [where put = "\<lambda>p destination. p\<lparr>plg_Destination := destination\<rparr>"], (rule deep_parts | assumption)+)
    (auto simp: DeepCopyInto_LogSpec_def bind_assoc simp del: run_return)

definition pluginSpecC :: "('k cell, pPluginSpec, PluginSpec) copier" where
  "pluginSpecC = structC DeepCopyInto_PluginSpec
     (\<lambda>p. (ppl_MigrationContext p, ppl_Services p))
     (\<lambda>p (migrationContext, services).
       \<lparr>pl_Name = ppl_Name p,
            pl_Version = ppl_Version p,
            pl_MigrationContext = or_nil migrationContext,
            pl_Services = or_nil services\<rparr>)
     (pairC (mapC entries) (sliceC pluginServiceSpecs flatC))"

lemma copy_pluginSpecC [simp]: "cp_copy pluginSpecC = DeepCopyInto_PluginSpec"
  by (simp add: pluginSpecC_def)

lemma deep_pluginSpecC [deep_parts]: "deep_copier pluginSpecC"
  unfolding pluginSpecC_def
  by (rule deep_struct [where put = "\<lambda>p (migrationContext, services). p\<lparr>ppl_MigrationContext := migrationContext, ppl_Services := services\<rparr>"], (rule deep_parts | assumption)+)
    (auto simp: DeepCopyInto_PluginSpec_def bind_assoc simp del: run_return)

definition storageSpecC :: "'k KubeCopy \<Rightarrow> ('k cell, 'k pStorageSpec, StorageSpec) copier" where
  "storageSpecC K = structC (DeepCopyInto_StorageSpec K)
     (\<lambda>p. (psg_Size p, psg_StorageClassName p))
     (\<lambda>p (size, storageClassName).
       \<lparr>sg_Size = size,
            sg_StorageClassName = storageClassName\<rparr>)
     (pairC (kc_Quantity K) (ptrC strings flatC))"

lemma copy_storageSpecC [simp]: "cp_copy (storageSpecC K) = DeepCopyInto_StorageSpec K"
  by (simp add: storageSpecC_def)

lemma deep_storageSpecC [deep_parts]: "kube_ok K \<Longrightarrow> deep_copier (storageSpecC K)"
  unfolding storageSpecC_def
  by (rule deep_struct [where put = "\<lambda>p (size, storageClassName). p\<lparr>psg_Size := size, psg_StorageClassName := storageClassName\<rparr>"], (rule deep_parts | assumption)+)
    (auto simp: DeepCopyInto_StorageSpec_def bind_assoc simp del: run_return)

definition tierStatusC :: "('k cell, pTierStatus, TierStatus) copier" where
  "tierStatusC = structC DeepCopyInto_TierStatus
     (\<lambda>p. ptt_Plugins p)
     (\<lambda>p plugins.
       \<lparr>tt_Name = ptt_Name p,
            tt_ReadyReplicas = ptt_ReadyReplicas p,
            tt_DesiredReplicas = ptt_DesiredReplicas p,
            tt_Plugins = or_nil plugins\<rparr>)
     (sliceC pluginStatuss flatC)"

lemma copy_tierStatusC [simp]: "cp_copy tierStatusC = DeepCopyInto_TierStatus"
  by (simp add: tierStatusC_def)

lemma deep_tierStatusC [deep_parts]: "deep_copier tierStatusC"
  unfolding tierStatusC_def
  by (rule deep_struct [where put = "\<lambda>p plugins. p\<lparr>ptt_Plugins := plugins\<rparr>"], (rule deep_parts | assumption)+)
    (auto simp: DeepCopyInto_TierStatus_def bind_assoc simp del: run_return)

definition tierSpecC :: "'k KubeCopy \<Rightarrow> ('k cell, 'k pTierSpec, TierSpec) copier" where
  "tierSpecC K = structC (DeepCopyInto_TierSpec K)
     (\<lambda>p. (pti_Storage p, pti_Log p, pti_Resources p, pti_Plugins p, pti_Env p, pti_Affinity p, pti_Tolerations p, pti_NodeSelector p, pti_TopologySpreadConstraints p, pti_SecurityContext p, pti_Ingress p))
     (\<lambda>p (storage, log, resources, plugins, env, affinity, tolerations, nodeSelector, topologySpreadConstraints, securityContext, ingress).
       \<lparr>tier_Name = pti_Name p,
            tier_Replicas = pti_Replicas p,
            tier_ReplicationFactor = pti_ReplicationFactor p,
            tier_CanVote = pti_CanVote p,
            tier_Storage = storage,
            tier_Memtx = pti_Memtx p,
            tier_Vinyl = pti_Vinyl p,
            tier_Pg = pti_Pg p,
            tier_Log = log,
            tier_Resources = resources,
            tier_ShareDir = pti_ShareDir p,
            tier_Plugins = or_nil plugins,
            tier_Env = or_nil env,
            tier_Affinity = affinity,
            tier_Tolerations = or_nil tolerations,
            tier_NodeSelector = or_nil nodeSelector,
            tier_TopologySpreadConstraints = or_nil topologySpreadConstraints,
            tier_SecurityContext = securityContext,
            tier_Ingress = ingress,
            tier_DisableAutoAntiAffinity = pti_DisableAutoAntiAffinity p\<rparr>)
     (pairC (storageSpecC K) (pairC logSpecC (pairC (kc_ResourceRequirements K) (pairC (sliceC pluginSpecs pluginSpecC) (pairC (sliceC externs (kc_EnvVar K)) (pairC (ptrC externs (kc_Affinity K)) (pairC (sliceC externs (kc_Toleration K)) (pairC (mapC entries) (pairC (sliceC externs (kc_TopologySpreadConstraint K)) (pairC (ptrC externs (kc_PodSecurityContext K)) (ptrC ingressSpecs ingressSpecC)))))))))))"

lemma copy_tierSpecC [simp]: "cp_copy (tierSpecC K) = DeepCopyInto_TierSpec K"
  by (simp add: tierSpecC_def)

lemma deep_tierSpecC [deep_parts]: "kube_ok K \<Longrightarrow> deep_copier (tierSpecC K)"
  unfolding tierSpecC_def
  by (rule deep_struct [where put = "\<lambda>p (storage, log, resources, plugins, env, affinity, tolerations, nodeSelector, topologySpreadConstraints, securityContext, ingress). p\<lparr>pti_Storage := storage, pti_Log := log, pti_Resources := resources, pti_Plugins := plugins, pti_Env := env, pti_Affinity := affinity, pti_Tolerations := tolerations, pti_NodeSelector := nodeSelector, pti_TopologySpreadConstraints := topologySpreadConstraints, pti_SecurityContext := securityContext, pti_Ingress := ingress\<rparr>"], (rule deep_parts | assumption)+)
    (auto simp: DeepCopyInto_TierSpec_def bind_assoc simp del: run_return)

definition picoclusterDBSpecC :: "'k KubeCopy \<Rightarrow> ('k cell, 'k pPicoclusterDBSpec, PicoclusterDBSpec) copier" where
  "picoclusterDBSpecC K = structC (DeepCopyInto_PicoclusterDBSpec K)
     (\<lambda>p. (psp_ImagePullSecrets p, psp_Tiers p, psp_StartupProbe p, psp_LivenessProbe p, psp_ReadinessProbe p))
     (\<lambda>p (imagePullSecrets, tiers, startupProbe, livenessProbe, readinessProbe).
       \<lparr>spec_Image = psp_Image p,
            spec_ImagePullSecrets = or_nil imagePullSecrets,
            spec_ClusterName = psp_ClusterName p,
            spec_AdminPassword = psp_AdminPassword p,
            spec_Cluster = psp_Cluster p,
            spec_Tiers = or_nil tiers,
            spec_Service = psp_Service p,
            spec_StartupProbe = startupProbe,
            spec_LivenessProbe = livenessProbe,
            spec_ReadinessProbe = readinessProbe\<rparr>)
     (pairC (sliceC strings flatC) (pairC (sliceC tierSpecs (tierSpecC K)) (pairC (ptrC externs (kc_Probe K)) (pairC (ptrC externs (kc_Probe K)) (ptrC externs (kc_Probe K))))))"

lemma copy_picoclusterDBSpecC [simp]: "cp_copy (picoclusterDBSpecC K) = DeepCopyInto_PicoclusterDBSpec K"
  by (simp add: picoclusterDBSpecC_def)

lemma deep_picoclusterDBSpecC [deep_parts]: "kube_ok K \<Longrightarrow> deep_copier (picoclusterDBSpecC K)"
  unfolding picoclusterDBSpecC_def
  by (rule deep_struct [where put = "\<lambda>p (imagePullSecrets, tiers, startupProbe, livenessProbe, readinessProbe). p\<lparr>psp_ImagePullSecrets := imagePullSecrets, psp_Tiers := tiers, psp_StartupProbe := startupProbe, psp_LivenessProbe := livenessProbe, psp_ReadinessProbe := readinessProbe\<rparr>"], (rule deep_parts | assumption)+)
    (auto simp: DeepCopyInto_PicoclusterDBSpec_def bind_assoc simp del: run_return)

definition picoclusterDBStatusC :: "'k KubeCopy \<Rightarrow> ('k cell, pPicoclusterDBStatus, PicoclusterDBStatus) copier" where
  "picoclusterDBStatusC K = structC (DeepCopyInto_PicoclusterDBStatus K)
     (\<lambda>p. (pcs_Tiers p, pcs_Conditions p))
     (\<lambda>p (tiers, conditions).
       \<lparr>cs_Phase = pcs_Phase p,
            cs_Tiers = or_nil tiers,
            cs_Conditions = or_nil conditions\<rparr>)
     (pairC (sliceC tierStatuss tierStatusC) (sliceC externs (kc_Condition K)))"

lemma copy_picoclusterDBStatusC [simp]: "cp_copy (picoclusterDBStatusC K) = DeepCopyInto_PicoclusterDBStatus K"
  by (simp add: picoclusterDBStatusC_def)

lemma deep_picoclusterDBStatusC [deep_parts]: "kube_ok K \<Longrightarrow> deep_copier (picoclusterDBStatusC K)"
  unfolding picoclusterDBStatusC_def
  by (rule deep_struct [where put = "\<lambda>p (tiers, conditions). p\<lparr>pcs_Tiers := tiers, pcs_Conditions := conditions\<rparr>"], (rule deep_parts | assumption)+)
    (auto simp: DeepCopyInto_PicoclusterDBStatus_def bind_assoc simp del: run_return)

definition picoclusterDBC :: "'k KubeCopy \<Rightarrow> ('k cell, 'k pPicoclusterDB, PicoclusterDB) copier" where
  "picoclusterDBC K = structC (DeepCopyInto_PicoclusterDB K)
     (\<lambda>p. (pcl_Meta p, pcl_Spec p, pcl_Status p))
     (\<lambda>p (meta, spec, status).
       \<lparr>cl_TypeMeta = pcl_TypeMeta p,
            cl_Meta = meta,
            cl_Spec = spec,
            cl_Status = status\<rparr>)
     (pairC (kc_ObjectMeta K) (pairC (picoclusterDBSpecC K) (picoclusterDBStatusC K)))"

lemma copy_picoclusterDBC [simp]: "cp_copy (picoclusterDBC K) = DeepCopyInto_PicoclusterDB K"
  by (simp add: picoclusterDBC_def)

lemma deep_picoclusterDBC [deep_parts]: "kube_ok K \<Longrightarrow> deep_copier (picoclusterDBC K)"
  unfolding picoclusterDBC_def
  by (rule deep_struct [where put = "\<lambda>p (meta, spec, status). p\<lparr>pcl_Meta := meta, pcl_Spec := spec, pcl_Status := status\<rparr>"], (rule deep_parts | assumption)+)
    (auto simp: DeepCopyInto_PicoclusterDB_def bind_assoc simp del: run_return)

definition picoclusterDBListC :: "'k KubeCopy \<Rightarrow> ('k cell, 'k pPicoclusterDBList, PicoclusterDBList) copier" where
  "picoclusterDBListC K = structC (DeepCopyInto_PicoclusterDBList K)
     (\<lambda>p. (pli_ListMeta p, pli_Items p))
     (\<lambda>p (listMeta, items).
       \<lparr>li_TypeMeta = pli_TypeMeta p,
            li_ListMeta = listMeta,
            li_Items = or_nil items\<rparr>)
     (pairC (kc_ListMeta K) (sliceC picoclusterDBs (picoclusterDBC K)))"

lemma copy_picoclusterDBListC [simp]: "cp_copy (picoclusterDBListC K) = DeepCopyInto_PicoclusterDBList K"
  by (simp add: picoclusterDBListC_def)

lemma deep_picoclusterDBListC [deep_parts]: "kube_ok K \<Longrightarrow> deep_copier (picoclusterDBListC K)"
  unfolding picoclusterDBListC_def
  by (rule deep_struct [where put = "\<lambda>p (listMeta, items). p\<lparr>pli_ListMeta := listMeta, pli_Items := items\<rparr>"], (rule deep_parts | assumption)+)
    (auto simp: DeepCopyInto_PicoclusterDBList_def bind_assoc simp del: run_return)

text \<open>The types whose layout does not depend on the libraries.\<close>

interpretation ingressTLS: deep_copier ingressTLSSpecC
  by (rule deep_ingressTLSSpecC)

interpretation ingress: deep_copier ingressSpecC
  by (rule deep_ingressSpecC)

interpretation log: deep_copier logSpecC
  by (rule deep_logSpecC)

interpretation plugin: deep_copier pluginSpecC
  by (rule deep_pluginSpecC)

interpretation tier_status: deep_copier tierStatusC
  by (rule deep_tierStatusC)

section \<open>DeepCopy\<close>

text \<open>\<open>DeepCopy\<close> is the copy function of the pointer to the type.\<close>

lemma DeepCopy_copies:
  "DeepCopy_ClusterSpec = cp_copy (ptrC clusterSpecs flatC)"
  "DeepCopy_ImageSpec = cp_copy (ptrC imageSpecs flatC)"
  "DeepCopy_IngressSpec = cp_copy (ptrC ingressSpecs ingressSpecC)"
  "DeepCopy_IngressTLSSpec = cp_copy (ptrC ingressTLSSpecs ingressTLSSpecC)"
  "DeepCopy_LogSpec = cp_copy (ptrC logSpecs logSpecC)"
  "DeepCopy_MemtxSpec = cp_copy (ptrC memtxSpecs flatC)"
  "DeepCopy_PgSpec = cp_copy (ptrC pgSpecs flatC)"
  "DeepCopy_PicoclusterDB K = cp_copy (ptrC picoclusterDBs (picoclusterDBC K))"
  "DeepCopy_PicoclusterDBList K = cp_copy (ptrC picoclusterDBLists (picoclusterDBListC K))"
  "DeepCopy_PicoclusterDBSpec K = cp_copy (ptrC picoclusterDBSpecs (picoclusterDBSpecC K))"
  "DeepCopy_PicoclusterDBStatus K = cp_copy (ptrC picoclusterDBStatuss (picoclusterDBStatusC K))"
  "DeepCopy_PluginServiceSpec = cp_copy (ptrC pluginServiceSpecs flatC)"
  "DeepCopy_PluginSpec = cp_copy (ptrC pluginSpecs pluginSpecC)"
  "DeepCopy_PluginStatus = cp_copy (ptrC pluginStatuss flatC)"
  "DeepCopy_SecretKeyRef = cp_copy (ptrC secretKeyRefs flatC)"
  "DeepCopy_ServiceSpec = cp_copy (ptrC serviceSpecs flatC)"
  "DeepCopy_StorageSpec K = cp_copy (ptrC storageSpecs (storageSpecC K))"
  "DeepCopy_TierSpec K = cp_copy (ptrC tierSpecs (tierSpecC K))"
  "DeepCopy_TierStatus = cp_copy (ptrC tierStatuss tierStatusC)"
  "DeepCopy_VinylSpec = cp_copy (ptrC vinylSpecs flatC)"
  by (simp_all add: fun_eq_iff DeepCopy_ClusterSpec_def
      DeepCopy_ImageSpec_def
      DeepCopy_IngressSpec_def
      DeepCopy_IngressTLSSpec_def
      DeepCopy_LogSpec_def
      DeepCopy_MemtxSpec_def
      DeepCopy_PgSpec_def
      DeepCopy_PicoclusterDB_def
      DeepCopy_PicoclusterDBList_def
      DeepCopy_PicoclusterDBSpec_def
      DeepCopy_PicoclusterDBStatus_def
      DeepCopy_PluginServiceSpec_def
      DeepCopy_PluginSpec_def
      DeepCopy_PluginStatus_def
      DeepCopy_SecretKeyRef_def
      DeepCopy_ServiceSpec_def
      DeepCopy_StorageSpec_def
      DeepCopy_TierSpec_def
      DeepCopy_TierStatus_def
      DeepCopy_VinylSpec_def)

text \<open>The value behind a pointer to a cluster or a list, and the cells that belong to it.\<close>

definition cluster_at :: "'k KubeCopy \<Rightarrow> 'k cell go_heap \<Rightarrow> address \<Rightarrow> PicoclusterDB \<Rightarrow> bool" where
  "cluster_at K h a cl \<longleftrightarrow> cp_view (ptrC picoclusterDBs (picoclusterDBC K)) h (Some a) = Some (Some cl)"

definition cluster_cells :: "'k KubeCopy \<Rightarrow> 'k cell go_heap \<Rightarrow> address \<Rightarrow> address set" where
  "cluster_cells K h a = cp_refs (ptrC picoclusterDBs (picoclusterDBC K)) h (Some a)"

lemma deep_cluster_ptr: "kube_ok K \<Longrightarrow> deep_copier (ptrC picoclusterDBs (picoclusterDBC K))"
  by (rule deep_parts | assumption)+

lemma cluster_at_iff:
  "cluster_at K h a cl \<longleftrightarrow>
     (\<exists>c. read_cell (target picoclusterDBs) h a = Some c \<and> cp_view (picoclusterDBC K) h c = Some cl)"
proof
  assume "cluster_at K h a cl"
  then obtain vs where vs: "cp_view (sliceC picoclusterDBs (picoclusterDBC K)) h (Some a) = Some vs"
      "the_one vs = Some (Some cl)"
    by (auto simp: cluster_at_def ptrC_def bind_eq_Some_conv)
  from vs(1) obtain xs ys where "read_cell (bk_view picoclusterDBs) h a = Some xs" "vs = Some ys"
      "list_all2 (\<lambda>x v. cp_view (picoclusterDBC K) h x = Some v) xs ys" by (rule sliceC_view_Some)
  with vs(2) show "\<exists>c. read_cell (target picoclusterDBs) h a = Some c \<and> cp_view (picoclusterDBC K) h c = Some cl"
    by (auto simp: the_one_def read_target list_all2_Cons2 split: list.splits)
qed (auto simp: cluster_at_def ptrC_def sliceC_Some the_one_def read_target)

lemma cluster_cells_iff:
  "read_cell (target picoclusterDBs) h a = Some c \<Longrightarrow>
   cluster_cells K h a = insert a (cp_refs (picoclusterDBC K) h c)"
  by (simp add: cluster_cells_def ptrC_def sliceC_Some read_target)

end
