(* ===== verification/Status_Patch.thy ===== *)
theory Status_Patch
  imports Deep_Copy_Correct Reconciler
begin

text \<open>
  The end of \<open>updateStatus\<close> (internal/controller/picoclusterdb_controller.go) on a heap: the patch base is
  a deep copy of the cluster, then the status of the cluster itself is overwritten in place. The two
  structs that the patch call gets read as the two values that \<open>updateStatus\<close> of \<open>Reconciler\<close> passes.
\<close>

text \<open>\<open>client.MergeFrom(base)\<close> keeps the pointer it is given; the patch is made from it and \<open>cluster\<close>.\<close>

definition statusPatch_ptr ::
  "'k KubeCopy \<Rightarrow> address \<Rightarrow> ClusterPhase \<Rightarrow> address option \<Rightarrow> 'k \<Rightarrow> ('k cell go_heap, address option \<times> address) go" where
  "statusPatch_ptr K cluster phase tiers readyCond =
     bindG (DeepCopy_PicoclusterDB K (Some cluster)) (\<lambda>base.
     bindG newG (\<lambda>conditions.
     bindG (storeG conditions (bk_make externs [readyCond])) (\<lambda>_.
     bindG (loadG (target picoclusterDBs) cluster) (\<lambda>c.
     bindG (storeG cluster (bk_make picoclusterDBs
              [c\<lparr>pcl_Status := (pcl_Status c)\<lparr>pcs_Phase := phase, pcs_Tiers := tiers,
                                             pcs_Conditions := Some conditions\<rparr>\<rparr>])) (\<lambda>_.
       returnG (base, cluster))))))"

text \<open>A cluster read through its fields.\<close>

lemma cluster_view:
  assumes "cp_view (picoclusterDBC K) h c = Some cl"
  obtains "cp_view (kc_ObjectMeta K) h (pcl_Meta c) = Some (cl_Meta cl)"
    "cp_view (picoclusterDBSpecC K) h (pcl_Spec c) = Some (cl_Spec cl)"
    "cl_TypeMeta cl = pcl_TypeMeta c"
  using assms by (auto simp: picoclusterDBC_def pairC_def split: option.splits)

lemma status_update_view:
  assumes "cp_view (kc_ObjectMeta K) h (pcl_Meta c) = Some (cl_Meta cl)"
    and "cp_view (picoclusterDBSpecC K) h (pcl_Spec c) = Some (cl_Spec cl)"
    and "cl_TypeMeta cl = pcl_TypeMeta c"
    and "cp_view (sliceC tierStatuss tierStatusC) h tiers = Some ts"
    and "cp_view (sliceC externs (kc_Condition K)) h conds = Some cds"
  shows "cp_view (picoclusterDBC K) h
      (c\<lparr>pcl_Status := (pcl_Status c)\<lparr>pcs_Phase := phase, pcs_Tiers := tiers, pcs_Conditions := conds\<rparr>\<rparr>) =
    Some (cl\<lparr>cl_Status := \<lparr>cs_Phase = phase, cs_Tiers = or_nil ts, cs_Conditions = or_nil cds\<rparr>\<rparr>)"
  using assms by (cases cl) (simp add: picoclusterDBC_def picoclusterDBStatusC_def pairC_def)

text \<open>The cells that the spec and the metadata of a cluster reach.\<close>

lemma cluster_refs:
  "cp_refs (kc_ObjectMeta K) h (pcl_Meta c) \<subseteq> cp_refs (picoclusterDBC K) h c"
  "cp_refs (picoclusterDBSpecC K) h (pcl_Spec c) \<subseteq> cp_refs (picoclusterDBC K) h c"
  by (auto simp: picoclusterDBC_def)

lemma deep_spec: "kube_ok K \<Longrightarrow> deep_copier (picoclusterDBSpecC K)"
  by (rule deep_parts | assumption)+

lemma deep_statuses: "deep_copier (sliceC tierStatuss tierStatusC)"
  by (rule deep_parts)+

text \<open>Overwriting the status in place, with fresh conditions, in a heap where nothing points at the struct.\<close>

lemma status_written:
  assumes K: "kube_ok K" and ok: "cells_ok h"
    and c: "read_cell (target picoclusterDBs) h a = Some c" "cp_view (picoclusterDBC K) h c = Some cl"
    and ts: "cp_view (sliceC tierStatuss tierStatusC) h tiers = Some ts"
    and cd: "cp_view (kc_Condition K) h cond = Some cd"
    and apart: "a \<notin> cp_refs (picoclusterDBC K) h c" "a \<notin> cp_refs (sliceC tierStatuss tierStatusC) h tiers"
      "a \<notin> cp_refs (kc_Condition K) h cond"
    and h': "hp_cells h' b = Some (bk_make externs [cond])" "b \<notin> dom (hp_cells h)" "a \<noteq> b"
      "\<And>x. x \<noteq> a \<Longrightarrow> x \<noteq> b \<Longrightarrow> hp_cells h' x = hp_cells h x"
      "hp_cells h' a = Some (bk_make picoclusterDBs
         [c\<lparr>pcl_Status := (pcl_Status c)\<lparr>pcs_Phase := phase, pcs_Tiers := tiers, pcs_Conditions := Some b\<rparr>\<rparr>])"
  shows "cluster_at K h' a (cl\<lparr>cl_Status := \<lparr>cs_Phase = phase, cs_Tiers = or_nil ts, cs_Conditions = [cd]\<rparr>\<rparr>)"
proof -
  have same: "cp_view d h' x = cp_view d h x"
    if "deep_copier d" "cp_view d h x = Some v" "a \<notin> cp_refs d h x" for d :: "('a cell, 'x, 'v) copier" and x v
  proof -
    have "\<forall>r \<in> cp_refs d h x. hp_cells h' r = hp_cells h r"
      using deep_copier.closed [OF that(1,2)] that(3) h'(2,4) by (metis subsetD)
    then show ?thesis using deep_copier.local [OF that(1)] by blast
  qed
  from c(2) have f: "cp_view (kc_ObjectMeta K) h (pcl_Meta c) = Some (cl_Meta cl)"
      "cp_view (picoclusterDBSpecC K) h (pcl_Spec c) = Some (cl_Spec cl)" "cl_TypeMeta cl = pcl_TypeMeta c"
    by (auto elim: cluster_view)
  have "cp_view (kc_ObjectMeta K) h' (pcl_Meta c) = Some (cl_Meta cl)"
    using same [OF kube_okD(1) [OF K] f(1)] f(1) apart(1) cluster_refs(1) [of K h c] by auto
  moreover have "cp_view (picoclusterDBSpecC K) h' (pcl_Spec c) = Some (cl_Spec cl)"
    using same [OF deep_spec [OF K] f(2)] f(2) apart(1) cluster_refs(2) [of K h c] by auto
  moreover have "cp_view (sliceC tierStatuss tierStatusC) h' tiers = Some ts"
    using same [OF deep_statuses ts apart(2)] ts by simp
  moreover have "read_cell (bk_view externs) h' b = Some [cond]"
    using h'(1) by (rule externs.read_make)
  then have "cp_view (sliceC externs (kc_Condition K)) h' (Some b) = Some (Some [cd])"
    using same [OF kube_okD(3) [OF K] cd apart(3)] cd by (simp add: sliceC_Some)
  ultimately have "cp_view (picoclusterDBC K) h'
      (c\<lparr>pcl_Status := (pcl_Status c)\<lparr>pcs_Phase := phase, pcs_Tiers := tiers, pcs_Conditions := Some b\<rparr>\<rparr>) =
    Some (cl\<lparr>cl_Status := \<lparr>cs_Phase = phase, cs_Tiers = or_nil ts, cs_Conditions = or_nil (Some [cd])\<rparr>\<rparr>)"
    using f(3) by (intro status_update_view)
  then show ?thesis
    unfolding cluster_at_iff read_target using picoclusterDBs.read_make [OF h'(5)] by (auto simp: or_nil_def)
qed

lemma statusPatch_views:
  assumes K: "kube_ok K" and ok: "cells_ok h"
    and c: "read_cell (target picoclusterDBs) h a = Some c" "cp_view (picoclusterDBC K) h c = Some cl"
    and ts: "cp_view (sliceC tierStatuss tierStatusC) h tiers = Some ts"
    and cd: "cp_view (kc_Condition K) h cond = Some cd"
    and apart: "a \<notin> cp_refs (picoclusterDBC K) h c" "a \<notin> cp_refs (sliceC tierStatuss tierStatusC) h tiers"
      "a \<notin> cp_refs (kc_Condition K) h cond"
  shows "\<exists>b h'. statusPatch_ptr K a phase tiers cond h = Some (Ok (Some b, a), h') \<and> b \<noteq> a \<and>
    cluster_at K h' b cl \<and>
    cluster_at K h' a (cl\<lparr>cl_Status := \<lparr>cs_Phase = phase, cs_Tiers = or_nil ts, cs_Conditions = [cd]\<rparr>\<rparr>)"
proof -
  let ?P = "ptrC picoclusterDBs (picoclusterDBC K)"
  have a: "a < hp_next h" using read_cell_dom [OF c(1)] ok by (auto simp: cells_ok_def)
  have at: "cp_view ?P h (Some a) = Some (Some cl)"
    using c cluster_at_iff [of K h a cl] by (auto simp: cluster_at_def)
  obtain q h1 where q: "cp_copy ?P (Some a) h = Some (Ok q, h1)" "cells_ok h1" "extends h h1"
      "cp_view ?P h1 q = Some (Some cl)" "\<forall>r \<in> cp_refs ?P h1 q. hp_next h \<le> r"
    using deep_copier.copies [OF deep_cluster_ptr [OF K] ok at] by blast
  then obtain b where b: "q = Some b" by (cases q) (simp_all add: ptrC_def the_one_def)
  let ?d = "hp_next h1"
  let ?c' = "c\<lparr>pcl_Status := (pcl_Status c)\<lparr>pcs_Phase := phase, pcs_Tiers := tiers, pcs_Conditions := Some ?d\<rparr>\<rparr>"
  let ?h3 = "h1\<lparr>hp_next := Suc ?d, hp_cells := (hp_cells h1)(?d \<mapsto> bk_make externs [cond])\<rparr>"
  let ?h' = "?h3\<lparr>hp_cells := (hp_cells ?h3)(a \<mapsto> bk_make picoclusterDBs [?c'])\<rparr>"
  have d: "?d \<notin> dom (hp_cells h1)" "?d \<noteq> a" using reserved_free [OF q(2)] a extends_next [OF q(3)] by auto
  note K' = deep_copier.kept [OF _ ok _ q(3)]
  have c1: "read_cell (target picoclusterDBs) h1 a = Some c" "read_cell (target picoclusterDBs) ?h3 a = Some c"
    using c(1) q(3) a d(2) by (auto simp: read_cell_def extends_def)
  have deepC: "deep_copier (picoclusterDBC K)" by (rule deep_picoclusterDBC [OF K])
  have run: "statusPatch_ptr K a phase tiers cond h = Some (Ok (Some b, a), ?h')"
    using q(1) b loadG_run [OF c1(2)]
    by (simp add: statusPatch_ptr_def DeepCopy_copies newG_run storeG_run)
  have "cluster_at K ?h' a (cl\<lparr>cl_Status := \<lparr>cs_Phase = phase, cs_Tiers = or_nil ts, cs_Conditions = [cd]\<rparr>\<rparr>)"
    using apart d K'(2) [OF deepC c(2)] K'(2) [OF deep_statuses ts] K'(2) [OF kube_okD(3) [OF K] cd]
    by (intro status_written [OF K q(2) c1(1) K'(1) [OF deepC c(2)] K'(1) [OF deep_statuses ts]
          K'(1) [OF kube_okD(3) [OF K] cd], where b = ?d]) auto
  moreover have "cluster_at K ?h' b cl"
  proof -
    have "\<forall>r \<in> cp_refs ?P h1 q. hp_cells ?h' r = hp_cells h1 r"
      using q(5) a d(1) deep_copier.closed [OF deep_cluster_ptr [OF K] q(4)] by fastforce
    from deep_copier.local [OF deep_cluster_ptr [OF K] this] q(4) b show ?thesis by (simp add: cluster_at_def)
  qed
  moreover have "b \<noteq> a"
    using q(4,5) a b by (auto simp: ptrC_def sliceC_def split: option.splits)
  ultimately show ?thesis using run by blast
qed

end
