(* ===== verification/Heap_World.thy ===== *)
theory Heap_World
  imports Deep_Copy_Correct Samples
begin

text \<open>
  A concrete layout for the library types and a concrete heap with a cluster on it: the record
  \<open>plainKube\<close> keeps every library value in place except an affinity, which lies behind a pointer, and
  satisfies the contract \<open>kube_ok\<close>; \<open>sampleHeap\<close> holds the cluster \<open>heapCluster\<close> at address 0.
\<close>

datatype kube_value =
    KMeta ObjectMeta
  | KListMeta ListMeta
  | KCondition Condition
  | KQuantity Quantity
  | KResources ResourceRequirements
  | KProbe Probe
  | KEnvVar EnvVar
  | KToleration Toleration
  | KSpread TopologySpreadConstraint
  | KSecurity PodSecurityContext
  | KAffinity Affinity
  | KPointer "address option"

definition plainC :: "('k \<Rightarrow> 'v option) \<Rightarrow> ('c, 'k, 'v) copier" where
  "plainC prj = viewed returnG prj flatC"

lemma deep_plainC: "deep_copier (plainC prj)"
  unfolding plainC_def by (rule deep_viewed) auto

definition pointer_of :: "kube_value \<Rightarrow> address option" where
  "pointer_of x = (case x of KPointer p \<Rightarrow> p | _ \<Rightarrow> None)"

definition behind :: "(kube_value \<Rightarrow> 'v option) \<Rightarrow> (kube_value cell, kube_value, 'v) copier" where
  "behind prj =
     viewed (\<lambda>x. bindG (copyPtr externs returnG (pointer_of x)) (\<lambda>q. returnG (KPointer q))) (\<lambda>v. v)
       (structC (\<lambda>x. bindG (copyPtr externs returnG (pointer_of x)) (\<lambda>q. returnG (KPointer q)))
          pointer_of (\<lambda>x v. v) (ptrC externs (plainC prj)))"

lemma deep_behind: "deep_copier (behind prj)"
proof -
  have "deep_copier (ptrC externs (plainC prj) :: (kube_value cell, _, _) copier)"
    by (rule deep_ptr [OF externs.block_kind_axioms deep_plainC])
  then have "deep_copier (structC (\<lambda>x. bindG (copyPtr externs returnG (pointer_of x)) (\<lambda>q. returnG (KPointer q)))
      pointer_of (\<lambda>x v. v) (ptrC externs (plainC prj)))"
    by (rule deep_struct [where put = "\<lambda>x q. KPointer q"]) (simp_all add: pointer_of_def plainC_def del: run_return)
  then show ?thesis unfolding behind_def by (rule deep_viewed) simp
qed

definition plainKube :: "kube_value KubeCopy" where
  "plainKube =
     \<lparr>kc_ObjectMeta = plainC (\<lambda>x. case x of KMeta v \<Rightarrow> Some v | _ \<Rightarrow> None),
      kc_ListMeta = plainC (\<lambda>x. case x of KListMeta v \<Rightarrow> Some v | _ \<Rightarrow> None),
      kc_Condition = plainC (\<lambda>x. case x of KCondition v \<Rightarrow> Some v | _ \<Rightarrow> None),
      kc_Quantity = plainC (\<lambda>x. case x of KQuantity v \<Rightarrow> Some v | _ \<Rightarrow> None),
      kc_ResourceRequirements = plainC (\<lambda>x. case x of KResources v \<Rightarrow> Some v | _ \<Rightarrow> None),
      kc_Probe = plainC (\<lambda>x. case x of KProbe v \<Rightarrow> Some v | _ \<Rightarrow> None),
      kc_EnvVar = plainC (\<lambda>x. case x of KEnvVar v \<Rightarrow> Some v | _ \<Rightarrow> None),
      kc_Affinity = behind (\<lambda>x. case x of KAffinity v \<Rightarrow> Some v | _ \<Rightarrow> None),
      kc_Toleration = plainC (\<lambda>x. case x of KToleration v \<Rightarrow> Some v | _ \<Rightarrow> None),
      kc_TopologySpreadConstraint = plainC (\<lambda>x. case x of KSpread v \<Rightarrow> Some v | _ \<Rightarrow> None),
      kc_PodSecurityContext = plainC (\<lambda>x. case x of KSecurity v \<Rightarrow> Some v | _ \<Rightarrow> None)\<rparr>"

lemma plainKube_ok: "kube_ok plainKube"
  by (simp add: kube_ok_def plainKube_def deep_plainC deep_behind)

definition heapAffinity :: Affinity where
  "heapAffinity = \<lparr>af_NodeAffinity = Some (NodeAffinity ''ssd''), af_PodAffinity = None, af_PodAntiAffinity = None\<rparr>"

text \<open>The router tier with a plugin and an affinity, in a cluster that knows one pull secret.\<close>

definition heapCluster :: PicoclusterDB where
  "heapCluster = sampleCluster\<lparr>cl_Spec := (cl_Spec sampleCluster)
     \<lparr>spec_ImagePullSecrets := [''registry''],
      spec_Tiers := [routerTier\<lparr>tier_Plugins := [samplePlugin], tier_Affinity := Some heapAffinity\<rparr>],
      spec_StartupProbe := None, spec_LivenessProbe := None, spec_ReadinessProbe := None\<rparr>\<rparr>"

definition heapTier :: "kube_value pTierSpec" where
  "heapTier =
     \<lparr>pti_Name = tier_Name routerTier, pti_Replicas = tier_Replicas routerTier,
      pti_ReplicationFactor = tier_ReplicationFactor routerTier, pti_CanVote = tier_CanVote routerTier,
      pti_Storage = \<lparr>psg_Size = KQuantity (Quantity ''0''), psg_StorageClassName = None\<rparr>,
      pti_Memtx = tier_Memtx routerTier, pti_Vinyl = tier_Vinyl routerTier, pti_Pg = tier_Pg routerTier,
      pti_Log = \<lparr>plg_Level = '''', plg_Format = '''', plg_Destination = None\<rparr>,
      pti_Resources = KResources (ResourceRequirements ''''), pti_ShareDir = '''', pti_Plugins = Some 2,
      pti_Env = None, pti_Affinity = Some 3, pti_Tolerations = None, pti_NodeSelector = None,
      pti_TopologySpreadConstraints = None, pti_SecurityContext = None, pti_Ingress = None,
      pti_DisableAutoAntiAffinity = False\<rparr>"

definition heapStruct :: "kube_value pPicoclusterDB" where
  "heapStruct =
     \<lparr>pcl_TypeMeta = cl_TypeMeta sampleCluster, pcl_Meta = KMeta (cl_Meta sampleCluster),
      pcl_Spec = \<lparr>psp_Image = spec_Image (cl_Spec sampleCluster), psp_ImagePullSecrets = Some 5,
        psp_ClusterName = spec_ClusterName (cl_Spec sampleCluster),
        psp_AdminPassword = spec_AdminPassword (cl_Spec sampleCluster),
        psp_Cluster = spec_Cluster (cl_Spec sampleCluster), psp_Tiers = Some 1,
        psp_Service = spec_Service (cl_Spec sampleCluster), psp_StartupProbe = None,
        psp_LivenessProbe = None, psp_ReadinessProbe = None\<rparr>,
      pcl_Status = \<lparr>pcs_Phase = PhaseUnset, pcs_Tiers = None, pcs_Conditions = None\<rparr>\<rparr>"

definition heapTierStatus :: TierStatus where
  "heapTierStatus = \<lparr>tt_Name = ''router'', tt_ReadyReplicas = 1, tt_DesiredReplicas = 1, tt_Plugins = []\<rparr>"

definition heapCells :: "(address \<times> kube_value cell) list" where
  "heapCells =
     [(0, bk_make picoclusterDBs [heapStruct]),
      (1, bk_make tierSpecs [heapTier]),
      (2, bk_make pluginSpecs [\<lparr>ppl_Name = ''radix'', ppl_Version = ''0.9.0'',
            ppl_MigrationContext = Some 6, ppl_Services = Some 7\<rparr>]),
      (3, bk_make externs [KPointer (Some 4)]),
      (4, bk_make externs [KAffinity heapAffinity]),
      (5, bk_make strings [''registry'']),
      (6, bk_make entries [(''tier_for_db_0'', ''storage'')]),
      (7, bk_make pluginServiceSpecs [sampleService]),
      (8, bk_make tierStatuss [\<lparr>ptt_Name = ''router'', ptt_ReadyReplicas = 1, ptt_DesiredReplicas = 1,
            ptt_Plugins = None\<rparr>])]"

definition sampleHeap :: "kube_value cell go_heap" where
  "sampleHeap = \<lparr>hp_next = 9, hp_cells = map_of heapCells\<rparr>"

lemma sampleHeap_ok: "cells_ok sampleHeap"
  by (auto simp: cells_ok_def sampleHeap_def heapCells_def split: if_splits)

lemma sampleHeap_reads:
  "read_cell (bk_view picoclusterDBs) sampleHeap 0 = Some [heapStruct]"
  "read_cell (bk_view tierSpecs) sampleHeap 1 = Some [heapTier]"
  "read_cell (bk_view pluginSpecs) sampleHeap 2 = Some [\<lparr>ppl_Name = ''radix'', ppl_Version = ''0.9.0'',
     ppl_MigrationContext = Some 6, ppl_Services = Some 7\<rparr>]"
  "read_cell (bk_view externs) sampleHeap 3 = Some [KPointer (Some 4)]"
  "read_cell (bk_view externs) sampleHeap 4 = Some [KAffinity heapAffinity]"
  "read_cell (bk_view strings) sampleHeap 5 = Some [''registry'']"
  "read_cell (bk_view entries) sampleHeap 6 = Some [(''tier_for_db_0'', ''storage'')]"
  "read_cell (bk_view pluginServiceSpecs) sampleHeap 7 = Some [sampleService]"
  "read_cell (bk_view tierStatuss) sampleHeap 8 = Some [\<lparr>ptt_Name = ''router'', ptt_ReadyReplicas = 1,
     ptt_DesiredReplicas = 1, ptt_Plugins = None\<rparr>]"
  by (simp_all add: read_cell_def sampleHeap_def heapCells_def)

lemma heapTier_view:
  "cp_view (tierSpecC plainKube) sampleHeap heapTier =
     Some (routerTier\<lparr>tier_Plugins := [samplePlugin], tier_Affinity := Some heapAffinity\<rparr>)"
  by (simp add: tierSpecC_def storageSpecC_def logSpecC_def pluginSpecC_def ptrC_def mapC_def pairC_def
      sliceC_Some sampleHeap_reads plainKube_def plainC_def behind_def pointer_of_def heapTier_def
      the_one_def as_map_def or_nil_def sample_defs)

lemma sampleHeap_tiers:
  "cp_view (sliceC tierSpecs (tierSpecC plainKube)) sampleHeap (Some 1) =
     Some (Some [routerTier\<lparr>tier_Plugins := [samplePlugin], tier_Affinity := Some heapAffinity\<rparr>])"
  using heapTier_view sampleHeap_reads(2) by (simp add: sliceC_Some del: One_nat_def)

lemma plainKube_meta: "cp_view (kc_ObjectMeta plainKube) h (KMeta m) = Some m"
  by (simp add: plainKube_def plainC_def)

lemma sampleHeap_struct: "cp_view (picoclusterDBC plainKube) sampleHeap heapStruct = Some heapCluster"
  using sampleHeap_tiers
  by (simp add: sampleHeap_reads picoclusterDBC_def picoclusterDBSpecC_def plainKube_meta
      picoclusterDBStatusC_def pairC_def ptrC_def the_one_def sliceC_Some [OF sampleHeap_reads(6)]
      heapStruct_def heapCluster_def or_nil_def sampleCluster_def sampleSpec_def del: One_nat_def)

lemma sampleHeap_cluster: "cluster_at plainKube sampleHeap 0 heapCluster"
  using sampleHeap_struct sampleHeap_reads(1) by (auto simp: cluster_at_iff read_target)

end
