(* ===== verification/Copy_Properties.thy ===== *)
theory Copy_Properties
  imports Status_Patch Heap_World
begin

text \<open>
  The properties of the generated deep copies and of their one use on the operator's own type, the
  status patch. Each property is followed by an instance on the heap of \<open>Heap_World\<close>.
\<close>

text \<open>
  What \<open>DeepCopy\<close> should do for pointers of some type: return, change no cell that was there, give a
  pointer that reads as the same value, and keep it readable as that value whatever happens to the
  cells that were there before.
\<close>

definition copies_deeply ::
  "(address option \<Rightarrow> ('c go_heap, address option) go) \<Rightarrow> ('c, address option, 'v) copier \<Rightarrow> bool" where
  "copies_deeply copy c \<longleftrightarrow>
     (\<forall>h p v. cells_ok h \<and> cp_view c h p = Some v \<longrightarrow>
        (\<exists>q h'. copy p h = Some (Ok q, h') \<and> extends h h' \<and> cp_view c h' p = Some v \<and>
           cp_refs c h' p \<inter> cp_refs c h' q = {} \<and>
           (\<forall>h''. (\<forall>r \<ge> hp_next h. hp_cells h'' r = hp_cells h' r) \<longrightarrow> cp_view c h'' q = Some v)))"

lemma deep_copies_deeply: "deep_copier c \<Longrightarrow> copies_deeply (cp_copy c) c"
  unfolding copies_deeply_def
proof (intro allI impI)
  fix h p v
  assume c: "deep_copier c" and "cells_ok h \<and> cp_view c h p = Some v"
  then have "cells_ok h" "cp_view c h p = Some v" by simp_all
  from deep_copier.isolated [OF c this]
  show "\<exists>q h'. cp_copy c p h = Some (Ok q, h') \<and> extends h h' \<and> cp_view c h' p = Some v \<and>
      cp_refs c h' p \<inter> cp_refs c h' q = {} \<and>
      (\<forall>h''. (\<forall>r \<ge> hp_next h. hp_cells h'' r = hp_cells h' r) \<longrightarrow> cp_view c h'' q = Some v)" .
qed

text \<open>C11: Each of the twenty generated DeepCopy functions returns a copy that reads as the same value and
  shares no cell with the original, leaves the original as it was, and the copy stays what it is under
  any later write to the old cells, given that the library's own deep copies do so.\<close>

theorem every_type_copies_deeply:
  assumes "kube_ok K"
  shows "copies_deeply DeepCopy_ClusterSpec (ptrC clusterSpecs flatC) \<and>
    copies_deeply DeepCopy_ImageSpec (ptrC imageSpecs flatC) \<and>
    copies_deeply DeepCopy_IngressSpec (ptrC ingressSpecs ingressSpecC) \<and>
    copies_deeply DeepCopy_IngressTLSSpec (ptrC ingressTLSSpecs ingressTLSSpecC) \<and>
    copies_deeply DeepCopy_LogSpec (ptrC logSpecs logSpecC) \<and>
    copies_deeply DeepCopy_MemtxSpec (ptrC memtxSpecs flatC) \<and>
    copies_deeply DeepCopy_PgSpec (ptrC pgSpecs flatC) \<and>
    copies_deeply (DeepCopy_PicoclusterDB K) (ptrC picoclusterDBs (picoclusterDBC K)) \<and>
    copies_deeply (DeepCopy_PicoclusterDBList K) (ptrC picoclusterDBLists (picoclusterDBListC K)) \<and>
    copies_deeply (DeepCopy_PicoclusterDBSpec K) (ptrC picoclusterDBSpecs (picoclusterDBSpecC K)) \<and>
    copies_deeply (DeepCopy_PicoclusterDBStatus K) (ptrC picoclusterDBStatuss (picoclusterDBStatusC K)) \<and>
    copies_deeply DeepCopy_PluginServiceSpec (ptrC pluginServiceSpecs flatC) \<and>
    copies_deeply DeepCopy_PluginSpec (ptrC pluginSpecs pluginSpecC) \<and>
    copies_deeply DeepCopy_PluginStatus (ptrC pluginStatuss flatC) \<and>
    copies_deeply DeepCopy_SecretKeyRef (ptrC secretKeyRefs flatC) \<and>
    copies_deeply DeepCopy_ServiceSpec (ptrC serviceSpecs flatC) \<and>
    copies_deeply (DeepCopy_StorageSpec K) (ptrC storageSpecs (storageSpecC K)) \<and>
    copies_deeply (DeepCopy_TierSpec K) (ptrC tierSpecs (tierSpecC K)) \<and>
    copies_deeply DeepCopy_TierStatus (ptrC tierStatuss tierStatusC) \<and>
    copies_deeply DeepCopy_VinylSpec (ptrC vinylSpecs flatC)"
  unfolding DeepCopy_copies
  by (intro conjI deep_copies_deeply) (rule deep_parts assms | assumption)+

theorem every_type_copies_deeply_witness:
  "\<exists>q h'. DeepCopy_TierSpec plainKube (Some 1) sampleHeap = Some (Ok q, h') \<and> q \<noteq> Some 1 \<and>
     cp_view (ptrC tierSpecs (tierSpecC plainKube)) h' q =
       Some (Some (routerTier\<lparr>tier_Plugins := [samplePlugin], tier_Affinity := Some heapAffinity\<rparr>))"
proof -
  have view: "cp_view (ptrC tierSpecs (tierSpecC plainKube)) sampleHeap (Some 1) =
      Some (Some (routerTier\<lparr>tier_Plugins := [samplePlugin], tier_Affinity := Some heapAffinity\<rparr>))"
    using sampleHeap_tiers by (simp add: ptrC_def the_one_def del: One_nat_def)
  have "copies_deeply (DeepCopy_TierSpec plainKube) (ptrC tierSpecs (tierSpecC plainKube))"
    using every_type_copies_deeply [OF plainKube_ok] by blast
  with view sampleHeap_ok obtain q h' where q:
      "DeepCopy_TierSpec plainKube (Some 1) sampleHeap = Some (Ok q, h')"
      "cp_refs (ptrC tierSpecs (tierSpecC plainKube)) h' (Some 1) \<inter>
         cp_refs (ptrC tierSpecs (tierSpecC plainKube)) h' q = {}"
      "cp_view (ptrC tierSpecs (tierSpecC plainKube)) h' q =
       Some (Some (routerTier\<lparr>tier_Plugins := [samplePlugin], tier_Affinity := Some heapAffinity\<rparr>))"
    unfolding copies_deeply_def by blast
  moreover from q(2) have "q \<noteq> Some 1" by (auto simp: ptrC_def sliceC_def)
  ultimately show ?thesis by blast
qed

section \<open>Nil\<close>

lemma nil_kept:
  "copyPtr bk into p h = Some (Ok q, h') \<Longrightarrow> q = None \<longleftrightarrow> p = None"
  "copySlice bk into p h = Some (Ok q, h') \<Longrightarrow> q = None \<longleftrightarrow> p = None"
  "copyMap em p h2 = Some (Ok q, h3) \<Longrightarrow> q = None \<longleftrightarrow> p = None"
  by (auto simp: copyPtr_def copySlice_def copyMap_def bind_Ok_iff split: option.splits)

lemma tier_nil_kept:
  assumes "DeepCopyInto_TierSpec K t h = Some (Ok u, h')"
  shows "(pti_Plugins u = None \<longleftrightarrow> pti_Plugins t = None) \<and> (pti_Env u = None \<longleftrightarrow> pti_Env t = None) \<and>
    (pti_Affinity u = None \<longleftrightarrow> pti_Affinity t = None) \<and> (pti_Tolerations u = None \<longleftrightarrow> pti_Tolerations t = None) \<and>
    (pti_NodeSelector u = None \<longleftrightarrow> pti_NodeSelector t = None) \<and>
    (pti_TopologySpreadConstraints u = None \<longleftrightarrow> pti_TopologySpreadConstraints t = None) \<and>
    (pti_SecurityContext u = None \<longleftrightarrow> pti_SecurityContext t = None) \<and> (pti_Ingress u = None \<longleftrightarrow> pti_Ingress t = None)"
  using assms by (clarsimp simp: DeepCopyInto_TierSpec_def bind_Ok_iff) (intro conjI; erule nil_kept)

lemma spec_nil_kept:
  assumes "DeepCopyInto_PicoclusterDBSpec K s h = Some (Ok u, h')"
  shows "(psp_ImagePullSecrets u = None \<longleftrightarrow> psp_ImagePullSecrets s = None) \<and> (psp_Tiers u = None \<longleftrightarrow> psp_Tiers s = None) \<and>
    (psp_StartupProbe u = None \<longleftrightarrow> psp_StartupProbe s = None) \<and>
    (psp_LivenessProbe u = None \<longleftrightarrow> psp_LivenessProbe s = None) \<and>
    (psp_ReadinessProbe u = None \<longleftrightarrow> psp_ReadinessProbe s = None)"
  using assms by (clarsimp simp: DeepCopyInto_PicoclusterDBSpec_def bind_Ok_iff) (intro conjI; erule nil_kept)

lemma object_of_pointer:
  assumes "DeepCopyObject_PicoclusterDB K (Some p) h = Some (Ok ob, h')"
  shows "\<exists>q. ob = OfPicoclusterDB (Some q)"
proof -
  from assms obtain q h1 where "DeepCopy_PicoclusterDB K (Some p) h = Some (Ok q, h1)"
      "ob = (if q \<noteq> None then OfPicoclusterDB q else NilObject)"
    by (auto simp: DeepCopyObject_PicoclusterDB_def bind_Ok_iff)
  then show ?thesis using nil_kept(1) [of _ _ "Some p" h q h1] by (auto simp: DeepCopy_PicoclusterDB_def)
qed

lemma object_of_nil:
  "DeepCopyObject_PicoclusterDB K None h = Some (Ok NilObject, h)"
  "DeepCopyObject_PicoclusterDBList K None h = Some (Ok NilObject, h)"
  by (simp_all add: DeepCopyObject_PicoclusterDB_def DeepCopyObject_PicoclusterDBList_def
      DeepCopy_PicoclusterDB_def DeepCopy_PicoclusterDBList_def copyPtr_def)

text \<open>DeepCopyObject of a nil pointer is the nil interface and not an interface that holds a nil
  pointer, and in every copy of a tier or of a cluster's spec the optional fields, slices and maps that
  were nil are nil and no others.\<close>

lemma nil_stays_nil:
  "DeepCopyObject_PicoclusterDB K None h = Some (Ok NilObject, h) \<and>
   DeepCopyObject_PicoclusterDBList K None h = Some (Ok NilObject, h) \<and>
   (\<forall>p ob h'. DeepCopyObject_PicoclusterDB K (Some p) h = Some (Ok ob, h') \<longrightarrow>
      (\<exists>q. ob = OfPicoclusterDB (Some q))) \<and>
   (\<forall>t u h'. DeepCopyInto_TierSpec K t h = Some (Ok u, h') \<longrightarrow>
      (pti_Plugins u = None \<longleftrightarrow> pti_Plugins t = None) \<and> (pti_Env u = None \<longleftrightarrow> pti_Env t = None) \<and>
      (pti_Affinity u = None \<longleftrightarrow> pti_Affinity t = None) \<and>
      (pti_Tolerations u = None \<longleftrightarrow> pti_Tolerations t = None) \<and>
      (pti_NodeSelector u = None \<longleftrightarrow> pti_NodeSelector t = None) \<and>
      (pti_TopologySpreadConstraints u = None \<longleftrightarrow> pti_TopologySpreadConstraints t = None) \<and>
      (pti_SecurityContext u = None \<longleftrightarrow> pti_SecurityContext t = None) \<and>
      (pti_Ingress u = None \<longleftrightarrow> pti_Ingress t = None)) \<and>
   (\<forall>s u h'. DeepCopyInto_PicoclusterDBSpec K s h = Some (Ok u, h') \<longrightarrow>
      (psp_ImagePullSecrets u = None \<longleftrightarrow> psp_ImagePullSecrets s = None) \<and>
      (psp_Tiers u = None \<longleftrightarrow> psp_Tiers s = None) \<and>
      (psp_StartupProbe u = None \<longleftrightarrow> psp_StartupProbe s = None) \<and>
      (psp_LivenessProbe u = None \<longleftrightarrow> psp_LivenessProbe s = None) \<and>
      (psp_ReadinessProbe u = None \<longleftrightarrow> psp_ReadinessProbe s = None))"
  using object_of_nil object_of_pointer tier_nil_kept spec_nil_kept by meson

lemma nil_stays_nil_witness:
  "DeepCopyObject_PicoclusterDB plainKube None sampleHeap = Some (Ok NilObject, sampleHeap) \<and>
   (\<exists>q h'. DeepCopyObject_PicoclusterDB plainKube (Some 0) sampleHeap = Some (Ok (OfPicoclusterDB (Some q)), h'))"
proof -
  have view: "cp_view (ptrC picoclusterDBs (picoclusterDBC plainKube)) sampleHeap (Some 0) = Some (Some heapCluster)"
    using sampleHeap_cluster by (simp add: cluster_at_def)
  obtain q h' where "DeepCopy_PicoclusterDB plainKube (Some 0) sampleHeap = Some (Ok q, h')"
    using deep_copier.copies [OF deep_cluster_ptr [OF plainKube_ok] sampleHeap_ok view]
    by (auto simp: DeepCopy_copies)
  then have "DeepCopyObject_PicoclusterDB plainKube (Some 0) sampleHeap =
      Some (Ok (if q \<noteq> None then OfPicoclusterDB q else NilObject), h')"
    by (simp add: DeepCopyObject_PicoclusterDB_def)
  with nil_stays_nil [of plainKube sampleHeap] show ?thesis by metis
qed

section \<open>The status patch\<close>

text \<open>C12: The patch that updateStatus makes on the heap is the one of the value model. Its base is a separate
  struct that still reads as the cluster before the status was overwritten, and the cluster itself reads
  as the same cluster with the new status, when the cluster's struct is not part of what it points to.\<close>

theorem status_patch_refines:
  assumes "kube_ok K" and "cells_ok h"
    and "read_cell (target picoclusterDBs) h a = Some c" and "cp_view (picoclusterDBC K) h c = Some cl"
    and "cp_view (sliceC tierStatuss tierStatusC) h tiers = Some (Some ts)"
    and "cp_view (kc_Condition K) h cond = Some (readyCondition (cs_Conditions (cl_Status cl)) (length ts) allReady now)"
    and "a \<notin> cp_refs (picoclusterDBC K) h c" and "a \<notin> cp_refs (sliceC tierStatuss tierStatusC) h tiers"
    and "a \<notin> cp_refs (kc_Condition K) h cond"
  shows "\<exists>b h'. statusPatch_ptr K a (if allReady then ClusterPhaseReady else ClusterPhaseInitializing) tiers cond h =
      Some (Ok (Some b, a), h') \<and> b \<noteq> a \<and>
    cluster_at K h' b cl \<and> cluster_at K h' a (cl\<lparr>cl_Status := newStatus cl ts allReady now\<rparr>)"
  using statusPatch_views [OF assms] by (simp add: newStatus_def or_nil_def)

lemma heapTier_refs:
  "cp_refs (tierSpecC plainKube) sampleHeap heapTier = {2, 6, 7, 3, 4}"
  by (simp add: tierSpecC_def storageSpecC_def logSpecC_def pluginSpecC_def ptrC_def mapC_def
      sliceC_Some sampleHeap_reads plainKube_def plainC_def behind_def pointer_of_def heapTier_def) auto

lemma heapStruct_refs: "0 \<notin> cp_refs (picoclusterDBC plainKube) sampleHeap heapStruct"
proof -
  have "cp_refs (sliceC tierSpecs (tierSpecC plainKube)) sampleHeap (Some 1) = {1, 2, 6, 7, 3, 4}"
    using heapTier_refs sampleHeap_reads(2) by (simp add: sliceC_Some del: One_nat_def)
  then show ?thesis
    by (simp add: picoclusterDBC_def picoclusterDBSpecC_def picoclusterDBStatusC_def ptrC_def
        sliceC_Some [OF sampleHeap_reads(6)] heapStruct_def plainKube_def plainC_def del: One_nat_def)
qed

theorem status_patch_refines_witness:
  "\<exists>b h'. statusPatch_ptr plainKube 0 ClusterPhaseReady (Some 8)
       (KCondition (readyCondition [] 1 True 7)) sampleHeap = Some (Ok (Some b, 0), h') \<and>
     cluster_at plainKube h' b heapCluster \<and>
     cluster_at plainKube h' 0 (heapCluster\<lparr>cl_Status := newStatus heapCluster [heapTierStatus] True 7\<rparr>)"
proof -
  have cl: "cs_Conditions (cl_Status heapCluster) = []" by (simp add: heapCluster_def sampleCluster_def)
  have c: "read_cell (target picoclusterDBs) sampleHeap 0 = Some heapStruct"
    by (simp add: read_target sampleHeap_reads)
  have ts: "cp_view (sliceC tierStatuss tierStatusC) sampleHeap (Some 8) = Some (Some [heapTierStatus])"
      "0 \<notin> cp_refs (sliceC tierStatuss tierStatusC) sampleHeap (Some 8)"
    by (simp_all add: sliceC_Some sampleHeap_reads tierStatusC_def or_nil_def heapTierStatus_def)
  have cd: "cp_view (kc_Condition plainKube) sampleHeap
        (KCondition (readyCondition (cs_Conditions (cl_Status heapCluster)) (length [heapTierStatus]) True 7)) =
      Some (readyCondition (cs_Conditions (cl_Status heapCluster)) (length [heapTierStatus]) True 7)"
      "0 \<notin> cp_refs (kc_Condition plainKube) sampleHeap
        (KCondition (readyCondition (cs_Conditions (cl_Status heapCluster)) (length [heapTierStatus]) True 7))"
    by (simp_all add: plainKube_def plainC_def)
  show ?thesis
    using status_patch_refines [OF plainKube_ok sampleHeap_ok c sampleHeap_struct ts(1) cd(1) heapStruct_refs ts(2) cd(2)]
    by (auto simp: cl)
qed

end
