(* ===== verification/Reconcile_Steps.thy ===== *)
theory Reconcile_Steps
  imports Reconcile_Sync
begin

text \<open>
  \<open>Reconcile\<close> as a step of an abstract machine on stores: it syncs some of the tiers of the cluster, in
  order and from the first on, and all of them unless a plugin failed. The relation \<open>sync_steps\<close> is that
  machine; what a pass keeps, deletes and leaves alone follows by induction on it.
\<close>

section \<open>The abstract machine\<close>

text \<open>
  Each tier is synced for a version of the cluster that differs from the one read in fields that no
  other tier's objects depend on. A tier with the largest int32 as replica count is never left.
\<close>

inductive sync_steps :: "'s Reconciler \<Rightarrow> PicoclusterDB \<Rightarrow> TierSpec list \<Rightarrow> Store \<Rightarrow> Store \<Rightarrow> bool"
  for r :: "'s Reconciler" and cl :: PicoclusterDB where
  halt: "sync_steps r cl [] v v"
| tier: "same_inputs cl cl' \<Longrightarrow> sint (tier_Replicas t) < 2147483647 \<Longrightarrow> sync_steps r cl ts (sync_tier r cl' t v) w \<Longrightarrow> sync_steps r cl (t # ts) v w"

inductive_cases sync_steps_NilE [elim!]: "sync_steps r cl [] v w"
inductive_cases sync_steps_ConsE [elim!]: "sync_steps r cl (t # ts) v w"
inductive_simps sync_steps_simps: "sync_steps r cl [] v w" "sync_steps r cl (t # ts) v w"

lemma sync_steps_one:
  "same_inputs cl cl' \<Longrightarrow> sint (tier_Replicas t) < 2147483647 \<Longrightarrow> sync_steps r cl [t] v (sync_tier r cl' t v)"
  by (rule sync_steps.tier [OF _ _ sync_steps.halt])

lemma sync_steps_ok: "sync_steps r cl ts v w \<Longrightarrow> store_ok v \<Longrightarrow> store_ok w"
  by (induction rule: sync_steps.induct) (simp_all add: sync_tier_ok)

text \<open>What is in sync stays so while tiers of other names are synced, so in the end all of them are.\<close>

lemma sync_steps_keeps_synced:
  assumes law: "owner_law r" and bound: "sint (tier_Replicas u) < 2147483647" and "sync_steps r cl ts v w"
    and "tier_synced r cl u v" and "\<forall>t \<in> set ts. apart cl u t"
  shows "tier_synced r cl u w"
  using assms(3-5)
proof (induction rule: sync_steps.induct)
  case (tier cl' t ts v w)
  then have "apart cl' u t" by (simp add: apart_def names_same [OF tier.hyps(1)])
  moreover have "tier_synced r cl' u v" using tier.prems(1) by (simp add: tier_synced_same [OF law tier.hyps(1)])
  ultimately have "tier_synced r cl' u (sync_tier r cl' t v)"
    using tier_synced_kept [OF law _ bound tier.hyps(2)] by blast
  with tier.IH tier.prems(2) show ?case by (simp add: tier_synced_same [OF law tier.hyps(1)])
qed

lemma sync_steps_synced:
  assumes law: "owner_law r" and "sync_steps r cl ts v w" and "sorted_wrt (apart cl) ts"
  shows "\<forall>t \<in> set ts. tier_synced r cl t w"
  using assms(2,3)
proof (induction rule: sync_steps.induct)
  case (tier cl' t ts v w)
  have "tier_synced r cl t (sync_tier r cl' t v)"
    using sync_tier_synced [OF law tier.hyps(2)] by (simp add: tier_synced_same [OF law tier.hyps(1), symmetric])
  then have "tier_synced r cl t w"
    using sync_steps_keeps_synced [OF law tier.hyps(2,3)] tier.prems by simp
  with tier show ?case by simp
qed simp

lemma names_ok_sorted: "names_ok cl \<Longrightarrow> sorted_wrt (apart cl) (cl_Tiers cl)"
  by (simp add: sorted_wrt_iff_nth_less names_ok_apart)

section \<open>Reconcile is a step\<close>

lemma tierStep_sync:
  assumes api: "api_server r view" and quiet: "quiet_world r view"
    and same: "same_inputs cl (pg_Cluster p)" and k: "k < length (cl_Tiers cl)"
    and later: "\<forall>j. k \<le> j \<longrightarrow> j < length (cl_Tiers cl) \<longrightarrow> cl_Tiers (pg_Cluster p) ! j = cl_Tiers cl ! j"
    and bound: "sint (tier_Replicas (cl_Tiers cl ! k)) < 2147483647" and ok: "store_ok (view s)"
  shows "\<exists>st s'. tierStep r k p s = Some (Ok st, s') \<and>
    view s' = sync_tier r (pg_Cluster p) (cl_Tiers cl ! k) (view s) \<and>
    (case st of Done d \<Rightarrow> d = \<lparr>rs_RequeueAfter = 15\<rparr> \<and> tier_Plugins (cl_Tiers cl ! k) \<noteq> []
     | Continue p' \<Rightarrow> same_inputs cl (pg_Cluster p') \<and>
         (\<forall>j. Suc k \<le> j \<longrightarrow> j < length (cl_Tiers cl) \<longrightarrow> cl_Tiers (pg_Cluster p') ! j = cl_Tiers cl ! j))"
proof -
  let ?cur = "pg_Cluster p" and ?t = "cl_Tiers cl ! k"
  let ?t' = "snd (build_seq (rc_Quantity r) ?cur (configData ?cur ?t) (rs_indices 1 (tier_Replicas ?t)) ?t)"
  have curk: "cl_Tiers ?cur ! k = ?t" using later k by simp
  have "cl_Tiers ?cur \<noteq> []" using same_inputs_length [OF same] k by auto
  then obtain s1 where s1: "reconcileTier r ?cur ?t s = Some (Ok ?t', s1)" "view s1 = sync_tier r ?cur ?t (view s)"
    using reconcileTier_syncs [OF api ok _ bound] by blast
  let ?cl' = "setTier k ?t' ?cur"
  obtain ts ready s2 where s2: "tierStatus r ?cl' ?t' s1 = Some (Ok (ts, ready), s2)" "view s2 = view s1"
    using tierStatus_quiet [OF api, of ?cl' ?t' s1] by auto
  obtain x s3 where s3: "pluginStep r ?cl' ?t' (pg_Statuses p) ts ready s2 = Some (Ok x, s3)" "view s3 = view s2"
      "\<forall>d. x = Inl d \<longrightarrow> d = \<lparr>rs_RequeueAfter = 15\<rparr> \<and> tier_Plugins ?t \<noteq> []"
    using pluginStep_quiet [OF quiet, of ?cl' ?t'] unfolding build_seq_tier by blast
  have id: "tier_id ?t' = tier_id (cl_Tiers ?cur ! k)" by (simp add: curk tier_id_def)
  have "same_inputs cl ?cl'"
    using same_inputs_trans [OF same setTier_same [OF _ id]] same_inputs_length [OF same] k by simp
  moreover have "cl_Tiers ?cl' ! j = cl_Tiers cl ! j" if "Suc k \<le> j" "j < length (cl_Tiers cl)" for j
    using that later by (simp add: setTier_def)
  ultimately show ?thesis using s1 s2 s3 by (cases x) (auto simp: tierStep_def curk Let_def)
qed

lemma tierStep_diverges:
  assumes "api_server r view" "same_inputs cl (pg_Cluster p)" "k < length (cl_Tiers cl)"
    and "cl_Tiers (pg_Cluster p) ! k = cl_Tiers cl ! k"
    and "tier_Replicas (cl_Tiers cl ! k) = MaxInt32" "store_ok (view s)"
  shows "tierStep r k p s = None"
proof -
  have "cl_Tiers (pg_Cluster p) \<noteq> []" using same_inputs_length [OF assms(2)] assms(3) by auto
  then have "reconcileTier r (pg_Cluster p) (cl_Tiers cl ! k) s = None"
    using reconcileTier_diverges [OF assms(1,6)] assms(5) by blast
  with assms(4) show ?thesis by (simp add: tierStep_def Let_def wrapG_def bindG_def)
qed

text \<open>The loop over the tiers from one of them on: it ends, unless one of them is never left.\<close>

definition swept :: "'s Reconciler \<Rightarrow> ('s \<Rightarrow> Store) \<Rightarrow> PicoclusterDB \<Rightarrow> TierSpec list \<Rightarrow> 's \<Rightarrow> step \<Rightarrow> 's \<Rightarrow> bool" where
  "swept r view cl rest s st s' \<longleftrightarrow>
     (\<exists>ts more. sync_steps r cl ts (view s) (view s') \<and> rest = ts @ more \<and>
        (case st of Done d \<Rightarrow> d = \<lparr>rs_RequeueAfter = 15\<rparr> \<and> (\<exists>t \<in> set rest. tier_Plugins t \<noteq> [])
         | Continue p' \<Rightarrow> ts = rest))"

lemma swept_none:
  "swept r view cl [] s (Continue p) s"
  "\<exists>t \<in> set rest. tier_Plugins t \<noteq> [] \<Longrightarrow> swept r view cl rest s (Done \<lparr>rs_RequeueAfter = 15\<rparr>) s"
  unfolding swept_def using sync_steps.halt by fastforce+

lemma swept_tier:
  assumes "same_inputs cl cl'" "sint (tier_Replicas t) < 2147483647"
    and "view s1 = sync_tier r cl' t (view s)" "swept r view cl rest s1 st s'"
  shows "swept r view cl (t # rest) s st s'"
proof -
  from assms(4) obtain ts more where ts: "sync_steps r cl ts (view s1) (view s')" "rest = ts @ more"
      "case st of Done d \<Rightarrow> d = \<lparr>rs_RequeueAfter = 15\<rparr> \<and> (\<exists>t \<in> set rest. tier_Plugins t \<noteq> [])
       | Continue p' \<Rightarrow> ts = rest"
    unfolding swept_def by blast
  have "sync_steps r cl (t # ts) (view s) (view s')"
    using ts(1) unfolding assms(3) by (rule sync_steps.tier [OF assms(1,2)])
  moreover have "t # rest = (t # ts) @ more" using ts(2) by simp
  moreover have "case st of Done d \<Rightarrow> d = \<lparr>rs_RequeueAfter = 15\<rparr> \<and> (\<exists>u \<in> set (t # rest). tier_Plugins u \<noteq> [])
      | Continue p' \<Rightarrow> t # ts = t # rest"
    using ts(3) by (cases st) simp_all
  ultimately show ?thesis unfolding swept_def by (intro exI conjI)
qed

lemma swept_one:
  assumes "same_inputs cl cl'" "sint (tier_Replicas t) < 2147483647"
    and "view s1 = sync_tier r cl' t (view s)" "tier_Plugins t \<noteq> []"
  shows "swept r view cl (t # rest) s (Done \<lparr>rs_RequeueAfter = 15\<rparr>) s1"
  unfolding swept_def assms(3) using sync_steps_one [OF assms(1,2)] assms(4) by fastforce

lemma tiersLoop_sync:
  assumes api: "api_server r view" and quiet: "quiet_world r view"
    and "same_inputs cl (pg_Cluster p)" and "k \<le> length (cl_Tiers cl)"
    and "\<forall>j. k \<le> j \<longrightarrow> j < length (cl_Tiers cl) \<longrightarrow> cl_Tiers (pg_Cluster p) ! j = cl_Tiers cl ! j"
    and "store_ok (view s)"
  shows "(tiersLoop r [k..<length (cl_Tiers cl)] p s = None \<and> (\<exists>t \<in> set (cl_Tiers cl). tier_Replicas t = MaxInt32)) \<or>
    (\<exists>st s'. tiersLoop r [k..<length (cl_Tiers cl)] p s = Some (Ok st, s') \<and>
       swept r view cl (drop k (cl_Tiers cl)) s st s')"
  using assms(3-6)
proof (induction "length (cl_Tiers cl) - k" arbitrary: k p s)
  case 0
  then have "swept r view cl (drop k (cl_Tiers cl)) s (Continue p) s" by (simp add: swept_none)
  with 0 show ?case by auto
next
  case (Suc n)
  then have k: "k < length (cl_Tiers cl)" by simp
  have upt: "[k..<length (cl_Tiers cl)] = k # [Suc k..<length (cl_Tiers cl)]"
    using k by (rule upt_conv_Cons)
  have drop: "drop k (cl_Tiers cl) = cl_Tiers cl ! k # drop (Suc k) (cl_Tiers cl)"
    using k by (rule Cons_nth_drop_Suc [symmetric])
  show ?case
  proof (cases "tier_Replicas (cl_Tiers cl ! k) = MaxInt32")
    case True
    have "cl_Tiers (pg_Cluster p) ! k = cl_Tiers cl ! k" using Suc.prems(3) k by blast
    then have "tierStep r k p s = None" by (rule tierStep_diverges [OF api Suc.prems(1) k _ True Suc.prems(4)])
    with True k show ?thesis by (auto simp: upt)
  next
    case False
    then have b: "sint (tier_Replicas (cl_Tiers cl ! k)) < 2147483647" by (rule sint32_not_max)
    obtain st s1 where st: "tierStep r k p s = Some (Ok st, s1)"
        "view s1 = sync_tier r (pg_Cluster p) (cl_Tiers cl ! k) (view s)"
        "case st of Done d \<Rightarrow> d = \<lparr>rs_RequeueAfter = 15\<rparr> \<and> tier_Plugins (cl_Tiers cl ! k) \<noteq> []
         | Continue p' \<Rightarrow> same_inputs cl (pg_Cluster p') \<and>
           (\<forall>j. Suc k \<le> j \<longrightarrow> j < length (cl_Tiers cl) \<longrightarrow> cl_Tiers (pg_Cluster p') ! j = cl_Tiers cl ! j)"
      using tierStep_sync [OF api quiet Suc.prems(1) k Suc.prems(3) b Suc.prems(4)] by blast
    note add_tier = swept_tier [OF Suc.prems(1) b st(2)]
    show ?thesis
    proof (cases st)
      case (Done d)
      with st(3) have "d = \<lparr>rs_RequeueAfter = 15\<rparr>" "tier_Plugins (cl_Tiers cl ! k) \<noteq> []" by simp_all
      then have "swept r view cl (drop k (cl_Tiers cl)) s st s1"
        using swept_one [OF Suc.prems(1) b st(2)] Done unfolding drop by simp
      with st(1) Done show ?thesis by (simp add: upt)
    next
      case (Continue p')
      have "n = length (cl_Tiers cl) - Suc k" using Suc.hyps(2) by simp
      moreover have "store_ok (view s1)" using Suc.prems(4) st(2) by (simp add: sync_tier_ok)
      ultimately have "(tiersLoop r [Suc k..<length (cl_Tiers cl)] p' s1 = None \<and>
            (\<exists>t \<in> set (cl_Tiers cl). tier_Replicas t = MaxInt32)) \<or>
          (\<exists>st' s'. tiersLoop r [Suc k..<length (cl_Tiers cl)] p' s1 = Some (Ok st', s') \<and>
             swept r view cl (drop (Suc k) (cl_Tiers cl)) s1 st' s')"
        using Suc.hyps(1) [of "Suc k" p' s1] st(3) Continue k by auto
      moreover have "tiersLoop r [k..<length (cl_Tiers cl)] p s = tiersLoop r [Suc k..<length (cl_Tiers cl)] p' s1"
        using st(1) Continue by (simp add: upt)
      ultimately show ?thesis using add_tier unfolding drop by metis
    qed
  qed
qed

text \<open>A pass over a cluster that was read: it returns, without a panic, unless a tier is never left.\<close>

lemma Reconcile_steps:
  assumes api: "api_server r view" and quiet: "quiet_world r view" and ok: "store_ok (view s)"
    and get: "rc_GetPicocluster r req s = Some (Ok cl, s0)"
  shows "(Reconcile r req s = None \<and> (\<exists>t \<in> set (cl_Tiers cl). tier_Replicas t = MaxInt32)) \<or>
    (\<exists>res s' ts rest. Reconcile r req s = Some (res, s') \<and> (\<forall>msg. res \<noteq> Panic msg) \<and>
       sync_steps r cl ts (view s) (view s') \<and> cl_Tiers cl = ts @ rest \<and>
       (if res = Ok \<lparr>rs_RequeueAfter = 15\<rparr> then \<exists>t \<in> set (cl_Tiers cl). tier_Plugins t \<noteq> [] else ts = cl_Tiers cl))"
proof -
  let ?p = "\<lparr>pg_Cluster = cl, pg_Statuses = [], pg_AllReady = True\<rparr>"
  have v0: "view s0 = view s"
    using other_call_rules(1) [OF quiet, of req] get unfolding calm_iff by (metis Pair_inject option.inject)
  with ok have "(tiersLoop r [0..<length (cl_Tiers cl)] ?p s0 = None \<and>
        (\<exists>t \<in> set (cl_Tiers cl). tier_Replicas t = MaxInt32)) \<or>
      (\<exists>st s1. tiersLoop r [0..<length (cl_Tiers cl)] ?p s0 = Some (Ok st, s1) \<and>
         swept r view cl (drop 0 (cl_Tiers cl)) s0 st s1)"
    by (intro tiersLoop_sync [OF api quiet]) simp_all
  then show ?thesis
  proof (elim disjE exE conjE)
    assume "tiersLoop r [0..<length (cl_Tiers cl)] ?p s0 = None" "\<exists>t \<in> set (cl_Tiers cl). tier_Replicas t = MaxInt32"
    with get show ?thesis by (simp add: Reconcile_def)
  next
    fix st s1
    assume loop: "tiersLoop r [0..<length (cl_Tiers cl)] ?p s0 = Some (Ok st, s1)"
      and "swept r view cl (drop 0 (cl_Tiers cl)) s0 st s1"
    then obtain ts more where ts: "sync_steps r cl ts (view s) (view s1)" "cl_Tiers cl = ts @ more"
        "case st of Done d \<Rightarrow> d = \<lparr>rs_RequeueAfter = 15\<rparr> \<and> (\<exists>t \<in> set (cl_Tiers cl). tier_Plugins t \<noteq> [])
         | Continue p' \<Rightarrow> ts = cl_Tiers cl"
      unfolding swept_def v0 drop_0 by blast
    show ?thesis
    proof (cases st)
      case (Done d)
      with loop ts(3) get have "Reconcile r req s = Some (Ok \<lparr>rs_RequeueAfter = 15\<rparr>, s1)"
        by (simp add: Reconcile_def)
      with ts Done show ?thesis by auto
    next
      case (Continue p')
      from keeps_updateStatus [OF quiet, of "pg_Cluster p'" "pg_Statuses p'" "pg_AllReady p'"]
      obtain res s2 where "Reconcile r req s = Some (res, s2)" "\<forall>msg. res \<noteq> Panic msg" "view s2 = view s1"
          "res \<noteq> Ok \<lparr>rs_RequeueAfter = 15\<rparr>"
        by (cases rule: calmE [where s = s1]) (use loop Continue get in \<open>simp_all add: Reconcile_def\<close>)
      moreover from ts(3) Continue have "ts = cl_Tiers cl" by simp
      ultimately show ?thesis using ts(1) by (metis append_Nil2)
    qed
  qed
qed

text \<open>Reconciling a cluster converges: with an API server that keeps what it is sent and no other writer,
  Reconcile returns, does not panic, and unless it asks to be called again in 15 seconds because a
  plugin failed, every tier of the cluster is in sync: ConfigMap, both Services, one StatefulSet per
  replicaset and none beyond, and the Ingress where it is enabled.\<close>

lemma Reconcile_converges:
  assumes "api_server r view" and "quiet_world r view" and "store_ok (view s)"
    and "rc_GetPicocluster r req s = Some (Ok cl, s0)"
    and "names_ok cl"
    and "\<forall>t \<in> set (cl_Tiers cl). sint (tier_Replicas t) < 2147483647"
  shows "\<exists>res s'. Reconcile r req s = Some (res, s') \<and> (\<forall>msg. res \<noteq> Panic msg) \<and>
    (res \<noteq> Ok \<lparr>rs_RequeueAfter = 15\<rparr> \<longrightarrow> (\<forall>t \<in> set (cl_Tiers cl). tier_synced r cl t (view s')))"
proof -
  have "\<not> (\<exists>t \<in> set (cl_Tiers cl). tier_Replicas t = MaxInt32)" using assms(6) by fastforce
  with Reconcile_steps [OF assms(1-4)] obtain res s' ts where
      "Reconcile r req s = Some (res, s')" "\<forall>msg. res \<noteq> Panic msg" "sync_steps r cl ts (view s) (view s')"
      "res \<noteq> Ok \<lparr>rs_RequeueAfter = 15\<rparr> \<longrightarrow> ts = cl_Tiers cl"
    by metis
  moreover have "owner_law r" by (rule owner_law_of [OF assms(1)])
  ultimately show ?thesis using sync_steps_synced names_ok_sorted [OF assms(5)] by blast
qed

end
