(* ===== verification/Operator_Runs.thy ===== *)
theory Operator_Runs
  imports Reconcile_Steps Pass_Writes
begin

text \<open>
  Runs of the operator: passes over clusters, interleaved with what users, the other controllers and
  the pods do in between. \<open>op_step\<close> is one event and \<open>op_run\<close> a sequence of them. The first section shows that
  a store in sync is a fixed point of \<open>sync_steps\<close>, the next ones what the writes of a pass delete, change and
  leave alone, whatever calls fail; the last ones what holds along runs.
\<close>

section \<open>A store in sync is a fixed point\<close>

context object_kind
begin

lemma put_in_fix:
  assumes "in_sync meta managed m d"
  shows "put_in meta merge d m = m"
proof -
  from assms obtain ob where "m (meta_key (meta d)) = Some ob" "managed ob = managed d"
    by (auto simp: in_sync_def split: option.splits)
  then show ?thesis by (simp add: put_in_def put_object_def merge_in_sync fun_upd_idem)
qed

end

lemma sync_sets_fix:
  assumes law: "owner_law r" and bound: "sint (tier_Replicas tier) < 2147483647"
    and sync: "list_all (in_sync st_Meta managedStatefulSet (so_stss v)) (desiredSets r cl tier)"
    and none: "\<forall>k st. so_stss v k = Some st \<longrightarrow> \<not> surplus cl tier st"
  shows "so_stss (sync_sets r cl tier v) = so_stss v"
proof
  fix k
  show "so_stss (sync_sets r cl tier v) k = so_stss v k"
  proof (cases "set_for (desiredSets r cl tier) k")
    case None
    then show ?thesis
      using none [rule_format, of k] by (auto simp: sync_sets_lookup [OF law bound] split: option.split)
  next
    case (Some d)
    then have d: "d \<in> set (desiredSets r cl tier)" "meta_key (st_Meta d) = k" by (simp_all add: set_for_Some)
    with sync obtain ob where "so_stss v k = Some ob" "managedStatefulSet ob = managedStatefulSet d"
      by (auto simp: list_all_iff in_sync_def split: option.splits)
    with Some show ?thesis by (simp add: sync_sets_lookup [OF law bound] put_object_def st_kind.merge_in_sync)
  qed
qed

lemma sync_tier_fix:
  assumes law: "owner_law r" and bound: "sint (tier_Replicas tier) < 2147483647"
    and sync: "tier_synced r cl tier v"
  shows "sync_tier r cl tier v = v"
proof (rule Store.equality)
  note s = sync [unfolded tier_synced_def]
  show "so_stss (sync_tier r cl tier v) = so_stss v"
    unfolding sync_tier_sel by (rule sync_sets_fix [OF law bound]) (use s in blast)+
qed (use sync in \<open>auto simp: tier_synced_def sync_tier_sel cm_kind.put_in_fix sv_kind.put_in_fix ig_kind.put_in_fix
       split: option.splits\<close>)

lemma sync_steps_fix:
  assumes law: "owner_law r" and "sync_steps r cl ts v w"
    and "\<forall>t \<in> set ts. tier_synced r cl t v"
  shows "w = v"
  using assms(2,3)
proof (induction rule: sync_steps.induct)
  case (tier cl' t ts v w)
  then have "sync_tier r cl' t v = v" by (intro sync_tier_fix [OF law]) (simp_all add: tier_synced_same [OF law])
  with tier show ?case by simp
qed simp

section \<open>What a pass deletes\<close>

definition nameLabel :: string where
  "nameLabel = ''app.kubernetes.io/name''"

text \<open>A StatefulSet whose labels say that it is a replicaset of a tier has the name that goes with them.\<close>

definition set_named :: "StatefulSet \<Rightarrow> bool" where
  "set_named st \<longleftrightarrow>
     (case (map_of (om_Labels (st_Meta st)) nameLabel, map_of (om_Labels (st_Meta st)) replicasetLabel) of
        (Some n, Some i) \<Rightarrow> om_Name (st_Meta st) = n @ ''-'' @ i
      | _ \<Rightarrow> True)"

definition sets_named :: "Store \<Rightarrow> bool" where
  "sets_named v \<longleftrightarrow> store_ok v \<and> (\<forall>k st. so_stss v k = Some st \<longrightarrow> set_named st)"

lemma set_named_replicaset:
  "om_Labels (st_Meta st) = replicasetLabels cl t i \<Longrightarrow> set_named st \<longleftrightarrow> om_Name (st_Meta st) = statefulSetName cl t i"
  by (simp add: set_named_def nameLabel_def replicasetLabels_eq tierLabels_def replicasetLabel_def statefulSetName_def)

lemma sets_namedD:
  assumes "sets_named v" "so_stss v k = Some st"
  shows "set_named st" "meta_key (st_Meta st) = k"
  using assms store_ok_keyed(4) unfolding sets_named_def by blast+

text \<open>The StatefulSets that a pass over a tier may remove, by name.\<close>

definition beyond :: "PicoclusterDB \<Rightarrow> TierSpec \<Rightarrow> key \<Rightarrow> bool" where
  "beyond cl t k \<longleftrightarrow>
     (\<exists>idx i. k = (cl_Namespace cl, tier_Name t @ ''-'' @ cl_Name cl @ ''-'' @ idx) \<and> ParseInt32 idx = Some i \<and>
        sint (tier_Replicas t) < sint (word_of_int i :: int32))"

lemma surplus_beyond:
  assumes "surplus cl t st" "set_named st" "meta_key (st_Meta st) = k"
  shows "beyond cl t k"
proof -
  from assms(1) obtain idx i where idx: "map_of (om_Labels (st_Meta st)) replicasetLabel = Some idx"
      "ParseInt32 idx = Some i" "sint (tier_Replicas t) < sint (word_of_int i :: int32)"
    by (auto simp: surplus_def isExtra_def split: option.splits)
  moreover have "map_of (om_Labels (st_Meta st)) nameLabel = Some (tier_Name t @ ''-'' @ cl_Name cl)"
    using assms(1) by (simp add: surplus_def matches_labels_def tierLabels_def nameLabel_def)
  ultimately have "om_Name (st_Meta st) = tier_Name t @ ''-'' @ cl_Name cl @ ''-'' @ idx"
    using assms(2) by (simp add: set_named_def)
  with assms(1,3) idx(2,3) show ?thesis by (auto simp: beyond_def meta_key_def surplus_def)
qed

lemma pass_write_named: "pass_write cl v w \<Longrightarrow> sets_named v \<Longrightarrow> sets_named w"
  unfolding sets_named_def
proof (elim conjE, intro conjI)
  assume wr: "pass_write cl v w" and ok: "store_ok v" and named: "\<forall>k st. so_stss v k = Some st \<longrightarrow> set_named st"
  show "store_ok w" by (rule pass_write_ok [OF wr ok])
  from wr show "\<forall>k st. so_stss w k = Some st \<longrightarrow> set_named st"
    by cases (use named in \<open>auto simp: set_named_replicaset meta_key_def split: if_splits\<close>)
qed

lemma pass_writes_named: "pass_writes cl v w \<Longrightarrow> sets_named v \<Longrightarrow> sets_named w"
  by (induction rule: rtranclp_induct) (auto dest: pass_write_named)

lemma pass_write_deletes:
  assumes "pass_write cl v w" "sets_named v" "so_stss v k \<noteq> None" "so_stss w k = None"
  shows "\<exists>t \<in> set (cl_Tiers cl). beyond cl t k"
  using assms(1)
proof (cases rule: pass_write.cases)
  case (delete_set t k' st)
  with assms(3,4) have "k' = k" by (auto split: if_splits)
  with delete_set sets_namedD [OF assms(2)] show ?thesis using surplus_beyond by metis
qed (use assms(3,4) in \<open>auto split: if_splits\<close>)

lemma pass_writes_deletes:
  assumes "pass_writes cl v w" "sets_named v" "so_stss v k \<noteq> None" "so_stss w k = None"
  shows "\<exists>t \<in> set (cl_Tiers cl). beyond cl t k"
  using assms(1,4)
proof (induction rule: rtranclp_induct)
  case (step u w)
  show ?case
  proof (cases "so_stss u k")
    case (Some st)
    with pass_write_deletes [OF step.hyps(2) pass_writes_named [OF step.hyps(1) assms(2)]] step.prems
    show ?thesis by blast
  qed (rule step.IH)
qed (use assms(3) in simp)

section \<open>What a pass may change\<close>

text \<open>
  Every object that is different, new or gone belongs to a tier of the cluster: it has a name of the tier,
  an Ingress only where the tier wants one, or it is a surplus StatefulSet.
\<close>

definition changes_only :: "(key \<Rightarrow> bool) \<Rightarrow> (key \<rightharpoonup> 'o) \<Rightarrow> (key \<rightharpoonup> 'o) \<Rightarrow> bool" where
  "changes_only own m m' \<longleftrightarrow> (\<forall>k. m' k \<noteq> m k \<longrightarrow> own k)"

definition own_set :: "PicoclusterDB \<Rightarrow> (key \<rightharpoonup> StatefulSet) \<Rightarrow> key \<Rightarrow> bool" where
  "own_set cl m k \<longleftrightarrow> (\<exists>t \<in> set (cl_Tiers cl).
     (\<exists>i. k = (cl_Namespace cl, statefulSetName cl t i) \<and> rs_index t i) \<or>
     (\<exists>st. m k = Some st \<and> surplus cl t st))"

definition own_changes :: "PicoclusterDB \<Rightarrow> Store \<Rightarrow> Store \<Rightarrow> bool" where
  "own_changes cl v w \<longleftrightarrow>
     changes_only (\<lambda>k. \<exists>t \<in> set (cl_Tiers cl). k = (cl_Namespace cl, configMapName cl t)) (so_cms v) (so_cms w) \<and>
     changes_only (\<lambda>k. \<exists>t \<in> set (cl_Tiers cl).
        k = (cl_Namespace cl, interconnectServiceName cl t) \<or> k = (cl_Namespace cl, clientServiceName cl t))
       (so_svcs v) (so_svcs w) \<and>
     changes_only (\<lambda>k. \<exists>t \<in> set (cl_Tiers cl).
        k = (cl_Namespace cl, clientServiceName cl t) \<and> (\<exists>i. tier_Ingress t = Some i \<and> in_Enabled i))
       (so_ings v) (so_ings w) \<and>
     changes_only (own_set cl (so_stss v)) (so_stss v) (so_stss w)"

lemma changes_only_refl [simp]: "changes_only own m m"
  by (simp add: changes_only_def)

lemma changes_only_upd: "own k \<Longrightarrow> changes_only own m (m(k := x))"
  by (simp add: changes_only_def)

lemma changes_only_trans: "changes_only own m1 m2 \<Longrightarrow> changes_only own m2 m3 \<Longrightarrow> changes_only own m1 m3"
  unfolding changes_only_def by metis

lemma own_sets_trans:
  assumes "changes_only (own_set cl m1) m1 m2" "changes_only (own_set cl m2) m2 m3"
  shows "changes_only (own_set cl m1) m1 m3"
  unfolding changes_only_def
proof (intro allI impI)
  fix k assume "m3 k \<noteq> m1 k"
  then show "own_set cl m1 k"
  proof (cases "m2 k = m1 k")
    case True
    with \<open>m3 k \<noteq> m1 k\<close> assms(2) have "own_set cl m2 k" unfolding changes_only_def by metis
    with True show ?thesis by (simp add: own_set_def)
  next
    case False
    with assms(1) show ?thesis unfolding changes_only_def by blast
  qed
qed

lemma pass_write_own:
  assumes "pass_write cl v w"
  shows "own_changes cl v w"
  using assms
proof cases
  case (write_config t ob)
  then show ?thesis by (auto simp: own_changes_def intro!: changes_only_upd)
next
  case (write_service t ob n)
  then show ?thesis by (auto simp: own_changes_def intro!: changes_only_upd)
next
  case (write_ingress t ob i)
  then have "changes_only (\<lambda>k. \<exists>t \<in> set (cl_Tiers cl).
      k = (cl_Namespace cl, clientServiceName cl t) \<and> (\<exists>i. tier_Ingress t = Some i \<and> in_Enabled i)) (so_ings v) (so_ings w)"
    by (simp, intro changes_only_upd, blast)
  with write_ingress show ?thesis by (simp add: own_changes_def)
next
  case (write_set t ob i)
  then have "own_set cl (so_stss v) (cl_Namespace cl, statefulSetName cl t i)" unfolding own_set_def by blast
  with write_set show ?thesis by (simp add: own_changes_def changes_only_upd)
next
  case (delete_set t k st)
  then have "own_set cl (so_stss v) k" unfolding own_set_def by blast
  with delete_set show ?thesis by (simp add: own_changes_def changes_only_upd)
qed

lemma pass_writes_own: "pass_writes cl v w \<Longrightarrow> own_changes cl v w"
proof (induction rule: rtranclp_induct)
  case (step u w)
  from step.IH pass_write_own [OF step.hyps(2)] show ?case
    unfolding own_changes_def by (elim conjE) (intro conjI; rule changes_only_trans own_sets_trans; assumption)
qed (simp add: own_changes_def)

section \<open>What a pass never cleans up\<close>

text \<open>The objects of a tier that the spec no longer has, and an Ingress that it no longer wants.\<close>

lemma pass_write_leaves_set:
  assumes "pass_write cl v w"
    and tiers: "\<forall>t \<in> set (cl_Tiers cl). tier_Name t \<noteq> tier_Name u \<and> sint (tier_Replicas t) < 2147483647" and i: "0 \<le> sint i"
    and st: "so_stss v (cl_Namespace cl, statefulSetName cl u i) = Some st" "om_Labels (st_Meta st) = replicasetLabels cl u i"
  shows "so_stss w (cl_Namespace cl, statefulSetName cl u i) = Some st"
  using assms(1)
proof cases
  case (write_set t ob j)
  with tiers have t: "tier_Name t \<noteq> tier_Name u" "sint (tier_Replicas t) < 2147483647" by blast+
  then have "tier_Replicas t \<noteq> MaxInt32" by auto
  with write_set(5) have "0 \<le> sint j" by (auto simp: rs_index_def)
  with write_set t(1) i st show ?thesis by (auto simp: statefulSetName_inject)
next
  case (delete_set t k st')
  with tiers have "tier_Name t \<noteq> tier_Name u" by blast
  with st(2) have "\<not> surplus cl t st" by (auto simp: surplus_def matches_tier_iff)
  with delete_set st(1) show ?thesis by auto
qed (use st in simp_all)

lemma pass_write_leaves_ingress:
  assumes "pass_write cl v w"
    and off: "\<forall>t \<in> set (cl_Tiers cl). tier_Name t = tier_Name u \<longrightarrow>
      (case tier_Ingress t of None \<Rightarrow> True | Some i \<Rightarrow> \<not> in_Enabled i)"
  shows "so_ings w (cl_Namespace cl, clientServiceName cl u) = so_ings v (cl_Namespace cl, clientServiceName cl u)"
  using assms(1)
proof cases
  case (write_ingress t ob i)
  with off have "tier_Name t \<noteq> tier_Name u" by auto
  then have "clientServiceName cl t \<noteq> clientServiceName cl u" by (simp add: client_name.inject)
  with write_ingress show ?thesis by simp
qed simp_all

section \<open>Runs\<close>

text \<open>
  One event: the operator makes a pass for some request, or something outside of it happens. \<open>outside\<close>
  is any relation on the state of the world, so a run is any interleaving of passes with the rest.
\<close>

datatype event = Pass key "Result result" | Outside

inductive op_step :: "'s Reconciler \<Rightarrow> ('s \<Rightarrow> 's \<Rightarrow> bool) \<Rightarrow> 's \<Rightarrow> event \<Rightarrow> 's \<Rightarrow> bool"
  for r :: "'s Reconciler" and outside :: "'s \<Rightarrow> 's \<Rightarrow> bool" where
  pass: "Reconcile r req s = Some (res, s') \<Longrightarrow> op_step r outside s (Pass req res) s'"
| outside: "outside s s' \<Longrightarrow> op_step r outside s Outside s'"

inductive op_run :: "'s Reconciler \<Rightarrow> ('s \<Rightarrow> 's \<Rightarrow> bool) \<Rightarrow> 's \<Rightarrow> event list \<Rightarrow> 's \<Rightarrow> bool"
  for r :: "'s Reconciler" and outside :: "'s \<Rightarrow> 's \<Rightarrow> bool" where
  start: "op_run r outside s [] s"
| next_event: "op_run r outside s es s' \<Longrightarrow> op_step r outside s' e s'' \<Longrightarrow> op_run r outside s (es @ [e]) s''"

inductive_cases passE [elim!]: "op_step r outside s (Pass req res) s'"
inductive_cases outsideE [elim!]: "op_step r outside s Outside s'"

text \<open>
  What the rest of the world promises: it makes no StatefulSet whose labels claim a replicaset that its
  name denies.
\<close>

definition well_named :: "('s \<Rightarrow> Store) \<Rightarrow> ('s \<Rightarrow> 's \<Rightarrow> bool) \<Rightarrow> bool" where
  "well_named view outside \<longleftrightarrow> (\<forall>s s'. outside s s' \<and> sets_named (view s) \<longrightarrow> sets_named (view s'))"

lemma pass_named:
  assumes tame: "tame_api r view" and named: "sets_named (view s)" and run: "Reconcile r req s = Some (res, s')"
  shows "sets_named (view s')"
proof -
  from named have "store_ok (view s)" by (simp add: sets_named_def)
  with tame run show ?thesis by (cases rule: pass_within) (use named in \<open>auto intro: pass_writes_named\<close>)
qed

lemma run_named:
  assumes tame: "tame_api r view" and outside: "well_named view outside"
    and "op_run r outside s es s'" "sets_named (view s)"
  shows "sets_named (view s')"
  using assms(3,4)
proof (induction rule: op_run.induct)
  case (next_event s es s' e s'')
  from next_event.hyps(2) show ?case
  proof (cases rule: op_step.cases)
    case (pass req res)
    with next_event show ?thesis using pass_named [OF tame] by blast
  next
    case outside
    with next_event assms(2) show ?thesis by (auto simp: well_named_def)
  qed
qed

text \<open>Passes for one request while nobody edits the cluster's spec or metadata and nothing else happens.\<close>

inductive passes_over :: "'s Reconciler \<Rightarrow> key \<Rightarrow> PicoclusterDB \<Rightarrow> 's \<Rightarrow> 's \<Rightarrow> bool"
  for r :: "'s Reconciler" and req :: key and cl :: PicoclusterDB and s :: 's where
  no_pass: "passes_over r req cl s s"
| one_more: "passes_over r req cl s s1 \<Longrightarrow> rc_GetPicocluster r req s1 = Some (Ok cl', s0) \<Longrightarrow>
    cl_Spec cl' = cl_Spec cl \<Longrightarrow> cl_Meta cl' = cl_Meta cl \<Longrightarrow> Reconcile r req s1 = Some (res, s2) \<Longrightarrow>
    passes_over r req cl s s2"

lemma same_spec_inputs: "cl_Spec cl' = cl_Spec cl \<Longrightarrow> cl_Meta cl' = cl_Meta cl \<Longrightarrow> same_inputs cl cl'"
  by (simp add: same_inputs_def)

text \<open>What each pass keeps of the store, all of them keep.\<close>

lemma passes_over_induct:
  assumes api: "api_server r view" and quiet: "quiet_world r view" and "passes_over r req cl s s'"
    and start: "store_ok (view s)" "P (view s)"
    and step: "\<And>cl' ts rest v w. same_inputs cl cl' \<Longrightarrow> cl_Tiers cl = ts @ rest \<Longrightarrow> sync_steps r cl' ts v w \<Longrightarrow>
      store_ok v \<Longrightarrow> P v \<Longrightarrow> P w"
  shows "store_ok (view s') \<and> P (view s')"
  using assms(3)
proof (induction rule: passes_over.induct)
  case (one_more s1 cl' s0 res s2)
  then have ok: "store_ok (view s1)" "P (view s1)" by simp_all
  from Reconcile_steps [OF api quiet ok(1) one_more.hyps(2)] one_more.hyps(5)
  obtain ts rest where ts: "sync_steps r cl' ts (view s1) (view s2)" "cl_Tiers cl' = ts @ rest" by auto
  with step [OF same_spec_inputs [OF one_more.hyps(3,4)] _ ts(1) ok] sync_steps_ok [OF ts(1) ok(1)]
    one_more.hyps(3) show ?case by auto
qed (use start in blast)

text \<open>The same for passes whose calls may fail.\<close>

lemma tame_passes_induct:
  assumes tame: "tame_api r view" and "passes_over r req cl s s'" and start: "store_ok (view s)" "P (view s)"
    and step: "\<And>cl' v w. cl_Spec cl' = cl_Spec cl \<Longrightarrow> cl_Meta cl' = cl_Meta cl \<Longrightarrow> pass_write cl' v w \<Longrightarrow> P v \<Longrightarrow> P w"
  shows "store_ok (view s') \<and> P (view s')"
  using assms(2)
proof (induction rule: passes_over.induct)
  case (one_more s1 cl' s0 res s2)
  then have ok: "store_ok (view s1)" "P (view s1)" by simp_all
  from tame one_more.hyps(5) ok(1) show ?case
  proof (cases rule: pass_within)
    case (Served cl'' s0')
    with one_more.hyps(2) have writes: "pass_writes cl' (view s1) (view s2)" by simp
    then have "P (view s2)"
      by (induction rule: rtranclp_induct) (use ok(2) step [OF one_more.hyps(3,4)] in blast)+
    with pass_writes_ok [OF writes ok(1)] show ?thesis by blast
  qed (use ok in simp)
qed (use start in blast)

lemma pass_ok:
  assumes "api_server r view" and "quiet_world r view" and "store_ok (view s)"
    and "rc_GetPicocluster r req s = Some (Ok cl, s0)" and "Reconcile r req s = Some (res, s')"
  shows "store_ok (view s')"
  using passes_over_induct [OF assms(1,2) passes_over.one_more [OF passes_over.no_pass assms(4) refl refl assms(5)]
      assms(3), of "\<lambda>_. True"] by simp

lemma passes_over_fix:
  assumes api: "api_server r view" and quiet: "quiet_world r view" and ok: "store_ok (view s)"
    and sync: "\<forall>t \<in> set (cl_Tiers cl). tier_synced r cl t (view s)" and run: "passes_over r req cl s s'"
  shows "view s' = view s"
proof -
  have law: "owner_law r" by (rule owner_law_of [OF api])
  have "w = view s" if "same_inputs cl cl'" "cl_Tiers cl = ts @ rest" "sync_steps r cl' ts v w" "v = view s"
    for cl' ts rest v w
    using sync_steps_fix [OF law that(3)] sync that by (simp add: tier_synced_same [OF law that(1)])
  then show ?thesis
    using passes_over_induct [OF api quiet run ok, of "\<lambda>v. v = view s"] by blast
qed

end
