(* ===== verification/Run_Properties.thy ===== *)
theory Run_Properties
  imports Operator_Runs Memory_World
begin

text \<open>
  The properties of runs of the operator, from any state that passes and the rest of the world can have
  led to, each with an instance on the in-memory world.
\<close>

section \<open>Runs of the in-memory world\<close>

text \<open>Users edit clusters, the database changes its answers and time passes; nobody else writes objects.\<close>

definition bystander :: "World \<Rightarrow> World \<Rightarrow> bool" where
  "bystander s s' \<longleftrightarrow> mem_view s' = mem_view s"

lemma bystander_named: "well_named mem_view bystander"
  by (simp add: well_named_def bystander_def)

lemma fresh_named: "sets_named (mem_view (freshWorld cl))"
  by (simp add: sets_named_def mem_view_def freshWorld_def store_ok_def keyed_def)

lemma sample_get:
  "rc_GetPicocluster mem (''prod'', ''pico'') (freshWorld sampleCluster) = Some (Ok sampleCluster, freshWorld sampleCluster)"
  using fresh_get [of sampleCluster] by (simp add: meta_key_def)

text \<open>A pass that failed: the server refused the first ConfigMap.\<close>

lemma refused_pass:
  "Reconcile refusing (''prod'', ''pico'') (freshWorld sampleCluster) =
     Some (Err (Wrapped ''tier storage'' (Wrapped ''configmap'' (Failure ''quota''))), freshWorld sampleCluster)"
proof -
  let ?p = "\<lparr>pg_Cluster = sampleCluster, pg_Statuses = [], pg_AllReady = True\<rparr>"
  have get: "rc_GetPicocluster refusing (''prod'', ''pico'') (freshWorld sampleCluster) =
      Some (Ok sampleCluster, freshWorld sampleCluster)"
    using sample_get by (simp add: refusing_def)
  have "reconcileTier refusing sampleCluster storageTier (freshWorld sampleCluster) =
      Some (Err (Wrapped ''configmap'' (Failure ''quota'')), freshWorld sampleCluster)"
    by (rule refused_tier)
  then have "tierStep refusing 0 ?p (freshWorld sampleCluster) =
      Some (Err (Wrapped ''tier storage'' (Wrapped ''configmap'' (Failure ''quota''))), freshWorld sampleCluster)"
    by (simp add: tierStep_def Let_def)
  then have "tiersLoop refusing [0..<length (cl_Tiers sampleCluster)] ?p (freshWorld sampleCluster) =
      Some (Err (Wrapped ''tier storage'' (Wrapped ''configmap'' (Failure ''quota''))), freshWorld sampleCluster)"
    by (simp add: upt_conv_Cons)
  with get show ?thesis by (simp add: Reconcile_def)
qed

lemma run_with_failure:
  "op_run refusing bystander (freshWorld (idleCluster []))
     [Outside, Pass (''prod'', ''pico'') (Err (Wrapped ''tier storage'' (Wrapped ''configmap'' (Failure ''quota''))))]
     (freshWorld sampleCluster)"
proof -
  have "bystander (freshWorld (idleCluster [])) (freshWorld sampleCluster)"
    by (simp add: bystander_def mem_view_def freshWorld_def)
  from op_run.next_event [OF op_run.start op_step.outside, where outside = bystander, OF this]
  have "op_run refusing bystander (freshWorld (idleCluster [])) [Outside] (freshWorld sampleCluster)" by simp
  from op_run.next_event [OF this op_step.pass [OF refused_pass]] show ?thesis by simp
qed

lemma sample_bounds: "\<forall>t \<in> set (cl_Tiers sampleCluster). sint (tier_Replicas t) < 2147483647"
  by simp

lemma Reconcile_converges_witness:
  "\<exists>res s'. Reconcile mem (''prod'', ''pico'') (freshWorld sampleCluster) = Some (res, s') \<and>
    (res \<noteq> Ok \<lparr>rs_RequeueAfter = 15\<rparr> \<longrightarrow> tier_synced mem sampleCluster storageTier (mem_view s') \<and>
      tier_synced mem sampleCluster routerTier (mem_view s'))"
proof -
  have get: "rc_GetPicocluster mem (''prod'', ''pico'') (freshWorld sampleCluster) =
      Some (Ok sampleCluster, freshWorld sampleCluster)"
    using fresh_get [of sampleCluster] by (simp add: meta_key_def)
  from Reconcile_converges [OF mem_api_server mem_quiet fresh_store_ok get sample_names_ok sample_bounds]
  show ?thesis by auto
qed

text \<open>A world with a cluster scaled to zero, and a StatefulSet and an Ingress of an earlier time.\<close>

definition oldIngress :: Ingress where
  "oldIngress = (case buildIngress sampleCluster (routerTier\<lparr>tier_Ingress := Some sampleIngress\<rparr>) of Ok ig \<Rightarrow> ig)"

definition leftoverSet :: StatefulSet where
  "leftoverSet = built (rc_Quantity mem) (idleCluster []) (idleTier []) 1 []"

definition worldWith :: "StatefulSet \<Rightarrow> World" where
  "worldWith st = (freshWorld (idleCluster []))
     \<lparr>w_stss := [(meta_key (st_Meta st), st)], w_ings := [(meta_key (ig_Meta oldIngress), oldIngress)]\<rparr>"

lemma worldWith_view [simp]:
  "mem_view (worldWith st) = (mem_view (freshWorld (idleCluster [])))
     \<lparr>so_stss := [meta_key (st_Meta st) \<mapsto> st], so_ings := [meta_key (ig_Meta oldIngress) \<mapsto> oldIngress]\<rparr>"
  by (simp add: worldWith_def mem_view_def freshWorld_def)

lemma worldWith_named: "set_named st \<Longrightarrow> sets_named (mem_view (worldWith st))"
  by (auto simp: sets_named_def store_ok_def keyed_def mem_view_def worldWith_def freshWorld_def split: if_splits)

lemma worldWith_get: "rc_GetPicocluster mem (''prod'', ''pico'') (worldWith st) = Some (Ok (idleCluster []), worldWith st)"
  by (simp add: mem_def mem_get_def worldWith_def freshWorld_def idleCluster_def meta_key_def)

lemma idle_pass:
  assumes "set_named st"
  shows "\<exists>res s'. Reconcile mem (''prod'', ''pico'') (worldWith st) = Some (res, s') \<and>
     sync_steps mem (idleCluster []) (cl_Tiers (idleCluster [])) (mem_view (worldWith st)) (mem_view s')"
proof -
  have ok: "store_ok (mem_view (worldWith st))" using worldWith_named [OF assms] unfolding sets_named_def by blast
  have "\<not> (\<exists>t \<in> set (cl_Tiers (idleCluster [])). tier_Replicas t = MaxInt32)"
      "\<not> (\<exists>t \<in> set (cl_Tiers (idleCluster [])). tier_Plugins t \<noteq> [])"
    by (simp_all add: idleCluster_def idleTier_def MaxInt32_def)
  with Reconcile_steps [OF mem_api_server mem_quiet ok worldWith_get] show ?thesis by metis
qed

lemma one_text: "fmt_d 1 = ''1''"
  by code_simp

lemma leftover:
  "om_Labels (st_Meta leftoverSet) = replicasetLabels (idleCluster []) (idleTier []) 1"
  "meta_key (st_Meta leftoverSet) = (''prod'', ''router-pico-1'')"
  "set_named leftoverSet"
  by (simp_all add: leftoverSet_def set_named_replicaset [of _ "idleCluster []" "idleTier []" 1] meta_key_def
      statefulSetName_def idleCluster_def idleTier_def one_text)

text \<open>Its replicaset is one that the tier no longer has.\<close>

lemma idle_deletes:
  assumes "sync_steps mem (idleCluster []) (cl_Tiers (idleCluster [])) v w" "so_stss v k = Some leftoverSet"
  shows "so_stss w k = None"
proof -
  have tiers: "cl_Tiers (idleCluster []) = [idleTier []]" by (simp add: idleCluster_def)
  have law: "owner_law mem" using mem_api_server by (simp add: api_server_def)
  have no: "desiredSets mem cl (idleTier []) = []" for cl
    by (simp add: desiredSets_def idleTier_def rs_indices_def)
  from assms(1) obtain cl' where cl': "same_inputs (idleCluster []) cl'" "w = sync_tier mem cl' (idleTier []) v"
    unfolding tiers by blast
  have "tierLabels cl' (idleTier []) = tierLabels (idleCluster []) (idleTier [])"
    by (simp add: tierLabels_def same_inputs_sel [OF cl'(1)])
  moreover have "cl_Namespace cl' = ''prod''" and none: "tier_Replicas (idleTier []) = 0"
    by (simp_all add: same_inputs_sel [OF cl'(1)] idleCluster_def idleTier_def)
  ultimately have "surplus cl' (idleTier []) leftoverSet"
    using leftover(2) isExtra_index [OF leftover(1), of "idleTier []"]
    by (simp add: surplus_def leftover(1) matches_tier_iff meta_key_def)
  then show ?thesis
    using assms(2) by (simp add: cl'(2) sync_tier_sel sync_sets_lookup [OF law] no none set_for_def)
qed

section \<open>Properties\<close>

text \<open>C1: Start from a store with well-named objects, let passes run whose calls fail or not, with whatever
  effect, and let the rest of the world do what it likes short of writing a StatefulSet whose name does
  not go with its labels. Then take a pass over a cluster whose tiers ask for fewer than 2147483647
  replicas each and whose Services all have different names, which the schema does not enforce but
  distinct tier names give up to names ending in -interconnect, on a server that is up to date, accepts
  all writes and stores exactly what it is sent, without filling in fields of its own. This pass ends
  without a panic, and unless it asks to be called again in 15 seconds because a plugin failed, every
  tier is in sync afterwards: ConfigMap, both Services, one StatefulSet per replicaset and none beyond,
  and the Ingress where it is enabled. Any number of further passes over the same spec, with nobody else
  writing in between, then changes no object.\<close>

theorem runs_converge:
  assumes "tame_api r0 view" and "well_named view outside"
    and "sets_named (view s0)" and "op_run r0 outside s0 es s"
    and "api_server r view" and "quiet_world r view"
    and "rc_GetPicocluster r req s = Some (Ok cl, s1)"
    and "names_ok cl" and "\<forall>t \<in> set (cl_Tiers cl). sint (tier_Replicas t) < 2147483647"
  shows "\<exists>res s'. Reconcile r req s = Some (res, s') \<and> (\<forall>msg. res \<noteq> Panic msg) \<and>
    (res \<noteq> Ok \<lparr>rs_RequeueAfter = 15\<rparr> \<longrightarrow>
       (\<forall>t \<in> set (cl_Tiers cl). tier_synced r cl t (view s')) \<and>
       (\<forall>s''. passes_over r req cl s' s'' \<longrightarrow> view s'' = view s'))"
proof -
  have "sets_named (view s)" by (rule run_named [OF assms(1,2,4,3)])
  then have ok: "store_ok (view s)" by (simp add: sets_named_def)
  obtain res s' where run: "Reconcile r req s = Some (res, s')" "\<forall>msg. res \<noteq> Panic msg"
      "res \<noteq> Ok \<lparr>rs_RequeueAfter = 15\<rparr> \<longrightarrow> (\<forall>t \<in> set (cl_Tiers cl). tier_synced r cl t (view s'))"
    using Reconcile_converges [OF assms(5,6) ok assms(7-9)] by blast
  have "store_ok (view s')" by (rule pass_ok [OF assms(5,6) ok assms(7) run(1)])
  then show ?thesis using run passes_over_fix [OF assms(5,6)] by blast
qed

theorem runs_converge_witness:
  "\<exists>res s'. Reconcile mem (''prod'', ''pico'') (freshWorld sampleCluster) = Some (res, s') \<and>
    (res \<noteq> Ok \<lparr>rs_RequeueAfter = 15\<rparr> \<longrightarrow> tier_synced mem sampleCluster storageTier (mem_view s') \<and>
      (\<forall>s''. passes_over mem (''prod'', ''pico'') sampleCluster s' s'' \<longrightarrow> mem_view s'' = mem_view s'))"
  using runs_converge [OF refusing_tame bystander_named fresh_named run_with_failure mem_api_server mem_quiet sample_get
      sample_names_ok sample_bounds]
  by auto

text \<open>C2: A pass is a step of the abstract machine: it syncs a prefix of the tiers of the cluster, in order, and
  all of them unless a plugin failed, which takes a tier with plugins. It ends without a panic except when a tier asks for the largest
  int32 of replicas.\<close>

theorem pass_refines_machine:
  assumes "api_server r view" and "quiet_world r view" and "store_ok (view s)"
    and "rc_GetPicocluster r req s = Some (Ok cl, s0)"
  shows "(Reconcile r req s = None \<and> (\<exists>t \<in> set (cl_Tiers cl). tier_Replicas t = MaxInt32)) \<or>
    (\<exists>res s' ts rest. Reconcile r req s = Some (res, s') \<and> (\<forall>msg. res \<noteq> Panic msg) \<and>
       sync_steps r cl ts (view s) (view s') \<and> cl_Tiers cl = ts @ rest \<and>
       (if res = Ok \<lparr>rs_RequeueAfter = 15\<rparr> then \<exists>t \<in> set (cl_Tiers cl). tier_Plugins t \<noteq> [] else ts = cl_Tiers cl))"
  by (rule Reconcile_steps [OF assms])

theorem pass_refines_machine_witness:
  "\<exists>res s' ts rest. Reconcile mem (''prod'', ''pico'') (freshWorld sampleCluster) = Some (res, s') \<and>
     sync_steps mem sampleCluster ts (mem_view (freshWorld sampleCluster)) (mem_view s') \<and>
     [storageTier, routerTier] = ts @ rest"
proof -
  have "tier_Replicas storageTier \<noteq> MaxInt32" "tier_Replicas routerTier \<noteq> MaxInt32"
    by (simp_all add: MaxInt32_def)
  then show ?thesis using pass_refines_machine [OF mem_api_server mem_quiet fresh_store_ok sample_get]
    by fastforce
qed

text \<open>C4: Along every run, whatever calls fail, objects stay under the keys that their metadata say, and every
  StatefulSet whose labels say which replicaset of which tier it is has the name that goes with them, as
  long as nobody else writes one that does not.\<close>

theorem runs_keep_names:
  assumes "tame_api r view" and "well_named view outside"
    and "sets_named (view s)" and "op_run r outside s es s'"
  shows "sets_named (view s')"
  by (rule run_named [OF assms(1,2,4,3)])

theorem runs_keep_names_witness:
  "sets_named (mem_view (freshWorld sampleCluster))"
  by (rule runs_keep_names [OF refusing_tame bystander_named fresh_named run_with_failure])

text \<open>C5: Whatever happened before and whatever calls of it fail, a pass deletes StatefulSets of the cluster it
  serves only, and of these only ones whose name is that of a replicaset beyond the replica count of one
  of its tiers.\<close>

theorem runs_delete_only_surplus:
  assumes "tame_api r view" and "well_named view outside"
    and "sets_named (view s0)" and "op_run r outside s0 es s"
    and "Reconcile r req s = Some (res, s')"
    and "so_stss (view s) k \<noteq> None" and "so_stss (view s') k = None"
  shows "\<exists>cl s1. rc_GetPicocluster r req s = Some (Ok cl, s1) \<and> (\<exists>t \<in> set (cl_Tiers cl). beyond cl t k)"
proof -
  have named: "sets_named (view s)" by (rule run_named [OF assms(1,2,4,3)])
  then have "store_ok (view s)" by (simp add: sets_named_def)
  with assms(1,5) show ?thesis
  proof (cases rule: pass_within)
    case (Served cl s1)
    with pass_writes_deletes [OF Served(2) named assms(6,7)] show ?thesis by blast
  qed (use assms(6,7) in simp)
qed

theorem runs_delete_only_surplus_witness:
  "\<exists>res s'. Reconcile mem (''prod'', ''pico'') (worldWith leftoverSet) = Some (res, s') \<and>
     so_stss (mem_view s') (''prod'', ''router-pico-1'') = None \<and>
     (\<exists>t \<in> set (cl_Tiers (idleCluster [])). beyond (idleCluster []) t (''prod'', ''router-pico-1''))"
proof -
  obtain res s' where run: "Reconcile mem (''prod'', ''pico'') (worldWith leftoverSet) = Some (res, s')"
      "sync_steps mem (idleCluster []) (cl_Tiers (idleCluster [])) (mem_view (worldWith leftoverSet)) (mem_view s')"
    using idle_pass [OF leftover(3)] by blast
  have there: "so_stss (mem_view (worldWith leftoverSet)) (''prod'', ''router-pico-1'') = Some leftoverSet"
    by (simp add: leftover)
  have gone: "so_stss (mem_view s') (''prod'', ''router-pico-1'') = None"
    by (rule idle_deletes [OF run(2) there])
  show ?thesis
    using runs_delete_only_surplus [OF mem_tame bystander_named worldWith_named [OF leftover(3)]
        op_run.start run(1) _ gone] run(1) there gone worldWith_get by auto
qed

text \<open>C7: Whatever calls of it fail, a pass changes only objects of the cluster that it has read: those with the
  names of its tiers, Ingresses only of tiers that want one, StatefulSets only of replicasets within the
  replica count or surplus ones.\<close>

theorem pass_changes_own_objects:
  assumes "tame_api r view" and "store_ok (view s)" and "Reconcile r req s = Some (res, s')"
  shows "view s' = view s \<or>
    (\<exists>cl s1. rc_GetPicocluster r req s = Some (Ok cl, s1) \<and> own_changes cl (view s) (view s'))"
  using assms(1,3,2) by (cases rule: pass_within) (auto dest: pass_writes_own)

theorem pass_changes_own_objects_witness:
  "\<exists>res s'. Reconcile mem (''prod'', ''pico'') (worldWith leftoverSet) = Some (res, s') \<and>
     mem_view s' \<noteq> mem_view (worldWith leftoverSet) \<and>
     own_changes (idleCluster []) (mem_view (worldWith leftoverSet)) (mem_view s')"
proof -
  obtain res s' where run: "Reconcile mem (''prod'', ''pico'') (worldWith leftoverSet) = Some (res, s')"
      "sync_steps mem (idleCluster []) (cl_Tiers (idleCluster [])) (mem_view (worldWith leftoverSet)) (mem_view s')"
    using idle_pass [OF leftover(3)] by blast
  have there: "so_stss (mem_view (worldWith leftoverSet)) (''prod'', ''router-pico-1'') = Some leftoverSet"
    by (simp add: leftover)
  then have "mem_view s' \<noteq> mem_view (worldWith leftoverSet)" using idle_deletes [OF run(2) there] by auto
  moreover have "store_ok (mem_view (worldWith leftoverSet))"
    using worldWith_named [OF leftover(3)] unfolding sets_named_def by blast
  ultimately show ?thesis
    using pass_changes_own_objects [OF mem_tame _ run(1)] run(1) worldWith_get by auto
qed

text \<open>C15: A tier that the spec no longer has is never cleaned up: the StatefulSets of its replicasets stay as they
  are however many passes are made over the cluster, whether their calls fail or not.\<close>

theorem removed_tier_stays:
  assumes "tame_api r view" and "store_ok (view s)" and "passes_over r req cl s s'"
    and "\<forall>t \<in> set (cl_Tiers cl). tier_Name t \<noteq> tier_Name u \<and> sint (tier_Replicas t) < 2147483647" and "0 \<le> sint i"
    and "so_stss (view s) (cl_Namespace cl, statefulSetName cl u i) = Some st"
    and "om_Labels (st_Meta st) = replicasetLabels cl u i"
  shows "so_stss (view s') (cl_Namespace cl, statefulSetName cl u i) = Some st"
proof -
  let ?P = "\<lambda>v. so_stss v (cl_Namespace cl, statefulSetName cl u i) = Some st"
  have "?P w" if "cl_Spec cl' = cl_Spec cl" "cl_Meta cl' = cl_Meta cl" "pass_write cl' v w" "?P v" for cl' v w
    using pass_write_leaves_set [OF that(3), of u i st] assms(4,5,7) that(4) same_spec_inputs [OF that(1,2)]
    by (simp add: that(1,2) names_same [of cl cl'])
  then have "store_ok (view s') \<and> ?P (view s')"
    by (intro tame_passes_induct [where P = ?P, OF assms(1,3,2)] assms(6))
  then show ?thesis by simp
qed

theorem removed_tier_stays_witness:
  "\<exists>res s'. Reconcile mem (''prod'', ''pico'') (worldWith staleSet) = Some (res, s') \<and>
     so_stss (mem_view s') (''prod'', statefulSetName sampleCluster storageTier 3) = Some staleSet"
proof -
  have st: "set_named staleSet" "om_Labels (st_Meta staleSet) = replicasetLabels (idleCluster []) storageTier 3"
      "meta_key (st_Meta staleSet) = (''prod'', statefulSetName sampleCluster storageTier 3)"
      "statefulSetName (idleCluster []) storageTier 3 = statefulSetName sampleCluster storageTier 3"
      "cl_Namespace (idleCluster []) = ''prod''"
    by (simp_all add: staleSet_def set_named_replicaset [of _ sampleCluster storageTier 3] meta_key_def
        statefulSetName_def idleCluster_def replicasetLabels_eq tierLabels_def sampleCluster_def)
  obtain res s' where run: "Reconcile mem (''prod'', ''pico'') (worldWith staleSet) = Some (res, s')"
    using idle_pass [OF st(1)] by blast
  have "passes_over mem (''prod'', ''pico'') (idleCluster []) (worldWith staleSet) s'"
    by (rule passes_over.one_more [OF passes_over.no_pass worldWith_get refl refl run])
  moreover have "store_ok (mem_view (worldWith staleSet))"
    using worldWith_named [OF st(1)] unfolding sets_named_def by blast
  moreover have "\<forall>t \<in> set (cl_Tiers (idleCluster [])). tier_Name t \<noteq> tier_Name storageTier \<and>
      sint (tier_Replicas t) < 2147483647"
    by (simp add: idleCluster_def idleTier_def)
  ultimately show ?thesis
    using removed_tier_stays [OF mem_tame, of "worldWith staleSet" "(''prod'', ''pico'')" "idleCluster []" s'
        storageTier 3 staleSet] run st by simp
qed

text \<open>C16: An Ingress that a tier no longer wants is never removed or changed: with the tier's Ingress disabled or
  dropped from the spec, the stored one stays as it is however many passes are made, whether their calls
  fail or not.\<close>

theorem disabled_ingress_stays:
  assumes "tame_api r view" and "store_ok (view s)" and "passes_over r req cl s s'"
    and "\<forall>t \<in> set (cl_Tiers cl). tier_Name t = tier_Name u \<longrightarrow>
           (case tier_Ingress t of None \<Rightarrow> True | Some i \<Rightarrow> \<not> in_Enabled i)"
  shows "so_ings (view s') (cl_Namespace cl, clientServiceName cl u) =
    so_ings (view s) (cl_Namespace cl, clientServiceName cl u)"
proof -
  let ?P = "\<lambda>v. so_ings v (cl_Namespace cl, clientServiceName cl u) = so_ings (view s) (cl_Namespace cl, clientServiceName cl u)"
  have "?P w" if "cl_Spec cl' = cl_Spec cl" "cl_Meta cl' = cl_Meta cl" "pass_write cl' v w" "?P v" for cl' v w
    using pass_write_leaves_ingress [OF that(3), of u] assms(4) that(4)
    by (simp add: that(1,2) names_same [OF same_spec_inputs [OF that(1,2)]])
  then have "store_ok (view s') \<and> ?P (view s')"
    by (intro tame_passes_induct [where P = ?P, OF assms(1,3,2)] refl)
  then show ?thesis by simp
qed

theorem disabled_ingress_stays_witness:
  "\<exists>res s'. Reconcile mem (''prod'', ''pico'') (worldWith leftoverSet) = Some (res, s') \<and>
     so_ings (mem_view s') (''prod'', ''router-pico'') = Some oldIngress"
proof -
  have key: "meta_key (ig_Meta oldIngress) = (''prod'', ''router-pico'')"
      "clientServiceName (idleCluster []) routerTier = ''router-pico''" "cl_Namespace (idleCluster []) = ''prod''"
    by (simp_all add: oldIngress_def buildIngress_def sampleIngress_def clientServiceName_def meta_key_def idleCluster_def
        sampleCluster_def Let_def)
  obtain res s' where run: "Reconcile mem (''prod'', ''pico'') (worldWith leftoverSet) = Some (res, s')"
    using idle_pass [OF leftover(3)] by blast
  have "passes_over mem (''prod'', ''pico'') (idleCluster []) (worldWith leftoverSet) s'"
    by (rule passes_over.one_more [OF passes_over.no_pass worldWith_get refl refl run])
  moreover have "store_ok (mem_view (worldWith leftoverSet))"
    using worldWith_named [OF leftover(3)] unfolding sets_named_def by blast
  moreover have "\<forall>t \<in> set (cl_Tiers (idleCluster [])). tier_Name t = tier_Name routerTier \<longrightarrow>
      (case tier_Ingress t of None \<Rightarrow> True | Some i \<Rightarrow> \<not> in_Enabled i)"
    by (simp add: idleCluster_def idleTier_def routerTier_def)
  ultimately show ?thesis
    using disabled_ingress_stays [OF mem_tame, of "worldWith leftoverSet" "(''prod'', ''pico'')"
        "idleCluster []" s' routerTier] run key by auto
qed

end
