(* ===== verification/Crd_Schema.thy ===== *)
theory Crd_Schema
  imports Stateful_Set Services Samples
begin

text \<open>
  The kubebuilder markers of api/v1/picoclusterdb_types.go, from which the schema of the custom resource is
  generated. The API server fills in the defaults of fields that are left out and refuses objects that
  violate the validation; the operator sees what is left. A default of a nested field is only filled in
  when the struct around it is there, so the builders have to bring the same defaults themselves. For
  five fields they do not: \<open>replicas\<close>, \<open>replicationFactor\<close>, \<open>canVote\<close>, \<open>pg.enabled\<close> and \<open>ingress.enabled\<close>.
\<close>

section \<open>What was written\<close>

text \<open>
  A decoded \<open>false\<close>, 0 or empty string does not say whether the field was left out. \<open>w\<close> tells which paths of
  JSON names the spec that the user wrote has; \<open>below f w\<close> are the paths below the field \<open>f\<close>.
\<close>

type_synonym written = "string list \<Rightarrow> bool"

definition below :: "string \<Rightarrow> written \<Rightarrow> written" where
  "below f w = (\<lambda>p. w (f # p))"

definition orDefault :: "written \<Rightarrow> string \<Rightarrow> 'a \<Rightarrow> 'a \<Rightarrow> 'a" where
  "orDefault w f v d = (if w [f] then v else d)"

definition inside :: "written \<Rightarrow> string \<Rightarrow> (written \<Rightarrow> 'a \<Rightarrow> 'a) \<Rightarrow> 'a \<Rightarrow> 'a" where
  "inside w f g v = (if w [f] then g (below f w) v else v)"

text \<open>A field that was left out is decoded as the zero value of its type.\<close>

definition zero_unless_written :: "written \<Rightarrow> string \<Rightarrow> bool \<Rightarrow> bool" where
  "zero_unless_written w f zero \<longleftrightarrow> w [f] \<or> zero"

section \<open>Defaults\<close>

text \<open>\<open>+kubebuilder:default\<close>, struct by struct.\<close>

definition ImageSpec_defaults :: "written \<Rightarrow> ImageSpec \<Rightarrow> ImageSpec" where
  "ImageSpec_defaults w s = s\<lparr>im_PullPolicy := orDefault w ''pullPolicy'' (im_PullPolicy s) ''IfNotPresent''\<rparr>"

definition ClusterSpec_defaults :: "written \<Rightarrow> ClusterSpec \<Rightarrow> ClusterSpec" where
  "ClusterSpec_defaults w s =
     s\<lparr>cs_DefaultReplicationFactor := orDefault w ''defaultReplicationFactor'' (cs_DefaultReplicationFactor s) 1,
       cs_DefaultBucketCount := orDefault w ''defaultBucketCount'' (cs_DefaultBucketCount s) 3000\<rparr>"

definition StorageSpec_defaults :: "QuantityLib \<Rightarrow> written \<Rightarrow> StorageSpec \<Rightarrow> StorageSpec" where
  "StorageSpec_defaults q w s = s\<lparr>sg_Size := orDefault w ''size'' (sg_Size s) (ql_MustParse q ''1Gi'')\<rparr>"

definition MemtxSpec_defaults :: "written \<Rightarrow> MemtxSpec \<Rightarrow> MemtxSpec" where
  "MemtxSpec_defaults w s = s\<lparr>mx_Memory := orDefault w ''memory'' (mx_Memory s) ''128M''\<rparr>"

definition VinylSpec_defaults :: "written \<Rightarrow> VinylSpec \<Rightarrow> VinylSpec" where
  "VinylSpec_defaults w s =
     s\<lparr>vy_Memory := orDefault w ''memory'' (vy_Memory s) ''64M'', vy_Cache := orDefault w ''cache'' (vy_Cache s) ''32M''\<rparr>"

definition PgSpec_defaults :: "written \<Rightarrow> PgSpec \<Rightarrow> PgSpec" where
  "PgSpec_defaults w s = s\<lparr>pg_Enabled := orDefault w ''enabled'' (pg_Enabled s) True\<rparr>"

definition LogSpec_defaults :: "written \<Rightarrow> LogSpec \<Rightarrow> LogSpec" where
  "LogSpec_defaults w s =
     s\<lparr>lg_Level := orDefault w ''level'' (lg_Level s) ''info'', lg_Format := orDefault w ''format'' (lg_Format s) ''plain''\<rparr>"

definition ServiceSpec_defaults :: "written \<Rightarrow> ServiceSpec \<Rightarrow> ServiceSpec" where
  "ServiceSpec_defaults w s =
     s\<lparr>sr_Type := orDefault w ''type'' (sr_Type s) ''ClusterIP'',
       sr_BinaryPort := orDefault w ''binaryPort'' (sr_BinaryPort s) 3301,
       sr_HttpPort := orDefault w ''httpPort'' (sr_HttpPort s) 8081,
       sr_PgPort := orDefault w ''pgPort'' (sr_PgPort s) 5432\<rparr>"

definition IngressSpec_defaults :: "written \<Rightarrow> IngressSpec \<Rightarrow> IngressSpec" where
  "IngressSpec_defaults w s = s\<lparr>in_Enabled := orDefault w ''enabled'' (in_Enabled s) True\<rparr>"

text \<open>The struct behind a pointer is there when the pointer is not nil.\<close>

definition TierSpec_defaults :: "QuantityLib \<Rightarrow> written \<Rightarrow> TierSpec \<Rightarrow> TierSpec" where
  "TierSpec_defaults q w t =
     t\<lparr>tier_Replicas := orDefault w ''replicas'' (tier_Replicas t) 1,
       tier_ReplicationFactor := orDefault w ''replicationFactor'' (tier_ReplicationFactor t) 1,
       tier_CanVote := orDefault w ''canVote'' (tier_CanVote t) True,
       tier_Storage := inside w ''storage'' (StorageSpec_defaults q) (tier_Storage t),
       tier_Memtx := inside w ''memtx'' MemtxSpec_defaults (tier_Memtx t),
       tier_Vinyl := inside w ''vinyl'' VinylSpec_defaults (tier_Vinyl t),
       tier_Pg := inside w ''pg'' PgSpec_defaults (tier_Pg t),
       tier_Log := inside w ''log'' LogSpec_defaults (tier_Log t),
       tier_Ingress := map_option (IngressSpec_defaults (below ''ingress'' w)) (tier_Ingress t)\<rparr>"

text \<open>The paths of the tier with a given index.\<close>

definition tier_paths :: "written \<Rightarrow> nat \<Rightarrow> written" where
  "tier_paths w i = below (nat_text i) (below ''tiers'' w)"

definition PicoclusterDB_defaults :: "QuantityLib \<Rightarrow> written \<Rightarrow> PicoclusterDB \<Rightarrow> PicoclusterDB" where
  "PicoclusterDB_defaults q w cl =
     cl\<lparr>cl_Spec := (cl_Spec cl)
         \<lparr>spec_Image := inside w ''image'' ImageSpec_defaults (spec_Image (cl_Spec cl)),
          spec_Cluster := inside w ''cluster'' ClusterSpec_defaults (spec_Cluster (cl_Spec cl)),
          spec_Tiers := map (\<lambda>(i, t). TierSpec_defaults q (tier_paths w i) t) (enumerate 0 (cl_Tiers cl)),
          spec_Service := inside w ''service'' ServiceSpec_defaults (spec_Service (cl_Spec cl))\<rparr>\<rparr>"

text \<open>The defaults of the five fields alone.\<close>

definition needed_tier :: "written \<Rightarrow> TierSpec \<Rightarrow> TierSpec" where
  "needed_tier w t =
     t\<lparr>tier_Replicas := orDefault w ''replicas'' (tier_Replicas t) 1,
       tier_ReplicationFactor := orDefault w ''replicationFactor'' (tier_ReplicationFactor t) 1,
       tier_CanVote := orDefault w ''canVote'' (tier_CanVote t) True,
       tier_Pg := inside w ''pg'' PgSpec_defaults (tier_Pg t),
       tier_Ingress := map_option (IngressSpec_defaults (below ''ingress'' w)) (tier_Ingress t)\<rparr>"

definition needed_defaults :: "written \<Rightarrow> PicoclusterDB \<Rightarrow> PicoclusterDB" where
  "needed_defaults w cl =
     cl\<lparr>cl_Spec := (cl_Spec cl)
         \<lparr>spec_Tiers := map (\<lambda>(i, t). needed_tier (tier_paths w i) t) (enumerate 0 (cl_Tiers cl))\<rparr>\<rparr>"

text \<open>What the decoded object has in the other fields that have a default but were left out.\<close>

definition tier_decoded :: "QuantityLib \<Rightarrow> written \<Rightarrow> TierSpec \<Rightarrow> bool" where
  "tier_decoded q w t \<longleftrightarrow>
     zero_unless_written (below ''storage'' w) ''size'' (ql_IsZero q (sg_Size (tier_Storage t))) \<and>
     zero_unless_written (below ''memtx'' w) ''memory'' (mx_Memory (tier_Memtx t) = '''') \<and>
     zero_unless_written (below ''vinyl'' w) ''memory'' (vy_Memory (tier_Vinyl t) = '''') \<and>
     zero_unless_written (below ''vinyl'' w) ''cache'' (vy_Cache (tier_Vinyl t) = '''') \<and>
     zero_unless_written (below ''log'' w) ''level'' (lg_Level (tier_Log t) = '''') \<and>
     zero_unless_written (below ''log'' w) ''format'' (lg_Format (tier_Log t) = '''')"

definition decoded :: "QuantityLib \<Rightarrow> written \<Rightarrow> PicoclusterDB \<Rightarrow> bool" where
  "decoded q w cl \<longleftrightarrow>
     zero_unless_written (below ''image'' w) ''pullPolicy'' (im_PullPolicy (spec_Image (cl_Spec cl)) = '''') \<and>
     zero_unless_written (below ''cluster'' w) ''defaultReplicationFactor''
       (cs_DefaultReplicationFactor (spec_Cluster (cl_Spec cl)) = 0) \<and>
     zero_unless_written (below ''cluster'' w) ''defaultBucketCount''
       (cs_DefaultBucketCount (spec_Cluster (cl_Spec cl)) = 0) \<and>
     zero_unless_written (below ''service'' w) ''type'' (sr_Type (spec_Service (cl_Spec cl)) = '''') \<and>
     zero_unless_written (below ''service'' w) ''binaryPort'' (sr_BinaryPort (spec_Service (cl_Spec cl)) = 0) \<and>
     zero_unless_written (below ''service'' w) ''httpPort'' (sr_HttpPort (spec_Service (cl_Spec cl)) = 0) \<and>
     zero_unless_written (below ''service'' w) ''pgPort'' (sr_PgPort (spec_Service (cl_Spec cl)) = 0) \<and>
     list_all (\<lambda>(i, t). tier_decoded q (tier_paths w i) t) (enumerate 0 (cl_Tiers cl))"

section \<open>Validation\<close>

text \<open>
  \<open>+kubebuilder:validation\<close>, on stored objects. The strings with an enumeration may be empty where the
  struct around them was left out.
\<close>

definition PluginServiceSpec_valid :: "PluginServiceSpec \<Rightarrow> bool" where
  "PluginServiceSpec_valid s \<longleftrightarrow>
     pl_SvcName s \<noteq> '''' \<and> 1 \<le> sint (pl_ListenerPort s) \<and> sint (pl_ListenerPort s) \<le> 65535"

definition PluginSpec_valid :: "PluginSpec \<Rightarrow> bool" where
  "PluginSpec_valid p \<longleftrightarrow>
     pl_Name p \<noteq> '''' \<and> pl_Version p \<noteq> '''' \<and> list_all PluginServiceSpec_valid (pl_Services p)"

definition LogSpec_valid :: "LogSpec \<Rightarrow> bool" where
  "LogSpec_valid s \<longleftrightarrow>
     lg_Level s \<in> {'''', ''trace'', ''debug'', ''info'', ''warn'', ''error''} \<and>
     lg_Format s \<in> {'''', ''plain'', ''json''}"

definition IngressSpec_valid :: "IngressSpec \<Rightarrow> bool" where
  "IngressSpec_valid s \<longleftrightarrow> in_Host s \<noteq> ''''"

definition TierSpec_valid :: "TierSpec \<Rightarrow> bool" where
  "TierSpec_valid t \<longleftrightarrow>
     tier_Name t \<noteq> '''' \<and> 1 \<le> sint (tier_Replicas t) \<and> 1 \<le> sint (tier_ReplicationFactor t) \<and>
     LogSpec_valid (tier_Log t) \<and> list_all PluginSpec_valid (tier_Plugins t) \<and>
     pred_option IngressSpec_valid (tier_Ingress t)"

definition ImageSpec_valid :: "ImageSpec \<Rightarrow> bool" where
  "ImageSpec_valid s \<longleftrightarrow> im_Repository s \<noteq> '''' \<and> im_Tag s \<noteq> ''''"

definition PicoclusterDB_valid :: "PicoclusterDB \<Rightarrow> bool" where
  "PicoclusterDB_valid cl \<longleftrightarrow>
     ImageSpec_valid (spec_Image (cl_Spec cl)) \<and> spec_ClusterName (cl_Spec cl) \<noteq> '''' \<and>
     cl_Tiers cl \<noteq> [] \<and> list_all TierSpec_valid (cl_Tiers cl)"

lemma valid_tier: "PicoclusterDB_valid cl \<Longrightarrow> tier \<in> set (cl_Tiers cl) \<Longrightarrow> TierSpec_valid tier"
  by (simp add: PicoclusterDB_valid_def list_all_iff)

section \<open>The builders bring the same defaults\<close>

text \<open>
  Two tiers, and two clusters, are alike if they differ only in fields that the builders have a default for,
  and are the same with that default.
\<close>

definition alike_tier :: "QuantityLib \<Rightarrow> TierSpec \<Rightarrow> TierSpec \<Rightarrow> bool" where
  "alike_tier q t u \<longleftrightarrow>
     u = t\<lparr>tier_Storage := tier_Storage u, tier_Memtx := tier_Memtx u, tier_Vinyl := tier_Vinyl u, tier_Log := tier_Log u\<rparr> \<and>
     pvcSpecOf q t = pvcSpecOf q u \<and>
     orString (mx_Memory (tier_Memtx t)) ''128M'' = orString (mx_Memory (tier_Memtx u)) ''128M'' \<and>
     orString (vy_Memory (tier_Vinyl t)) ''64M'' = orString (vy_Memory (tier_Vinyl u)) ''64M'' \<and>
     orString (vy_Cache (tier_Vinyl t)) ''32M'' = orString (vy_Cache (tier_Vinyl u)) ''32M'' \<and>
     orString (lg_Level (tier_Log t)) ''info'' = orString (lg_Level (tier_Log u)) ''info'' \<and>
     orString (lg_Format (tier_Log t)) ''plain'' = orString (lg_Format (tier_Log u)) ''plain'' \<and>
     lg_Destination (tier_Log t) = lg_Destination (tier_Log u)"

definition alike_service :: "ServiceSpec \<Rightarrow> ServiceSpec \<Rightarrow> bool" where
  "alike_service s z \<longleftrightarrow>
     orString (sr_Type s) ''ClusterIP'' = orString (sr_Type z) ''ClusterIP'' \<and>
     servicePort (sr_BinaryPort s) 3301 = servicePort (sr_BinaryPort z) 3301 \<and>
     servicePort (sr_HttpPort s) 8081 = servicePort (sr_HttpPort z) 8081 \<and>
     servicePort (sr_PgPort s) 5432 = servicePort (sr_PgPort z) 5432"

definition alike :: "QuantityLib \<Rightarrow> PicoclusterDB \<Rightarrow> PicoclusterDB \<Rightarrow> bool" where
  "alike q cl cu \<longleftrightarrow>
     cu = cl\<lparr>cl_Spec := (cl_Spec cl)\<lparr>spec_Image := spec_Image (cl_Spec cu), spec_Cluster := spec_Cluster (cl_Spec cu),
       spec_Tiers := cl_Tiers cu, spec_Service := spec_Service (cl_Spec cu)\<rparr>\<rparr> \<and>
     list_all2 (alike_tier q) (cl_Tiers cl) (cl_Tiers cu) \<and>
     alike_service (spec_Service (cl_Spec cl)) (spec_Service (cl_Spec cu)) \<and>
     orInt (cs_DefaultReplicationFactor (spec_Cluster (cl_Spec cl))) 1 =
       orInt (cs_DefaultReplicationFactor (spec_Cluster (cl_Spec cu))) 1 \<and>
     orInt (cs_DefaultBucketCount (spec_Cluster (cl_Spec cl))) 3000 =
       orInt (cs_DefaultBucketCount (spec_Cluster (cl_Spec cu))) 3000 \<and>
     cs_Shredding (spec_Cluster (cl_Spec cl)) = cs_Shredding (spec_Cluster (cl_Spec cu)) \<and>
     im_Repository (spec_Image (cl_Spec cl)) = im_Repository (spec_Image (cl_Spec cu)) \<and>
     im_Tag (spec_Image (cl_Spec cl)) = im_Tag (spec_Image (cl_Spec cu)) \<and>
     orString (im_PullPolicy (spec_Image (cl_Spec cl))) ''IfNotPresent'' =
       orString (im_PullPolicy (spec_Image (cl_Spec cu))) ''IfNotPresent''"

lemma alike_tier_sel:
  assumes "alike_tier q t u"
  shows "tier_Name t = tier_Name u" "tier_Replicas t = tier_Replicas u"
    "tier_ReplicationFactor t = tier_ReplicationFactor u"
    "tier_CanVote t = tier_CanVote u" "tier_Pg t = tier_Pg u" "tier_Plugins t = tier_Plugins u"
    "tier_Ingress t = tier_Ingress u" "tier_ShareDir t = tier_ShareDir u" "tier_Resources t = tier_Resources u"
    "tier_Env t = tier_Env u" "tier_Affinity t = tier_Affinity u" "tier_Tolerations t = tier_Tolerations u"
    "tier_NodeSelector t = tier_NodeSelector u"
    "tier_TopologySpreadConstraints t = tier_TopologySpreadConstraints u"
    "tier_SecurityContext t = tier_SecurityContext u"
    "tier_DisableAutoAntiAffinity t = tier_DisableAutoAntiAffinity u"
proof -
  obtain s m v l where "u = t\<lparr>tier_Storage := s, tier_Memtx := m, tier_Vinyl := v, tier_Log := l\<rparr>"
    using assms unfolding alike_tier_def by blast
  then show "tier_Name t = tier_Name u" "tier_Replicas t = tier_Replicas u"
    "tier_ReplicationFactor t = tier_ReplicationFactor u"
    "tier_CanVote t = tier_CanVote u" "tier_Pg t = tier_Pg u" "tier_Plugins t = tier_Plugins u"
    "tier_Ingress t = tier_Ingress u" "tier_ShareDir t = tier_ShareDir u" "tier_Resources t = tier_Resources u"
    "tier_Env t = tier_Env u" "tier_Affinity t = tier_Affinity u" "tier_Tolerations t = tier_Tolerations u"
    "tier_NodeSelector t = tier_NodeSelector u"
    "tier_TopologySpreadConstraints t = tier_TopologySpreadConstraints u"
    "tier_SecurityContext t = tier_SecurityContext u"
    "tier_DisableAutoAntiAffinity t = tier_DisableAutoAntiAffinity u" by simp_all
qed

lemma alike_sel:
  assumes "alike q cl cu"
  shows "cl_Meta cl = cl_Meta cu" "spec_ClusterName (cl_Spec cl) = spec_ClusterName (cl_Spec cu)"
    "spec_AdminPassword (cl_Spec cl) = spec_AdminPassword (cl_Spec cu)"
    "spec_ImagePullSecrets (cl_Spec cl) = spec_ImagePullSecrets (cl_Spec cu)"
    "spec_StartupProbe (cl_Spec cl) = spec_StartupProbe (cl_Spec cu)"
    "spec_LivenessProbe (cl_Spec cl) = spec_LivenessProbe (cl_Spec cu)"
    "spec_ReadinessProbe (cl_Spec cl) = spec_ReadinessProbe (cl_Spec cu)"
proof -
  obtain i c ts s where "cu = cl\<lparr>cl_Spec := (cl_Spec cl)\<lparr>spec_Image := i, spec_Cluster := c, spec_Tiers := ts, spec_Service := s\<rparr>\<rparr>"
    using assms unfolding alike_def by blast
  then show "cl_Meta cl = cl_Meta cu" "spec_ClusterName (cl_Spec cl) = spec_ClusterName (cl_Spec cu)"
    "spec_AdminPassword (cl_Spec cl) = spec_AdminPassword (cl_Spec cu)"
    "spec_ImagePullSecrets (cl_Spec cl) = spec_ImagePullSecrets (cl_Spec cu)"
    "spec_StartupProbe (cl_Spec cl) = spec_StartupProbe (cl_Spec cu)"
    "spec_LivenessProbe (cl_Spec cl) = spec_LivenessProbe (cl_Spec cu)"
    "spec_ReadinessProbe (cl_Spec cl) = spec_ReadinessProbe (cl_Spec cu)" by simp_all
qed

lemma alike_ports:
  assumes "alike q cl cu"
  shows "servicePort (sr_BinaryPort (spec_Service (cl_Spec cl))) 3301 = servicePort (sr_BinaryPort (spec_Service (cl_Spec cu))) 3301"
    "servicePort (sr_HttpPort (spec_Service (cl_Spec cl))) 8081 = servicePort (sr_HttpPort (spec_Service (cl_Spec cu))) 8081"
    "servicePort (sr_PgPort (spec_Service (cl_Spec cl))) 5432 = servicePort (sr_PgPort (spec_Service (cl_Spec cu))) 5432"
  using assms by (simp_all add: alike_def alike_service_def)

lemma alike_names:
  assumes "alike q cl cu" "alike_tier q t u"
  shows "configMapName cl t = configMapName cu u" "interconnectServiceName cl t = interconnectServiceName cu u"
    "clientServiceName cl t = clientServiceName cu u" "statefulSetName cl t i = statefulSetName cu u i"
    "tierLabels cl t = tierLabels cu u" "replicasetLabels cl t i = replicasetLabels cu u i"
  by (simp_all add: configMapName_def interconnectServiceName_def clientServiceName_def statefulSetName_def
      tierLabels_def replicasetLabels_eq alike_tier_sel [OF assms(2)] alike_sel [OF assms(1)])

lemma alike_config:
  assumes cl: "alike q cl cu" and t: "alike_tier q t u" and t0: "alike_tier q t0 u0"
  shows "configYAML cl t t0 = configYAML cu u u0"
proof -
  have "map tierYAML ts = map tierYAML us" if "list_all2 (alike_tier q) ts us" for ts us
    using that by (induction rule: list_all2_induct) (simp_all add: tierYAML_def alike_tier_sel)
  with cl have tiers: "map tierYAML (cl_Tiers cl) = map tierYAML (cl_Tiers cu)" by (simp add: alike_def)
  have plugins: "buildPluginListenerConfig t = buildPluginListenerConfig u"
    by (simp add: buildPluginListenerConfig_def pluginEntries_def alike_tier_sel [OF t])
  have peer: "peerFQDN cl t0 = peerFQDN cu u0"
    by (simp add: peerFQDN_def alike_sel [OF cl] alike_tier_sel [OF t0] alike_ports [OF cl])
  have listen: "pgListen cl t = pgListen cu u"
    by (simp add: pgListen_def alike_tier_sel [OF t] alike_ports [OF cl])
  note own = cl [unfolded alike_def] t [unfolded alike_tier_def]
  show ?thesis
    unfolding configYAML_def Let_def plugins peer listen tiers alike_sel [OF cl] alike_ports [OF cl]
    using own by (simp only: alike_tier_sel [OF t])
qed

lemma alike_ConfigMap:
  assumes "alike q cl cu" "alike_tier q t u"
  shows "buildConfigMap cl t = buildConfigMap cu u"
proof -
  from assms(1) have tiers: "list_all2 (alike_tier q) (cl_Tiers cl) (cl_Tiers cu)" by (simp add: alike_def)
  then show ?thesis
    by (cases "cl_Tiers cl"; cases "cl_Tiers cu")
      (simp_all add: buildConfigMap_def alike_names [OF assms] alike_sel [OF assms(1)] alike_config [OF assms])
qed

lemma alike_Services:
  assumes "alike q cl cu" "alike_tier q t u"
  shows "buildInterconnectService cl t = buildInterconnectService cu u" "buildClientService cl t = buildClientService cu u"
proof -
  have "orString (sr_Type (spec_Service (cl_Spec cl))) ''ClusterIP'' = orString (sr_Type (spec_Service (cl_Spec cu))) ''ClusterIP''"
    using assms(1) by (simp add: alike_def alike_service_def)
  then show "buildInterconnectService cl t = buildInterconnectService cu u" "buildClientService cl t = buildClientService cu u"
    by (simp_all add: buildInterconnectService_def buildClientService_def Let_def pluginServicePorts_def orString_def
        alike_names [OF assms] alike_sel [OF assms(1)] alike_ports [OF assms(1)] alike_tier_sel [OF assms(2)])
qed

lemma alike_Ingress:
  assumes "alike q cl cu" "alike_tier q t u"
  shows "buildIngress cl t = buildIngress cu u"
  by (simp add: buildIngress_def Let_def alike_names [OF assms] alike_sel [OF assms(1)] alike_ports [OF assms(1)]
      alike_tier_sel [OF assms(2)] split: option.split)

lemma alike_containers:
  assumes "alike q cl cu" "alike_tier q t u"
  shows "mainContainer cl t i img pull = mainContainer cu u i img pull"
    "buildConfigInitContainer cl t img pull = buildConfigInitContainer cu u img pull"
proof -
  note same = alike_names [OF assms] alike_sel [OF assms(1)] alike_ports [OF assms(1)] alike_tier_sel [OF assms(2)]
  have "baseEnv cl t i = baseEnv cu u i" by (simp add: baseEnv_def advertiseAddr_def Let_def same)
  moreover have "containerPorts cl t = containerPorts cu u" by (simp add: containerPorts_def Let_def same)
  ultimately show "mainContainer cl t i img pull = mainContainer cu u i img pull"
    by (simp add: mainContainer_def Let_def same)
  have "sedExpr cl t = sedExpr cu u" by (simp add: sedExpr_def fun_eq_iff same)
  then have "sedExprs cl t = sedExprs cu u" by (simp add: sedExprs_def same)
  then show "buildConfigInitContainer cl t img pull = buildConfigInitContainer cu u img pull"
    by (simp add: buildConfigInitContainer_def initScript_def)
qed

lemma alike_StatefulSet:
  assumes "alike q cl cu" "alike_tier q t u"
  shows "built q cl t i cfg = built q cu u i cfg"
proof -
  note same = alike_names [OF assms] alike_sel [OF assms(1)] alike_ports [OF assms(1)] alike_tier_sel [OF assms(2)]
  have "podAffinity cl t i = podAffinity cu u i" by (simp add: podAffinity_def same)
  moreover have "podVolumes cl t = podVolumes cu u" by (simp add: podVolumes_def same)
  moreover have "pvcSpecOf q t = pvcSpecOf q u" using assms(2) by (simp add: alike_tier_def)
  moreover have "orString (im_PullPolicy (spec_Image (cl_Spec cl))) ''IfNotPresent'' =
      orString (im_PullPolicy (spec_Image (cl_Spec cu))) ''IfNotPresent''"
      "im_Repository (spec_Image (cl_Spec cl)) = im_Repository (spec_Image (cl_Spec cu))"
      "im_Tag (spec_Image (cl_Spec cl)) = im_Tag (spec_Image (cl_Spec cu))"
    using assms(1) by (simp_all add: alike_def)
  ultimately show ?thesis
    by (simp add: buildStatefulSet_unfold Let_def split_beta alike_containers [OF assms] same orString_def)
qed

text \<open>Filling in all defaults, or those of the five fields only, gives clusters that are alike.\<close>

lemma filled_string: "zero_unless_written w f (v = '''') \<Longrightarrow> orString (orDefault w f v d) d = orString v d"
  by (auto simp: zero_unless_written_def orDefault_def orString_def)

lemma filled_int: "zero_unless_written w f (v = 0) \<Longrightarrow> orInt (orDefault w f v d) d = orInt v d"
  by (auto simp: zero_unless_written_def orDefault_def orInt_def)

lemma filled_port: "zero_unless_written w f (v = 0) \<Longrightarrow> servicePort (orDefault w f v d) d = servicePort v d"
  by (auto simp: zero_unless_written_def orDefault_def servicePort_def)

lemma filled_tier:
  assumes "tier_decoded q w t"
  shows "alike_tier q (TierSpec_defaults q w t) (needed_tier w t)"
proof -
  have "pvcSpecOf q (TierSpec_defaults q w t) = pvcSpecOf q (needed_tier w t)"
    using assms by (auto simp: tier_decoded_def pvcSpecOf_def TierSpec_defaults_def needed_tier_def inside_def
        StorageSpec_defaults_def orDefault_def zero_unless_written_def)
  then show ?thesis
    using assms by (simp add: alike_tier_def TierSpec_defaults_def needed_tier_def inside_def MemtxSpec_defaults_def
        VinylSpec_defaults_def LogSpec_defaults_def tier_decoded_def filled_string)
qed

lemma filled_alike:
  assumes "decoded q w cl"
  shows "alike q (PicoclusterDB_defaults q w cl) (needed_defaults w cl)"
proof -
  have "list_all2 (alike_tier q) (map (\<lambda>(i, t). TierSpec_defaults q (tier_paths w i) t) ts)
      (map (\<lambda>(i, t). needed_tier (tier_paths w i) t) ts)"
    if "list_all (\<lambda>(i, t). tier_decoded q (tier_paths w i) t) ts" for ts
    using that by (induction ts) (auto simp: filled_tier)
  with assms have "list_all2 (alike_tier q) (cl_Tiers (PicoclusterDB_defaults q w cl)) (cl_Tiers (needed_defaults w cl))"
    by (simp add: decoded_def PicoclusterDB_defaults_def needed_defaults_def)
  then show ?thesis
    using assms unfolding alike_def alike_service_def decoded_def
    by (simp add: PicoclusterDB_defaults_def needed_defaults_def inside_def ImageSpec_defaults_def
        ClusterSpec_defaults_def ServiceSpec_defaults_def filled_string filled_int filled_port)
qed

section \<open>What validation gives\<close>

lemma valid_services:
  assumes "PluginSpec_valid p"
  shows "svcEntries p = map (\<lambda>s. (pl_SvcName s, pl_ListenerPort s)) (pl_Services p)"
    and "filter (\<lambda>s. \<not> sint (pl_ListenerPort s) \<le> 0) (pl_Services p) = pl_Services p"
proof -
  have pos: "0 < sint (pl_ListenerPort s)" if "s \<in> set (pl_Services p)" for s
    using assms that by (force simp: PluginSpec_valid_def PluginServiceSpec_valid_def list_all_iff)
  then have "filter (\<lambda>s. 0 < sint (pl_ListenerPort s)) (pl_Services p) = pl_Services p"
    by (intro filter_True) simp
  then show "svcEntries p = map (\<lambda>s. (pl_SvcName s, pl_ListenerPort s)) (pl_Services p)"
    by (simp add: svcEntries_def)
  show "filter (\<lambda>s. \<not> sint (pl_ListenerPort s) \<le> 0) (pl_Services p) = pl_Services p"
    using pos by (intro filter_True) (simp add: not_le)
qed

lemma pluginEntries_ports:
  assumes "list_all PluginSpec_valid (tier_Plugins tier)"
  shows "concat (map (\<lambda>(name, svcs). map (\<lambda>(s, port). (name @ ''-'' @ s, port)) svcs) (pluginEntries tier)) =
     map (\<lambda>sp. (sp_Name sp, sp_Port sp)) (pluginServicePorts tier)"
  using assms concat_pluginEntries [of "\<lambda>name (s, port). (name @ ''-'' @ s, port)" tier]
  by (auto simp: pluginServicePorts_def map_concat comp_def servicePortOf_def list_all_iff valid_services
      intro!: arg_cong [where f = concat])

lemma sedExprs_ports:
  assumes "list_all PluginSpec_valid (tier_Plugins tier)"
  shows "length (sedExprs cl tier) = length (pluginServicePorts tier)"
  using assms by (auto simp: sedExprs_def pluginServicePorts_def length_concat comp_def list_all_iff valid_services
      intro!: arg_cong [where f = sum_list])

lemma valid_ports:
  assumes "list_all PluginSpec_valid (tier_Plugins tier)" "sp \<in> set (pluginServicePorts tier)"
  shows "1 \<le> sint (sp_Port sp) \<and> sint (sp_Port sp) \<le> 65535"
  using assms
  by (force simp: service_port_name_shape PluginSpec_valid_def PluginServiceSpec_valid_def list_all_iff servicePortOf_def)

section \<open>Properties\<close>

text \<open>C14: Of all the defaults of the schema only those of five fields matter: replicas, replicationFactor,
  canVote and, where their section is there, pg.enabled and ingress.enabled. For every tier of a cluster
  whose left-out fields are decoded as zero values, the ConfigMap, both Services, the Ingress and the
  StatefulSets that the operator builds, and their number, are the same whether the API server fills in
  all the defaults or those five only: for the rest the builders have the same defaults.\<close>

theorem five_defaults_matter:
  assumes "decoded q w cl" and "k < length (cl_Tiers cl)"
    and "all = PicoclusterDB_defaults q w cl" and "t = cl_Tiers all ! k"
    and "five = needed_defaults w cl" and "u = cl_Tiers five ! k"
  shows "buildConfigMap all t = buildConfigMap five u \<and>
    buildInterconnectService all t = buildInterconnectService five u \<and>
    buildClientService all t = buildClientService five u \<and>
    buildIngress all t = buildIngress five u \<and>
    tier_Replicas t = tier_Replicas u \<and> tier_Ingress t = tier_Ingress u \<and>
    (\<forall>i cfg. built q all t i cfg = built q five u i cfg)"
proof -
  have cl: "alike q all five" unfolding assms(3,5) by (rule filled_alike [OF assms(1)])
  have "k < length (cl_Tiers all)" using assms(2) by (simp add: assms(3) PicoclusterDB_defaults_def)
  with cl have t: "alike_tier q t u" unfolding assms(4,6) alike_def by (blast dest: list_all2_nthD)
  show ?thesis
    using alike_ConfigMap [OF cl t] alike_Services [OF cl t] alike_Ingress [OF cl t] alike_StatefulSet [OF cl t]
      alike_tier_sel [OF t] by blast
qed

text \<open>A tier that was written without \<open>canVote\<close>, with an empty \<open>pg\<close> section and without \<open>log\<close>.\<close>

definition shortPaths :: written where
  "shortPaths p \<longleftrightarrow> last p \<notin> {''canVote'', ''enabled'', ''log'', ''level'', ''format''}"

definition shortCluster :: PicoclusterDB where
  "shortCluster = sampleCluster\<lparr>cl_Spec := sampleSpec\<lparr>spec_Tiers :=
     [routerTier\<lparr>tier_Pg := \<lparr>pg_Enabled = False, pg_SSL = False\<rparr>\<rparr>]\<rparr>\<rparr>"

definition textQuantities :: QuantityLib where
  "textQuantities = \<lparr>ql_MustParse = Quantity, ql_IsZero = (\<lambda>x. x = Quantity ''0'')\<rparr>"

theorem five_defaults_matter_witness:
  "\<exists>t u. cl_Tiers (PicoclusterDB_defaults textQuantities shortPaths shortCluster) = [t] \<and>
     cl_Tiers (needed_defaults shortPaths shortCluster) = [u] \<and>
     tier_CanVote t \<and> pg_Enabled (tier_Pg t) \<and> \<not> tier_CanVote (cl_Tiers shortCluster ! 0) \<and>
     buildConfigMap (PicoclusterDB_defaults textQuantities shortPaths shortCluster) t =
       buildConfigMap (needed_defaults shortPaths shortCluster) u"
proof -
  have "decoded textQuantities shortPaths shortCluster"
    by (simp add: decoded_def tier_decoded_def zero_unless_written_def below_def tier_paths_def shortPaths_def
        shortCluster_def sampleSpec_def routerTier_def)
  moreover have "length (cl_Tiers shortCluster) = 1" by (simp add: shortCluster_def)
  moreover have "\<exists>t. cl_Tiers (PicoclusterDB_defaults textQuantities shortPaths shortCluster) = [t] \<and> tier_CanVote t \<and> pg_Enabled (tier_Pg t)"
    by (simp add: PicoclusterDB_defaults_def shortCluster_def TierSpec_defaults_def orDefault_def inside_def
        PgSpec_defaults_def below_def tier_paths_def shortPaths_def)
  moreover have "\<exists>u. cl_Tiers (needed_defaults shortPaths shortCluster) = [u]"
    by (simp add: needed_defaults_def shortCluster_def)
  moreover have "\<not> tier_CanVote (cl_Tiers shortCluster ! 0)" by (simp add: shortCluster_def routerTier_def)
  ultimately show ?thesis using five_defaults_matter [of textQuantities shortPaths shortCluster 0] by fastforce
qed

text \<open>C13: What the schema admits can be built: no builder panics for a tier of a valid cluster, every StatefulSet
  asks for at least one pod, and each service of a plugin has one port of the client Service in the range
  of TCP ports, one listener of the same name and port in the configuration, in the same order, and one
  substitution of its advertised address.\<close>

theorem valid_cluster_builds:
  assumes "PicoclusterDB_valid cl" and "tier \<in> set (cl_Tiers cl)"
  shows "(\<exists>cm. buildConfigMap cl tier = Ok cm) \<and>
    (tier_Ingress tier = None \<or> (\<exists>ig. buildIngress cl tier = Ok ig)) \<and>
    (\<exists>n. ss_Replicas (st_Spec (built q cl tier i cfg)) = Some n \<and> 1 \<le> sint n) \<and>
    list_all (\<lambda>sp. 1 \<le> sint (sp_Port sp) \<and> sint (sp_Port sp) \<le> 65535) (pluginServicePorts tier) \<and>
    concat (map (\<lambda>(name, svcs). map (\<lambda>(s, port). (name @ ''-'' @ s, port)) svcs) (pluginEntries tier)) =
      map (\<lambda>sp. (sp_Name sp, sp_Port sp)) (pluginServicePorts tier) \<and>
    length (sedExprs cl tier) = length (pluginServicePorts tier)"
proof -
  have tier: "TierSpec_valid tier" by (rule valid_tier [OF assms])
  then have plugins: "list_all PluginSpec_valid (tier_Plugins tier)" by (simp add: TierSpec_valid_def)
  have "cl_Tiers cl \<noteq> []" using assms(2) by auto
  then have "\<exists>cm. buildConfigMap cl tier = Ok cm" by (simp add: buildConfigMap_Ok_iff)
  moreover have "tier_Ingress tier = None \<or> (\<exists>ig. buildIngress cl tier = Ok ig)"
    by (cases "tier_Ingress tier") (simp_all add: buildIngress_def Let_def)
  moreover have "\<exists>n. ss_Replicas (st_Spec (built q cl tier i cfg)) = Some n \<and> 1 \<le> sint n"
    using tier by (simp add: TierSpec_valid_def)
  ultimately show ?thesis
    using valid_ports [OF plugins] pluginEntries_ports [OF plugins] sedExprs_ports [OF plugins] by (simp add: list_all_iff)
qed

theorem valid_cluster_builds_witness:
  "map (\<lambda>sp. (sp_Name sp, sp_Port sp)) (pluginServicePorts storageTier) = [(''radix-kv'', 6379)] \<and>
   concat (map (\<lambda>(name, svcs). map (\<lambda>(s, port). (name @ ''-'' @ s, port)) svcs) (pluginEntries storageTier)) =
     [(''radix-kv'', 6379)]"
proof -
  have "PicoclusterDB_valid sampleCluster" "storageTier \<in> set (cl_Tiers sampleCluster)"
    by (simp_all add: PicoclusterDB_valid_def sample_defs ImageSpec_valid_def TierSpec_valid_def LogSpec_valid_def
        PluginSpec_valid_def PluginServiceSpec_valid_def IngressSpec_valid_def)
  moreover have "map (\<lambda>sp. (sp_Name sp, sp_Port sp)) (pluginServicePorts storageTier) = [(''radix-kv'', 6379)]"
    by (simp add: pluginServicePorts_def sample_defs servicePortOf_def)
  ultimately show ?thesis using valid_cluster_builds [of sampleCluster storageTier] by simp
qed

end
