(* ===== verification/Scheme_Setup.thy ===== *)
theory Scheme_Setup
  imports Prelude
begin

text \<open>
  The registration of the API types: api/v1/groupversion_info.go, the \<open>init\<close> of api/v1/picoclusterdb_types.go
  and the \<open>init\<close> of cmd/main.go, in the order in which Go initialises the packages. The scheme and its builder
  are apimachinery's and controller-runtime's, as is \<open>utilruntime.Must\<close>: they are types \<open>'sch\<close> and \<open>'b\<close>, and the record \<open>SchemeLib\<close>
  has one field per call.
\<close>

record GroupVersion =
  gv_Group :: string
  gv_Version :: string

text \<open>The Go types that are registered.\<close>

datatype api_type = PicoclusterDBType | PicoclusterDBListType

record ('b, 'sch) SchemeLib =
  sl_Builder :: "GroupVersion \<Rightarrow> 'b"
  sl_Register :: "'b \<Rightarrow> api_type list \<Rightarrow> 'b"
  sl_AddToScheme :: "'b \<Rightarrow> 'sch \<Rightarrow> error option \<times> 'sch"
  sl_NewScheme :: 'sch
  sl_ClientGo :: "'sch \<Rightarrow> error option \<times> 'sch"
  sl_Must :: "error option \<Rightarrow> unit result"

section \<open>Package api/v1\<close>

definition GroupVersion_v1 :: GroupVersion where
  "GroupVersion_v1 = \<lparr>gv_Group = ''picodata.picodata.io'', gv_Version = ''v1''\<rparr>"

definition SchemeBuilder :: "('b, 'sch) SchemeLib \<Rightarrow> 'b" where
  "SchemeBuilder lib = sl_Builder lib GroupVersion_v1"

definition init_types :: "('b, 'sch) SchemeLib \<Rightarrow> 'b \<Rightarrow> 'b" where
  "init_types lib builder = sl_Register lib builder [PicoclusterDBType, PicoclusterDBListType]"

text \<open>The method value \<open>SchemeBuilder.AddToScheme\<close> is bound to a pointer: it works on the builder as it is when called.\<close>

definition AddToScheme :: "('b, 'sch) SchemeLib \<Rightarrow> 'b \<Rightarrow> ('sch, error option) go" where
  "AddToScheme lib builder = (\<lambda>sch. case sl_AddToScheme lib builder sch of (e, sch') \<Rightarrow> Some (Ok e, sch'))"

section \<open>Package main\<close>

definition init_main :: "('b, 'sch) SchemeLib \<Rightarrow> 'b \<Rightarrow> ('sch, unit) go" where
  "init_main lib builder =
     bindG (\<lambda>sch. case sl_ClientGo lib sch of (e, sch') \<Rightarrow> Some (Ok e, sch')) (\<lambda>e.
     bindG (liftG (sl_Must lib e)) (\<lambda>_.
     bindG (AddToScheme lib builder) (\<lambda>e. liftG (sl_Must lib e))))"

text \<open>Initialisation up to the call of \<open>main\<close>: variables and \<open>init\<close> of api/v1 first, then those of the importing package.\<close>

definition initialise :: "('b, 'sch) SchemeLib \<Rightarrow> (unit result \<times> 'sch) option" where
  "initialise lib = init_main lib (init_types lib (SchemeBuilder lib)) (sl_NewScheme lib)"

section \<open>What the scheme knows\<close>

text \<open>
  The documented behaviour of the builder and of \<open>AddToScheme\<close>: a builder collects the types it is given
  under its group and version, and adding it without an error makes the scheme know them beside all it knew.
\<close>

definition scheme_law ::
  "('b, 'sch) SchemeLib \<Rightarrow> ('b \<Rightarrow> GroupVersion) \<Rightarrow> ('b \<Rightarrow> api_type list) \<Rightarrow> ('sch \<Rightarrow> GroupVersion \<Rightarrow> api_type \<Rightarrow> bool) \<Rightarrow> bool" where
  "scheme_law lib gv_of types knows \<longleftrightarrow>
     (\<forall>gv. gv_of (sl_Builder lib gv) = gv \<and> types (sl_Builder lib gv) = []) \<and>
     (\<forall>b ts. gv_of (sl_Register lib b ts) = gv_of b \<and> types (sl_Register lib b ts) = types b @ ts) \<and>
     (\<forall>b sch sch'. sl_AddToScheme lib b sch = (None, sch') \<longrightarrow>
        (\<forall>gv t. knows sch' gv t \<longleftrightarrow> knows sch gv t \<or> gv = gv_of b \<and> t \<in> set (types b)))"

text \<open>\<open>Must\<close> is documented to panic on an error and to do nothing else.\<close>

definition must_law :: "('b, 'sch) SchemeLib \<Rightarrow> bool" where
  "must_law lib \<longleftrightarrow> sl_Must lib None = Ok () \<and> (\<forall>e. \<exists>msg. sl_Must lib (Some e) = Panic msg)"

lemma must_lawE:
  assumes "must_law lib"
  obtains msg where "sl_Must lib None = Ok ()" "sl_Must lib (Some e) = Panic msg"
  using assms unfolding must_law_def by blast

lemma init_main_run:
  assumes "must_law lib"
  shows "init_main lib b sch =
    (case sl_ClientGo lib sch of
       (Some e, sch1) \<Rightarrow> Some (sl_Must lib (Some e), sch1)
     | (None, sch1) \<Rightarrow> (case sl_AddToScheme lib b sch1 of (e, sch2) \<Rightarrow> Some (sl_Must lib e, sch2)))"
proof -
  obtain e1 sch1 where one: "sl_ClientGo lib sch = (e1, sch1)" by fastforce
  show ?thesis
  proof (cases e1)
    case None
    with one assms show ?thesis
      by (auto simp: init_main_def AddToScheme_def must_law_def bindG_def liftG_def split: prod.split result.split)
  next
    case (Some e)
    obtain msg where "sl_Must lib (Some e) = Panic msg" using must_lawE [OF assms] by metis
    with Some one show ?thesis by (simp add: init_main_def bindG_def liftG_def)
  qed
qed

text \<open>C39: The process reaches its main function only with a scheme that knows the cluster type and its list type under the
  group picodata.picodata.io and version v1; a registration that fails, client-go's or this one, ends it
  with the panic that Must raises for the first error.\<close>

theorem initialise_registers:
  assumes "scheme_law lib gv_of types knows" and "must_law lib"
    and "sl_ClientGo lib (sl_NewScheme lib) = (e1, sch1)"
    and "sl_AddToScheme lib (init_types lib (SchemeBuilder lib)) sch1 = (e2, sch2)"
  shows "(if e1 = None \<and> e2 = None
      then initialise lib = Some (Ok (), sch2) \<and>
           knows sch2 \<lparr>gv_Group = ''picodata.picodata.io'', gv_Version = ''v1''\<rparr> t
      else \<exists>sch msg. initialise lib = Some (Panic msg, sch) \<and> sl_Must lib (if e1 \<noteq> None then e1 else e2) = Panic msg)"
proof (cases "e1 = None \<and> e2 = None")
  case True
  then have "initialise lib = Some (Ok (), sch2)"
    using assms(2-4) by (simp add: initialise_def init_main_run must_law_def)
  moreover have "knows sch2 GroupVersion_v1 t"
    using assms(1,4) True by (cases t) (simp_all add: scheme_law_def init_types_def SchemeBuilder_def)
  ultimately show ?thesis using True by (simp add: GroupVersion_v1_def)
next
  case False
  then obtain e where e: "(if e1 \<noteq> None then e1 else e2) = Some e" by (cases e1; cases e2) auto
  obtain msg where "sl_Must lib (Some e) = Panic msg" using must_lawE [OF assms(2)] by metis
  moreover have "\<exists>sch. initialise lib = Some (sl_Must lib (Some e), sch)"
    using e assms(3,4) by (cases e1) (simp_all add: initialise_def init_main_run [OF assms(2)])
  ultimately show ?thesis using False e by auto
qed

text \<open>A builder that is a list of types and a scheme that is a list of what it knows.\<close>

definition listLib :: "(GroupVersion \<times> api_type list, (GroupVersion \<times> api_type) list) SchemeLib" where
  "listLib =
     \<lparr>sl_Builder = (\<lambda>gv. (gv, [])), sl_Register = (\<lambda>(gv, ts) us. (gv, ts @ us)),
      sl_AddToScheme = (\<lambda>(gv, ts) sch. (None, sch @ map (Pair gv) ts)),
      sl_NewScheme = [], sl_ClientGo = (\<lambda>sch. (None, sch)),
      sl_Must = (\<lambda>e. case e of None \<Rightarrow> Ok () | Some _ \<Rightarrow> Panic ''error'')\<rparr>"

theorem initialise_registers_witness:
  "\<exists>sch. initialise listLib = Some (Ok (), sch) \<and>
     (\<lparr>gv_Group = ''picodata.picodata.io'', gv_Version = ''v1''\<rparr>, PicoclusterDBListType) \<in> set sch"
proof -
  have "scheme_law listLib fst snd (\<lambda>sch gv t. (gv, t) \<in> set sch)"
    by (auto simp: scheme_law_def listLib_def)
  moreover have "must_law listLib" by (simp add: must_law_def listLib_def)
  ultimately show ?thesis
    using initialise_registers [of listLib fst snd "\<lambda>sch gv t. (gv, t) \<in> set sch" None "[]" None]
    by (simp add: listLib_def init_types_def SchemeBuilder_def GroupVersion_v1_def)
qed

end
