(* ===== verification/Go_Text.thy ===== *)
theory Go_Text
  imports Prelude "HOL-Library.Sublist"
begin

text \<open>
  The functions of the packages strings and bufio that the test utilities use, on texts as lists of
  bytes: \<open>Index\<close>, \<open>Contains\<close>, \<open>TrimPrefix\<close>, \<open>ReplaceAll\<close>, splitting at newlines, and a \<open>bufio.Scanner\<close>
  over the lines of a text.
\<close>

abbreviation nl :: char where "nl \<equiv> CHR 0x0A"
abbreviation cr :: char where "cr \<equiv> CHR 0x0D"

section \<open>Searching\<close>

text \<open>\<open>strings.Index\<close>, with \<open>None\<close> for -1.\<close>

fun Index :: "string \<Rightarrow> string \<Rightarrow> nat option" where
  "Index s t =
     (if prefix t s then Some 0
      else (case s of [] \<Rightarrow> None | _ # s' \<Rightarrow> map_option Suc (Index s' t)))"

declare Index.simps [simp del]

lemma Index_None: "Index s t = None \<longleftrightarrow> \<not> sublist t s"
  by (induction s) (simp_all add: Index.simps sublist_Cons_right)

lemma Index_at: "Index s t = Some i \<Longrightarrow> \<exists>rest. s = take i s @ t @ rest \<and> drop (i + length t) s = rest"
proof (induction s arbitrary: i)
  case Nil
  then show ?case by (auto simp: Index.simps split: if_splits)
next
  case (Cons c s)
  show ?case
  proof (cases "prefix t (c # s)")
    case True
    then obtain rest where "c # s = t @ rest" by (auto simp: prefix_def)
    moreover have "i = 0" using Cons.prems True by (simp add: Index.simps)
    ultimately show ?thesis by simp
  next
    case False
    with Cons.prems obtain j where "Index s t = Some j" "i = Suc j" by (auto simp: Index.simps)
    with Cons.IH show ?thesis by auto
  qed
qed

definition Contains :: "string \<Rightarrow> string \<Rightarrow> bool" where
  "Contains s t \<longleftrightarrow> Index s t \<noteq> None"

lemma Contains_iff: "Contains s t \<longleftrightarrow> sublist t s"
  by (simp add: Contains_def Index_None)

definition TrimPrefix :: "string \<Rightarrow> string \<Rightarrow> string" where
  "TrimPrefix s p = (if prefix p s then drop (length p) s else s)"

lemma TrimPrefix_append [simp]: "TrimPrefix (p @ s) p = s"
  by (simp add: TrimPrefix_def)

text \<open>\<open>strings.ReplaceAll\<close>: occurrences from the left, without overlap; an empty pattern occurs around every byte.\<close>

function ReplaceAll :: "string \<Rightarrow> string \<Rightarrow> string \<Rightarrow> string" where
  "ReplaceAll s old new =
     (if old = [] then new @ concat (map (\<lambda>c. c # new) s)
      else (case Index s old of
              None \<Rightarrow> s
            | Some i \<Rightarrow> take i s @ new @ ReplaceAll (drop (i + length old) s) old new))"
  by pat_completeness auto

termination
proof (relation "measure (\<lambda>(s, _, _). length s)", simp)
  fix s old new :: string and i
  assume "old \<noteq> []" "Index s old = Some i"
  then obtain rest where "s = take i s @ old @ rest" "drop (i + length old) s = rest" using Index_at by blast
  then have "length s = length (take i s) + length old + length (drop (i + length old) s)"
    by (metis append.assoc length_append)
  moreover have "0 < length old" using \<open>old \<noteq> []\<close> by simp
  ultimately have "length (drop (i + length old) s) < length s" by linarith
  then show "((drop (i + length old) s, old, new), s, old, new) \<in> measure (\<lambda>(s, _, _). length s)"
    by simp
qed

declare ReplaceAll.simps [simp del]

lemma ReplaceAll_absent: "old \<noteq> [] \<Longrightarrow> \<not> sublist old s \<Longrightarrow> ReplaceAll s old new = s"
  by (simp add: ReplaceAll.simps Index_None [symmetric])

section \<open>Lines\<close>

text \<open>\<open>strings.SplitSeq(s, "\n")\<close>.\<close>

fun split_lines :: "string \<Rightarrow> string list" where
  "split_lines [] = [[]]"
| "split_lines (c # s) =
     (if c = nl then [] # split_lines s
      else (case split_lines s of l # ls \<Rightarrow> (c # l) # ls | [] \<Rightarrow> [[c]]))"

lemma split_lines_nonempty [simp]: "split_lines s \<noteq> []"
  by (cases s) (auto split: list.split)

lemma Join_split_lines: "Join (split_lines s) [nl] = s"
proof (induction s)
  case (Cons c s)
  obtain l ls where "split_lines s = l # ls" by (meson list.exhaust split_lines_nonempty)
  with Cons show ?case by (cases ls) auto
qed simp

text \<open>A text without a newline occurs in a text exactly when it occurs in one of its lines.\<close>

lemma prefix_split_lines:
  "nl \<notin> set t \<Longrightarrow> prefix t s \<longleftrightarrow> prefix t (hd (split_lines s))"
proof (induction s arbitrary: t)
  case (Cons c s)
  obtain l ls where "split_lines s = l # ls" by (meson list.exhaust split_lines_nonempty)
  with Cons show ?case by (cases t) auto
qed simp

lemma sublist_split_lines:
  assumes "nl \<notin> set t"
  shows "sublist t s \<longleftrightarrow> (\<exists>l \<in> set (split_lines s). sublist t l)"
proof (induction s)
  case (Cons c s)
  obtain l ls where "split_lines s = l # ls" by (meson list.exhaust split_lines_nonempty)
  with Cons prefix_split_lines [OF assms, of "c # s"] show ?case
    by (auto simp: sublist_Cons_right)
qed simp

text \<open>
  \<open>bufio.Scanner\<close> with the default split function: the lines without their terminator and without a carriage
  return before it; a text that ends with a newline has no empty line after it. A line that fills the buffer
  of 65536 bytes ends the scan, and what was not scanned is dropped.
\<close>

definition MaxScanTokenSize :: nat where
  "MaxScanTokenSize = 65536"

definition drop_cr :: "string \<Rightarrow> string" where
  "drop_cr l = (if l \<noteq> [] \<and> last l = cr then butlast l else l)"

function scan_lines :: "string \<Rightarrow> string list" where
  "scan_lines s =
     (if s = [] then []
      else (let l = takeWhile (\<lambda>c. c \<noteq> nl) s
            in if MaxScanTokenSize \<le> length l then []
               else drop_cr l # scan_lines (drop (Suc (length l)) s)))"
  by pat_completeness auto

termination
  by (relation "measure length") (auto simp: length_greater_0_conv)

declare scan_lines.simps [simp del]

lemma scan_lines_Nil [simp]: "scan_lines [] = []"
  by (simp add: scan_lines.simps)

text \<open>A line that the scanner gives back as it is.\<close>

definition scannable :: "string \<Rightarrow> bool" where
  "scannable l \<longleftrightarrow> nl \<notin> set l \<and> (l = [] \<or> last l \<noteq> cr) \<and> length l < MaxScanTokenSize"

lemma drop_cr_scannable: "scannable l \<Longrightarrow> drop_cr l = l"
  by (auto simp: scannable_def drop_cr_def)

lemma scan_line:
  assumes "scannable l"
  shows "scan_lines (l @ nl # s) = l # scan_lines s" "l \<noteq> [] \<Longrightarrow> scan_lines l = [l]"
proof -
  have t: "takeWhile (\<lambda>c. c \<noteq> nl) (l @ nl # s) = l" "takeWhile (\<lambda>c. c \<noteq> nl) l = l"
    using assms by (auto simp: scannable_def takeWhile_append1 takeWhile_eq_all_conv takeWhile_tail)
  show "scan_lines (l @ nl # s) = l # scan_lines s"
    using assms by (subst scan_lines.simps) (simp add: t drop_cr_scannable Let_def scannable_def)
  show "l \<noteq> [] \<Longrightarrow> scan_lines l = [l]"
    using assms by (subst scan_lines.simps) (simp add: t drop_cr_scannable Let_def scannable_def)
qed

text \<open>Joined lines are scanned back, whether or not a newline follows the last one.\<close>

lemma scan_lines_Join:
  assumes "list_all scannable ls" "ls \<noteq> []" "last ls \<noteq> [] \<or> trail = [nl]" "trail \<in> {[], [nl]}"
  shows "scan_lines (Join ls [nl] @ trail) = ls"
  using assms
proof (induction ls "[nl]" rule: Join.induct)
  case (2 x)
  then show ?case by (auto simp: scan_line)
next
  case (3 x y xs)
  then show ?case by (simp add: scan_line)
qed simp

end
