(* ===== verification/Test_Utils.thy ===== *)
theory Test_Utils
  imports Go_Text
begin

text \<open>
  test/utils/utils.go: what the end-to-end tests use to run commands, to look for cert-manager, and to
  uncomment code in files. The operating system and the commands are a record of calls over an arbitrary world.
  Lines written to the test log are values with the arguments of the format string.
\<close>

section \<open>The operating system\<close>

record Cmd =
  cmd_Args :: "string list"
  cmd_Dir :: string
  cmd_Env :: "string list"

datatype log_line = Warning error | ChdirFailed error | Running string

record 's OS =
  os_Getwd :: "('s, string \<times> error option) go"
  os_Chdir :: "string \<Rightarrow> ('s, unit) go"
  os_Environ :: "('s, string list) go"
  os_LookupEnv :: "string \<Rightarrow> ('s, string option) go"
  os_CombinedOutput :: "Cmd \<Rightarrow> ('s, string \<times> error option) go"
  os_ReadFile :: "string \<Rightarrow> ('s, string) go"
  os_WriteFile :: "string \<Rightarrow> string \<Rightarrow> nat \<Rightarrow> ('s, unit) go"
  os_Log :: "log_line \<Rightarrow> ('s, unit) go"

text \<open>\<open>exec.Command\<close>: the name of the program is the first argument.\<close>

definition Command :: "string \<Rightarrow> string list \<Rightarrow> Cmd" where
  "Command name args = \<lparr>cmd_Args = name # args, cmd_Dir = '''', cmd_Env = []\<rparr>"

section \<open>Commands\<close>

definition certmanagerVersion :: string where
  "certmanagerVersion = ''v1.19.4''"

definition certmanagerURL :: string where
  "certmanagerURL =
     ''https://github.com/cert-manager/cert-manager/releases/download/'' @ certmanagerVersion @ ''/cert-manager.yaml''"

definition defaultKindBinary :: string where "defaultKindBinary = ''kind''"
definition defaultKindCluster :: string where "defaultKindCluster = ''kind''"

definition warnError :: "'s OS \<Rightarrow> error \<Rightarrow> ('s, unit) go" where
  "warnError os e = os_Log os (Warning e)"

text \<open>The directory is returned beside the error, as in the source.\<close>

definition GetProjectDir :: "'s OS \<Rightarrow> ('s, string \<times> error option) go" where
  "GetProjectDir os =
     bindG (os_Getwd os) (\<lambda>(wd, err). case err of
         Some e \<Rightarrow> returnG (wd, Some (Wrapped ''failed to get current working directory'' e))
       | None \<Rightarrow> returnG (ReplaceAll wd ''/test/e2e'' '''', None))"

definition Run :: "'s OS \<Rightarrow> Cmd \<Rightarrow> ('s, string \<times> error option) go" where
  "Run os cmd =
     bindG (GetProjectDir os) (\<lambda>(dir, _).
     bindG (tryG (os_Chdir os dir)) (\<lambda>res.
     bindG (case res of Inl e \<Rightarrow> os_Log os (ChdirFailed e) | Inr _ \<Rightarrow> returnG ()) (\<lambda>_.
     bindG (os_Environ os) (\<lambda>env.
       let command = Join (cmd_Args cmd) '' '' in
       bindG (os_Log os (Running command)) (\<lambda>_.
       bindG (os_CombinedOutput os (cmd\<lparr>cmd_Dir := dir, cmd_Env := env @ [''GO111MODULE=on'']\<rparr>)) (\<lambda>(output, err).
         returnG (output, map_option (Wrapped (fmt_q command @ '' failed with error '' @ fmt_q output)) err)))))))"

text \<open>\<open>if _, err := Run(cmd); err != nil { return err }\<close>.\<close>

definition runOrFail :: "'s OS \<Rightarrow> Cmd \<Rightarrow> ('s, unit) go" where
  "runOrFail os cmd =
     bindG (Run os cmd) (\<lambda>(_, err). case err of Some e \<Rightarrow> failG e | None \<Rightarrow> returnG ())"

text \<open>\<open>if _, err := Run(cmd); err != nil { warnError(err) }\<close>.\<close>

definition runOrWarn :: "'s OS \<Rightarrow> Cmd \<Rightarrow> ('s, unit) go" where
  "runOrWarn os cmd =
     bindG (Run os cmd) (\<lambda>(_, err). case err of Some e \<Rightarrow> warnError os e | None \<Rightarrow> returnG ())"

definition UninstallCertManager :: "'s OS \<Rightarrow> ('s, unit) go" where
  "UninstallCertManager os =
     bindG (runOrWarn os (Command ''kubectl'' [''delete'', ''-f'', certmanagerURL])) (\<lambda>_.
     forG (\<lambda>lease. runOrWarn os (Command ''kubectl'' [''delete'', ''lease'', lease, ''-n'', ''kube-system'',
         ''--ignore-not-found'', ''--force'', ''--grace-period=0'']))
       [''cert-manager-cainjector-leader-election'', ''cert-manager-controller''])"

definition InstallCertManager :: "'s OS \<Rightarrow> ('s, unit) go" where
  "InstallCertManager os =
     bindG (runOrFail os (Command ''kubectl'' [''apply'', ''-f'', certmanagerURL])) (\<lambda>_.
     runOrFail os (Command ''kubectl'' [''wait'', ''deployment.apps/cert-manager-webhook'',
       ''--for'', ''condition=Available'', ''--namespace'', ''cert-manager'', ''--timeout'', ''5m'']))"

definition GetNonEmptyLines :: "string \<Rightarrow> string list" where
  "GetNonEmptyLines output = filter (\<lambda>element. element \<noteq> '''') (split_lines output)"

definition certManagerCRDs :: "string list" where
  "certManagerCRDs =
     [''certificates.cert-manager.io'', ''issuers.cert-manager.io'', ''clusterissuers.cert-manager.io'',
      ''certificaterequests.cert-manager.io'', ''orders.acme.cert-manager.io'', ''challenges.acme.cert-manager.io'']"

definition IsCertManagerCRDsInstalled :: "'s OS \<Rightarrow> ('s, bool) go" where
  "IsCertManagerCRDsInstalled os =
     bindG (Run os (Command ''kubectl'' [''get'', ''crds''])) (\<lambda>(output, err). case err of
         Some _ \<Rightarrow> returnG False
       | None \<Rightarrow> returnG (list_ex (\<lambda>crd. list_ex (\<lambda>line. Contains line crd) (GetNonEmptyLines output)) certManagerCRDs))"

definition LoadImageToKindClusterWithName :: "'s OS \<Rightarrow> string \<Rightarrow> ('s, unit) go" where
  "LoadImageToKindClusterWithName os name =
     bindG (os_LookupEnv os ''KIND_CLUSTER'') (\<lambda>c.
     let cluster = (case c of Some v \<Rightarrow> v | None \<Rightarrow> defaultKindCluster);
         kindOptions = [''load'', ''docker-image'', name, ''--name'', cluster] in
     bindG (os_LookupEnv os ''KIND'') (\<lambda>b.
     let kindBinary = (case b of Some v \<Rightarrow> v | None \<Rightarrow> defaultKindBinary) in
     runOrFail os (Command kindBinary kindOptions)))"

section \<open>Uncommenting\<close>

text \<open>
  The scanner goes over the target, not over the file; the text found in the file is replaced by the scanned
  lines without the prefix, with a newline between two lines and none after the last one. An empty target
  leaves the file as it is.
\<close>

definition UncommentCode :: "'s OS \<Rightarrow> string \<Rightarrow> string \<Rightarrow> string \<Rightarrow> ('s, unit) go" where
  "UncommentCode os filename target pre =
     bindG (wrapG (''failed to read file '' @ fmt_q filename) (os_ReadFile os filename)) (\<lambda>content.
     case Index content target of
       None \<Rightarrow> failG (Failure (''unable to find the code '' @ fmt_q target @ '' to be uncommented''))
     | Some idx \<Rightarrow>
         (case scan_lines target of
            [] \<Rightarrow> returnG ()
          | line # lines \<Rightarrow>
              wrapG (''failed to write file '' @ fmt_q filename)
                (os_WriteFile os filename
                  (take idx content @ Join (map (\<lambda>l. TrimPrefix l pre) (line # lines)) [nl] @
                   drop (idx + length target) content) 420)))"

text \<open>The commented form of some lines.\<close>

definition commented :: "string \<Rightarrow> string list \<Rightarrow> string" where
  "commented pre ls = Join (map (\<lambda>l. pre @ l) ls) [nl]"

lemma uncomment_lines:
  assumes "list_all (\<lambda>l. scannable (pre @ l)) ls" "ls \<noteq> []" "pre @ last ls \<noteq> []" "trail \<in> {[], [nl]}"
  shows "scan_lines (commented pre ls @ trail) = map (\<lambda>l. pre @ l) ls"
  unfolding commented_def
proof (rule scan_lines_Join)
  show "list_all scannable (map (\<lambda>l. pre @ l) ls)" using assms(1) by (simp add: list_all_iff)
  show "map (\<lambda>l. pre @ l) ls \<noteq> []" using assms(2) by simp
  show "last (map (\<lambda>l. pre @ l) ls) \<noteq> [] \<or> trail = [nl]" using assms(2,3) by (simp add: last_map)
qed (rule assms(4))

lemma found_in_line:
  "nl \<notin> set crd \<Longrightarrow> crd \<noteq> [] \<Longrightarrow>
   list_ex (\<lambda>line. Contains line crd) (GetNonEmptyLines output) \<longleftrightarrow> sublist crd output"
  by (auto simp: list_ex_iff GetNonEmptyLines_def Contains_iff sublist_split_lines [of crd "output"])

section \<open>A file system in memory\<close>

text \<open>The world is a list of files; every command prints the list of CRDs and succeeds.\<close>

type_synonym files = "(string \<times> string) list"

definition fileOS :: "files OS" where
  "fileOS =
     \<lparr>os_Getwd = returnG (''/src/test/e2e'', None), os_Chdir = (\<lambda>_. returnG ()), os_Environ = returnG [],
      os_LookupEnv = (\<lambda>_. returnG None),
      os_CombinedOutput = (\<lambda>_. returnG (''NAME\<newline>issuers.cert-manager.io 2026\<newline>'', None)),
      os_ReadFile = (\<lambda>f fs. case map_of fs f of
         None \<Rightarrow> Some (Err (Failure ''no such file''), fs) | Some x \<Rightarrow> Some (Ok x, fs)),
      os_WriteFile = (\<lambda>f x _ fs. Some (Ok (), AList.update f x fs)),
      os_Log = (\<lambda>_. returnG ())\<rparr>"

section \<open>Properties\<close>

text \<open>C40: Uncommenting gives back the lines that were commented out: the first occurrence of the commented lines is
  replaced by the lines themselves and the rest of the file stays as it is. When the target ends with a
  newline that newline is lost, so the last line runs into what follows.\<close>

theorem uncomment_restores_lines:
  assumes "os_ReadFile os filename s = Some (Ok (before @ commented pre ls @ trail @ after), s')"
    and "Index (before @ commented pre ls @ trail @ after) (commented pre ls @ trail) = Some (length before)"
    and "list_all (\<lambda>l. scannable (pre @ l)) ls" and "ls \<noteq> []" and "pre @ last ls \<noteq> []"
    and "trail = [] \<or> trail = [nl]"
  shows "UncommentCode os filename (commented pre ls @ trail) pre s =
    wrapG (''failed to write file '' @ fmt_q filename)
      (os_WriteFile os filename (before @ Join ls [nl] @ after) 420) s'"
proof -
  have scan: "scan_lines (commented pre ls @ trail) = map (\<lambda>l. pre @ l) ls"
    using assms(3-6) by (intro uncomment_lines) auto
  then obtain l rest where lines: "map (\<lambda>l. pre @ l) ls = l # rest" using assms(4) by (cases ls) simp_all
  have "map (\<lambda>l. TrimPrefix l pre) (l # rest) = ls" unfolding lines [symmetric] by (simp add: comp_def)
  then show ?thesis
    using assms(1,2) by (simp add: UncommentCode_def bindG_def wrapG_def scan lines)
qed

theorem uncomment_restores_lines_witness:
  "UncommentCode fileOS ''k.yaml'' ''#- crd\<newline>#- rbac\<newline>'' ''#'' [(''k.yaml'', ''a:\<newline>#- crd\<newline>#- rbac\<newline>b:\<newline>'')] =
     Some (Ok (), [(''k.yaml'', ''a:\<newline>- crd\<newline>- rbacb:\<newline>'')])"
proof -
  let ?fs = "[(''k.yaml'', ''a:\<newline>#- crd\<newline>#- rbac\<newline>b:\<newline>'')]" and ?ls = "[''- crd'', ''- rbac'']"
  have target: "commented ''#'' ?ls @ [nl] = ''#- crd\<newline>#- rbac\<newline>''" by (simp add: commented_def)
  have read: "os_ReadFile fileOS ''k.yaml'' ?fs =
      Some (Ok (''a:\<newline>'' @ commented ''#'' ?ls @ [nl] @ ''b:\<newline>''), ?fs)"
    by (simp add: fileOS_def commented_def)
  have idx: "Index (''a:\<newline>'' @ commented ''#'' ?ls @ [nl] @ ''b:\<newline>'') (commented ''#'' ?ls @ [nl]) = Some (length ''a:\<newline>'')"
    by (simp add: commented_def Index.simps)
  have ok: "list_all (\<lambda>l. scannable (''#'' @ l)) ?ls" by (simp add: scannable_def MaxScanTokenSize_def)
  from uncomment_restores_lines [OF read idx ok] show ?thesis
    by (simp add: target fileOS_def wrapG_def)
qed

text \<open>cert-manager counts as installed exactly when listing the CRDs succeeds and the name of one of its CRDs
  occurs anywhere in the output: going line by line through the non-empty lines finds the same names.\<close>

lemma crds_installed_iff_listed:
  assumes "Run os (Command ''kubectl'' [''get'', ''crds'']) s = Some (Ok (output, err), s')"
  shows "IsCertManagerCRDsInstalled os s =
    Some (Ok (err = None \<and> (\<exists>crd \<in> set certManagerCRDs. sublist crd output)), s')"
proof -
  have "list_ex (\<lambda>crd. list_ex (\<lambda>line. Contains line crd) (GetNonEmptyLines output)) certManagerCRDs \<longleftrightarrow>
      (\<exists>crd \<in> set certManagerCRDs. sublist crd output)"
    by (simp add: certManagerCRDs_def found_in_line)
  then show ?thesis using assms by (simp add: IsCertManagerCRDsInstalled_def bindG_def split: option.split)
qed

lemma crds_installed_iff_listed_witness:
  "IsCertManagerCRDsInstalled fileOS [] = Some (Ok True, [])"
proof -
  let ?out = "''NAME\<newline>issuers.cert-manager.io 2026\<newline>''"
  have "Run fileOS (Command ''kubectl'' [''get'', ''crds'']) [] = Some (Ok (?out, None), [])"
    by (simp add: Run_def GetProjectDir_def fileOS_def bindG_def tryG_def Let_def)
  moreover have "\<exists>crd \<in> set certManagerCRDs. sublist crd ?out"
    by (simp add: certManagerCRDs_def sublist_Cons_right)
  ultimately show ?thesis using crds_installed_iff_listed [of fileOS "[]" ?out None "[]"] by simp
qed

end
