(* ===== verification/Spec2Isabelle.thy ===== *)
theory Spec2Isabelle
  imports Object_Properties Plugin_Properties Manager_Main Copy_Properties Run_Properties Crd_Schema
    Scheme_Setup Test_Utils
begin

text \<open>
  A verification of the Picodata operator (picodata-operator), a Kubernetes controller written in Go
  that turns a \<open>PicoclusterDB\<close> resource into the ConfigMaps, Services, StatefulSets and Ingresses of a
  Picodata cluster and manages the plugins of its database.

  \<^bold>\<open>The program.\<close> api/v1/picoclusterdb_types.go declares the resource. The builders in
  internal/controller (configmap.go, service.go, ingress.go, statefulset.go) are functions from the
  resource to Kubernetes objects. picoclusterdb_controller.go reads the resource, brings the objects of
  each tier in line with what the builders want, deletes the StatefulSets of replicasets that are gone,
  counts ready pods and writes the status. plugin.go connects to the database of a tier whose pods are
  all ready and installs, migrates, enables and drops plugins with SQL statements.

  \<^bold>\<open>The model.\<close>
  \<^item> \<open>Prelude\<close>: errors, computations of type \<open>('s, 'a) go\<close> (a state of the world to an optional outcome,
    where \<open>None\<close> is a call that never returns and an outcome is a value, an error or a panic), int32 as
    \<open>32 word\<close>, and the functions of Go's standard library that the operator uses.
  \<^item> \<open>Kube_Types\<close>, \<open>Api_Types\<close>: one record per Go struct, with the fields the code reads or writes.
  \<^item> \<open>Naming\<close>: names and labels (service.go, configmap.go, statefulset.go). The locale \<open>tier_named\<close>
    states what three of the naming functions have in common.
  \<^item> \<open>Sha256\<close>, \<open>Config_Map\<close>, \<open>Services\<close>, \<open>Affinity_Merge\<close>, \<open>Stateful_Set\<close>: the builders, one definition
    per Go function and further ones for parts of the long ones. \<open>buildStatefulSet\<close> writes through
    pointers of the tier it is given; the model returns the tier as it is afterwards.
    \<open>mergeReplicasetAntiAffinity\<close> is modelled on values and on a heap of structs.
  \<^item> \<open>Reconciler\<close>: the record of the calls that the controller makes (client-go, controller-runtime,
    pgx, the clock), over an arbitrary state of the world, the four resource reconcilers, the scale-down
    and the status functions.
  \<^item> \<open>Unicode\<close>, \<open>Json\<close>, \<open>Plugins\<close>: plugin.go, with UTF-8, the comparison of strings up to letter case and the
    JSON decoding of a list of strings written out. The folding table of Unicode is a parameter, the
    field \<open>rc_FoldClass\<close> of the reconciler.
  \<^item> \<open>Controller\<close>: \<open>reconcileTier\<close> and \<open>Reconcile\<close>. The loop over the replicasets counts with an int32
    and is a \<open>partial_function\<close>; that it ends is a theorem, and at the largest int32 it does not.
  \<^item> \<open>Crd_Schema\<close>: the default and validation markers of the custom resource, as functions on its records.
    A decoded false or 0 does not show whether it was written, so the defaults also take the paths of the
    fields that were, and those of a nested struct apply only where the struct was written.
  \<^item> \<open>Go_Heap\<close>, \<open>Go_Copiers\<close>, \<open>Deep_Copy\<close>: the generated deep copies (zz_generated.deepcopy.go) on a heap of
    typed cells. Structs with pointers, slices or maps have a second record (\<open>pTierSpec\<close> beside
    \<open>TierSpec\<close>) whose fields are addresses; \<open>DeepCopyInto\<close> and \<open>DeepCopy\<close> of every type allocate and
    copy as the generated code does, sharing what it shares. \<open>Status_Patch\<close> is the end of
    \<open>updateStatus\<close> on that heap.
  \<^item> \<open>Manager_Main\<close>: cmd/main.go, from flags to manager options and the start-up sequence with its exit
    status, and the registration of the controller (SetupWithManager). \<open>Scheme_Setup\<close>: the registration of
    the types, in the order of Go's package initialisation; apimachinery's scheme, builder and \<open>Must\<close> are
    parameters with their documented laws.
  \<^item> \<open>Go_Text\<close>, \<open>Test_Utils\<close>: test/utils/utils.go, the command runner and the file editing that the
    end-to-end tests use, with the functions of strings and bufio they rest on.

  \<^bold>\<open>The theorems.\<close>
  \<^item> \<open>Upsert\<close> states the get, create or patch pattern of the four resource reconcilers once, in the
    locale \<open>object_kind\<close>, interpreted on each of the four merge functions.
  \<^item> \<open>Convergence\<close> defines the documented behaviour of an API server (\<open>api_server\<close>: reads return what is
    stored, writes of one client succeed, lists select by namespace and labels, the owner reference
    is the only thing \<open>SetControllerReference\<close> writes) and a pure specification \<open>sync_tier\<close> on stores,
    and shows that \<open>reconcileTier\<close> returns and implements it. \<open>Cluster_Sync\<close> shows what the specification
    establishes, that it is idempotent, and that tiers do not disturb each other. \<open>Calm_Calls\<close> has rules for
    computations that leave the objects alone, and shows it of the status update and of plugin.go.
  \<^item> \<open>Pass_Writes\<close> asks less of the server: in a \<open>tame_api\<close> any call may fail, with or without having had its
    effect, and calls outside of the objects may panic or never return. Whatever happens, a pass is then a
    sequence of \<open>pass_write\<close> steps, the single writes that the code can make.
  \<^item> \<open>Reconcile_Steps\<close> has the abstract machine \<open>sync_steps\<close>, which syncs tiers one after the other, and shows
    that \<open>Reconcile\<close> is a step of it and that all tiers are in sync when it went through all of them.
    \<open>Operator_Runs\<close> derives what a pass keeps, deletes, changes and leaves alone by induction on these steps,
    and defines runs: sequences of passes, of any request, and of outside events. \<open>Run_Properties\<close> states
    what holds from every state that a run can reach, passes with failing calls included.
  \<^item> \<open>Go_Heap\<close> states the contract of a deep copy in the locale \<open>deep_copier\<close> (it returns, keeps the old cells,
    reads as the same value and stays what it is when old cells change), \<open>Go_Copiers\<close> shows that pointers,
    slices, maps and structs of deep copiers are deep copiers, \<open>Deep_Copy_Correct\<close> interprets it on the
    generated functions, \<open>Copy_Properties\<close> states the result, with \<open>Heap_World\<close> as a heap to run it on.
  \<^item> \<open>Plugin_Trace\<close> has a calculus of the statements that a computation sends (\<open>follows\<close>), with one rule
    per way of composing computations, and derives the order of the plugin lifecycle and of drops.
  \<^item> \<open>Memory_World\<close> is a concrete world, an API server in memory with a scripted database, that satisfies
    every hypothesis; \<open>Samples\<close> a cluster to run on it. Theorems with hypotheses are followed by an
    instance on these.
  \<^item> \<open>Object_Properties\<close> and \<open>Plugin_Properties\<close> state the properties of the builders and of plugin.go;
    this theory those of a pass over one tier, of termination, status and errors.

  \<^bold>\<open>Bounds.\<close> The convergence theorems ask for fewer than 2147483647 replicas per tier, the exact bound
  below which the replicaset loop ends. JSON decoding carries fuel, twice the length of the
  text and two; the lemma \<open>parse_value_fuel\<close> of \<open>Json\<close> shows that more changes nothing.

  \<^bold>\<open>Assumptions.\<close> A cluster's Services have different names (\<open>names_ok\<close>): the schema admits two tiers of one
  name, and such tiers overwrite each other in every pass. The server of \<open>api_server\<close> is idealised: it
  accepts all writes and stores exactly what it is sent, allocating no cluster IP and filling in no
  defaults of its own, its reads are never stale, and \<open>SetControllerReference\<close> succeeds. The theorems on convergence
  and refinement ask this of the passes that they say succeed; \<open>tame_api\<close>, under which the invariants, the
  frame and the safety theorems of runs hold, lets any call fail.

  \<^bold>\<open>Not modelled.\<close> Log output of the operator; the parsing of the command line by Go's flag package and the
  set-up of the logger; manifests, generated YAML and the tests themselves. Upper case in placeholder
  names and the quoting of %q are those of ASCII; the folding of letter case is Unicode's.
  The operator never runs two passes over one cluster at a time. In a run other writers act between passes;
  what they do to the objects during a pass is not modelled, except where it makes a call fail. Convergence
  is about a pass whose calls succeed, after any number whose calls do not.
\<close>

section \<open>Convergence\<close>

text \<open>C3: One pass over a tier implements the specification on stores: it returns without an error and the
  objects become exactly those that the specification computes from the objects before.\<close>

theorem reconcileTier_implements:
  assumes "api_server r view" and "store_ok (view s)" and "cl_Tiers cl \<noteq> []"
    and "sint (tier_Replicas tier) < 2147483647"
  shows "\<exists>tier' s'. reconcileTier r cl tier s = Some (Ok tier', s') \<and>
    view s' = sync_tier r cl tier (view s) \<and> tier_synced r cl tier (view s')"
  using reconcileTier_syncs [OF assms] sync_tier_synced [OF owner_law_of [OF assms(1)] assms(4)] by fastforce

theorem reconcileTier_implements_witness:
  "\<exists>tier' s'. reconcileTier mem sampleCluster storageTier (freshWorld sampleCluster) = Some (Ok tier', s') \<and>
     tier_synced mem sampleCluster storageTier (mem_view s')"
  using reconcileTier_implements [OF mem_api_server fresh_store_ok, of sampleCluster storageTier sampleCluster]
  by auto

text \<open>A second pass over a tier right after the first changes no object.\<close>

lemma reconcileTier_idempotent:
  assumes "api_server r view" and "store_ok (view s)" and "cl_Tiers cl \<noteq> []"
    and "sint (tier_Replicas tier) < 2147483647"
  shows "\<exists>t1 s1 t2 s2. reconcileTier r cl tier s = Some (Ok t1, s1) \<and>
    reconcileTier r cl tier s1 = Some (Ok t2, s2) \<and> view s2 = view s1"
proof -
  obtain t1 s1 where one: "reconcileTier r cl tier s = Some (Ok t1, s1)" "view s1 = sync_tier r cl tier (view s)"
    using reconcileTier_syncs [OF assms] by blast
  have "store_ok (view s1)" unfolding one(2) by (rule sync_tier_ok) (rule assms(2))
  then obtain t2 s2 where "reconcileTier r cl tier s1 = Some (Ok t2, s2)" "view s2 = sync_tier r cl tier (view s1)"
    using reconcileTier_syncs [OF assms(1) _ assms(3,4)] by blast
  with one sync_tier_idem [OF owner_law_of [OF assms(1)] assms(4)] show ?thesis by auto
qed

lemma reconcileTier_idempotent_witness:
  "\<exists>t1 s1 t2 s2. reconcileTier mem sampleCluster storageTier (freshWorld sampleCluster) = Some (Ok t1, s1) \<and>
     reconcileTier mem sampleCluster storageTier s1 = Some (Ok t2, s2) \<and> mem_view s2 = mem_view s1"
  using reconcileTier_idempotent [OF mem_api_server fresh_store_ok, of sampleCluster storageTier sampleCluster]
  by simp

text \<open>C6: After a pass the replicasets of the tier are there, each under its own name with the tier's
  replication factor and its own labels, the pods carry the checksum of the configuration that the
  ConfigMap holds, and no StatefulSet of the tier has an index beyond the replica count.\<close>

theorem reconcileTier_replicasets:
  assumes "api_server r view" and "store_ok (view s)" and "cl_Tiers cl \<noteq> []"
    and "sint (tier_Replicas tier) < 2147483647"
  shows "\<exists>tier' s'. reconcileTier r cl tier s = Some (Ok tier', s') \<and>
    (\<exists>cm. so_cms (view s') (cl_Namespace cl, configMapName cl tier) = Some cm \<and>
       cm_Data cm = [(''config.yaml'', configData cl tier)]) \<and>
    (\<forall>i. 1 \<le> sint i \<and> sint i \<le> sint (tier_Replicas tier) \<longrightarrow>
       (\<exists>st. so_stss (view s') (cl_Namespace cl, statefulSetName cl tier i) = Some st \<and>
          ss_Replicas (st_Spec st) = Some (tier_ReplicationFactor tier) \<and>
          om_Labels (st_Meta st) = replicasetLabels cl tier i \<and>
          map_of (om_Annotations (pt_Meta (ss_Template (st_Spec st)))) ''checksum/config'' =
            Some (configHash (configData cl tier)))) \<and>
    (\<forall>k st j. so_stss (view s') k = Some st \<and> om_Namespace (st_Meta st) = cl_Namespace cl \<and>
       om_Labels (st_Meta st) = replicasetLabels cl tier j \<longrightarrow> sint j \<le> sint (tier_Replicas tier))"
proof -
  note law = owner_law_of [OF assms(1)]
  obtain tier' s' where run: "reconcileTier r cl tier s = Some (Ok tier', s')"
      "view s' = sync_tier r cl tier (view s)"
    using reconcileTier_syncs [OF assms] by blast
  then have sync: "tier_synced r cl tier (view s')" using sync_tier_synced [OF law assms(4)] by simp
  show ?thesis
    using run(1) synced_config [OF law sync] synced_set [OF law assms(4) sync] synced_no_extra [OF sync]
    by blast
qed

theorem reconcileTier_replicasets_witness:
  "\<exists>tier' s' st. reconcileTier mem sampleCluster storageTier (freshWorld sampleCluster) = Some (Ok tier', s') \<and>
     so_stss (mem_view s') (''prod'', statefulSetName sampleCluster storageTier 2) = Some st \<and>
     ss_Replicas (st_Spec st) = Some 2"
proof -
  have i: "1 \<le> sint (2 :: int32) \<and> sint (2 :: int32) \<le> sint (tier_Replicas storageTier)" by simp
  have ne: "cl_Tiers sampleCluster \<noteq> []" "sint (tier_Replicas storageTier) < 2147483647" by simp_all
  show ?thesis
    using reconcileTier_replicasets [OF mem_api_server fresh_store_ok ne, of sampleCluster] i
    by (metis sample_names(2,7))
qed

text \<open>A pass over a tier leaves alone every object that is not the tier's: a StatefulSet whose key is not
  that of one of the tier's replicasets and that is not a surplus one of the tier, and every
  ConfigMap, Service and Ingress of another name.\<close>

lemma reconcileTier_frame:
  assumes "api_server r view" and "store_ok (view s)" and "cl_Tiers cl \<noteq> []"
    and "sint (tier_Replicas tier) < 2147483647"
  shows "\<exists>tier' s'. reconcileTier r cl tier s = Some (Ok tier', s') \<and>
    (\<forall>k. \<not> touches_set cl tier k \<and> (\<forall>st. so_stss (view s) k = Some st \<longrightarrow> \<not> surplus cl tier st) \<longrightarrow>
       so_stss (view s') k = so_stss (view s) k) \<and>
    (\<forall>k. k \<noteq> (cl_Namespace cl, configMapName cl tier) \<longrightarrow> so_cms (view s') k = so_cms (view s) k) \<and>
    (\<forall>k. k \<noteq> (cl_Namespace cl, clientServiceName cl tier) \<and> k \<noteq> (cl_Namespace cl, interconnectServiceName cl tier) \<longrightarrow>
       so_svcs (view s') k = so_svcs (view s) k) \<and>
    (\<forall>k. k \<noteq> (cl_Namespace cl, clientServiceName cl tier) \<longrightarrow> so_ings (view s') k = so_ings (view s) k)"
proof -
  note law = owner_law_of [OF assms(1)]
  obtain tier' s' where run: "reconcileTier r cl tier s = Some (Ok tier', s')"
      "view s' = sync_tier r cl tier (view s)"
    using reconcileTier_syncs [OF assms] by blast
  have "so_stss (view s') k = so_stss (view s) k"
    if "\<not> touches_set cl tier k" "\<forall>st. so_stss (view s) k = Some st \<longrightarrow> \<not> surplus cl tier st" for k
    unfolding run(2) sync_tier_sel using that by (intro sync_sets_frame [OF law assms(4)]) auto
  moreover have "so_cms (view s') k = so_cms (view s) k"
    if "k \<noteq> (cl_Namespace cl, configMapName cl tier)" for k
    using that by (simp add: run(2) sync_tier_sel cm_kind.put_in_other owned_keys [OF law])
  moreover have "so_svcs (view s') k = so_svcs (view s) k"
    if "k \<noteq> (cl_Namespace cl, clientServiceName cl tier)" "k \<noteq> (cl_Namespace cl, interconnectServiceName cl tier)" for k
    using that by (simp add: run(2) sync_tier_sel sv_kind.put_in_other owned_keys [OF law])
  moreover have "so_ings (view s') k = so_ings (view s) k"
    if "k \<noteq> (cl_Namespace cl, clientServiceName cl tier)" for k
    using that ingress_key [OF law, of cl tier]
    by (auto simp: run(2) sync_tier_sel ig_kind.put_in_other split: option.split)
  ultimately show ?thesis using run(1) by blast
qed

lemma reconcileTier_frame_witness:
  "\<exists>tier' s'. reconcileTier mem sampleCluster storageTier (freshWorld sampleCluster) = Some (Ok tier', s') \<and>
     so_cms (mem_view s') (''prod'', ''other'') = None"
proof -
  have ne: "cl_Tiers sampleCluster \<noteq> []" "sint (tier_Replicas storageTier) < 2147483647" by simp_all
  have key: "(''prod'', ''other'') \<noteq> (cl_Namespace sampleCluster, configMapName sampleCluster storageTier)"
    by (simp add: configMapName_def)
  have "so_cms (mem_view (freshWorld sampleCluster)) (''prod'', ''other'') = None"
    by (simp add: mem_view_def freshWorld_def)
  with reconcileTier_frame [OF mem_api_server fresh_store_ok ne, of sampleCluster] key show ?thesis by metis
qed

text \<open>C8: Scaling down deletes exactly the StatefulSets of the cluster's namespace that carry the tier's labels,
  whatever others they have, and a replicaset label that is a number beyond the replica count. Every
  other object stays as it is: StatefulSets of another namespace, of another tier or cluster, with no
  replicaset label or one that is not a number, and all objects of other kinds. Of the tier's own
  replicasets those stay whose index is within the count.\<close>

theorem scale_down_exact:
  assumes "api_server r view" and "store_ok (view s)"
  shows "\<exists>s'. deleteExtraStatefulSets r cl tier s = Some (Ok (), s') \<and>
    (\<forall>k. so_stss (view s') k = (case so_stss (view s) k of None \<Rightarrow> None
       | Some st \<Rightarrow>
           if om_Namespace (st_Meta st) = cl_Namespace cl \<and>
              matches_labels (tierLabels cl tier) (om_Labels (st_Meta st)) \<and>
              (\<exists>v i. map_of (om_Labels (st_Meta st)) ''picodata.io/replicaset'' = Some v \<and>
                 ParseInt32 v = Some i \<and> sint (tier_Replicas tier) < i)
           then None else Some st)) \<and>
    so_cms (view s') = so_cms (view s) \<and> so_svcs (view s') = so_svcs (view s) \<and> so_ings (view s') = so_ings (view s) \<and>
    (\<forall>k st j. so_stss (view s) k = Some st \<and> om_Namespace (st_Meta st) = cl_Namespace cl \<and>
       om_Labels (st_Meta st) = replicasetLabels cl tier j \<longrightarrow>
       so_stss (view s') k = (if sint (tier_Replicas tier) < sint j then None else Some st))"
proof -
  obtain s' where s': "deleteExtraStatefulSets r cl tier s = Some (Ok (), s')"
      "view s' = so_stss_update (prune cl tier) (view s)"
    using deleteExtra_prunes [OF assms] by blast
  have gone: "surplus cl tier st \<longleftrightarrow> om_Namespace (st_Meta st) = cl_Namespace cl \<and>
      matches_labels (tierLabels cl tier) (om_Labels (st_Meta st)) \<and>
      (\<exists>v i. map_of (om_Labels (st_Meta st)) ''picodata.io/replicaset'' = Some v \<and>
         ParseInt32 v = Some i \<and> sint (tier_Replicas tier) < i)" for st
    by (auto simp: surplus_def isExtra_def replicasetLabel_def sint_word_of_int32
        dest: ParseInt32_range split: option.splits)
  have own: "so_stss (view s') k = (if sint (tier_Replicas tier) < sint j then None else Some st)"
    if "so_stss (view s) k = Some st" "om_Namespace (st_Meta st) = cl_Namespace cl"
      "om_Labels (st_Meta st) = replicasetLabels cl tier j" for k st j
    using that by (simp add: s'(2) prune_def surplus_def isExtra_index [of _ cl tier j])
  have all: "so_stss (view s') k = (case so_stss (view s) k of None \<Rightarrow> None
      | Some st \<Rightarrow> if surplus cl tier st then None else Some st)" for k
    by (simp add: s'(2) prune_def)
  have "so_cms (view s') = so_cms (view s) \<and> so_svcs (view s') = so_svcs (view s) \<and> so_ings (view s') = so_ings (view s)"
    by (simp add: s'(2))
  with s'(1) own all [unfolded gone] show ?thesis by blast
qed

theorem scale_down_exact_witness:
  "\<exists>s'. deleteExtraStatefulSets mem sampleCluster storageTier staleWorld = Some (Ok (), s') \<and>
     so_stss (mem_view staleWorld) (meta_key (st_Meta staleSet)) = Some staleSet \<and>
     so_stss (mem_view s') (meta_key (st_Meta staleSet)) = None"
proof -
  have ok: "store_ok (mem_view staleWorld)"
    by (auto simp: store_ok_def keyed_def mem_view_def staleWorld_def freshWorld_def)
  have there: "so_stss (mem_view staleWorld) (meta_key (st_Meta staleSet)) = Some staleSet"
      "om_Namespace (st_Meta staleSet) = cl_Namespace sampleCluster"
      "om_Labels (st_Meta staleSet) = replicasetLabels sampleCluster storageTier 3"
    by (simp_all add: mem_view_def staleWorld_def staleSet_def)
  have "sint (tier_Replicas storageTier) < sint (3 :: int32)" by simp
  with scale_down_exact [OF mem_api_server ok, of sampleCluster storageTier] there show ?thesis by metis
qed

section \<open>Termination\<close>

text \<open>C20: With fewer than 2147483647 replicas the loop over the replicasets is the iteration of its body
  over the indices 1 to the replica count, in order, for any behaviour of the API server.\<close>

theorem replicaset_loop_is_fold:
  assumes "sint (tier_Replicas tier) < 2147483647"
  shows "rsLoop r cl cfg 1 tier s =
    foldG (rsBody r cl cfg) (map word_of_int [1..sint (tier_Replicas tier)]) tier s"
  using rsLoop_fold [OF assms, of r cl cfg 1 s] by (simp add: rs_indices_def)

theorem replicaset_loop_is_fold_witness:
  "rsLoop mem sampleCluster [] 1 storageTier staleWorld =
   foldG (rsBody mem sampleCluster []) (map word_of_int [1..2]) storageTier staleWorld"
  using replicaset_loop_is_fold [of storageTier mem sampleCluster "[]" staleWorld] by simp

text \<open>C21: With 2147483647 replicas, the largest value of the field, the counter wraps around and the pass
  over the tier never ends, however well the API server behaves.\<close>

theorem max_replicas_never_ends:
  assumes "api_server r view" and "store_ok (view s)" and "cl_Tiers cl \<noteq> []"
    and "tier_Replicas tier = MaxInt32"
  shows "reconcileTier r cl tier s = None"
  using assms by (rule reconcileTier_diverges)

theorem max_replicas_never_ends_witness:
  "reconcileTier mem sampleCluster (storageTier\<lparr>tier_Replicas := MaxInt32\<rparr>) (freshWorld sampleCluster) = None"
  using max_replicas_never_ends [OF mem_api_server fresh_store_ok, of sampleCluster
      "storageTier\<lparr>tier_Replicas := MaxInt32\<rparr>" sampleCluster] by simp

section \<open>Status\<close>

text \<open>C17: A Reconcile that ends without an error and without a requeue has patched the status last: one entry
  per tier, the phase Ready exactly when every tier has at least as many ready pods as it wants and
  Initializing otherwise, and a single condition Ready that says the same.\<close>

theorem Reconcile_reports:
  assumes "rc_GetPicocluster r req s = Some (Ok cl, s0)"
    and "Reconcile r req s = Some (Ok \<lparr>rs_RequeueAfter = 0\<rparr>, s')"
  shows "\<exists>cl' statuses now s1. let st = newStatus cl' statuses (list_all tier_ready statuses) now in
    rc_PatchStatus r cl' (cl'\<lparr>cl_Status := st\<rparr>) s1 = Some (Ok (), s') \<and>
    length statuses = length (cl_Tiers cl) \<and> cs_Tiers st = statuses \<and>
    cs_Phase st = (if list_all tier_ready statuses then ClusterPhaseReady else ClusterPhaseInitializing) \<and>
    map cd_Type (cs_Conditions st) = [ConditionReady] \<and>
    map cd_Status (cs_Conditions st) = [if list_all tier_ready statuses then ConditionTrue else ConditionFalse]"
proof -
  let ?p = "\<lparr>pg_Cluster = cl, pg_Statuses = [], pg_AllReady = True\<rparr>"
  obtain st s1 where loop: "tiersLoop r [0..<length (cl_Tiers cl)] ?p s0 = Some (Ok st, s1)"
      and rest: "(case st of Done result \<Rightarrow> returnG result
        | Continue p \<Rightarrow> bindG (updateStatus r (pg_Cluster p) (pg_Statuses p) (pg_AllReady p)) (\<lambda>_.
            returnG \<lparr>rs_RequeueAfter = 0\<rparr>)) s1 = Some (Ok \<lparr>rs_RequeueAfter = 0\<rparr>, s')"
    using assms by (auto simp: Reconcile_def bind_Ok_iff)
  then obtain p where p: "st = Continue p"
    by (cases st) (auto dest: tiersLoop_done)
  with tiersLoop_statuses loop obtain new where new: "pg_Statuses p = new"
      "length new = length (cl_Tiers cl)" "pg_AllReady p = list_all tier_ready new" by fastforce
  from rest p obtain now s2 where
      "rc_PatchStatus r (pg_Cluster p) ((pg_Cluster p)\<lparr>cl_Status :=
        newStatus (pg_Cluster p) new (list_all tier_ready new) now\<rparr>) s2 = Some (Ok (), s')"
    by (auto simp: updateStatus_def bind_Ok_iff new)
  with new(2) show ?thesis
    by (intro exI [of _ "pg_Cluster p"] exI [of _ new] exI [of _ now] exI [of _ s2])
      (simp add: newStatus_def readyCondition_def Let_def split: option.split)
qed

theorem Reconcile_reports_witness:
  "\<exists>s' cl' statuses now s1. Reconcile mem (''prod'', ''pico'') (freshWorld (idleCluster [])) =
     Some (Ok \<lparr>rs_RequeueAfter = 0\<rparr>, s') \<and> length statuses = 1 \<and>
     rc_PatchStatus mem cl' (cl'\<lparr>cl_Status := newStatus cl' statuses (list_all tier_ready statuses) now\<rparr>) s1 =
       Some (Ok (), s')"
proof -
  have get: "rc_GetPicocluster mem (''prod'', ''pico'') (freshWorld (idleCluster [])) = Some (Ok (idleCluster []), freshWorld (idleCluster []))"
    using fresh_get [of "idleCluster []"] by (simp add: idleCluster_def meta_key_def)
  obtain s' where run: "Reconcile mem (''prod'', ''pico'') (freshWorld (idleCluster [])) = Some (Ok \<lparr>rs_RequeueAfter = 0\<rparr>, s')"
    using idle_reconciled by blast
  have one: "length (cl_Tiers (idleCluster [])) = 1" by (simp add: idleCluster_def)
  from Reconcile_reports [OF get run] run one show ?thesis by (auto simp: Let_def)
qed

text \<open>The transition time of the Ready condition moves only when its status changes: a later report of
  the same readiness keeps the time of the earlier one, a report of the other readiness carries its
  own time.\<close>

lemma transition_time:
  "map cd_LastTransitionTime (cs_Conditions
     (newStatus (cl\<lparr>cl_Status := newStatus cl tiers ready t1\<rparr>) tiers' ready' t2)) =
   (if ready' = ready
    then map cd_LastTransitionTime (cs_Conditions (newStatus cl tiers ready t1)) else [t2])"
  by (cases "find (\<lambda>c. cd_Type c = ConditionReady \<and>
        cd_Status c = (if ready then ConditionTrue else ConditionFalse)) (cs_Conditions (cl_Status cl))")
    (auto simp: newStatus_def readyCondition_def Let_def)

text \<open>C29: When the counts fit into an int32, the status of a tier is exact: the wanted pods are the product
  of replicas and replication factor, the ready pods the sum over the listed StatefulSets, and the
  tier counts as ready exactly when the sum reaches the product.\<close>

theorem tierStatus_exact:
  assumes "rc_ListStatefulSets r (cl_Namespace cl) (tierLabels cl tier) s = Some (Ok items, s')"
    and "\<forall>st \<in> set items. 0 \<le> sint (st_ReadyReplicas st)"
    and "(\<Sum>st\<leftarrow>items. sint (st_ReadyReplicas st)) \<le> 2147483647"
    and "0 \<le> sint (tier_Replicas tier)" and "0 \<le> sint (tier_ReplicationFactor tier)"
    and "sint (tier_Replicas tier) * sint (tier_ReplicationFactor tier) \<le> 2147483647"
  shows "\<exists>ts. tierStatus r cl tier s =
      Some (Ok (ts, sint (tier_Replicas tier) * sint (tier_ReplicationFactor tier) \<le>
                    (\<Sum>st\<leftarrow>items. sint (st_ReadyReplicas st))), s') \<and>
    sint (tt_DesiredReplicas ts) = sint (tier_Replicas tier) * sint (tier_ReplicationFactor tier) \<and>
    sint (tt_ReadyReplicas ts) = (\<Sum>st\<leftarrow>items. sint (st_ReadyReplicas st)) \<and> tt_Name ts = tier_Name tier"
  using assms(1) readyPods_exact [OF assms(2,3)] desiredPods_exact [OF assms(4,5,6)]
  by (simp add: tierStatus_def)

theorem tierStatus_exact_witness:
  "\<exists>ts. tierStatus mem sampleCluster storageTier (freshWorld sampleCluster) =
     Some (Ok (ts, False), freshWorld sampleCluster) \<and> sint (tt_DesiredReplicas ts) = 4"
proof -
  have list: "rc_ListStatefulSets mem (cl_Namespace sampleCluster) (tierLabels sampleCluster storageTier)
      (freshWorld sampleCluster) = Some (Ok [], freshWorld sampleCluster)"
    by (simp add: mem_def mem_list_def freshWorld_def)
  from tierStatus_exact [OF list] show ?thesis by auto
qed

text \<open>C30: When the product overflows it wraps: a tier of 65536 replicasets of 65536 pods wants no pods at all
  by its status, and counts as ready with none running.\<close>

theorem tierStatus_wraps:
  assumes "rc_ListStatefulSets r (cl_Namespace cl) (tierLabels cl tier) s = Some (Ok [], s')"
    and "tier_Replicas tier = 65536" and "tier_ReplicationFactor tier = 65536"
  shows "\<exists>ts. tierStatus r cl tier s = Some (Ok (ts, True), s') \<and> tt_DesiredReplicas ts = 0"
  using assms by (simp add: tierStatus_def desiredPods_def readyPods_def)

theorem tierStatus_wraps_witness:
  "\<exists>ts. tierStatus mem sampleCluster (routerTier\<lparr>tier_Replicas := 65536, tier_ReplicationFactor := 65536\<rparr>)
     (freshWorld sampleCluster) = Some (Ok (ts, True), freshWorld sampleCluster)"
proof -
  let ?t = "routerTier\<lparr>tier_Replicas := 65536, tier_ReplicationFactor := 65536\<rparr>"
  have "rc_ListStatefulSets mem (cl_Namespace sampleCluster) (tierLabels sampleCluster ?t)
      (freshWorld sampleCluster) = Some (Ok [], freshWorld sampleCluster)"
    by (simp add: mem_def mem_list_def freshWorld_def)
  from tierStatus_wraps [OF this] show ?thesis by auto
qed

section \<open>Errors\<close>

text \<open>A request for a cluster that is gone does nothing and is not retried; any other error of the read
  is returned as it is.\<close>

lemma Reconcile_missing_cluster:
  assumes "rc_GetPicocluster r req s = Some (Err e, s')"
  shows "Reconcile r req s = Some (if IsNotFound e then Ok \<lparr>rs_RequeueAfter = 0\<rparr> else Err e, s')"
  using assms by (simp add: Reconcile_def)

lemma upt_split: "k < n \<Longrightarrow> [0..<n] = [0..<k] @ k # [Suc k..<n]"
  by (metis le_add_diff_inverse less_imp_le_nat upt_add_eq_append upt_conv_Cons zero_le)

text \<open>C19: An error while reconciling a tier ends Reconcile at once, in the state of the failing call: the
  error carries the tier's name, later tiers are not visited and the status is not written.\<close>

theorem Reconcile_tier_error:
  assumes "rc_GetPicocluster r req s = Some (Ok cl, s0)" and "k < length (cl_Tiers cl)"
    and "tiersLoop r [0..<k] \<lparr>pg_Cluster = cl, pg_Statuses = [], pg_AllReady = True\<rparr> s0 =
           Some (Ok (Continue p), s1)"
    and "reconcileTier r (pg_Cluster p) (cl_Tiers (pg_Cluster p) ! k) s1 = Some (Err e, s2)"
  shows "Reconcile r req s =
    Some (Err (Wrapped (''tier '' @ tier_Name (cl_Tiers (pg_Cluster p) ! k)) e), s2)"
proof -
  have "tierStep r k p s1 = Some (Err (Wrapped (''tier '' @ tier_Name (cl_Tiers (pg_Cluster p) ! k)) e), s2)"
    using assms(4) by (simp add: tierStep_def Let_def)
  then have "tiersLoop r [0..<length (cl_Tiers cl)] \<lparr>pg_Cluster = cl, pg_Statuses = [], pg_AllReady = True\<rparr> s0 =
      Some (Err (Wrapped (''tier '' @ tier_Name (cl_Tiers (pg_Cluster p) ! k)) e), s2)"
    using assms(3) unfolding upt_split [OF assms(2)] tiersLoop_append by simp
  then show ?thesis using assms(1) by (simp add: Reconcile_def)
qed

theorem Reconcile_tier_error_witness:
  "Reconcile refusing (''prod'', ''pico'') (freshWorld sampleCluster) =
     Some (Err (Wrapped ''tier storage'' (Wrapped ''configmap'' (Failure ''quota''))), freshWorld sampleCluster)"
proof -
  have get: "rc_GetPicocluster refusing (''prod'', ''pico'') (freshWorld sampleCluster) =
      Some (Ok sampleCluster, freshWorld sampleCluster)"
    using fresh_get [of sampleCluster] by (simp add: refusing_def meta_key_def)
  from refused_tier Reconcile_tier_error [OF get, of 0 "\<lparr>pg_Cluster = sampleCluster, pg_Statuses = [], pg_AllReady = True\<rparr>"
      "freshWorld sampleCluster"]
  show ?thesis by simp
qed

text \<open>The plugin step of a tier whose plugins fail.\<close>

lemma plugin_failure_step:
  assumes "reconcileTier r (pg_Cluster p) (cl_Tiers (pg_Cluster p) ! i) s = Some (Ok tier', s1)"
    and "cl' = setTier i tier' (pg_Cluster p)"
    and "tierStatus r cl' tier' s1 = Some (Ok (ts, True), s2)" and "tier_Plugins tier' \<noteq> []"
    and "reconcileTierPlugins r cl' tier' s2 = Some (Err e, s3)"
    and "rc_Now r s3 = Some (Ok now, s4)"
    and "rc_PatchStatus r cl' (cl'\<lparr>cl_Status := newStatus cl' (pg_Statuses p) False now\<rparr>) s4 = Some (res, s5)"
    and "\<forall>msg. res \<noteq> Panic msg"
  shows "tierStep r i p s = Some (Ok (Done \<lparr>rs_RequeueAfter = 15\<rparr>), s5)"
proof -
  have "updateStatus r cl' (pg_Statuses p) False s3 = Some (res, s5)"
    using assms(6,7) by (simp add: updateStatus_def)
  with assms(8) have "\<exists>x. tryG (updateStatus r cl' (pg_Statuses p) False) s3 = Some (Ok x, s5)"
    by (cases res) auto
  then have "pluginStep r cl' tier' (pg_Statuses p) ts True s2 = Some (Ok (Inl \<lparr>rs_RequeueAfter = 15\<rparr>), s5)"
    using assms(4,5) by (auto simp: pluginStep_def)
  with assms(1-3) show ?thesis by (simp add: tierStep_def Let_def)
qed

text \<open>C18: When the plugins of a tier fail whose pods are all ready, Reconcile ends there, without an error and
  without visiting later tiers, and asks to be called again in 15 seconds; the status it has tried to
  write, whether that succeeded or not, says Initializing and lists the tiers before the failing one
  only.\<close>

theorem plugin_failure_requeues:
  assumes "rc_GetPicocluster r req s = Some (Ok cl, s0)" and "k < length (cl_Tiers cl)"
    and "tiersLoop r [0..<k] \<lparr>pg_Cluster = cl, pg_Statuses = [], pg_AllReady = True\<rparr> s0 =
           Some (Ok (Continue p), s1)"
    and "reconcileTier r (pg_Cluster p) (cl_Tiers (pg_Cluster p) ! k) s1 = Some (Ok tier', s2)"
    and "cl' = setTier k tier' (pg_Cluster p)"
    and "tierStatus r cl' tier' s2 = Some (Ok (ts, True), s3)" and "tier_Plugins tier' \<noteq> []"
    and "reconcileTierPlugins r cl' tier' s3 = Some (Err e, s4)"
    and "rc_Now r s4 = Some (Ok now, s5)"
    and "rc_PatchStatus r cl' (cl'\<lparr>cl_Status := newStatus cl' (pg_Statuses p) False now\<rparr>) s5 = Some (res, s6)"
    and "\<forall>msg. res \<noteq> Panic msg"
  shows "Reconcile r req s = Some (Ok \<lparr>rs_RequeueAfter = 15\<rparr>, s6) \<and>
    cs_Phase (newStatus cl' (pg_Statuses p) False now) = ClusterPhaseInitializing \<and>
    cs_Tiers (newStatus cl' (pg_Statuses p) False now) = pg_Statuses p \<and> length (pg_Statuses p) = k"
proof -
  have "tierStep r k p s1 = Some (Ok (Done \<lparr>rs_RequeueAfter = 15\<rparr>), s6)"
    by (rule plugin_failure_step [OF assms(4-11)])
  then have "tiersLoop r [0..<length (cl_Tiers cl)] \<lparr>pg_Cluster = cl, pg_Statuses = [], pg_AllReady = True\<rparr> s0 =
      Some (Ok (Done \<lparr>rs_RequeueAfter = 15\<rparr>), s6)"
    using assms(3) unfolding upt_split [OF assms(2)] tiersLoop_append by simp
  moreover obtain new where "pg_Statuses p = new" "length new = k"
    using tiersLoop_statuses [OF assms(3)] by auto
  ultimately show ?thesis using assms(1) by (simp add: Reconcile_def newStatus_def)
qed

theorem plugin_failure_requeues_witness:
  "\<exists>s'. Reconcile mem (''prod'', ''pico'') (freshWorld (idleCluster [samplePlugin])) =
     Some (Ok \<lparr>rs_RequeueAfter = 15\<rparr>, s')"
proof -
  let ?cl = "idleCluster [samplePlugin]" and ?t = "idleTier [samplePlugin]"
  let ?p = "\<lparr>pg_Cluster = ?cl, pg_Statuses = [], pg_AllReady = True\<rparr>"
  have tiers: "cl_Tiers (pg_Cluster ?p) ! 0 = ?t" "tier_Plugins ?t \<noteq> []"
    by (simp_all add: idleCluster_def idleTier_def)
  have same: "?cl = setTier 0 ?t (pg_Cluster ?p)" by (simp add: setTier_def idleCluster_def)
  obtain s1 where s1: "reconcileTier mem (pg_Cluster ?p) (cl_Tiers (pg_Cluster ?p) ! 0) (freshWorld ?cl) = Some (Ok ?t, s1)"
      "w_clusters s1 = [(meta_key (cl_Meta ?cl), ?cl)]" "w_stss s1 = []" "w_secrets s1 = []"
    using idle_tier_run [of "[samplePlugin]"] unfolding tiers by auto
  have ready: "\<exists>ts. tierStatus mem ?cl ?t s1 = Some (Ok (ts, True), s1)"
    using s1(3) by (simp add: tierStatus_def mem_def mem_list_def readyPods_def desiredPods_def idleTier_def)
  have "rc_GetSecret mem k s1 = Some (Err (NotFound (snd k)), s1)" for k
    using s1(4) by (simp add: mem_def mem_get_def)
  then have fail: "\<exists>e. reconcileTierPlugins mem ?cl ?t s1 = Some (Err e, s1)"
    using tiers(2) by (simp add: reconcileTierPlugins_def getAdminPassword_def Let_def)
  have patch: "\<exists>s'. rc_PatchStatus mem ?cl (?cl\<lparr>cl_Status := x\<rparr>) s1 = Some (Ok (), s')" for x
    using s1(2) by (simp add: mem_def mem_patch_status_def mem_patch_def)
  have now: "rc_Now mem s1 = Some (Ok (w_clock s1), s1)" by (simp add: mem_def)
  from ready obtain ts where st: "tierStatus mem ?cl ?t s1 = Some (Ok (ts, True), s1)" by blast
  from fail obtain e where err: "reconcileTierPlugins mem ?cl ?t s1 = Some (Err e, s1)" by blast
  from patch obtain s' where
    "rc_PatchStatus mem ?cl (?cl\<lparr>cl_Status := newStatus ?cl (pg_Statuses ?p) False (w_clock s1)\<rparr>) s1 = Some (Ok (), s')"
    by blast
  moreover have "rc_GetPicocluster mem (''prod'', ''pico'') (freshWorld ?cl) = Some (Ok ?cl, freshWorld ?cl)"
    using fresh_get [of ?cl] by (simp add: idleCluster_def meta_key_def)
  moreover have "0 < length (cl_Tiers ?cl)" by (simp add: idleCluster_def)
  moreover have "tiersLoop mem [0..<0] ?p (freshWorld ?cl) = Some (Ok (Continue ?p), freshWorld ?cl)" by simp
  ultimately show ?thesis
    using plugin_failure_requeues [OF _ _ _ s1(1) same st tiers(2) err now] by (metis result.distinct(3))
qed

section \<open>Single objects\<close>

text \<open>C31: An existing Service is patched with the wanted ports, selector and labels, and every other field
  keeps its stored value, among them the immutable cluster IP, the type and the owner.\<close>

theorem service_patch_keeps_rest:
  assumes "rc_GetService r (meta_key (sv_Meta desired)) s = Some (Ok existing, s1)"
  shows "\<exists>new. reconcileService r desired s = rc_PatchService r existing new s1 \<and>
    sv_Ports (sv_Spec new) = sv_Ports (sv_Spec desired) \<and>
    sv_Selector (sv_Spec new) = sv_Selector (sv_Spec desired) \<and>
    om_Labels (sv_Meta new) = om_Labels (sv_Meta desired) \<and>
    specRest (sv_Spec new) = specRest (sv_Spec existing) \<and>
    metaRest (sv_Meta new) = metaRest (sv_Meta existing) \<and>
    om_Annotations (sv_Meta new) = om_Annotations (sv_Meta existing)"
  using assms sv_kind.merge_managed [of existing desired] sv_kind.merge_unmanaged [of existing desired]
  by (auto simp: reconcileService_def managedService_def intro!: exI [of _ "mergeService existing desired"])

theorem service_patch_keeps_rest_witness:
  "\<exists>new. sv_ClusterIP (sv_Spec new) = ''10.0.0.7'' \<and>
     reconcileService (mem\<lparr>rc_GetService := (\<lambda>_. returnG ((buildClientService sampleCluster routerTier)
        \<lparr>sv_Spec := (sv_Spec (buildClientService sampleCluster routerTier))\<lparr>sv_ClusterIP := ''10.0.0.7''\<rparr>\<rparr>))\<rparr>)
       (buildClientService sampleCluster storageTier) (freshWorld sampleCluster) =
     rc_PatchService mem ((buildClientService sampleCluster routerTier)
        \<lparr>sv_Spec := (sv_Spec (buildClientService sampleCluster routerTier))\<lparr>sv_ClusterIP := ''10.0.0.7''\<rparr>\<rparr>)
       new (freshWorld sampleCluster)"
proof -
  let ?e = "(buildClientService sampleCluster routerTier)
        \<lparr>sv_Spec := (sv_Spec (buildClientService sampleCluster routerTier))\<lparr>sv_ClusterIP := ''10.0.0.7''\<rparr>\<rparr>"
  let ?r = "mem\<lparr>rc_GetService := (\<lambda>_. returnG ?e)\<rparr>"
  have "rc_GetService ?r (meta_key (sv_Meta (buildClientService sampleCluster storageTier))) (freshWorld sampleCluster) =
      Some (Ok ?e, freshWorld sampleCluster)" by simp
  from service_patch_keeps_rest [OF this] show ?thesis by (auto simp: specRest_def)
qed

text \<open>C32: When the read of an object fails for another reason than its absence, each of the four resource
  reconcilers returns that error and neither creates nor patches anything.\<close>

theorem read_error_writes_nothing:
  assumes "\<not> IsNotFound e"
  shows "(rc_GetConfigMap r (meta_key (cm_Meta c)) s = Some (Err e, s') \<longrightarrow> reconcileConfigMap r c s = Some (Err e, s')) \<and>
    (rc_GetService r (meta_key (sv_Meta v)) s = Some (Err e, s') \<longrightarrow> reconcileService r v s = Some (Err e, s')) \<and>
    (rc_GetIngress r (meta_key (ig_Meta g)) s = Some (Err e, s') \<longrightarrow> reconcileIngress r g s = Some (Err e, s')) \<and>
    (rc_GetStatefulSet r (meta_key (st_Meta t)) s = Some (Err e, s') \<longrightarrow> reconcileStatefulSet r t s = Some (Err e, s'))"
  using assms
  by (simp add: reconcileConfigMap_def reconcileService_def reconcileIngress_def reconcileStatefulSet_def)

theorem read_error_writes_nothing_witness:
  "reconcileStatefulSet (mem\<lparr>rc_GetStatefulSet := (\<lambda>_. failG (Failure ''timeout''))\<rparr>) staleSet staleWorld =
     Some (Err (Failure ''timeout''), staleWorld)"
  using read_error_writes_nothing [of "Failure ''timeout''"
      "mem\<lparr>rc_GetStatefulSet := (\<lambda>_. failG (Failure ''timeout''))\<rparr>" undefined staleWorld staleWorld undefined undefined staleSet]
  by simp

end
